(* ===== verification/Prelude.thy ===== *)
theory Prelude
  imports Main "HOL-Library.Word"
begin

text \<open>
  Shared vocabulary of the development: machine integers at their Rust widths, saturating and
  checked arithmetic, the \<^verbatim>\<open>Result\<close> combinators in which every dispatchable is written
  (\<open>ensure\<close>, \<open>try_then\<close>, \<open>ok_or\<close>, \<open>map_err\<close>), 32-byte arrays, and sums over the
  entries of a storage map.

  Two collections carry the component proofs: \<open>res_simps\<close> turns "this chain of checks
  returned \<^verbatim>\<open>Ok\<close>/\<^verbatim>\<open>Err\<close>" into the conjunction of its checks, and \<open>sat_simps\<close> reads
  saturating words as natural numbers.
\<close>

named_theorems res_simps "inversion of result chains"
named_theorems sat_simps "saturating arithmetic read through unat"

section \<open>Machine integers\<close>

type_synonym u8 = "8 word"
type_synonym u32 = "32 word"
type_synonym u64 = "64 word"
type_synonym u128 = "128 word"
type_synonym bytes = "u8 list"

text \<open>Rust's \<^verbatim>\<open>saturating_add\<close>, \<^verbatim>\<open>saturating_sub\<close> and \<^verbatim>\<open>checked_add\<close> on unsigned integers.\<close>

definition sat_add :: "'n::len word \<Rightarrow> 'n word \<Rightarrow> 'n word" where
  "sat_add a b = (if a + b < a then - 1 else a + b)"

definition sat_sub :: "'n::len word \<Rightarrow> 'n word \<Rightarrow> 'n word" where
  "sat_sub a b = (if a < b then 0 else a - b)"

definition checked_add :: "'n::len word \<Rightarrow> 'n word \<Rightarrow> 'n word option" where
  "checked_add a b = (if a + b < a then None else Some (a + b))"

lemma unat_max: "unat (- 1 :: 'n::len word) = 2 ^ LENGTH('n) - 1"
  by (simp add: unsigned_minus_1_eq_mask mask_eq_exp_minus_1)

lemma unat_bound: "unat a \<le> 2 ^ LENGTH('n) - 1" for a :: "'n::len word"
  using unsigned_less [of a, where 'a = nat] by linarith

lemma add_wraps_iff:
  "(a + b < a) = (2 ^ LENGTH('n) \<le> unat a + unat b)" for a b :: "'n::len word"
proof (cases "unat a + unat b < 2 ^ LENGTH('n)")
  case True
  then show ?thesis by (simp add: word_less_nat_alt unat_word_ariths)
next
  case False
  have "unat a < 2 ^ LENGTH('n)" "unat b < 2 ^ LENGTH('n)" by simp_all
  with False have "unat a + unat b - 2 ^ LENGTH('n) < 2 ^ LENGTH('n)" by linarith
  with False have "(unat a + unat b) mod 2 ^ LENGTH('n) = unat a + unat b - 2 ^ LENGTH('n)"
    by (simp add: le_mod_geq)
  moreover have "unat a + unat b - 2 ^ LENGTH('n) < unat a"
    using False \<open>unat b < 2 ^ LENGTH('n)\<close> by linarith
  ultimately show ?thesis
    using False by (simp add: word_less_nat_alt unat_word_ariths)
qed

lemma unat_sat_add [sat_simps]:
  "unat (sat_add a b) = min (unat a + unat b) (2 ^ LENGTH('n) - 1)" for a b :: "'n::len word"
proof (cases "a + b < a")
  case True
  then have "2 ^ LENGTH('n) \<le> unat a + unat b" by (simp add: add_wraps_iff)
  with True show ?thesis by (simp add: sat_add_def unat_max)
next
  case False
  then have "unat a + unat b < 2 ^ LENGTH('n)" by (simp add: add_wraps_iff)
  with False show ?thesis by (simp add: sat_add_def unat_word_ariths)
qed

lemma unat_sat_sub [sat_simps]: "unat (sat_sub a b) = unat a - unat b"
  by (auto simp: sat_sub_def word_less_nat_alt unat_sub word_le_nat_alt)

lemma checked_add_Some:
  "checked_add a b = Some c \<longleftrightarrow> unat a + unat b < 2 ^ LENGTH('n) \<and> c = a + b"
  for a b :: "'n::len word"
  by (auto simp: checked_add_def add_wraps_iff)

lemma sat_add_ge: "a \<le> sat_add a b"
  using unat_bound [of a] by (simp add: word_le_nat_alt unat_sat_add)

lemma sat_sub_le: "sat_sub a b \<le> a"
  by (simp add: word_le_nat_alt unat_sat_sub)

lemma sat_add_gt: "b \<noteq> 0 \<Longrightarrow> a \<noteq> - 1 \<Longrightarrow> a < sat_add a b" for a b :: "'n::len word"
proof -
  assume b: "b \<noteq> 0" and a: "a \<noteq> - 1"
  have "0 < unat b" using b by (simp add: unat_gt_0)
  moreover have "unat a \<noteq> 2 ^ LENGTH('n) - 1"
    using a by (metis unat_max word_unat_eq_iff)
  with unat_bound [of a] have "unat a < 2 ^ LENGTH('n) - 1" by linarith
  ultimately show ?thesis by (simp add: word_less_nat_alt unat_sat_add)
qed

lemma sat_add_sub_1: "a \<noteq> - 1 \<Longrightarrow> sat_sub (sat_add a 1) 1 = a" for a :: "'n::len word"
proof -
  assume a: "a \<noteq> - 1"
  have "unat a \<noteq> 2 ^ LENGTH('n) - 1"
    using a by (metis unat_max word_unat_eq_iff)
  with unat_bound [of a] have "unat a + 1 \<le> 2 ^ LENGTH('n) - 1" by linarith
  then show ?thesis by (simp add: word_unat_eq_iff sat_simps)
qed

section \<open>Results\<close>

text \<open>
  \<^verbatim>\<open>Result<A, E>\<close> is \<open>'e + 'a\<close> with \<open>Inl\<close> for \<^verbatim>\<open>Err\<close>. \<open>ensure b e k\<close> is the macro
  \<^verbatim>\<open>ensure!(b, e); k\<close>, \<open>try_then m f\<close> is \<^verbatim>\<open>let x = m?; f(x)\<close>.
\<close>

definition ensure :: "bool \<Rightarrow> 'e \<Rightarrow> ('e + 'a) \<Rightarrow> 'e + 'a" where
  "ensure b e k = (if b then k else Inl e)"

definition try_then :: "('e + 'a) \<Rightarrow> ('a \<Rightarrow> 'e + 'b) \<Rightarrow> 'e + 'b" where
  "try_then m f = (case m of Inl e \<Rightarrow> Inl e | Inr x \<Rightarrow> f x)"

definition ok_or :: "'a option \<Rightarrow> 'e \<Rightarrow> 'e + 'a" where
  "ok_or x e = (case x of None \<Rightarrow> Inl e | Some y \<Rightarrow> Inr y)"

definition map_err :: "('e \<Rightarrow> 'f) \<Rightarrow> ('e + 'a) \<Rightarrow> 'f + 'a" where
  "map_err g m = (case m of Inl e \<Rightarrow> Inl (g e) | Inr x \<Rightarrow> Inr x)"

definition is_ok :: "'e + 'a \<Rightarrow> bool" where
  "is_ok m = (case m of Inl _ \<Rightarrow> False | Inr _ \<Rightarrow> True)"

lemma ensure_simps [simp]: "ensure True e k = k" "ensure False e k = Inl e"
  by (simp_all add: ensure_def)

lemma try_then_simps [simp]: "try_then (Inl e) f = Inl e" "try_then (Inr x) f = f x"
  by (simp_all add: try_then_def)

lemma ok_or_simps [simp]: "ok_or None e = Inl e" "ok_or (Some x) e = Inr x"
  by (simp_all add: ok_or_def)

lemma map_err_simps [simp]: "map_err g (Inl e) = Inl (g e)" "map_err g (Inr x) = Inr x"
  by (simp_all add: map_err_def)

lemma is_ok_simps [simp]: "is_ok (Inl e) = False" "is_ok (Inr x) = True"
  by (simp_all add: is_ok_def)

lemma is_okE: "is_ok m \<Longrightarrow> (\<And>x. m = Inr x \<Longrightarrow> P) \<Longrightarrow> P"
  by (cases m) simp_all

lemma ensure_Inr [res_simps]: "ensure b e k = Inr r \<longleftrightarrow> b \<and> k = Inr r"
  by (simp add: ensure_def)

lemma try_then_Inr [res_simps]: "try_then m f = Inr r \<longleftrightarrow> (\<exists>x. m = Inr x \<and> f x = Inr r)"
  by (cases m) simp_all

lemma ok_or_Inr [res_simps]: "ok_or x e = Inr r \<longleftrightarrow> x = Some r"
  by (cases x) simp_all

lemma map_err_Inr [res_simps]: "map_err g m = Inr r \<longleftrightarrow> m = Inr r"
  by (cases m) simp_all

lemma ensure_Inl: "ensure b e k = Inl e' \<longleftrightarrow> (\<not> b \<and> e' = e) \<or> (b \<and> k = Inl e')"
  by (auto simp: ensure_def)

lemma try_then_Inl:
  "try_then m f = Inl e \<longleftrightarrow> m = Inl e \<or> (\<exists>x. m = Inr x \<and> f x = Inl e)"
  by (cases m) simp_all

lemma ok_or_Inl: "ok_or x e = Inl e' \<longleftrightarrow> x = None \<and> e' = e"
  by (cases x) auto

lemma map_err_Inl: "map_err g m = Inl e' \<longleftrightarrow> (\<exists>e. m = Inl e \<and> e' = g e)"
  by (cases m) auto

lemmas err_simps = ensure_Inl try_then_Inl ok_or_Inl map_err_Inl

section \<open>Fixed 32-byte arrays\<close>

text \<open>
  \<^verbatim>\<open>[u8; 32]\<close>, \<^verbatim>\<open>H256\<close> and \<^verbatim>\<open>AccountId32\<close> are values of exactly 256 bits; \<open>h256_bytes\<close> lists
  their bytes, first byte first. The listing loses nothing, so comparing words is comparing
  arrays.
\<close>

type_synonym h256 = "256 word"

definition h256_bytes :: "h256 \<Rightarrow> bytes" where
  "h256_bytes w = map (\<lambda>i. ucast (drop_bit (8 * (31 - i)) w)) [0..<32]"

lemma length_h256_bytes [simp]: "length (h256_bytes w) = 32"
  by (simp add: h256_bytes_def)

lemma bit_h256_bytes:
  assumes "n < 256"
  shows "bit w n = bit (h256_bytes w ! (31 - n div 8)) (n mod 8)"
proof -
  have i: "31 - n div 8 < 32" and b: "31 - (31 - n div 8) = n div 8"
    using assms by linarith+
  have "h256_bytes w ! (31 - n div 8) = (ucast (drop_bit (8 * (n div 8)) w) :: u8)"
    using i b by (simp add: h256_bytes_def)
  then show ?thesis
    by (simp add: bit_ucast_iff bit_drop_bit_eq)
qed

lemma h256_bytes_inject [simp]: "h256_bytes v = h256_bytes w \<longleftrightarrow> v = w"
proof
  assume eq: "h256_bytes v = h256_bytes w"
  show "v = w"
  proof (rule bit_word_eqI)
    fix n
    assume "n < LENGTH(256)"
    then show "bit v n = bit w n" using eq by (simp add: bit_h256_bytes)
  qed
qed simp

lemma h256_bytes_append_inject:
  "h256_bytes v @ xs = h256_bytes w @ ys \<longleftrightarrow> v = w \<and> xs = ys"
  by (simp add: append_eq_append_conv)

section \<open>Sums over the entries of a storage map\<close>

definition entry_sum :: "('v \<Rightarrow> nat) \<Rightarrow> ('k \<rightharpoonup> 'v) \<Rightarrow> nat" where
  "entry_sum f m = (\<Sum>k\<in>dom m. f (the (m k)))"

definition opt_val :: "('v \<Rightarrow> nat) \<Rightarrow> 'v option \<Rightarrow> nat" where
  "opt_val f x = (case x of None \<Rightarrow> 0 | Some v \<Rightarrow> f v)"

lemma opt_val_simps [simp]: "opt_val f None = 0" "opt_val f (Some v) = f v"
  by (simp_all add: opt_val_def)

lemma entry_sum_empty [simp]: "entry_sum f Map.empty = 0"
  by (simp add: entry_sum_def)

lemma entry_sum_delete:
  assumes "finite (dom m)"
  shows "entry_sum f (m(k := None)) + opt_val f (m k) = entry_sum f m"
proof (cases "k \<in> dom m")
  case True
  then obtain v where v: "m k = Some v" by auto
  have "entry_sum f m = f (the (m k)) + (\<Sum>j\<in>dom m - {k}. f (the (m j)))"
    unfolding entry_sum_def using assms True by (rule sum.remove)
  moreover have "(\<Sum>j\<in>dom m - {k}. f (the (m j))) = entry_sum f (m(k := None))"
    unfolding entry_sum_def by (rule sum.cong) auto
  ultimately show ?thesis using v by simp
next
  case False
  then have "m(k := None) = m" by (auto simp: dom_def)
  with False show ?thesis by (auto simp: domIff)
qed

lemma entry_sum_upd:
  assumes "finite (dom m)"
  shows "entry_sum f (m(k \<mapsto> v)) + opt_val f (m k) = entry_sum f m + f v"
proof -
  let ?m = "m(k \<mapsto> v)"
  have "entry_sum f (?m(k := None)) + opt_val f (?m k) = entry_sum f ?m"
    using assms by (intro entry_sum_delete) simp
  moreover have "?m(k := None) = m(k := None)" by simp
  ultimately show ?thesis using entry_sum_delete [OF assms, of f k] by simp
qed

lemma entry_sum_upd_new:
  "finite (dom m) \<Longrightarrow> m k = None \<Longrightarrow> entry_sum f (m(k \<mapsto> v)) = entry_sum f m + f v"
  using entry_sum_upd [of m f k v] by simp

lemma entry_sum_upd_same:
  "finite (dom m) \<Longrightarrow> m k = Some w \<Longrightarrow> f v = f w \<Longrightarrow> entry_sum f (m(k \<mapsto> v)) = entry_sum f m"
  using entry_sum_upd [of m f k v] by simp

lemma entry_sum_ge: "finite (dom m) \<Longrightarrow> m k = Some v \<Longrightarrow> f v \<le> entry_sum f m"
  using entry_sum_delete [of m f k] by simp

lemma entry_sum_card:
  assumes "finite (dom m)"
  shows "entry_sum (\<lambda>v. if P v then 1 else 0) m = card {k. \<exists>v. m k = Some v \<and> P v}"
proof -
  have "entry_sum (\<lambda>v. if P v then 1 else 0) m = (\<Sum>k\<in>dom m. if P (the (m k)) then 1 else 0)"
    by (simp add: entry_sum_def)
  also have "\<dots> = card {k \<in> dom m. P (the (m k))}"
    using assms by (simp flip: sum.inter_filter)
  also have "{k \<in> dom m. P (the (m k))} = {k. \<exists>v. m k = Some v \<and> P v}" by force
  finally show ?thesis .
qed

end
