(* ===== verification/Frame.thy ===== *)
theory Frame
  imports Prelude
begin

text \<open>
  What the pallets use of the world outside the repository, as parameters.

  \<^item> \<^verbatim>\<open>frame_system\<close>: signed origins, the block number, block hashes and the event log, in the
    record \<open>host\<close>. A dispatchable that returns \<^verbatim>\<open>Err\<close> leaves no trace in storage (FRAME runs
    every call in its own storage layer), which is why an operation of the model returns either
    an error or the new state, never both.
  \<^item> \<^verbatim>\<open>ReservableCurrency\<close> (\<^verbatim>\<open>pallet_balances\<close> in the runtime): the record \<open>currency\<close> of its
    operations on an opaque ledger \<open>'c\<close>, and \<open>currency_laws\<close>, the part of the trait's
    documentation that the pallets rely on. \<open>currency_laws\<close> is a hypothesis of the theorems
    that speak about money; nothing else is known of the ledger.
  \<^item> hashing, ML-DSA and SCALE: the record \<open>prims\<close>.
\<close>

section \<open>Origins and dispatch errors\<close>

type_synonym account_id = h256
type_synonym balance = u128
type_synonym block_number = u32
type_synonym did = h256

datatype origin = Signed account_id | Root | Unsigned

text \<open>
  A \<^verbatim>\<open>DispatchError\<close>: a bad origin, an error of one of the runtime's pallets, or an error that
  a foreign crate returned.
\<close>

datatype 'm dispatch_error = BadOrigin | Module 'm | Foreign string

definition ensure_signed :: "origin \<Rightarrow> 'm dispatch_error + account_id" where
  "ensure_signed orig = (case orig of Signed who \<Rightarrow> Inr who | _ \<Rightarrow> Inl BadOrigin)"

lemma ensure_signed_simps [simp]:
  "ensure_signed (Signed who) = Inr who"
  "ensure_signed Root = Inl BadOrigin"
  "ensure_signed Unsigned = Inl BadOrigin"
  by (simp_all add: ensure_signed_def)

lemma ensure_signed_Inr [res_simps]: "ensure_signed orig = Inr who \<longleftrightarrow> orig = Signed who"
  by (cases orig) simp_all

lemma ensure_signed_Inl: "ensure_signed orig = Inl e \<longleftrightarrow> (\<forall>who. orig \<noteq> Signed who) \<and> e = BadOrigin"
  by (cases orig) auto

section \<open>The currency\<close>

text \<open>
  The operations of \<^verbatim>\<open>ReservableCurrency\<close> the pallets call. \<^verbatim>\<open>unreserve\<close> and \<^verbatim>\<open>slash_reserved\<close>
  cannot fail; they return the part of the amount they could not move (the imbalance that
  \<^verbatim>\<open>slash_reserved\<close> also returns is dropped by the caller, so its effect is part of the new
  ledger). \<^verbatim>\<open>repatriate_reserved\<close> is the instance with \<^verbatim>\<open>BalanceStatus::Free\<close>.
\<close>

record 'c currency =
  free_balance :: "'c \<Rightarrow> account_id \<Rightarrow> balance"
  reserved_balance :: "'c \<Rightarrow> account_id \<Rightarrow> balance"
  reserve :: "account_id \<Rightarrow> balance \<Rightarrow> 'c \<Rightarrow> string + 'c"
  unreserve :: "account_id \<Rightarrow> balance \<Rightarrow> 'c \<Rightarrow> 'c \<times> balance"
  slash_reserved :: "account_id \<Rightarrow> balance \<Rightarrow> 'c \<Rightarrow> 'c \<times> balance"
  repatriate_reserved :: "account_id \<Rightarrow> account_id \<Rightarrow> balance \<Rightarrow> 'c \<Rightarrow> string + ('c \<times> balance)"

abbreviation free_of :: "'c currency \<Rightarrow> 'c \<Rightarrow> account_id \<Rightarrow> nat" where
  "free_of cur c who \<equiv> unat (free_balance cur c who)"

abbreviation reserved_of :: "'c currency \<Rightarrow> 'c \<Rightarrow> account_id \<Rightarrow> nat" where
  "reserved_of cur c who \<equiv> unat (reserved_balance cur c who)"

text \<open>
  \<open>reserve\<close>: moves \<open>v\<close> from the free to the reserved balance, or returns an error when the free
  balance is lower than \<open>v\<close>.
\<close>

definition reserve_law :: "'c currency \<Rightarrow> bool" where
  "reserve_law cur \<longleftrightarrow>
     (\<forall>who v c c'. reserve cur who v c = Inr c' \<longrightarrow>
        unat v \<le> free_of cur c who \<and>
        free_of cur c' who = free_of cur c who - unat v \<and>
        (\<forall>x. reserved_of cur c' x = reserved_of cur c x + (if x = who then unat v else 0)))"

text \<open>\<open>unreserve\<close>: moves up to \<open>v\<close> from reserved to free and returns what is missing.\<close>

definition unreserve_law :: "'c currency \<Rightarrow> bool" where
  "unreserve_law cur \<longleftrightarrow>
     (\<forall>who v c. let (c', rest) = unreserve cur who v c; moved = min (unat v) (reserved_of cur c who) in
        unat rest = unat v - moved \<and>
        free_of cur c' who = free_of cur c who + moved \<and>
        (\<forall>x. reserved_of cur c' x = reserved_of cur c x - (if x = who then moved else 0)))"

text \<open>
  \<open>slash_reserved\<close>: deducts up to \<open>v\<close> from reserved and returns what is missing; free balances are
  not touched.
\<close>

definition slash_reserved_law :: "'c currency \<Rightarrow> bool" where
  "slash_reserved_law cur \<longleftrightarrow>
     (\<forall>who v c. let (c', rest) = slash_reserved cur who v c; moved = min (unat v) (reserved_of cur c who) in
        unat rest = unat v - moved \<and>
        (\<forall>x. free_of cur c' x = free_of cur c x) \<and>
        (\<forall>x. reserved_of cur c' x = reserved_of cur c x - (if x = who then moved else 0)))"

text \<open>
  \<open>repatriate_reserved\<close>: moves up to \<open>v\<close> from the reserved balance of \<open>frm\<close> to the free balance
  of \<open>to\<close>, or fails (for instance when \<open>to\<close> does not exist).
\<close>

definition repatriate_law :: "'c currency \<Rightarrow> bool" where
  "repatriate_law cur \<longleftrightarrow>
     (\<forall>frm to v c c' rest. repatriate_reserved cur frm to v c = Inr (c', rest) \<longrightarrow>
        (let moved = min (unat v) (reserved_of cur c frm) in
          free_of cur c' to = free_of cur c to + moved \<and>
          (\<forall>x. reserved_of cur c' x = reserved_of cur c x - (if x = frm then moved else 0))))"

definition currency_laws :: "'c currency \<Rightarrow> bool" where
  "currency_laws cur \<longleftrightarrow>
     reserve_law cur \<and> unreserve_law cur \<and> slash_reserved_law cur \<and> repatriate_law cur"

lemma reserve_lawD:
  assumes "currency_laws cur" "reserve cur who v c = Inr c'"
  shows "unat v \<le> free_of cur c who"
    and "free_of cur c' who = free_of cur c who - unat v"
    and "reserved_of cur c' x = reserved_of cur c x + (if x = who then unat v else 0)"
  using assms unfolding currency_laws_def reserve_law_def by (metis (no_types, lifting))+

lemma unreserve_lawD:
  assumes "currency_laws cur" "unreserve cur who v c = (c', rest)"
  shows "unat rest = unat v - min (unat v) (reserved_of cur c who)"
    and "free_of cur c' who = free_of cur c who + min (unat v) (reserved_of cur c who)"
    and "reserved_of cur c' x
           = reserved_of cur c x - (if x = who then min (unat v) (reserved_of cur c who) else 0)"
proof -
  have "let (c', rest) = unreserve cur who v c; moved = min (unat v) (reserved_of cur c who) in
        unat rest = unat v - moved \<and>
        free_of cur c' who = free_of cur c who + moved \<and>
        (\<forall>x. reserved_of cur c' x = reserved_of cur c x - (if x = who then moved else 0))"
    using assms(1) unfolding currency_laws_def unreserve_law_def by blast
  then show "unat rest = unat v - min (unat v) (reserved_of cur c who)"
    and "free_of cur c' who = free_of cur c who + min (unat v) (reserved_of cur c who)"
    and "reserved_of cur c' x
           = reserved_of cur c x - (if x = who then min (unat v) (reserved_of cur c who) else 0)"
    by (simp_all add: assms(2) Let_def)
qed

lemma slash_reserved_lawD:
  assumes "currency_laws cur" "slash_reserved cur who v c = (c', rest)"
  shows "unat rest = unat v - min (unat v) (reserved_of cur c who)"
    and "reserved_of cur c' x
           = reserved_of cur c x - (if x = who then min (unat v) (reserved_of cur c who) else 0)"
    and "free_of cur c' x = free_of cur c x"
proof -
  have "let (c', rest) = slash_reserved cur who v c; moved = min (unat v) (reserved_of cur c who) in
        unat rest = unat v - moved \<and>
        (\<forall>x. free_of cur c' x = free_of cur c x) \<and>
        (\<forall>x. reserved_of cur c' x = reserved_of cur c x - (if x = who then moved else 0))"
    using assms(1) unfolding currency_laws_def slash_reserved_law_def by blast
  then show "unat rest = unat v - min (unat v) (reserved_of cur c who)"
    and "reserved_of cur c' x
           = reserved_of cur c x - (if x = who then min (unat v) (reserved_of cur c who) else 0)"
    and "free_of cur c' x = free_of cur c x"
    by (simp_all add: assms(2) Let_def)
qed

lemma repatriate_lawD:
  assumes "currency_laws cur" "repatriate_reserved cur frm to v c = Inr (c', rest)"
  shows "free_of cur c' to = free_of cur c to + min (unat v) (reserved_of cur c frm)"
    and "reserved_of cur c' x
           = reserved_of cur c x - (if x = frm then min (unat v) (reserved_of cur c frm) else 0)"
proof -
  have "let moved = min (unat v) (reserved_of cur c frm) in
          free_of cur c' to = free_of cur c to + moved \<and>
          (\<forall>x. reserved_of cur c' x = reserved_of cur c x - (if x = frm then moved else 0))"
    using assms unfolding currency_laws_def repatriate_law_def by blast
  then show "free_of cur c' to = free_of cur c to + min (unat v) (reserved_of cur c frm)"
    and "reserved_of cur c' x
           = reserved_of cur c x - (if x = frm then min (unat v) (reserved_of cur c frm) else 0)"
    by (simp_all add: Let_def)
qed

section \<open>The host state every pallet sees\<close>

record ('c, 'e) host =
  block_number :: block_number
  block_hash :: "block_number \<Rightarrow> h256"
  event_log :: "'e list"
  ledger :: 'c

definition deposit_event :: "'e \<Rightarrow> ('c, 'e) host \<Rightarrow> ('c, 'e) host" where
  "deposit_event e h = h\<lparr>event_log := event_log h @ [e]\<rparr>"

lemma deposit_event_simps [simp]:
  "block_number (deposit_event e h) = block_number h"
  "block_hash (deposit_event e h) = block_hash h"
  "ledger (deposit_event e h) = ledger h"
  "event_log (deposit_event e h) = event_log h @ [e]"
  by (simp_all add: deposit_event_def)

section \<open>Cryptographic and encoding primitives\<close>

text \<open>
  \<^verbatim>\<open>sp_io::hashing::blake2_256\<close>; the \<^verbatim>\<open>ml_dsa\<close> crate's key and signature parsers and its verifier
  (\<open>'vk\<close> and \<open>'sg\<close> are its opaque parsed types); the SCALE encoding of a \<^verbatim>\<open>u32\<close>.
\<close>

record ('vk, 'sg) prims =
  blake2_256 :: "bytes \<Rightarrow> h256"
  verifying_key_from_slice :: "bytes \<Rightarrow> 'vk option"
  signature_try_from :: "bytes \<Rightarrow> 'sg option"
  mldsa_verify :: "'vk \<Rightarrow> bytes \<Rightarrow> 'sg \<Rightarrow> bool"
  encode_u32 :: "u32 \<Rightarrow> bytes"

text \<open>SCALE encodes a \<^verbatim>\<open>u32\<close> in four bytes, and decoding recovers it.\<close>

definition encode_u32_laws :: "('vk, 'sg) prims \<Rightarrow> bool" where
  "encode_u32_laws pr \<longleftrightarrow> inj (encode_u32 pr) \<and> (\<forall>n. length (encode_u32 pr n) = 4)"

text \<open>Two inputs are a collision of the hash when they differ and hash alike.\<close>

definition blake2_collision :: "('vk, 'sg) prims \<Rightarrow> bytes \<Rightarrow> bytes \<Rightarrow> bool" where
  "blake2_collision pr x y \<longleftrightarrow> x \<noteq> y \<and> blake2_256 pr x = blake2_256 pr y"

text \<open>The bytes of an ASCII string literal.\<close>

definition ascii :: "string \<Rightarrow> bytes" where
  "ascii s = map (\<lambda>c. of_nat (of_char c)) s"

lemma length_ascii [simp]: "length (ascii s) = length s"
  by (simp add: ascii_def)

end
