(* ===== verification/Sample_Ledger.thy ===== *)
theory Sample_Ledger
  imports Frame
begin

text \<open>
  A concrete currency, hash and signature scheme at which the hypotheses on the parameters hold.
  They serve the witnesses only: no theorem about the pallets depends on this theory.

  An account holds a total and a reserved part of it; the free balance is the rest, so no
  operation can overflow a balance.
\<close>

type_synonym sample_ledger = "account_id \<Rightarrow> balance \<times> balance"

definition total_part :: "sample_ledger \<Rightarrow> account_id \<Rightarrow> balance" where
  "total_part c who = fst (c who)"

definition reserved_part :: "sample_ledger \<Rightarrow> account_id \<Rightarrow> balance" where
  "reserved_part c who = min (snd (c who)) (fst (c who))"

definition sample_currency :: "sample_ledger currency" where
  "sample_currency = \<lparr>
     free_balance = (\<lambda>c who. total_part c who - reserved_part c who),
     reserved_balance = reserved_part,
     reserve = (\<lambda>who v c.
       if v \<le> total_part c who - reserved_part c who
       then Inr (c(who := (total_part c who, reserved_part c who + v)))
       else Inl ''InsufficientBalance''),
     unreserve = (\<lambda>who v c. let m = min v (reserved_part c who) in
       (c(who := (total_part c who, reserved_part c who - m)), v - m)),
     slash_reserved = (\<lambda>who v c. let m = min v (reserved_part c who) in
       (c(who := (total_part c who - m, reserved_part c who - m)), v - m)),
     repatriate_reserved = (\<lambda>frm to v c. let m = min v (reserved_part c frm) in
       if total_part c to = 0 then Inl ''DeadAccount''
       else if frm = to
       then Inr (c(frm := (total_part c frm, reserved_part c frm - m)), v - m)
       else if total_part c to + m < total_part c to then Inl ''Overflow''
       else Inr (c(frm := (total_part c frm - m, reserved_part c frm - m),
                   to := (total_part c to + m, reserved_part c to)), v - m)) \<rparr>"

lemma unat_min: "unat (min a b) = min (unat a) (unat b)" for a b :: "'n::len word"
  by (simp add: min_def word_le_nat_alt)

lemma reserved_le_total: "unat (reserved_part c who) \<le> unat (total_part c who)"
  by (simp add: reserved_part_def total_part_def unat_min)

lemma unat_diff: "unat b \<le> unat a \<Longrightarrow> unat (a - b) = unat a - unat b" for a b :: "'n::len word"
  by (simp add: unat_sub word_le_nat_alt)

lemma reserve_law_sample: "reserve_law sample_currency"
proof -
  have key: "reserved_part (c(who := (total_part c who, reserved_part c who + v))) who = reserved_part c who + v
      \<and> unat (reserved_part c who + v) = unat (reserved_part c who) + unat v"
    if "v \<le> total_part c who - reserved_part c who" for v who c
  proof -
    have "unat v \<le> unat (total_part c who) - unat (reserved_part c who)"
      using that reserved_le_total [of c who] by (simp add: word_le_nat_alt unat_diff)
    then have le: "unat (reserved_part c who) + unat v \<le> unat (total_part c who)"
      using reserved_le_total [of c who] by linarith
    then have lt: "unat (reserved_part c who) + unat v < 2 ^ 128"
      using unsigned_less [of "total_part c who", where 'a = nat] by simp
    then have "unat (reserved_part c who + v) = unat (reserved_part c who) + unat v"
      by (simp add: unat_word_ariths)
    moreover from this le have "reserved_part c who + v \<le> total_part c who"
      by (simp add: word_le_nat_alt)
    ultimately show ?thesis
      by (simp add: reserved_part_def [of "_ (_ := _)"] min_def)
  qed
  show ?thesis
    unfolding reserve_law_def sample_currency_def
    using key reserved_le_total
    by (auto simp: total_part_def [of "_ (_ := _)"] unat_diff word_le_nat_alt split: if_splits)
       (simp_all add: reserved_part_def)
qed

lemma reserved_part_shrink:
  assumes "m \<le> reserved_part c who" "unat (reserved_part c who - m) \<le> unat t"
  shows "reserved_part (c(who := (t, reserved_part c who - m))) who = reserved_part c who - m"
  using assms by (simp add: reserved_part_def [of "_ (_ := _)"] min_def word_le_nat_alt)

lemma reserved_part_other [simp]: "x \<noteq> who \<Longrightarrow> reserved_part (c(who := y)) x = reserved_part c x"
  by (simp add: reserved_part_def)

lemma total_part_upd [simp]: "total_part (c(who := y)) x = (if x = who then fst y else total_part c x)"
  by (simp add: total_part_def)

lemma unreserve_law_sample: "unreserve_law sample_currency"
  unfolding unreserve_law_def
proof (intro allI)
  fix who v c
  let ?r = "reserved_part c who" and ?t = "total_part c who"
  define m where "m = min v ?r"
  have m: "unat m = min (unat v) (unat ?r)" and mr: "m \<le> ?r" "m \<le> v"
    by (simp_all add: m_def unat_min)
  have le: "unat (?r - m) \<le> unat ?t"
    using reserved_le_total [of c who] mr by (simp add: unat_sub)
  have r': "reserved_part (c(who := (?t, ?r - m))) who = ?r - m"
    by (rule reserved_part_shrink [OF mr(1) le])
  have u: "unat (?r - m) = unat ?r - unat m" "unat (v - m) = unat v - unat m"
    using mr by (simp_all add: unat_sub)
  have f: "unat (?t - (?r - m)) = unat (?t - ?r) + unat m"
    using le u m reserved_le_total [of c who] by (simp add: unat_diff)
  show "let (c', rest) = unreserve sample_currency who v c;
            moved = min (unat v) (reserved_of sample_currency c who) in
        unat rest = unat v - moved \<and>
        free_of sample_currency c' who = free_of sample_currency c who + moved \<and>
        (\<forall>x. reserved_of sample_currency c' x
             = reserved_of sample_currency c x - (if x = who then moved else 0))"
    using m u f r' by (simp add: sample_currency_def Let_def m_def [symmetric])
qed

lemma slash_reserved_law_sample: "slash_reserved_law sample_currency"
  unfolding slash_reserved_law_def
proof (intro allI)
  fix who v c
  let ?r = "reserved_part c who" and ?t = "total_part c who"
  define m where "m = min v ?r"
  have m: "unat m = min (unat v) (unat ?r)" and mr: "m \<le> ?r" "m \<le> v"
    by (simp_all add: m_def unat_min)
  have u: "unat (?r - m) = unat ?r - unat m" "unat (v - m) = unat v - unat m"
    using mr by (simp_all add: unat_sub)
  have "unat (?t - m) = unat ?t - unat m"
    using m reserved_le_total [of c who] by (simp add: unat_diff)
  then have le: "unat (?r - m) \<le> unat (?t - m)"
    using u reserved_le_total [of c who] by simp
  have r': "reserved_part (c(who := (?t - m, ?r - m))) who = ?r - m"
    by (rule reserved_part_shrink [OF mr(1) le])
  have f: "?t - m - (?r - m) = ?t - ?r" by simp
  show "let (c', rest) = slash_reserved sample_currency who v c;
            moved = min (unat v) (reserved_of sample_currency c who) in
        unat rest = unat v - moved \<and>
        (\<forall>x. free_of sample_currency c' x = free_of sample_currency c x) \<and>
        (\<forall>x. reserved_of sample_currency c' x
             = reserved_of sample_currency c x - (if x = who then moved else 0))"
    using m u r' f by (simp add: sample_currency_def Let_def m_def [symmetric])
qed

lemma repatriate_law_sample: "repatriate_law sample_currency"
  unfolding repatriate_law_def
proof (intro allI impI)
  fix frm to v c c' rest
  assume ok: "repatriate_reserved sample_currency frm to v c = Inr (c', rest)"
  let ?r = "reserved_part c frm" and ?t = "total_part c frm"
  define m where "m = min v ?r"
  have m: "unat m = min (unat v) (unat ?r)" and mr: "m \<le> ?r" "m \<le> v"
    by (simp_all add: m_def unat_min)
  have u: "unat (?r - m) = unat ?r - unat m"
    using mr by (simp add: unat_sub)
  have goal: "free_of sample_currency c' to = free_of sample_currency c to + unat m \<and>
        (\<forall>x. reserved_of sample_currency c' x
             = reserved_of sample_currency c x - (if x = frm then unat m else 0))"
  proof (cases "frm = to")
    case True
    then have c': "c' = c(frm := (?t, ?r - m))"
      using ok by (simp add: sample_currency_def Let_def m_def split: if_splits)
    have le: "unat (?r - m) \<le> unat ?t"
      using u reserved_le_total [of c frm] by simp
    have "unat (?t - (?r - m)) = unat (?t - ?r) + unat m"
      using le u m reserved_le_total [of c frm] by (simp add: unat_diff)
    then show ?thesis
      using True u reserved_part_shrink [OF mr(1) le] by (simp add: c' sample_currency_def)
  next
    case False
    let ?tt = "total_part c to" and ?rt = "reserved_part c to"
    have c': "c' = c(frm := (?t - m, ?r - m), to := (?tt + m, ?rt))" and no: "\<not> ?tt + m < ?tt"
      using ok False by (auto simp: sample_currency_def Let_def m_def split: if_splits)
    have tt: "unat (?tt + m) = unat ?tt + unat m"
      using no by (simp add: add_wraps_iff unat_word_ariths)
    have "unat (?t - m) = unat ?t - unat m"
      using m reserved_le_total [of c frm] by (simp add: unat_diff)
    then have le: "unat (?r - m) \<le> unat (?t - m)"
      using u reserved_le_total [of c frm] by simp
    have rt: "reserved_part c' to = ?rt"
      using reserved_le_total [of c to] tt
      by (simp add: c' reserved_part_def [of "_ (_ := _)"] min_def word_le_nat_alt)
    have rf: "reserved_part c' frm = ?r - m"
      using False reserved_part_shrink [OF mr(1) le] by (simp add: c')
    have "unat (?tt + m - ?rt) = unat (?tt - ?rt) + unat m"
      using tt reserved_le_total [of c to] by (simp add: unat_diff)
    moreover have "total_part c' to = ?tt + m" by (simp add: c')
    moreover have "reserved_part c' x = reserved_part c x" if "x \<noteq> frm" for x
      using that rt by (cases "x = to") (simp_all add: c')
    ultimately show ?thesis
      using rt rf u by (auto simp: sample_currency_def)
  qed
  show "let moved = min (unat v) (reserved_of sample_currency c frm) in
          free_of sample_currency c' to = free_of sample_currency c to + moved \<and>
          (\<forall>x. reserved_of sample_currency c' x
               = reserved_of sample_currency c x - (if x = frm then moved else 0))"
    using goal m by (simp add: sample_currency_def Let_def)
qed

lemma currency_laws_sample: "currency_laws sample_currency"
  by (simp add: currency_laws_def reserve_law_sample unreserve_law_sample
      slash_reserved_law_sample repatriate_law_sample)

end
