(* ===== verification/Agent_Registry.thy ===== *)
theory Agent_Registry
  imports Frame
begin

text \<open>
  \<^verbatim>\<open>pallets/pallet-agent-registry/src/lib.rs\<close>: the DID registry. One definition per dispatchable
  and per internal entry point, each working on the pallet's storage and the host. A
  \<^verbatim>\<open>StorageMap\<close> with \<^verbatim>\<open>OptionQuery\<close> is a map; one with \<^verbatim>\<open>ValueQuery\<close> is a total function that
  returns the type's default where nothing was stored.
\<close>

section \<open>Constants and types\<close>

definition MAX_METADATA_LEN :: nat where "MAX_METADATA_LEN = 256"
definition MAX_LABEL_LEN :: nat where "MAX_LABEL_LEN = 64"
definition MAX_PUBKEY_LEN :: nat where "MAX_PUBKEY_LEN = 1952"
definition MAX_SIG_LEN :: nat where "MAX_SIG_LEN = 3309"
definition REPLAY_WINDOW :: u32 where "REPLAY_WINDOW = 64"
definition MAX_AGENTS_PER_CONTROLLER :: nat where "MAX_AGENTS_PER_CONTROLLER = 64"


type_synonym capability_bitmap = u64

definition CAP_DATA_PROVIDER :: capability_bitmap where "CAP_DATA_PROVIDER = push_bit 0 1"
definition CAP_INFERENCE_ENGINE :: capability_bitmap where "CAP_INFERENCE_ENGINE = push_bit 1 1"
definition CAP_ORCHESTRATOR :: capability_bitmap where "CAP_ORCHESTRATOR = push_bit 2 1"
definition CAP_VERIFIER :: capability_bitmap where "CAP_VERIFIER = push_bit 3 1"
definition CAP_MARKETPLACE_SELLER :: capability_bitmap where "CAP_MARKETPLACE_SELLER = push_bit 4 1"
definition CAP_MARKETPLACE_BUYER :: capability_bitmap where "CAP_MARKETPLACE_BUYER = push_bit 5 1"

datatype agent_status = Active | Suspended | Revoked

datatype quantum_scheme = MlDsa65

record agent_profile =
  profile_did :: did
  controller :: account_id
  capabilities :: capability_bitmap
  reputation_score :: u32
  status :: agent_status
  registered_at :: block_number
  is_verified :: bool
  quantum_scheme :: quantum_scheme
  metadata :: bytes
  label :: bytes

datatype registry_event =
    AgentRegistered did account_id
  | AgentProfileUpdated did
  | AgentStatusChanged did agent_status
  | StarGiven did did
  | StarRemoved did did
  | AgentDeregistered did account_id
  | ReputationSlashed did u32 u32
  | DepositSlashed did account_id balance u32

datatype registry_error =
    DidAlreadyRegistered | DidNotFound | NotController | AgentRevoked
  | TooManyAgentsForController | CooldownNotExpired | NotStarred | CannotStarSelf
  | CannotStarSameController | InvalidPubkeyLength | InvalidSignatureLength
  | InvalidChallengeBlock | ChallengeExpired | InvalidQuantumProof
  | InsufficientBalanceForDeposit | AgentAlreadyRevoked

record registry_storage =
  agent_profiles :: "did \<rightharpoonup> agent_profile"
  controller_agents :: "account_id \<Rightarrow> did list"
  active_agent_count :: u32
  star_givers :: "did \<Rightarrow> did \<Rightarrow> block_number"
  dispute_strikes :: "did \<Rightarrow> u32"

definition empty_registry :: registry_storage where
  "empty_registry = \<lparr>agent_profiles = Map.empty, controller_agents = (\<lambda>_. []),
     active_agent_count = 0, star_givers = (\<lambda>_ _. 0), dispute_strikes = (\<lambda>_. 0)\<rparr>"

record ('c, 'e, 'vk, 'sg) registry_config =
  star_cooldown :: block_number
  reg_currency :: "'c currency"
  registration_deposit :: balance
  strike_threshold :: u32
  deposit_slash_per_strike :: balance
  reg_event :: "registry_event \<Rightarrow> 'e"
  reg_prims :: "('vk, 'sg) prims"

type_synonym ('c, 'e) registry_state = "registry_storage \<times> ('c, 'e) host"

type_synonym ('c, 'e) registry_result = "registry_error dispatch_error + ('c, 'e) registry_state"

section \<open>Registration\<close>

text \<open>\<^verbatim>\<open>did = blake2_256("ArthNeura-DID-v1" ++ pubkey)\<close>.\<close>

definition did_preimage :: "bytes \<Rightarrow> bytes" where
  "did_preimage pubkey = ascii ''ArthNeura-DID-v1'' @ pubkey"

definition derive_did :: "('vk, 'sg) prims \<Rightarrow> bytes \<Rightarrow> did" where
  "derive_did pr pubkey = blake2_256 pr (did_preimage pubkey)"

text \<open>
  The SCALE encoding of the challenge tuple: 32-byte values are encoded as themselves, a tuple
  as the concatenation of its components.
\<close>

definition encode_challenge ::
  "('vk, 'sg) prims \<Rightarrow> h256 \<Rightarrow> did \<Rightarrow> account_id \<Rightarrow> block_number \<Rightarrow> h256 \<Rightarrow> bytes" where
  "encode_challenge pr genesis_hash d ctl signed_at_block signed_at_hash =
     h256_bytes genesis_hash @ h256_bytes d @ h256_bytes ctl @ encode_u32 pr signed_at_block
       @ h256_bytes signed_at_hash"

definition register_agent ::
  "('c, 'e, 'vk, 'sg) registry_config \<Rightarrow> origin \<Rightarrow> bytes \<Rightarrow> bytes \<Rightarrow> block_number
     \<Rightarrow> capability_bitmap \<Rightarrow> bytes \<Rightarrow> bytes
     \<Rightarrow> ('c, 'e) registry_state \<Rightarrow> ('c, 'e) registry_result" where
  "register_agent cfg orig pubkey signature signed_at_block caps meta lbl s = (case s of (st, h) \<Rightarrow>
     try_then (ensure_signed orig) (\<lambda>ctl.
     let d = derive_did (reg_prims cfg) pubkey in
     ensure (agent_profiles st d = None) (Module DidAlreadyRegistered) (
     let agent_count = length (controller_agents st ctl) in
     ensure (agent_count < MAX_AGENTS_PER_CONTROLLER) (Module TooManyAgentsForController) (
     let current_block = block_number h in
     ensure (signed_at_block \<le> current_block) (Module InvalidChallengeBlock) (
     ensure (sat_sub current_block signed_at_block \<le> REPLAY_WINDOW) (Module ChallengeExpired) (
     let genesis_hash = block_hash h 0;
         signed_at_hash = block_hash h signed_at_block;
         challenge = encode_challenge (reg_prims cfg) genesis_hash d ctl signed_at_block signed_at_hash in
     try_then (ok_or (verifying_key_from_slice (reg_prims cfg) pubkey) (Module InvalidPubkeyLength))
       (\<lambda>verifying_key.
     try_then (ok_or (signature_try_from (reg_prims cfg) signature) (Module InvalidSignatureLength))
       (\<lambda>parsed_signature.
     ensure (mldsa_verify (reg_prims cfg) verifying_key challenge parsed_signature)
       (Module InvalidQuantumProof) (
     try_then (map_err (\<lambda>_. Module InsufficientBalanceForDeposit)
       (reserve (reg_currency cfg) ctl (registration_deposit cfg) (ledger h))) (\<lambda>c.
     let profile = \<lparr>profile_did = d, controller = ctl, capabilities = caps, reputation_score = 0,
                    status = Active, registered_at = current_block, is_verified = True,
                    quantum_scheme = MlDsa65, metadata = meta, label = lbl\<rparr>;
         st1 = st\<lparr>agent_profiles := (agent_profiles st)(d \<mapsto> profile)\<rparr> in
     ensure (length (controller_agents st1 ctl) < MAX_AGENTS_PER_CONTROLLER)
       (Module TooManyAgentsForController) (
     let st2 = st1\<lparr>controller_agents :=
                 (controller_agents st1)(ctl := controller_agents st1 ctl @ [d])\<rparr>;
         st3 = st2\<lparr>active_agent_count := sat_add (active_agent_count st2) 1\<rparr>
     in Inr (st3, deposit_event (reg_event cfg (AgentRegistered d ctl)) (h\<lparr>ledger := c\<rparr>)))))))))))))"

section \<open>Profile and status updates\<close>

definition update_profile ::
  "('c, 'e, 'vk, 'sg) registry_config \<Rightarrow> origin \<Rightarrow> did \<Rightarrow> capability_bitmap \<Rightarrow> bytes \<Rightarrow> bytes
     \<Rightarrow> ('c, 'e) registry_state \<Rightarrow> ('c, 'e) registry_result" where
  "update_profile cfg orig d caps meta lbl s = (case s of (st, h) \<Rightarrow>
     try_then (ensure_signed orig) (\<lambda>caller.
     try_then (ok_or (agent_profiles st d) (Module DidNotFound)) (\<lambda>profile.
     ensure (controller profile = caller) (Module NotController) (
     ensure (status profile \<noteq> Revoked) (Module AgentRevoked) (
     let profile' = profile\<lparr>capabilities := caps, metadata := meta, label := lbl\<rparr>;
         st' = st\<lparr>agent_profiles := (agent_profiles st)(d \<mapsto> profile')\<rparr>
     in Inr (st', deposit_event (reg_event cfg (AgentProfileUpdated d)) h))))))"

definition set_agent_status ::
  "('c, 'e, 'vk, 'sg) registry_config \<Rightarrow> origin \<Rightarrow> did \<Rightarrow> agent_status
     \<Rightarrow> ('c, 'e) registry_state \<Rightarrow> ('c, 'e) registry_result" where
  "set_agent_status cfg orig d new_status s = (case s of (st, h) \<Rightarrow>
     try_then (ensure_signed orig) (\<lambda>caller.
     try_then (ok_or (agent_profiles st d) (Module DidNotFound)) (\<lambda>profile.
     ensure (controller profile = caller) (Module NotController) (
     ensure (status profile \<noteq> Revoked) (Module AgentRevoked) (
     let st1 = st\<lparr>agent_profiles := (agent_profiles st)(d \<mapsto> profile\<lparr>status := new_status\<rparr>)\<rparr>;
         st2 = (if new_status = Revoked
                then st1\<lparr>active_agent_count := sat_sub (active_agent_count st1) 1\<rparr> else st1)
     in Inr (st2, deposit_event (reg_event cfg (AgentStatusChanged d new_status)) h))))))"

section \<open>Peer stars\<close>

text \<open>
  \<^verbatim>\<open>AgentProfiles::try_mutate\<close> that changes the reputation of an existing profile and fails with
  \<^verbatim>\<open>DidNotFound\<close> when there is none.
\<close>

definition mutate_reputation ::
  "(u32 \<Rightarrow> u32) \<Rightarrow> did \<Rightarrow> registry_storage \<Rightarrow> registry_error dispatch_error + registry_storage" where
  "mutate_reputation f d st =
     try_then (ok_or (agent_profiles st d) (Module DidNotFound)) (\<lambda>profile.
     Inr (st\<lparr>agent_profiles := (agent_profiles st)
            (d \<mapsto> profile\<lparr>reputation_score := f (reputation_score profile)\<rparr>)\<rparr>))"

definition give_star ::
  "('c, 'e, 'vk, 'sg) registry_config \<Rightarrow> origin \<Rightarrow> did \<Rightarrow> did
     \<Rightarrow> ('c, 'e) registry_state \<Rightarrow> ('c, 'e) registry_result" where
  "give_star cfg orig giver_did receiver s = (case s of (st, h) \<Rightarrow>
     try_then (ensure_signed orig) (\<lambda>giver.
     let giver_dids = controller_agents st giver in
     ensure (giver_did \<in> set giver_dids) (Module NotController) (
     ensure (giver_did \<noteq> receiver) (Module CannotStarSelf) (
     try_then (ok_or (agent_profiles st receiver) (Module DidNotFound)) (\<lambda>receiver_profile.
     ensure (status receiver_profile \<noteq> Revoked) (Module AgentRevoked) (
     ensure (controller receiver_profile \<noteq> giver) (Module CannotStarSameController) (
     let last_star = star_givers st giver_did receiver;
         current_block = block_number h in
     ensure (last_star > 0 \<longrightarrow> current_block \<ge> sat_add last_star (star_cooldown cfg))
       (Module CooldownNotExpired) (
     let st1 = st\<lparr>star_givers := (star_givers st)
                 (giver_did := (star_givers st giver_did)(receiver := current_block))\<rparr> in
     try_then (mutate_reputation (\<lambda>n. sat_add n 1) receiver st1) (\<lambda>st2.
     Inr (st2, deposit_event (reg_event cfg (StarGiven giver_did receiver)) h))))))))))"

definition remove_star ::
  "('c, 'e, 'vk, 'sg) registry_config \<Rightarrow> origin \<Rightarrow> did \<Rightarrow> did
     \<Rightarrow> ('c, 'e) registry_state \<Rightarrow> ('c, 'e) registry_result" where
  "remove_star cfg orig giver_did receiver s = (case s of (st, h) \<Rightarrow>
     try_then (ensure_signed orig) (\<lambda>giver.
     let giver_dids = controller_agents st giver in
     ensure (giver_did \<in> set giver_dids) (Module NotController) (
     let last_star = star_givers st giver_did receiver in
     ensure (last_star > 0) (Module NotStarred) (
     let st1 = st\<lparr>star_givers := (star_givers st)
                 (giver_did := (star_givers st giver_did)(receiver := 0))\<rparr> in
     try_then (mutate_reputation (\<lambda>n. sat_sub n 1) receiver st1) (\<lambda>st2.
     Inr (st2, deposit_event (reg_event cfg (StarRemoved giver_did receiver)) h))))))"

section \<open>Deregistration\<close>

definition deregister_agent ::
  "('c, 'e, 'vk, 'sg) registry_config \<Rightarrow> origin \<Rightarrow> did
     \<Rightarrow> ('c, 'e) registry_state \<Rightarrow> ('c, 'e) registry_result" where
  "deregister_agent cfg orig d s = (case s of (st, h) \<Rightarrow>
     try_then (ensure_signed orig) (\<lambda>ctl.
     try_then (ok_or (agent_profiles st d) (Module DidNotFound)) (\<lambda>profile.
     ensure (controller profile = ctl) (Module NotController) (
     ensure (status profile \<noteq> Revoked) (Module AgentAlreadyRevoked) (
     let c = fst (unreserve (reg_currency cfg) ctl (registration_deposit cfg) (ledger h));
         st1 = st\<lparr>controller_agents := (controller_agents st)
                 (ctl := filter (\<lambda>x. x \<noteq> d) (controller_agents st ctl))\<rparr>;
         st2 = st1\<lparr>agent_profiles := (agent_profiles st1)(d := None)\<rparr>;
         st3 = st2\<lparr>active_agent_count := sat_sub (active_agent_count st2) 1\<rparr>
     in Inr (st3, deposit_event (reg_event cfg (AgentDeregistered d ctl)) (h\<lparr>ledger := c\<rparr>)))))))"

section \<open>Protocol penalties\<close>

definition slash_reputation ::
  "('c, 'e, 'vk, 'sg) registry_config \<Rightarrow> did \<Rightarrow> u32
     \<Rightarrow> ('c, 'e) registry_state \<Rightarrow> ('c, 'e) registry_state" where
  "slash_reputation cfg d amt s = (case s of (st, h) \<Rightarrow>
     case mutate_reputation (\<lambda>n. sat_sub n amt) d st of
       Inl _ \<Rightarrow> (st, h)
     | Inr st' \<Rightarrow>
         let new_score = (case agent_profiles st' d of None \<Rightarrow> 0 | Some p \<Rightarrow> reputation_score p)
         in (st', deposit_event (reg_event cfg (ReputationSlashed d amt new_score)) h))"

definition slash_reputation_for_guilty_delivery ::
  "('c, 'e, 'vk, 'sg) registry_config \<Rightarrow> did \<Rightarrow> u32
     \<Rightarrow> ('c, 'e) registry_state \<Rightarrow> ('c, 'e) registry_state" where
  "slash_reputation_for_guilty_delivery cfg d amt s =
     (case slash_reputation cfg d amt s of (st, h) \<Rightarrow>
      case agent_profiles st d of
        None \<Rightarrow> (st, h)
      | Some profile \<Rightarrow>
          let strikes = sat_add (dispute_strikes st d) 1;
              st1 = st\<lparr>dispute_strikes := (dispute_strikes st)(d := strikes)\<rparr> in
          if strikes < strike_threshold cfg then (st1, h)
          else
            let st2 = st1\<lparr>dispute_strikes := (dispute_strikes st1)(d := 0)\<rparr>;
                slash_amount = deposit_slash_per_strike cfg;
                (c, actually_slashed) =
                  slash_reserved (reg_currency cfg) (controller profile) slash_amount (ledger h);
                removed = sat_sub slash_amount actually_slashed
            in (st2, deposit_event
                  (reg_event cfg (DepositSlashed d (controller profile) removed strikes))
                  (h\<lparr>ledger := c\<rparr>)))"

section \<open>The call enum\<close>

text \<open>
  \<^verbatim>\<open>#[pallet::call]\<close> collects the dispatchables in one enum. A \<^verbatim>\<open>BoundedVec\<close> argument longer than
  its bound does not decode, so a call that reaches dispatch is \<open>registry_call_bounded\<close>.
\<close>

datatype registry_call =
    RegisterAgent bytes bytes block_number capability_bitmap bytes bytes
  | UpdateProfile did capability_bitmap bytes bytes
  | SetAgentStatus did agent_status
  | GiveStar did did
  | RemoveStar did did
  | DeregisterAgent did

fun registry_call_bounded :: "registry_call \<Rightarrow> bool" where
  "registry_call_bounded (RegisterAgent pubkey signature _ _ meta lbl) \<longleftrightarrow>
     length pubkey \<le> MAX_PUBKEY_LEN \<and> length signature \<le> MAX_SIG_LEN \<and>
     length meta \<le> MAX_METADATA_LEN \<and> length lbl \<le> MAX_LABEL_LEN"
| "registry_call_bounded (UpdateProfile _ _ meta lbl) \<longleftrightarrow>
     length meta \<le> MAX_METADATA_LEN \<and> length lbl \<le> MAX_LABEL_LEN"
| "registry_call_bounded _ \<longleftrightarrow> True"

fun dispatch_registry ::
  "('c, 'e, 'vk, 'sg) registry_config \<Rightarrow> origin \<Rightarrow> registry_call
     \<Rightarrow> ('c, 'e) registry_state \<Rightarrow> ('c, 'e) registry_result" where
  "dispatch_registry cfg orig (RegisterAgent pubkey signature at caps meta lbl) s =
     register_agent cfg orig pubkey signature at caps meta lbl s"
| "dispatch_registry cfg orig (UpdateProfile d caps meta lbl) s =
     update_profile cfg orig d caps meta lbl s"
| "dispatch_registry cfg orig (SetAgentStatus d new_status) s = set_agent_status cfg orig d new_status s"
| "dispatch_registry cfg orig (GiveStar g r) s = give_star cfg orig g r s"
| "dispatch_registry cfg orig (RemoveStar g r) s = remove_star cfg orig g r s"
| "dispatch_registry cfg orig (DeregisterAgent d) s = deregister_agent cfg orig d s"

section \<open>What a successful call did\<close>

definition fresh_profile ::
  "did \<Rightarrow> account_id \<Rightarrow> capability_bitmap \<Rightarrow> block_number \<Rightarrow> bytes \<Rightarrow> bytes \<Rightarrow> agent_profile" where
  "fresh_profile d ctl caps now meta lbl =
     \<lparr>profile_did = d, controller = ctl, capabilities = caps, reputation_score = 0,
      status = Active, registered_at = now, is_verified = True,
      quantum_scheme = MlDsa65, metadata = meta, label = lbl\<rparr>"

lemma fresh_profile_simps [simp]:
  "profile_did (fresh_profile d ctl caps now meta lbl) = d"
  "controller (fresh_profile d ctl caps now meta lbl) = ctl"
  "reputation_score (fresh_profile d ctl caps now meta lbl) = 0"
  "status (fresh_profile d ctl caps now meta lbl) = Active"
  "is_verified (fresh_profile d ctl caps now meta lbl) = True"
  "registered_at (fresh_profile d ctl caps now meta lbl) = now"
  "metadata (fresh_profile d ctl caps now meta lbl) = meta"
  "label (fresh_profile d ctl caps now meta lbl) = lbl"
  by (simp_all add: fresh_profile_def)

lemma register_agent_ok_iff:
  "register_agent cfg orig pubkey signature at caps meta lbl (st, h) = Inr (st', h') \<longleftrightarrow>
     (\<exists>ctl vk sg c. orig = Signed ctl \<and>
       agent_profiles st (derive_did (reg_prims cfg) pubkey) = None \<and>
       length (controller_agents st ctl) < MAX_AGENTS_PER_CONTROLLER \<and>
       at \<le> block_number h \<and> sat_sub (block_number h) at \<le> REPLAY_WINDOW \<and>
       verifying_key_from_slice (reg_prims cfg) pubkey = Some vk \<and>
       signature_try_from (reg_prims cfg) signature = Some sg \<and>
       mldsa_verify (reg_prims cfg) vk
         (encode_challenge (reg_prims cfg) (block_hash h 0) (derive_did (reg_prims cfg) pubkey) ctl at
            (block_hash h at)) sg \<and>
       reserve (reg_currency cfg) ctl (registration_deposit cfg) (ledger h) = Inr c \<and>
       st' = st\<lparr>agent_profiles := (agent_profiles st)(derive_did (reg_prims cfg) pubkey \<mapsto>
                  fresh_profile (derive_did (reg_prims cfg) pubkey) ctl caps (block_number h) meta lbl),
                controller_agents := (controller_agents st)
                  (ctl := controller_agents st ctl @ [derive_did (reg_prims cfg) pubkey]),
                active_agent_count := sat_add (active_agent_count st) 1\<rparr> \<and>
       h' = deposit_event (reg_event cfg (AgentRegistered (derive_did (reg_prims cfg) pubkey) ctl))
              (h\<lparr>ledger := c\<rparr>))"
  by (auto simp: register_agent_def Let_def res_simps fresh_profile_def)

lemma update_profile_ok_iff:
  "update_profile cfg orig d caps meta lbl (st, h) = Inr (st', h') \<longleftrightarrow>
     (\<exists>p. orig = Signed (controller p) \<and> agent_profiles st d = Some p \<and> status p \<noteq> Revoked \<and>
       st' = st\<lparr>agent_profiles := (agent_profiles st)
                  (d \<mapsto> p\<lparr>capabilities := caps, metadata := meta, label := lbl\<rparr>)\<rparr> \<and>
       h' = deposit_event (reg_event cfg (AgentProfileUpdated d)) h)"
  by (auto simp: update_profile_def Let_def res_simps)

lemma set_agent_status_ok_iff:
  "set_agent_status cfg orig d new (st, h) = Inr (st', h') \<longleftrightarrow>
     (\<exists>p. orig = Signed (controller p) \<and> agent_profiles st d = Some p \<and> status p \<noteq> Revoked \<and>
       st' = st\<lparr>agent_profiles := (agent_profiles st)(d \<mapsto> p\<lparr>status := new\<rparr>),
                active_agent_count :=
                  (if new = Revoked then sat_sub (active_agent_count st) 1 else active_agent_count st)\<rparr> \<and>
       h' = deposit_event (reg_event cfg (AgentStatusChanged d new)) h)"
  by (auto simp: set_agent_status_def Let_def res_simps)

lemma mutate_reputation_ok_iff [res_simps]:
  "mutate_reputation f d st = Inr st' \<longleftrightarrow>
     (\<exists>p. agent_profiles st d = Some p \<and>
       st' = st\<lparr>agent_profiles := (agent_profiles st)
                 (d \<mapsto> p\<lparr>reputation_score := f (reputation_score p)\<rparr>)\<rparr>)"
  by (auto simp: mutate_reputation_def res_simps)

lemma give_star_ok_iff:
  "give_star cfg orig g r (st, h) = Inr (st', h') \<longleftrightarrow>
     (\<exists>who p. orig = Signed who \<and> g \<in> set (controller_agents st who) \<and> g \<noteq> r \<and>
       agent_profiles st r = Some p \<and> status p \<noteq> Revoked \<and> controller p \<noteq> who \<and>
       (star_givers st g r > 0 \<longrightarrow>
          sat_add (star_givers st g r) (star_cooldown cfg) \<le> block_number h) \<and>
       st' = st\<lparr>agent_profiles := (agent_profiles st)
                  (r \<mapsto> p\<lparr>reputation_score := sat_add (reputation_score p) 1\<rparr>),
                star_givers := (star_givers st)(g := (star_givers st g)(r := block_number h))\<rparr> \<and>
       h' = deposit_event (reg_event cfg (StarGiven g r)) h)"
  by (auto simp: give_star_def Let_def res_simps)

lemma remove_star_ok_iff:
  "remove_star cfg orig g r (st, h) = Inr (st', h') \<longleftrightarrow>
     (\<exists>who p. orig = Signed who \<and> g \<in> set (controller_agents st who) \<and>
       star_givers st g r > 0 \<and> agent_profiles st r = Some p \<and>
       st' = st\<lparr>agent_profiles := (agent_profiles st)
                  (r \<mapsto> p\<lparr>reputation_score := sat_sub (reputation_score p) 1\<rparr>),
                star_givers := (star_givers st)(g := (star_givers st g)(r := 0))\<rparr> \<and>
       h' = deposit_event (reg_event cfg (StarRemoved g r)) h)"
  by (auto simp: remove_star_def Let_def res_simps)

lemma deregister_agent_ok_iff:
  "deregister_agent cfg orig d (st, h) = Inr (st', h') \<longleftrightarrow>
     (\<exists>p. orig = Signed (controller p) \<and> agent_profiles st d = Some p \<and> status p \<noteq> Revoked \<and>
       st' = st\<lparr>agent_profiles := (agent_profiles st)(d := None),
                controller_agents := (controller_agents st)
                  (controller p := filter (\<lambda>x. x \<noteq> d) (controller_agents st (controller p))),
                active_agent_count := sat_sub (active_agent_count st) 1\<rparr> \<and>
       h' = deposit_event (reg_event cfg (AgentDeregistered d (controller p)))
              (h\<lparr>ledger := fst (unreserve (reg_currency cfg) (controller p)
                           (registration_deposit cfg) (ledger h))\<rparr>))"
  by (auto simp: deregister_agent_def Let_def res_simps)

lemmas registry_ok_iffs =
  register_agent_ok_iff update_profile_ok_iff set_agent_status_ok_iff give_star_ok_iff
  remove_star_ok_iff deregister_agent_ok_iff

end
