(* ===== verification/Registry_Inv.thy ===== *)
theory Registry_Inv
  imports Agent_Registry
begin

text \<open>
  The registry's invariants and what each operation keeps of them: the forward index and the
  reverse index describe the same relation, profiles stay well-formed, no controller passes its
  64 slots, and the population counter is exact while it does not saturate.
\<close>

section \<open>The invariant\<close>

definition profile_ok :: "did \<Rightarrow> agent_profile \<Rightarrow> bool" where
  "profile_ok d p \<longleftrightarrow> profile_did p = d \<and> is_verified p \<and>
     length (metadata p) \<le> MAX_METADATA_LEN \<and> length (label p) \<le> MAX_LABEL_LEN"

definition index_agrees :: "registry_storage \<Rightarrow> bool" where
  "index_agrees st \<longleftrightarrow>
     (\<forall>c d. d \<in> set (controller_agents st c) \<longleftrightarrow>
        (\<exists>p. agent_profiles st d = Some p \<and> controller p = c))"

definition registry_inv :: "registry_storage \<Rightarrow> bool" where
  "registry_inv st \<longleftrightarrow>
     finite (dom (agent_profiles st)) \<and>
     (\<forall>d p. agent_profiles st d = Some p \<longrightarrow> profile_ok d p) \<and>
     index_agrees st \<and>
     (\<forall>c. distinct (controller_agents st c) \<and>
          length (controller_agents st c) \<le> MAX_AGENTS_PER_CONTROLLER)"

definition live :: "agent_profile \<Rightarrow> nat" where
  "live p = (if status p = Revoked then 0 else 1)"

definition live_count :: "registry_storage \<Rightarrow> nat" where
  "live_count st = entry_sum live (agent_profiles st)"

definition count_exact :: "registry_storage \<Rightarrow> bool" where
  "count_exact st \<longleftrightarrow> unat (active_agent_count st) = live_count st"

lemma registry_inv_empty: "registry_inv empty_registry"
  by (simp add: registry_inv_def empty_registry_def index_agrees_def)

lemma count_exact_empty: "count_exact empty_registry"
  by (simp add: count_exact_def live_count_def empty_registry_def)

section \<open>Three kinds of update\<close>

text \<open>An existing profile is edited in place: same owner, still well-formed.\<close>

lemma registry_inv_edit:
  assumes "registry_inv st" "agent_profiles st d = Some p"
    and "controller p' = controller p" "profile_ok d p'"
    and "agent_profiles st' = (agent_profiles st)(d \<mapsto> p')"
    and "controller_agents st' = controller_agents st"
  shows "registry_inv st'"
proof -
  have "index_agrees st" using assms(1) by (simp add: registry_inv_def)
  then have "index_agrees st'"
    using assms(2,3) unfolding index_agrees_def assms(5,6) by auto
  then show ?thesis using assms(1,2,4) by (simp add: registry_inv_def assms(5,6))
qed

text \<open>A new DID is added, at the end of its controller's list.\<close>

lemma registry_inv_insert:
  assumes inv: "registry_inv st" and new: "agent_profiles st d = None"
    and room: "length (controller_agents st (controller p)) < MAX_AGENTS_PER_CONTROLLER"
    and ok: "profile_ok d p"
    and prof: "agent_profiles st' = (agent_profiles st)(d \<mapsto> p)"
    and idx: "controller_agents st' = (controller_agents st)
                (controller p := controller_agents st (controller p) @ [d])"
  shows "registry_inv st'"
proof -
  have agree: "index_agrees st" using inv by (simp add: registry_inv_def)
  then have fresh: "d \<notin> set (controller_agents st c)" for c
    using new by (auto simp: index_agrees_def)
  have "index_agrees st'"
    using agree fresh new unfolding index_agrees_def prof idx by (auto split: if_splits)
  then show ?thesis
    using inv fresh room ok by (auto simp: registry_inv_def prof idx)
qed

text \<open>A DID is removed from both indexes.\<close>

lemma registry_inv_remove:
  assumes inv: "registry_inv st" and old: "agent_profiles st d = Some p"
    and prof: "agent_profiles st' = (agent_profiles st)(d := None)"
    and idx: "controller_agents st' = (controller_agents st)
                (controller p := filter (\<lambda>x. x \<noteq> d) (controller_agents st (controller p)))"
  shows "registry_inv st'"
proof -
  have agree: "index_agrees st" using inv by (simp add: registry_inv_def)
  have "index_agrees st'"
    using agree old unfolding index_agrees_def prof idx by (auto split: if_splits)
  moreover have "length (filter (\<lambda>x. x \<noteq> d) (controller_agents st (controller p)))
      \<le> MAX_AGENTS_PER_CONTROLLER"
    using inv by (intro order_trans [OF length_filter_le]) (simp add: registry_inv_def)
  ultimately show ?thesis
    using inv by (auto simp: registry_inv_def prof idx)
qed

lemma registry_inv_profile: "registry_inv st \<Longrightarrow> agent_profiles st d = Some p \<Longrightarrow> profile_ok d p"
  by (simp add: registry_inv_def)

lemma registry_inv_finite: "registry_inv st \<Longrightarrow> finite (dom (agent_profiles st))"
  by (simp add: registry_inv_def)

lemma profile_ok_updates [simp]:
  "profile_ok d (p\<lparr>reputation_score := n\<rparr>) = profile_ok d p"
  "profile_ok d (p\<lparr>status := x\<rparr>) = profile_ok d p"
  by (simp_all add: profile_ok_def)

section \<open>Every operation keeps the invariant\<close>

lemma dispatch_registry_inv:
  assumes "dispatch_registry cfg orig call (st, h) = Inr (st', h')"
    and "registry_inv st" "registry_call_bounded call"
  shows "registry_inv st'"
proof (cases call)
  case (RegisterAgent pubkey signature at caps meta lbl)
  then obtain ctl where
    "agent_profiles st (derive_did (reg_prims cfg) pubkey) = None"
    "length (controller_agents st ctl) < MAX_AGENTS_PER_CONTROLLER"
    "agent_profiles st' = (agent_profiles st)(derive_did (reg_prims cfg) pubkey \<mapsto>
       fresh_profile (derive_did (reg_prims cfg) pubkey) ctl caps (block_number h) meta lbl)"
    "controller_agents st' = (controller_agents st)
       (ctl := controller_agents st ctl @ [derive_did (reg_prims cfg) pubkey])"
    using assms(1) by (auto simp: register_agent_ok_iff)
  then show ?thesis
    using assms(2,3) RegisterAgent
    by (intro registry_inv_insert [OF assms(2)]) (auto simp: profile_ok_def)
next
  case (UpdateProfile d caps meta lbl)
  then obtain p where p: "agent_profiles st d = Some p"
    "agent_profiles st' = (agent_profiles st)
       (d \<mapsto> p\<lparr>capabilities := caps, metadata := meta, label := lbl\<rparr>)"
    "controller_agents st' = controller_agents st"
    using assms(1) by (auto simp: update_profile_ok_iff)
  show ?thesis
    using registry_inv_profile [OF assms(2) p(1)] assms(3) UpdateProfile
    by (intro registry_inv_edit [OF assms(2) p(1) _ _ p(2,3)]) (simp_all add: profile_ok_def)
next
  case (SetAgentStatus d new)
  then obtain p where p: "agent_profiles st d = Some p"
    "agent_profiles st' = (agent_profiles st)(d \<mapsto> p\<lparr>status := new\<rparr>)"
    "controller_agents st' = controller_agents st"
    using assms(1) by (auto simp: set_agent_status_ok_iff)
  show ?thesis
    using registry_inv_profile [OF assms(2) p(1)]
    by (intro registry_inv_edit [OF assms(2) p(1) _ _ p(2,3)]) simp_all
next
  case (GiveStar g r)
  then obtain p n where p: "agent_profiles st r = Some p"
    "agent_profiles st' = (agent_profiles st)(r \<mapsto> p\<lparr>reputation_score := n\<rparr>)"
    "controller_agents st' = controller_agents st"
    using assms(1) by (auto simp: give_star_ok_iff)
  show ?thesis
    using registry_inv_profile [OF assms(2) p(1)]
    by (intro registry_inv_edit [OF assms(2) p(1) _ _ p(2,3)]) simp_all
next
  case (RemoveStar g r)
  then obtain p n where p: "agent_profiles st r = Some p"
    "agent_profiles st' = (agent_profiles st)(r \<mapsto> p\<lparr>reputation_score := n\<rparr>)"
    "controller_agents st' = controller_agents st"
    using assms(1) by (auto simp: remove_star_ok_iff)
  show ?thesis
    using registry_inv_profile [OF assms(2) p(1)]
    by (intro registry_inv_edit [OF assms(2) p(1) _ _ p(2,3)]) simp_all
next
  case (DeregisterAgent d)
  then obtain p where p: "agent_profiles st d = Some p"
    "agent_profiles st' = (agent_profiles st)(d := None)"
    "controller_agents st' = (controller_agents st)
       (controller p := filter (\<lambda>x. x \<noteq> d) (controller_agents st (controller p)))"
    using assms(1) by (auto simp: deregister_agent_ok_iff)
  show ?thesis by (rule registry_inv_remove [OF assms(2) p])
qed

section \<open>Penalties\<close>

lemma slash_reputation_missing:
  "agent_profiles st d = None \<Longrightarrow> slash_reputation cfg d amt (st, h) = (st, h)"
  by (simp add: slash_reputation_def mutate_reputation_def)

lemma slash_reputation_found:
  "agent_profiles st d = Some p \<Longrightarrow>
   slash_reputation cfg d amt (st, h) =
     (st\<lparr>agent_profiles := (agent_profiles st)
          (d \<mapsto> p\<lparr>reputation_score := sat_sub (reputation_score p) amt\<rparr>)\<rparr>,
      deposit_event (reg_event cfg (ReputationSlashed d amt (sat_sub (reputation_score p) amt))) h)"
  by (simp add: slash_reputation_def mutate_reputation_def)

lemma guilty_missing:
  "agent_profiles st d = None \<Longrightarrow>
   slash_reputation_for_guilty_delivery cfg d amt (st, h) = (st, h)"
  by (simp add: slash_reputation_for_guilty_delivery_def slash_reputation_missing)

text \<open>The storage after a guilty verdict against a registered provider.\<close>

definition guilty_storage ::
  "('c, 'e, 'vk, 'sg) registry_config \<Rightarrow> did \<Rightarrow> u32 \<Rightarrow> agent_profile
     \<Rightarrow> registry_storage \<Rightarrow> registry_storage" where
  "guilty_storage cfg d amt p st =
     (let strikes = sat_add (dispute_strikes st d) 1 in
      st\<lparr>agent_profiles := (agent_profiles st)
           (d \<mapsto> p\<lparr>reputation_score := sat_sub (reputation_score p) amt\<rparr>),
         dispute_strikes := (dispute_strikes st)
           (d := (if strikes < strike_threshold cfg then strikes else 0))\<rparr>)"

lemma guilty_storage_simps [simp]:
  "agent_profiles (guilty_storage cfg d amt p st) = (agent_profiles st)
     (d \<mapsto> p\<lparr>reputation_score := sat_sub (reputation_score p) amt\<rparr>)"
  "controller_agents (guilty_storage cfg d amt p st) = controller_agents st"
  "active_agent_count (guilty_storage cfg d amt p st) = active_agent_count st"
  "star_givers (guilty_storage cfg d amt p st) = star_givers st"
  "dispute_strikes (guilty_storage cfg d amt p st) d =
     (if sat_add (dispute_strikes st d) 1 < strike_threshold cfg
      then sat_add (dispute_strikes st d) 1 else 0)"
  by (simp_all add: guilty_storage_def Let_def)

lemma guilty_below_threshold:
  assumes "agent_profiles st d = Some p"
    and "sat_add (dispute_strikes st d) 1 < strike_threshold cfg"
  shows "slash_reputation_for_guilty_delivery cfg d amt (st, h) =
    (guilty_storage cfg d amt p st,
     deposit_event (reg_event cfg (ReputationSlashed d amt (sat_sub (reputation_score p) amt))) h)"
  using assms
  by (simp add: slash_reputation_for_guilty_delivery_def slash_reputation_found guilty_storage_def
      Let_def)

lemma guilty_at_threshold:
  assumes "agent_profiles st d = Some p"
    and "\<not> sat_add (dispute_strikes st d) 1 < strike_threshold cfg"
    and "slash_reserved (reg_currency cfg) (controller p) (deposit_slash_per_strike cfg) (ledger h)
           = (c, rest)"
  shows "slash_reputation_for_guilty_delivery cfg d amt (st, h) =
    (guilty_storage cfg d amt p st,
     deposit_event (reg_event cfg (DepositSlashed d (controller p)
         (sat_sub (deposit_slash_per_strike cfg) rest) (sat_add (dispute_strikes st d) 1)))
       ((deposit_event (reg_event cfg
            (ReputationSlashed d amt (sat_sub (reputation_score p) amt))) h)\<lparr>ledger := c\<rparr>))"
  using assms
  by (simp add: slash_reputation_for_guilty_delivery_def slash_reputation_found guilty_storage_def
      Let_def)

lemma guilty_fst:
  "fst (slash_reputation_for_guilty_delivery cfg d amt (st, h)) =
     (case agent_profiles st d of None \<Rightarrow> st | Some p \<Rightarrow> guilty_storage cfg d amt p st)"
proof (cases "agent_profiles st d")
  case None
  then show ?thesis by (simp add: guilty_missing)
next
  case (Some p)
  obtain c rest where sl: "slash_reserved (reg_currency cfg) (controller p)
      (deposit_slash_per_strike cfg) (ledger h) = (c, rest)" by force
  show ?thesis
    using Some guilty_below_threshold [OF Some] guilty_at_threshold [OF Some _ sl] by fastforce
qed

lemma slash_fst:
  "fst (slash_reputation cfg d amt (st, h)) =
     (case agent_profiles st d of None \<Rightarrow> st | Some p \<Rightarrow>
        st\<lparr>agent_profiles := (agent_profiles st)
          (d \<mapsto> p\<lparr>reputation_score := sat_sub (reputation_score p) amt\<rparr>)\<rparr>)"
  by (cases "agent_profiles st d") (simp_all add: slash_reputation_missing slash_reputation_found)

lemma slash_reputation_inv:
  assumes "registry_inv st"
  shows "registry_inv (fst (slash_reputation cfg d amt (st, h)))"
proof (cases "agent_profiles st d")
  case (Some p)
  then show ?thesis
    using registry_inv_profile [OF assms Some]
    by (simp add: slash_fst) (rule registry_inv_edit [OF assms Some, where p' = "p\<lparr>reputation_score :=
          sat_sub (reputation_score p) amt\<rparr>"], simp_all)
qed (simp add: slash_fst assms)

lemma guilty_inv:
  assumes "registry_inv st"
  shows "registry_inv (fst (slash_reputation_for_guilty_delivery cfg d amt (st, h)))"
proof (cases "agent_profiles st d")
  case (Some p)
  have "registry_inv (guilty_storage cfg d amt p st)"
    using registry_inv_profile [OF assms Some]
    by (intro registry_inv_edit [OF assms Some, where p' = "p\<lparr>reputation_score :=
          sat_sub (reputation_score p) amt\<rparr>"]) simp_all
  then show ?thesis by (simp add: guilty_fst Some)
qed (simp add: guilty_fst assms)

section \<open>The population counter\<close>

lemma live_updates [simp]:
  "live (p\<lparr>reputation_score := n\<rparr>) = live p"
  "live (p\<lparr>capabilities := caps, metadata := meta, label := lbl\<rparr>) = live p"
  by (simp_all add: live_def)

lemma live_count_edit:
  assumes "finite (dom (agent_profiles st))" "agent_profiles st d = Some p" "live p' = live p"
    and "agent_profiles st' = (agent_profiles st)(d \<mapsto> p')"
  shows "live_count st' = live_count st"
  using assms by (simp add: live_count_def entry_sum_upd_same)

lemma live_count_dispatch:
  assumes ok: "dispatch_registry cfg orig call (st, h) = Inr (st', h')"
    and fin: "finite (dom (agent_profiles st))"
  shows "(case call of
            RegisterAgent _ _ _ _ _ _ \<Rightarrow> live_count st' = Suc (live_count st) \<and>
              active_agent_count st' = sat_add (active_agent_count st) 1
          | DeregisterAgent _ \<Rightarrow> Suc (live_count st') = live_count st \<and>
              active_agent_count st' = sat_sub (active_agent_count st) 1
          | SetAgentStatus _ Revoked \<Rightarrow> Suc (live_count st') = live_count st \<and>
              active_agent_count st' = sat_sub (active_agent_count st) 1
          | _ \<Rightarrow> live_count st' = live_count st \<and>
              active_agent_count st' = active_agent_count st)"
proof (cases call)
  case (RegisterAgent pubkey signature at caps meta lbl)
  then show ?thesis
    using ok fin by (auto simp: register_agent_ok_iff live_count_def entry_sum_upd_new live_def)
next
  case (UpdateProfile d caps meta lbl)
  then show ?thesis
    using ok fin by (auto simp: update_profile_ok_iff live_count_def entry_sum_upd_same)
next
  case (SetAgentStatus d new)
  then obtain p where "agent_profiles st d = Some p" "status p \<noteq> Revoked"
    "agent_profiles st' = (agent_profiles st)(d \<mapsto> p\<lparr>status := new\<rparr>)"
    "active_agent_count st' =
       (if new = Revoked then sat_sub (active_agent_count st) 1 else active_agent_count st)"
    using ok by (auto simp: set_agent_status_ok_iff)
  then show ?thesis
    using SetAgentStatus entry_sum_upd [OF fin, of live d "p\<lparr>status := new\<rparr>"]
    by (cases new) (simp_all add: live_count_def live_def)
next
  case (GiveStar g r)
  then show ?thesis
    using ok fin by (auto simp: give_star_ok_iff live_count_def entry_sum_upd_same)
next
  case (RemoveStar g r)
  then show ?thesis
    using ok fin by (auto simp: remove_star_ok_iff live_count_def entry_sum_upd_same)
next
  case (DeregisterAgent d)
  then obtain p where "agent_profiles st d = Some p" "status p \<noteq> Revoked"
    "agent_profiles st' = (agent_profiles st)(d := None)"
    "active_agent_count st' = sat_sub (active_agent_count st) 1"
    using ok by (auto simp: deregister_agent_ok_iff)
  then show ?thesis
    using DeregisterAgent entry_sum_delete [OF fin, of live d]
    by (simp add: live_count_def live_def)
qed

end
