(* ===== verification/Escrow.thy ===== *)
theory Escrow
  imports Frame
begin

text \<open>
  \<^verbatim>\<open>pallets/pallet-escrow/src/lib.rs\<close>: funds held against an \<^verbatim>\<open>EscrowId\<close>. The pallet has no
  dispatchables; \<open>lock\<close>, \<open>release\<close> and \<open>refund\<close> are called by trusted runtime code. An operation
  works on the pallet's storage and the host (block number, ledger, event log).
\<close>

section \<open>Types and storage\<close>

type_synonym escrow_id = h256

datatype escrow_status = Locked | Released | Refunded

record escrow_record =
  payer :: account_id
  payee :: account_id
  amount :: balance
  escrow_status :: escrow_status
  locked_at :: block_number

datatype escrow_event =
    FundsLocked escrow_id account_id account_id balance
  | FundsReleased escrow_id account_id account_id balance
  | FundsRefunded escrow_id account_id balance

datatype escrow_error =
    EscrowAlreadyExists | EscrowNotFound | EscrowNotLocked | InsufficientBalanceForEscrow

record escrow_storage =
  escrows :: "escrow_id \<rightharpoonup> escrow_record"

text \<open>
  \<^verbatim>\<open>Config\<close>: the currency and the conversion of the pallet's events into the runtime's.
\<close>

record ('c, 'e) escrow_config =
  esc_currency :: "'c currency"
  esc_event :: "escrow_event \<Rightarrow> 'e"

type_synonym ('c, 'e) escrow_state = "escrow_storage \<times> ('c, 'e) host"

type_synonym ('c, 'e) escrow_result = "escrow_error dispatch_error + ('c, 'e) escrow_state"

section \<open>Operations\<close>

definition lock ::
  "('c, 'e) escrow_config \<Rightarrow> escrow_id \<Rightarrow> account_id \<Rightarrow> account_id \<Rightarrow> balance
     \<Rightarrow> ('c, 'e) escrow_state \<Rightarrow> ('c, 'e) escrow_result" where
  "lock cfg eid pyr pye amt s = (case s of (st, h) \<Rightarrow>
     ensure (escrows st eid = None) (Module EscrowAlreadyExists) (
     try_then (map_err (\<lambda>_. Module InsufficientBalanceForEscrow)
       (reserve (esc_currency cfg) pyr amt (ledger h))) (\<lambda>c.
     let current_block = block_number h;
         st' = st\<lparr>escrows := (escrows st)(eid \<mapsto>
                  \<lparr>payer = pyr, payee = pye, amount = amt, escrow_status = Locked,
                   locked_at = current_block\<rparr>)\<rparr>;
         h' = deposit_event (esc_event cfg (FundsLocked eid pyr pye amt)) (h\<lparr>ledger := c\<rparr>)
     in Inr (st', h'))))"

definition release ::
  "('c, 'e) escrow_config \<Rightarrow> escrow_id \<Rightarrow> ('c, 'e) escrow_state \<Rightarrow> ('c, 'e) escrow_result" where
  "release cfg eid s = (case s of (st, h) \<Rightarrow>
     try_then (ok_or (escrows st eid) (Module EscrowNotFound)) (\<lambda>rec.
     ensure (escrow_status rec = Locked) (Module EscrowNotLocked) (
     try_then (map_err Foreign
       (repatriate_reserved (esc_currency cfg) (payer rec) (payee rec) (amount rec) (ledger h)))
       (\<lambda>(c, _).
     let st' = st\<lparr>escrows := (escrows st)(eid \<mapsto> rec\<lparr>escrow_status := Released\<rparr>)\<rparr>;
         h' = deposit_event (esc_event cfg (FundsReleased eid (payer rec) (payee rec) (amount rec)))
                (h\<lparr>ledger := c\<rparr>)
     in Inr (st', h')))))"

definition refund ::
  "('c, 'e) escrow_config \<Rightarrow> escrow_id \<Rightarrow> ('c, 'e) escrow_state \<Rightarrow> ('c, 'e) escrow_result" where
  "refund cfg eid s = (case s of (st, h) \<Rightarrow>
     try_then (ok_or (escrows st eid) (Module EscrowNotFound)) (\<lambda>rec.
     ensure (escrow_status rec = Locked) (Module EscrowNotLocked) (
     let (c, _) = unreserve (esc_currency cfg) (payer rec) (amount rec) (ledger h);
         st' = st\<lparr>escrows := (escrows st)(eid \<mapsto> rec\<lparr>escrow_status := Refunded\<rparr>)\<rparr>;
         h' = deposit_event (esc_event cfg (FundsRefunded eid (payer rec) (amount rec)))
                (h\<lparr>ledger := c\<rparr>)
     in Inr (st', h'))))"

section \<open>What a successful operation did\<close>

lemma lock_ok_iff:
  "lock cfg eid pyr pye amt (st, h) = Inr (st', h') \<longleftrightarrow>
     escrows st eid = None \<and>
     (\<exists>c. reserve (esc_currency cfg) pyr amt (ledger h) = Inr c \<and>
       st' = st\<lparr>escrows := (escrows st)(eid \<mapsto>
                  \<lparr>payer = pyr, payee = pye, amount = amt, escrow_status = Locked,
                   locked_at = block_number h\<rparr>)\<rparr> \<and>
       h' = deposit_event (esc_event cfg (FundsLocked eid pyr pye amt)) (h\<lparr>ledger := c\<rparr>))"
  by (auto simp: lock_def Let_def res_simps)

lemma release_ok_iff:
  "release cfg eid (st, h) = Inr (st', h') \<longleftrightarrow>
     (\<exists>rec c rest. escrows st eid = Some rec \<and> escrow_status rec = Locked \<and>
       repatriate_reserved (esc_currency cfg) (payer rec) (payee rec) (amount rec) (ledger h)
         = Inr (c, rest) \<and>
       st' = st\<lparr>escrows := (escrows st)(eid \<mapsto> rec\<lparr>escrow_status := Released\<rparr>)\<rparr> \<and>
       h' = deposit_event (esc_event cfg (FundsReleased eid (payer rec) (payee rec) (amount rec)))
              (h\<lparr>ledger := c\<rparr>))"
  by (auto simp: release_def Let_def res_simps split: prod.splits)

lemma refund_ok_iff:
  "refund cfg eid (st, h) = Inr (st', h') \<longleftrightarrow>
     (\<exists>rec c rest. escrows st eid = Some rec \<and> escrow_status rec = Locked \<and>
       unreserve (esc_currency cfg) (payer rec) (amount rec) (ledger h) = (c, rest) \<and>
       st' = st\<lparr>escrows := (escrows st)(eid \<mapsto> rec\<lparr>escrow_status := Refunded\<rparr>)\<rparr> \<and>
       h' = deposit_event (esc_event cfg (FundsRefunded eid (payer rec) (amount rec)))
              (h\<lparr>ledger := c\<rparr>))"
  by (auto simp: refund_def Let_def res_simps case_prod_beta prod_eq_iff)

lemmas escrow_ok_iffs = lock_ok_iff release_ok_iff refund_ok_iff

section \<open>Obligations and backing\<close>

text \<open>
  What the ledger owes on behalf of \<open>who\<close>: the amounts of the locked escrows \<open>who\<close> pays for.
\<close>

definition locked_value :: "account_id \<Rightarrow> escrow_record \<Rightarrow> nat" where
  "locked_value who rec =
     (if escrow_status rec = Locked \<and> payer rec = who then unat (amount rec) else 0)"

definition locked_total :: "escrow_storage \<Rightarrow> account_id \<Rightarrow> nat" where
  "locked_total st who = entry_sum (locked_value who) (escrows st)"

lemma locked_total_lock:
  assumes "lock cfg eid pyr pye amt (st, h) = Inr (st', h')" "finite (dom (escrows st))"
  shows "locked_total st' who = locked_total st who + (if who = pyr then unat amt else 0)"
  using assms by (auto simp: lock_ok_iff locked_total_def entry_sum_upd_new locked_value_def)

lemma locked_total_settle:
  assumes "escrows st eid = Some rec" "escrow_status rec = Locked" "x \<noteq> Locked"
    "finite (dom (escrows st))"
  shows "locked_total (st\<lparr>escrows := (escrows st)(eid \<mapsto> rec\<lparr>escrow_status := x\<rparr>)\<rparr>) who
           + (if who = payer rec then unat (amount rec) else 0) = locked_total st who"
  using assms entry_sum_upd [of "escrows st" "locked_value who" eid "rec\<lparr>escrow_status := x\<rparr>"]
  by (auto simp: locked_total_def locked_value_def)

lemma locked_total_ge:
  assumes "escrows st eid = Some rec" "escrow_status rec = Locked" "finite (dom (escrows st))"
  shows "unat (amount rec) \<le> locked_total st (payer rec)"
  using entry_sum_ge [of "escrows st" eid rec "locked_value (payer rec)"] assms
  by (simp add: locked_total_def locked_value_def)

end
