(* ===== verification/Host_Io.thy ===== *)
theory Host_Io
  imports Frame "HOL-Library.Sublist"
begin

text \<open>
  The machine the off-chain clients run on. An operation that talks to the outside takes a world
  and returns a result together with the world it leaves: unlike a dispatchable, whose effects are
  undone when it fails, a client that returns early leaves behind what it already did.

  The operating system is a record: files, directories and permissions, a counter of the requests
  made so far, and two oracles that answer the \<open>k\<close>-th request, one for I/O faults and one for
  random bytes. Every statement about the clients holds for all oracles.
\<close>

named_theorems io_simps "inversion of sequences of effects"

section \<open>Sequences of effects\<close>

type_synonym ('w, 'e, 'a) io = "'w \<Rightarrow> ('e + 'a) \<times> 'w"

text \<open>\<open>Panic\<close> is a Rust panic (\<^verbatim>\<open>expect\<close>, \<^verbatim>\<open>unwrap\<close>, a slice index); \<open>Err e\<close> an error value.\<close>

datatype 'e fault = Err 'e | Panic

text \<open>An error of an inner call becomes an error of the outer one; a panic stays a panic.\<close>

fun lift_fault :: "('e \<Rightarrow> 'f) \<Rightarrow> 'e fault \<Rightarrow> 'f fault" where
  "lift_fault g (Err e) = Err (g e)"
| "lift_fault g Panic = Panic"

definition io_return :: "'a \<Rightarrow> ('w, 'e, 'a) io" where
  "io_return x w = (Inr x, w)"

definition io_raise :: "'e \<Rightarrow> ('w, 'e, 'a) io" where
  "io_raise e w = (Inl e, w)"

definition io_lift :: "'e + 'a \<Rightarrow> ('w, 'e, 'a) io" where
  "io_lift r w = (r, w)"

definition io_then :: "('w, 'e, 'a) io \<Rightarrow> ('a \<Rightarrow> ('w, 'e, 'b) io) \<Rightarrow> ('w, 'e, 'b) io" where
  "io_then m f w = (case m w of (Inl e, w') \<Rightarrow> (Inl e, w') | (Inr x, w') \<Rightarrow> f x w')"

definition io_ensure :: "bool \<Rightarrow> 'e \<Rightarrow> ('w, 'e, 'a) io \<Rightarrow> ('w, 'e, 'a) io" where
  "io_ensure b e m = (if b then m else io_raise e)"

definition io_map_err :: "('e \<Rightarrow> 'f) \<Rightarrow> ('w, 'e, 'a) io \<Rightarrow> ('w, 'f, 'a) io" where
  "io_map_err g m w = (case m w of (r, w') \<Rightarrow> (map_err g r, w'))"

lemma io_basic_simps [simp]:
  "io_return x w = (Inr x, w)" "io_raise e w = (Inl e, w)" "io_lift r w = (r, w)"
  "io_ensure True e m = m" "io_ensure False e m w = (Inl e, w)"
  by (simp_all add: io_return_def io_raise_def io_lift_def io_ensure_def)

lemma io_then_eval:
  "m w = (Inr x, w') \<Longrightarrow> io_then m f w = f x w'"
  "m w = (Inl e, w') \<Longrightarrow> io_then m f w = (Inl e, w')"
  by (simp_all add: io_then_def)

lemma io_map_err_eval:
  "m w = (r, w') \<Longrightarrow> io_map_err g m w = (map_err g r, w')"
  by (simp add: io_map_err_def)

lemma io_then_lift: "io_then (io_lift (Inr x)) f = f x"
  by (intro ext) (simp add: io_then_def)

lemma io_then_Inr [io_simps]:
  "io_then m f w = (Inr r, w') \<longleftrightarrow> (\<exists>x w1. m w = (Inr x, w1) \<and> f x w1 = (Inr r, w'))"
  by (auto simp: io_then_def split: prod.splits sum.splits)

lemma io_ensure_Inr [io_simps]:
  "io_ensure b e m w = (Inr r, w') \<longleftrightarrow> b \<and> m w = (Inr r, w')"
  by (simp add: io_ensure_def)

lemma io_map_err_Inr [io_simps]: "io_map_err g m w = (Inr r, w') \<longleftrightarrow> m w = (Inr r, w')"
  by (auto simp: io_map_err_def map_err_Inr split: prod.splits)

lemma io_then_return_snd: "snd (io_then m (\<lambda>x. io_return (f x)) w) = snd (m w)"
  by (auto simp: io_then_def split: prod.splits sum.splits)

text \<open>
  The final world of a sequence, whatever its result: each step changes the world and the rest
  runs only after success. \<open>io_keeps P m\<close> says that \<open>m\<close> keeps a relation between the worlds
  before and after on all paths, errors included.
\<close>

definition io_keeps :: "('w \<Rightarrow> 'w \<Rightarrow> bool) \<Rightarrow> ('w, 'e, 'a) io \<Rightarrow> bool" where
  "io_keeps P m \<longleftrightarrow> (\<forall>w. P w (snd (m w)))"

lemma io_keeps_basic:
  "reflp P \<Longrightarrow> io_keeps P (io_return x)" "reflp P \<Longrightarrow> io_keeps P (io_raise e)"
  "reflp P \<Longrightarrow> io_keeps P (io_lift r)"
  by (simp_all add: io_keeps_def reflpD)

lemma io_keeps_then:
  assumes "transp P" "io_keeps P m" "\<And>x. io_keeps P (f x)"
  shows "io_keeps P (io_then m f)"
  unfolding io_keeps_def
proof
  fix w
  obtain r w1 where m: "m w = (r, w1)" by fastforce
  then have "P w w1" using assms(2) unfolding io_keeps_def by (metis snd_conv)
  show "P w (snd (io_then m f w))"
  proof (cases r)
    case (Inl e)
    then show ?thesis using m \<open>P w w1\<close> by (simp add: io_then_def)
  next
    case (Inr x)
    then have "P w1 (snd (f x w1))" using assms(3) unfolding io_keeps_def by blast
    with \<open>P w w1\<close> Inr m show ?thesis using transpD [OF assms(1)] by (simp add: io_then_def)
  qed
qed

lemma io_then_keeps:
  assumes "reflp P" "\<And>x. io_keeps P (f x)"
  shows "P (snd (m w)) (snd (io_then m f w))"
proof -
  obtain r w1 where m: "m w = (r, w1)" by fastforce
  then show ?thesis
    using reflpD [OF assms(1)] assms(2) by (cases r) (simp_all add: io_then_def io_keeps_def)
qed

lemma io_keeps_ensure: "reflp P \<Longrightarrow> io_keeps P m \<Longrightarrow> io_keeps P (io_ensure b e m)"
  by (simp add: io_ensure_def io_keeps_basic)

lemma io_keeps_case_prod:
  "(\<And>a b. io_keeps P (f a b)) \<Longrightarrow> io_keeps P (case x of (a, b) \<Rightarrow> f a b)"
  by (cases x) simp

lemma io_keeps_if: "io_keeps P m \<Longrightarrow> io_keeps P m' \<Longrightarrow> io_keeps P (if b then m else m')"
  by simp

lemma io_keeps_map_err: "io_keeps P m \<Longrightarrow> io_keeps P (io_map_err g m)"
  by (simp add: io_keeps_def io_map_err_def case_prod_beta)

lemma io_map_err_snd [simp]: "snd (io_map_err g m w) = snd (m w)"
  by (simp add: io_map_err_def case_prod_beta)

section \<open>Decimal numerals\<close>

text \<open>\<^verbatim>\<open>format!("{i}")\<close> of an unsigned integer, and that it loses nothing.\<close>

definition digit_char :: "nat \<Rightarrow> char" where
  "digit_char d = char_of (48 + d)"

fun show_nat :: "nat \<Rightarrow> string" where
  "show_nat n = (if n < 10 then [digit_char n] else show_nat (n div 10) @ [digit_char (n mod 10)])"

declare show_nat.simps [simp del]

definition read_nat :: "string \<Rightarrow> nat" where
  "read_nat s = foldl (\<lambda>acc c. acc * 10 + (of_char c - 48)) 0 s"

lemma digit_char_value: "d < 10 \<Longrightarrow> of_char (digit_char d) - 48 = (d :: nat)"
  by (simp add: digit_char_def)

lemma read_show_nat: "read_nat (show_nat n) = n"
proof (induction n rule: show_nat.induct)
  case (1 n)
  show ?case
  proof (cases "n < 10")
    case True
    then show ?thesis by (subst show_nat.simps) (simp add: read_nat_def digit_char_value)
  next
    case False
    with 1 have "read_nat (show_nat (n div 10)) = n div 10" by simp
    then show ?thesis using False
      by (subst show_nat.simps) (simp add: read_nat_def digit_char_value)
  qed
qed

lemma show_nat_inject [simp]: "show_nat m = show_nat n \<longleftrightarrow> m = n"
  by (metis read_show_nat)

lemma show_nat_digits: "c \<in> set (show_nat n) \<Longrightarrow> \<exists>d < 10. c = digit_char d"
proof (induction n rule: show_nat.induct)
  case (1 n)
  then show ?case
    by (subst (asm) (2) show_nat.simps) (auto split: if_splits intro: exI [of _ "n mod 10"])
qed

section \<open>Paths\<close>

text \<open>
  A path is its list of components, the root directory being the component \<^verbatim>\<open>/\<close>. Joining splits
  the right-hand side at its separators, drops empty and \<^verbatim>\<open>.\<close> components, and starts over when it
  is absolute.
\<close>

type_synonym path = "string list"

fun split_on :: "'a \<Rightarrow> 'a list \<Rightarrow> 'a list list" where
  "split_on d [] = [[]]"
| "split_on d (x # xs) =
     (if x = d then [] # split_on d xs
      else case split_on d xs of [] \<Rightarrow> [[x]] | y # ys \<Rightarrow> (x # y) # ys)"

definition path_of :: "string \<Rightarrow> path" where
  "path_of s = (if take 1 s = ''/'' then [''/''] else [])
     @ filter (\<lambda>c. c \<noteq> [] \<and> c \<noteq> ''.'') (split_on (CHR ''/'') s)"

definition path_join :: "path \<Rightarrow> string \<Rightarrow> path" where
  "path_join base s = (if take 1 s = ''/'' then path_of s else base @ path_of s)"

lemma split_on_absent: "d \<notin> set xs \<Longrightarrow> split_on d xs = [xs]"
  by (induction xs) auto

lemma split_on_append: "d \<notin> set xs \<Longrightarrow> split_on d (xs @ d # ys) = xs # split_on d ys"
  by (induction xs) auto

lemma path_join_component:
  assumes "CHR ''/'' \<notin> set s" "s \<noteq> []" "s \<noteq> ''.''"
  shows "path_join base s = base @ [s]"
proof -
  have "take 1 s \<noteq> ''/''" using assms(1,2) by (cases s) auto
  then show ?thesis using assms by (simp add: path_join_def path_of_def split_on_absent)
qed

section \<open>The hex crate\<close>

text \<open>
  \<^verbatim>\<open>hex::encode\<close> and \<^verbatim>\<open>hex::decode\<close>. Documented: two lower-case hexadecimal digits per byte, and
  decoding what was encoded gives the bytes back.
\<close>

record hex_crate =
  hex_encode :: "bytes \<Rightarrow> string"
  hex_decode :: "string \<Rightarrow> bytes option"

definition hex_laws :: "hex_crate \<Rightarrow> bool" where
  "hex_laws hx \<longleftrightarrow> (\<forall>b. hex_decode hx (hex_encode hx b) = Some b \<and>
     length (hex_encode hx b) = 2 * length b \<and>
     set (hex_encode hx b) \<subseteq> set ''0123456789abcdef'')"

lemma hex_encode_inject: "hex_laws hx \<Longrightarrow> hex_encode hx a = hex_encode hx b \<longleftrightarrow> a = b"
  unfolding hex_laws_def by (metis option.inject)

lemma path_join_hex:
  assumes "hex_laws hx" "b \<noteq> []"
  shows "path_join base (hex_encode hx b) = base @ [hex_encode hx b]"
proof (rule path_join_component)
  have sub: "set (hex_encode hx b) \<subseteq> set ''0123456789abcdef''" and
    len: "length (hex_encode hx b) = 2 * length b"
    using assms(1) by (auto simp: hex_laws_def)
  show "CHR ''/'' \<notin> set (hex_encode hx b)" using sub by auto
  show "hex_encode hx b \<noteq> []" using len assms(2) by auto
  show "hex_encode hx b \<noteq> ''.''" using len by (auto dest: arg_cong [where f = length])
qed

section \<open>The operating system\<close>

datatype io_error = IoError

record os =
  os_files :: "(path \<times> bytes) list"
  os_dirs :: "path list"
  os_modes :: "path \<Rightarrow> nat option"
  os_clock :: nat
  os_fault :: "nat \<Rightarrow> nat option"
  os_random :: "nat \<Rightarrow> (nat \<Rightarrow> u8) option"

abbreviation file_at :: "os \<Rightarrow> path \<Rightarrow> bytes option" where
  "file_at s p \<equiv> map_of (os_files s) p"

text \<open>
  Each request consults the oracle once: \<open>os_fault s (os_clock s) = Some n\<close> means that it fails,
  and that a failing write has already replaced the file by the first \<open>n\<close> bytes.
\<close>

definition tick :: "os \<Rightarrow> os" where
  "tick s = s\<lparr>os_clock := Suc (os_clock s)\<rparr>"

abbreviation faulty :: "os \<Rightarrow> bool" where
  "faulty s \<equiv> os_fault s (os_clock s) \<noteq> None"

definition store_file :: "path \<Rightarrow> bytes \<Rightarrow> os \<Rightarrow> os" where
  "store_file p data s = s\<lparr>os_files := (p, data) # filter (\<lambda>(q, _). q \<noteq> p) (os_files s)\<rparr>"

definition create_dir_all :: "path \<Rightarrow> (os, io_error, unit) io" where
  "create_dir_all p s =
     (if faulty s \<or> (\<exists>q \<in> set (prefixes p). file_at s q \<noteq> None) then (Inl IoError, tick s)
      else (Inr (), tick s\<lparr>os_dirs := prefixes p @ os_dirs s\<rparr>))"

definition write_file :: "path \<Rightarrow> bytes \<Rightarrow> (os, io_error, unit) io" where
  "write_file p data s =
     (if p \<in> set (os_dirs s) \<or> butlast p \<notin> set (os_dirs s) then (Inl IoError, tick s)
      else case os_fault s (os_clock s) of
        Some n \<Rightarrow> (Inl IoError, tick (store_file p (take n data) s))
      | None \<Rightarrow> (Inr (), tick (store_file p data s)))"

definition read_file :: "path \<Rightarrow> (os, io_error, bytes) io" where
  "read_file p s =
     (if faulty s then (Inl IoError, tick s) else (ok_or (file_at s p) IoError, tick s))"

text \<open>\<^verbatim>\<open>Path::exists\<close> answers \<^verbatim>\<open>false\<close> when the lookup itself fails.\<close>

definition path_exists :: "path \<Rightarrow> (os, 'e, bool) io" where
  "path_exists p s = (Inr (\<not> faulty s \<and> (file_at s p \<noteq> None \<or> p \<in> set (os_dirs s))), tick s)"

definition set_permissions :: "path \<Rightarrow> nat \<Rightarrow> (os, io_error, unit) io" where
  "set_permissions p mode s =
     (if faulty s \<or> (file_at s p = None \<and> p \<notin> set (os_dirs s)) then (Inl IoError, tick s)
      else (Inr (), tick s\<lparr>os_modes := (os_modes s)(p := Some mode)\<rparr>))"

text \<open>
  \<^verbatim>\<open>rename\<close> of a directory: the target must be absent or an empty directory, its parent must exist,
  and it must not lie inside the source.
\<close>

definition relocate :: "path \<Rightarrow> path \<Rightarrow> path \<Rightarrow> path" where
  "relocate frm to p = (if prefix frm p then to @ drop (length frm) p else p)"

definition rename_dir :: "path \<Rightarrow> path \<Rightarrow> (os, io_error, unit) io" where
  "rename_dir frm to s =
     (if faulty s \<or> frm \<notin> set (os_dirs s) then (Inl IoError, tick s)
      else if frm = to then (Inr (), tick s)
      else if prefix frm to \<or> butlast to \<notin> set (os_dirs s) \<or>
              (\<exists>e \<in> set (os_files s). prefix to (fst e)) \<or>
              (\<exists>p \<in> set (os_dirs s). strict_prefix to p)
           then (Inl IoError, tick s)
      else (Inr (), tick s\<lparr>os_files := map (\<lambda>(p, data). (relocate frm to p, data)) (os_files s),
                           os_dirs := map (relocate frm to) (os_dirs s),
                           os_modes := (\<lambda>p. if prefix to p
                              then os_modes s (frm @ drop (length to) p)
                              else if prefix frm p then None else os_modes s p)\<rparr>))"

text \<open>\<^verbatim>\<open>getrandom::fill\<close> on a buffer of \<open>n\<close> bytes.\<close>

definition fill_random :: "nat \<Rightarrow> (os, io_error, bytes) io" where
  "fill_random n s = (case os_random s (os_clock s) of
       None \<Rightarrow> (Inl IoError, tick s)
     | Some f \<Rightarrow> (Inr (map f [0..<n]), tick s))"

lemma tick_simps [simp]:
  "os_files (tick s) = os_files s" "os_dirs (tick s) = os_dirs s" "os_modes (tick s) = os_modes s"
  "os_fault (tick s) = os_fault s" "os_random (tick s) = os_random s"
  "os_clock (tick s) = Suc (os_clock s)"
  by (simp_all add: tick_def)

lemma map_of_filter_key: "map_of (filter (\<lambda>(q, _). q \<noteq> p) xs) q = (if q = p then None else map_of xs q)"
  by (induction xs) auto

lemma store_file_simps [simp]:
  "file_at (store_file p data s) q = (if q = p then Some data else file_at s q)"
  "os_dirs (store_file p data s) = os_dirs s" "os_modes (store_file p data s) = os_modes s"
  "os_fault (store_file p data s) = os_fault s" "os_random (store_file p data s) = os_random s"
  "os_clock (store_file p data s) = os_clock s"
  by (simp_all add: store_file_def map_of_filter_key)

lemma relocate_eq_iff:
  assumes "\<not> prefix to p"
  shows "relocate frm to p = q \<longleftrightarrow>
    (if prefix to q then p = frm @ drop (length to) q else \<not> prefix frm p \<and> p = q)"
proof (cases "prefix frm p")
  case True
  then obtain zs where "p = frm @ zs" by (auto simp: prefix_def)
  then show ?thesis using assms by (auto simp: relocate_def prefix_def)
next
  case False
  then show ?thesis using assms by (auto simp: relocate_def)
qed

lemma map_of_relocate:
  assumes "\<forall>e \<in> set fs. \<not> prefix to (fst e)"
  shows "map_of (map (\<lambda>(p, data). (relocate frm to p, data)) fs) q =
    (if prefix to q then map_of fs (frm @ drop (length to) q)
     else if prefix frm q then None else map_of fs q)"
  using assms
proof (induction fs)
  case (Cons e fs)
  obtain p data where e: "e = (p, data)" by fastforce
  then have key: "(q = relocate frm to p) =
    (if prefix to q then p = frm @ drop (length to) q else \<not> prefix frm p \<and> p = q)"
    using Cons.prems relocate_eq_iff [of to p frm q] by auto
  have IH: "map_of (map (\<lambda>(p, data). (relocate frm to p, data)) fs) q =
    (if prefix to q then map_of fs (frm @ drop (length to) q)
     else if prefix frm q then None else map_of fs q)"
    using Cons by simp
  show ?case
    by (cases "prefix to q"; cases "q = relocate frm to p")
      (use e key IH in \<open>auto simp del: drop_append\<close>)
qed simp

lemma rename_dir_files:
  assumes "rename_dir frm to s = (Inr (), s')" "frm \<noteq> to"
  shows "file_at s' q = (if prefix to q then file_at s (frm @ drop (length to) q)
    else if prefix frm q then None else file_at s q)"
  using assms map_of_relocate [of "os_files s" to frm q]
  by (auto simp: rename_dir_def split: if_splits)

lemma rename_dir_error: "rename_dir frm to s = (Inl e, s') \<Longrightarrow> s' = tick s"
  by (auto simp: rename_dir_def split: if_splits)

text \<open>No request changes what the oracles will answer.\<close>

definition same_oracles :: "os \<Rightarrow> os \<Rightarrow> bool" where
  "same_oracles s s' \<longleftrightarrow> os_fault s' = os_fault s \<and> os_random s' = os_random s"

lemma same_oracles_rel: "reflp same_oracles" "transp same_oracles"
  by (auto simp: same_oracles_def intro!: reflpI transpI)

lemma os_keeps_oracles:
  "io_keeps same_oracles (create_dir_all p)" "io_keeps same_oracles (write_file p data)"
  "io_keeps same_oracles (read_file p)" "io_keeps same_oracles (path_exists p)"
  "io_keeps same_oracles (set_permissions p mode)" "io_keeps same_oracles (rename_dir p q)"
  "io_keeps same_oracles (fill_random n)"
  by (auto simp: io_keeps_def same_oracles_def create_dir_all_def write_file_def read_file_def
      path_exists_def set_permissions_def rename_dir_def fill_random_def split: option.splits)

text \<open>A machine on which no request fails.\<close>

definition healthy :: "os \<Rightarrow> bool" where
  "healthy s \<longleftrightarrow> os_fault s = (\<lambda>_. None) \<and> (\<forall>k. os_random s k \<noteq> None)"

lemma healthy_tick [simp]: "healthy (tick s) = healthy s"
  by (simp add: healthy_def)

lemma healthy_faulty: "healthy s \<Longrightarrow> \<not> faulty s"
  by (simp add: healthy_def)

lemma healthy_keeps: "io_keeps same_oracles m \<Longrightarrow> healthy w \<Longrightarrow> healthy (snd (m w))"
  by (simp add: io_keeps_def same_oracles_def healthy_def)

end
