(* ===== verification/Merkle.thy ===== *)
theory Merkle
  imports Host_Io
begin

text \<open>
  The Merkle layer. \<^verbatim>\<open>Blake2bHasher\<close> exists twice in the repository, in
  \<^verbatim>\<open>pallets/pallet-vector-db/src/lib.rs\<close> and in \<^verbatim>\<open>offchain-vector-db/src/merkle.rs\<close>; both
  implement the \<^verbatim>\<open>rs_merkle::Hasher\<close> interface. The tree and the proofs are \<^verbatim>\<open>rs_merkle\<close>'s own: a
  record of functions over the hasher, an opaque tree \<open>'t\<close>, and \<open>rs_merkle_complete\<close>, its
  documented round trip.
\<close>

section \<open>The hasher interface\<close>

record merkle_hasher =
  hash_leaf :: "bytes \<Rightarrow> h256"
  concat_and_hash :: "h256 \<Rightarrow> h256 option \<Rightarrow> h256"

text \<open>On-chain: \<^verbatim>\<open>sp_io::hashing::blake2_256\<close> of the 64-byte buffer \<^verbatim>\<open>left || right\<close>.\<close>

definition copy_into :: "nat \<Rightarrow> bytes \<Rightarrow> bytes \<Rightarrow> bytes" where
  "copy_into at src buf = take at buf @ src @ drop (at + length src) buf"

definition onchain_hasher :: "('vk, 'sg) prims \<Rightarrow> merkle_hasher" where
  "onchain_hasher pr = \<lparr>
     hash_leaf = (\<lambda>data. blake2_256 pr data),
     concat_and_hash = (\<lambda>left right. case right of
         Some r \<Rightarrow>
           let buf = replicate 64 0;
               buf = copy_into 0 (h256_bytes left) buf;
               buf = copy_into 32 (h256_bytes r) buf
           in blake2_256 pr buf
       | None \<Rightarrow> left) \<rparr>"

text \<open>Off-chain: the client's mirror of it.\<close>

definition offchain_hasher :: "('vk, 'sg) prims \<Rightarrow> merkle_hasher" where
  "offchain_hasher pr = \<lparr>
     hash_leaf = (\<lambda>data. blake2_256 pr data),
     concat_and_hash = (\<lambda>left right. case right of
         Some r \<Rightarrow>
           let buf = replicate 64 0;
               buf = copy_into 0 (h256_bytes left) buf;
               buf = copy_into 32 (h256_bytes r) buf
           in blake2_256 pr buf
       | None \<Rightarrow> left) \<rparr>"

lemma copy_halves:
  "length xs = 32 \<Longrightarrow> length ys = 32 \<Longrightarrow>
   copy_into 32 ys (copy_into 0 xs (replicate 64 0)) = xs @ ys"
  by (simp add: copy_into_def)

text \<open>
  What a Merkle tree needs of its hasher: an odd node is promoted unchanged, and a pair is hashed
  through an injective layout of its two halves.
\<close>

locale merkle_node_hasher =
  fixes hsr :: merkle_hasher and base_hash :: "bytes \<Rightarrow> h256"
  assumes leaf_eq: "hash_leaf hsr data = base_hash data"
    and promote: "concat_and_hash hsr l None = l"
    and pair_eq: "concat_and_hash hsr l (Some r) = base_hash (h256_bytes l @ h256_bytes r)"
begin

lemma pair_binding:
  assumes "concat_and_hash hsr l (Some r) = concat_and_hash hsr l' (Some r')"
  shows "(l = l' \<and> r = r') \<or>
    (\<exists>x y. x \<noteq> y \<and> length x = 64 \<and> length y = 64 \<and> base_hash x = base_hash y)"
proof (cases "h256_bytes l @ h256_bytes r = h256_bytes l' @ h256_bytes r'")
  case True
  then show ?thesis by (simp add: h256_bytes_append_inject)
next
  case False
  moreover have "base_hash (h256_bytes l @ h256_bytes r) = base_hash (h256_bytes l' @ h256_bytes r')"
    using assms by (simp add: pair_eq)
  ultimately show ?thesis
    by (intro disjI2 exI conjI) (assumption | simp)+
qed

end

interpretation onchain: merkle_node_hasher "onchain_hasher pr" "blake2_256 pr" for pr
  by unfold_locales (simp_all add: onchain_hasher_def copy_halves)

interpretation offchain: merkle_node_hasher "offchain_hasher pr" "blake2_256 pr" for pr
  by unfold_locales (simp_all add: offchain_hasher_def copy_halves)

section \<open>The rs_merkle crate\<close>

text \<open>
  \<^verbatim>\<open>MerkleTree::from_leaves\<close>, \<^verbatim>\<open>root\<close>, \<^verbatim>\<open>proof(&[..]).proof_hashes()\<close> and
  \<^verbatim>\<open>MerkleProof::new(hashes).verify(root, indices, leaves, total)\<close>, for a given hasher. Indices
  and counts are the values of the \<^verbatim>\<open>usize\<close> arguments.
\<close>

record 't rs_merkle =
  from_leaves :: "merkle_hasher \<Rightarrow> h256 list \<Rightarrow> 't"
  tree_root :: "'t \<Rightarrow> h256 option"
  proof_hashes :: "'t \<Rightarrow> nat list \<Rightarrow> h256 list"
  proof_verify :: "merkle_hasher \<Rightarrow> h256 list \<Rightarrow> h256 \<Rightarrow> nat list \<Rightarrow> h256 list \<Rightarrow> nat \<Rightarrow> bool"

text \<open>
  Documented: a tree over at least one leaf has a root, and the proof it generates for a leaf
  verifies against that root with the same hasher.
\<close>

definition rs_merkle_complete :: "'t rs_merkle \<Rightarrow> bool" where
  "rs_merkle_complete rm \<longleftrightarrow>
     (\<forall>hsr leaves. leaves \<noteq> [] \<longrightarrow>
        (\<exists>r. tree_root rm (from_leaves rm hsr leaves) = Some r \<and>
           (\<forall>i < length leaves.
              proof_verify rm hsr (proof_hashes rm (from_leaves rm hsr leaves) [i]) r [i] [leaves ! i]
                (length leaves))))"

lemma rs_merkle_completeD:
  assumes "rs_merkle_complete rm" "tree_root rm (from_leaves rm hsr leaves) = Some r"
    "i < length leaves"
  shows "proof_verify rm hsr (proof_hashes rm (from_leaves rm hsr leaves) [i]) r [i] [leaves ! i]
           (length leaves)"
proof -
  have "leaves \<noteq> []" using assms(3) by auto
  then obtain r' where "tree_root rm (from_leaves rm hsr leaves) = Some r'"
    "\<forall>i < length leaves.
       proof_verify rm hsr (proof_hashes rm (from_leaves rm hsr leaves) [i]) r' [i] [leaves ! i]
         (length leaves)"
    using assms(1) unfolding rs_merkle_complete_def by blast
  then show ?thesis using assms(2,3) by simp
qed

section \<open>Off-chain tree construction\<close>

text \<open>
  \<^verbatim>\<open>build_merkle_tree\<close> and \<^verbatim>\<open>generate_inclusion_proof\<close>. \<^verbatim>\<open>tree.root().expect(..)\<close> panics when the
  tree has no root, which is \<open>None\<close> here.
\<close>

definition build_merkle_tree ::
  "('vk, 'sg) prims \<Rightarrow> 't rs_merkle \<Rightarrow> bytes list \<Rightarrow> (h256 \<times> 't) option" where
  "build_merkle_tree pr rm chunks =
     (let leaves = map (hash_leaf (offchain_hasher pr)) chunks;
          tree = from_leaves rm (offchain_hasher pr) leaves
      in case tree_root rm tree of None \<Rightarrow> None | Some root \<Rightarrow> Some (root, tree))"

definition generate_inclusion_proof :: "'t rs_merkle \<Rightarrow> 't \<Rightarrow> nat \<Rightarrow> h256 list" where
  "generate_inclusion_proof rm tree leaf_index = proof_hashes rm tree [leaf_index]"

text \<open>
  \<^verbatim>\<open>slice_file_into_chunks\<close>. \<open>reads k\<close> is the operating system's answer to the \<open>k\<close>-th read: an I/O
  error (\<open>None\<close>), or a wish for how many bytes to return. \<^verbatim>\<open>Read::read\<close> returns between one byte
  and what fits both the buffer and the rest of the file, and 0 when the buffer or the rest is
  empty. A file that cannot be opened is \<open>None\<close>.
\<close>

definition read_count :: "nat \<Rightarrow> nat \<Rightarrow> bytes \<Rightarrow> nat" where
  "read_count wish buffer_len input = min (max 1 wish) (min buffer_len (length input))"

function read_loop :: "(nat \<Rightarrow> nat option) \<Rightarrow> nat \<Rightarrow> nat \<Rightarrow> bytes \<Rightarrow> bytes list \<Rightarrow> io_error + bytes list" where
  "read_loop reads chunk_size k input chunks =
     (case reads k of
        None \<Rightarrow> Inl IoError
      | Some wish \<Rightarrow>
          let bytes_read = read_count wish chunk_size input in
          if bytes_read = 0 then Inr chunks
          else read_loop reads chunk_size (Suc k) (drop bytes_read input)
                 (chunks @ [take bytes_read input]))"
  by pat_completeness auto
termination
  by (relation "measure (\<lambda>(reads, n, k, input, chunks). length input)") (auto simp: read_count_def)

declare read_loop.simps [simp del]

definition slice_file_into_chunks ::
  "(nat \<Rightarrow> nat option) \<Rightarrow> bytes option \<Rightarrow> nat \<Rightarrow> io_error + bytes list" where
  "slice_file_into_chunks reads file_contents chunk_size =
     try_then (ok_or file_contents IoError) (\<lambda>input. read_loop reads chunk_size 0 input [])"

lemma read_loop_ok:
  assumes "read_loop reads n k input chunks = Inr out"
  shows "\<exists>more. out = chunks @ more \<and> (\<forall>c \<in> set more. c \<noteq> [] \<and> length c \<le> n) \<and>
           (if n = 0 then more = [] else concat more = input)"
  using assms
proof (induction reads n k input chunks rule: read_loop.induct)
  case (1 reads n k input chunks)
  obtain wish where wish: "reads k = Some wish"
    using "1.prems" by (subst (asm) read_loop.simps) (auto split: option.splits)
  let ?b = "read_count wish n input"
  show ?case
  proof (cases "?b = 0")
    case True
    then have "n = 0 \<or> input = []" by (auto simp: read_count_def min_def split: if_splits)
    moreover have "out = chunks"
      using "1.prems" wish True by (subst (asm) read_loop.simps) (simp add: Let_def)
    ultimately show ?thesis by auto
  next
    case False
    then have "read_loop reads n (Suc k) (drop ?b input) (chunks @ [take ?b input]) = Inr out"
      using "1.prems" wish by (subst (asm) read_loop.simps) (simp add: Let_def)
    with "1.IH" [OF wish refl False] obtain more where
      more: "out = (chunks @ [take ?b input]) @ more" "\<forall>c \<in> set more. c \<noteq> [] \<and> length c \<le> n"
        "if n = 0 then more = [] else concat more = drop ?b input"
      by blast
    have "take ?b input \<noteq> []" "length (take ?b input) \<le> n" "n \<noteq> 0"
      using False by (auto simp: read_count_def)
    with more show ?thesis
      by (intro exI [of _ "take ?b input # more"]) auto
  qed
qed

lemma read_loop_total:
  assumes "\<And>i. reads i \<noteq> None"
  shows "\<exists>out. read_loop reads n k input chunks = Inr out"
  using assms
proof (induction reads n k input chunks rule: read_loop.induct)
  case (1 reads n k input chunks)
  then show ?case
    by (subst read_loop.simps) (auto simp: Let_def split: option.splits)
qed

end
