(* ===== verification/Vector_Db.thy ===== *)
theory Vector_Db
  imports Merkle
begin

text \<open>
  \<^verbatim>\<open>pallets/pallet-vector-db/src/lib.rs\<close>: Merkle-root commitments between a provider and a
  consumer, and their disputes. The pallet reaches the rest of the runtime only through the traits
  of its \<^verbatim>\<open>Config\<close>; they are the functions of \<open>vdb_config\<close>, on an opaque state \<open>'x\<close> of everything
  outside this pallet's storage (identities, money, events, the block number).
\<close>

section \<open>Constants and types\<close>

definition MAX_VDB_METADATA_LEN :: nat where "MAX_VDB_METADATA_LEN = 256"
definition MAX_CHUNK_LEN :: nat where "MAX_CHUNK_LEN = 1024"
definition MAX_PROOF_DEPTH :: nat where "MAX_PROOF_DEPTH = 32"

type_synonym merkle_root = h256
type_synonym chunk_index = u64
type_synonym commitment_id = h256

text \<open>The runtime executes as 32-bit WebAssembly: there, \<^verbatim>\<open>as usize\<close> keeps the low 32 bits.\<close>

type_synonym usize = "32 word"

definition as_usize :: "u64 \<Rightarrow> usize" where
  "as_usize n = ucast n"

datatype commitment_status = Pending | Active | Settled | Disputed | DisputeResolved | Expired

record vector_commitment =
  vc_commitment_id :: commitment_id
  provider :: did
  consumer :: did
  merkle_root :: merkle_root
  total_chunks :: u64
  vc_metadata :: bytes
  vc_status :: commitment_status
  created_at :: block_number
  expires_at :: block_number
  acknowledged_at :: "block_number option"
  price :: balance

record stream_receipt =
  sr_commitment_id :: commitment_id
  final_stream_hash :: merkle_root
  sr_chunk_count :: u64
  submitted_at :: block_number

datatype dispute_verdict = ProviderGuilty | ClaimantUnsubstantiated

record dispute_record =
  dr_commitment_id :: commitment_id
  dr_merkle_root :: merkle_root
  received_chunk_hash :: h256
  disputed_chunk_index :: chunk_index
  raised_at :: block_number
  counter_deadline :: block_number
  verdict :: "dispute_verdict option"

datatype vdb_event =
    CommitmentRegistered commitment_id did did merkle_root u64 block_number bytes
  | CommitmentAcknowledged commitment_id block_number
  | CommitmentSettled commitment_id merkle_root u64
  | DisputeRaised commitment_id merkle_root chunk_index h256 block_number
  | DisputeCountered commitment_id dispute_verdict
  | DisputeFinalized commitment_id dispute_verdict did did
  | CommitmentExpired commitment_id

datatype vdb_error =
    CommitmentAlreadyExists | CommitmentNotFound | NotProvider | NotConsumer
  | ProviderNotEligible | ConsumerNotEligible | SelfTrade | ExpiryMustBePositive
  | ExpiryTooFar | CommitmentExpiredError | NotPending | NotActive | NotDisputed
  | AlreadyFinalized | StreamHashMismatch | InvalidMerkleProof | DisputeAlreadyRaised
  | DisputeWindowStillOpen | DisputeWindowExpired | NotYetExpired
  | TotalChunksMustBePositive | InvalidMerkleRoot | ChunkIndexOutOfBounds

record vdb_storage =
  vector_commitments :: "commitment_id \<rightharpoonup> vector_commitment"
  active_commitment_count :: u32
  stream_receipts :: "commitment_id \<rightharpoonup> stream_receipt"
  dispute_records :: "commitment_id \<rightharpoonup> dispute_record"
  dispute_window_override :: "block_number option"

definition empty_vdb :: vdb_storage where
  "empty_vdb = \<lparr>vector_commitments = Map.empty, active_commitment_count = 0,
     stream_receipts = Map.empty, dispute_records = Map.empty, dispute_window_override = None\<rparr>"

text \<open>\<^verbatim>\<open>BuildGenesisConfig::build\<close> on the empty storage.\<close>

definition genesis_build :: "block_number option \<Rightarrow> vdb_storage" where
  "genesis_build dispute_window = (case dispute_window of
       Some w \<Rightarrow> empty_vdb\<lparr>dispute_window_override := Some w\<rparr>
     | None \<Rightarrow> empty_vdb)"

section \<open>Configuration: the traits the pallet is written against\<close>

record ('x, 'm, 'vk, 'sg, 't) vdb_config =
  controller_of :: "did \<Rightarrow> 'x \<Rightarrow> account_id option"
  is_active_verified :: "did \<Rightarrow> 'x \<Rightarrow> bool"
  penalize_provider :: "did \<Rightarrow> 'x \<Rightarrow> 'x"
  penalize_false_disputer :: "did \<Rightarrow> 'x \<Rightarrow> 'x"
  escrow_lock ::
    "commitment_id \<Rightarrow> account_id \<Rightarrow> account_id \<Rightarrow> balance \<Rightarrow> 'x \<Rightarrow> 'm dispatch_error + 'x"
  escrow_release :: "commitment_id \<Rightarrow> 'x \<Rightarrow> 'm dispatch_error + 'x"
  escrow_refund :: "commitment_id \<Rightarrow> 'x \<Rightarrow> 'm dispatch_error + 'x"
  cfg_dispute_window :: block_number
  max_commitment_lifetime :: block_number
  provider_guilty_slash :: u32
  false_dispute_slash :: u32
  system_block_number :: "'x \<Rightarrow> block_number"
  vdb_deposit_event :: "vdb_event \<Rightarrow> 'x \<Rightarrow> 'x"
  vdb_err :: "vdb_error \<Rightarrow> 'm"
  vdb_prims :: "('vk, 'sg) prims"
  vdb_merkle :: "'t rs_merkle"

type_synonym ('x, 'm) vdb_result = "'m dispatch_error + (vdb_storage \<times> 'x)"

definition effective_dispute_window ::
  "('x, 'm, 'vk, 'sg, 't) vdb_config \<Rightarrow> vdb_storage \<Rightarrow> block_number" where
  "effective_dispute_window cfg st =
     (case dispute_window_override st of Some w \<Rightarrow> w | None \<Rightarrow> cfg_dispute_window cfg)"

abbreviation vdb_fail :: "('x, 'm, 'vk, 'sg, 't) vdb_config \<Rightarrow> vdb_error \<Rightarrow> 'm dispatch_error" where
  "vdb_fail cfg e \<equiv> Module (vdb_err cfg e)"

section \<open>Dispatchables\<close>

definition commitment_preimage ::
  "('vk, 'sg) prims \<Rightarrow> did \<Rightarrow> did \<Rightarrow> merkle_root \<Rightarrow> block_number \<Rightarrow> bytes" where
  "commitment_preimage pr provider_did consumer_did root current_block =
     ascii ''ArthNeura-Vector-v1'' @ h256_bytes provider_did @ h256_bytes consumer_did
       @ h256_bytes root @ encode_u32 pr current_block"

definition derive_commitment_id ::
  "('vk, 'sg) prims \<Rightarrow> did \<Rightarrow> did \<Rightarrow> merkle_root \<Rightarrow> block_number \<Rightarrow> commitment_id" where
  "derive_commitment_id pr provider_did consumer_did root current_block =
     blake2_256 pr (commitment_preimage pr provider_did consumer_did root current_block)"

definition register_commitment ::
  "('x, 'm, 'vk, 'sg, 't) vdb_config \<Rightarrow> origin \<Rightarrow> did \<Rightarrow> did \<Rightarrow> merkle_root \<Rightarrow> u64 \<Rightarrow> bytes
     \<Rightarrow> block_number \<Rightarrow> balance \<Rightarrow> vdb_storage \<times> 'x \<Rightarrow> ('x, 'm) vdb_result" where
  "register_commitment cfg orig provider_did consumer_did root chunks meta expires_in_blocks prc s =
   (case s of (st, x) \<Rightarrow>
     try_then (ensure_signed orig) (\<lambda>caller.
     ensure (provider_did \<noteq> consumer_did) (vdb_fail cfg SelfTrade) (
     ensure (chunks > 0) (vdb_fail cfg TotalChunksMustBePositive) (
     ensure (root \<noteq> 0) (vdb_fail cfg InvalidMerkleRoot) (
     try_then (ok_or (controller_of cfg provider_did x) (vdb_fail cfg ProviderNotEligible))
       (\<lambda>provider_controller.
     ensure (provider_controller = caller) (vdb_fail cfg NotProvider) (
     ensure (is_active_verified cfg provider_did x) (vdb_fail cfg ProviderNotEligible) (
     ensure (is_active_verified cfg consumer_did x) (vdb_fail cfg ConsumerNotEligible) (
     let current_block = system_block_number cfg x in
     ensure (expires_in_blocks > 0) (vdb_fail cfg ExpiryMustBePositive) (
     ensure (expires_in_blocks \<le> max_commitment_lifetime cfg) (vdb_fail cfg ExpiryTooFar) (
     let expires = sat_add current_block expires_in_blocks;
         cid = derive_commitment_id (vdb_prims cfg) provider_did consumer_did root current_block in
     ensure (vector_commitments st cid = None) (vdb_fail cfg CommitmentAlreadyExists) (
     let commitment =
           \<lparr>vc_commitment_id = cid, provider = provider_did, consumer = consumer_did,
            merkle_root = root, total_chunks = chunks, vc_metadata = meta, vc_status = Pending,
            created_at = current_block, expires_at = expires, acknowledged_at = None, price = prc\<rparr>;
         st' = st\<lparr>vector_commitments := (vector_commitments st)(cid \<mapsto> commitment),
                  active_commitment_count := sat_add (active_commitment_count st) 1\<rparr>
     in Inr (st', vdb_deposit_event cfg (CommitmentRegistered cid provider_did consumer_did root
                    chunks expires meta) x)))))))))))))"

definition acknowledge_commitment ::
  "('x, 'm, 'vk, 'sg, 't) vdb_config \<Rightarrow> origin \<Rightarrow> commitment_id \<Rightarrow> did
     \<Rightarrow> vdb_storage \<times> 'x \<Rightarrow> ('x, 'm) vdb_result" where
  "acknowledge_commitment cfg orig cid consumer_did s = (case s of (st, x) \<Rightarrow>
     try_then (ensure_signed orig) (\<lambda>caller.
     try_then (ok_or (vector_commitments st cid) (vdb_fail cfg CommitmentNotFound)) (\<lambda>commitment.
     ensure (vc_status commitment = Pending) (vdb_fail cfg NotPending) (
     let current_block = system_block_number cfg x in
     ensure (current_block < expires_at commitment) (vdb_fail cfg CommitmentExpiredError) (
     ensure (consumer commitment = consumer_did) (vdb_fail cfg NotConsumer) (
     try_then (ok_or (controller_of cfg consumer_did x) (vdb_fail cfg ConsumerNotEligible))
       (\<lambda>consumer_controller.
     ensure (consumer_controller = caller) (vdb_fail cfg NotConsumer) (
     ensure (is_active_verified cfg consumer_did x) (vdb_fail cfg ConsumerNotEligible) (
     try_then (ok_or (controller_of cfg (provider commitment) x) (vdb_fail cfg ProviderNotEligible))
       (\<lambda>provider_controller.
     try_then (escrow_lock cfg cid caller provider_controller (price commitment) x) (\<lambda>x1.
     let commitment' = commitment\<lparr>vc_status := Active, acknowledged_at := Some current_block\<rparr>;
         st' = st\<lparr>vector_commitments := (vector_commitments st)(cid \<mapsto> commitment')\<rparr>
     in Inr (st', vdb_deposit_event cfg (CommitmentAcknowledged cid current_block) x1))))))))))))"

definition close_commitment ::
  "('x, 'm, 'vk, 'sg, 't) vdb_config \<Rightarrow> origin \<Rightarrow> commitment_id \<Rightarrow> did \<Rightarrow> merkle_root \<Rightarrow> u64
     \<Rightarrow> vdb_storage \<times> 'x \<Rightarrow> ('x, 'm) vdb_result" where
  "close_commitment cfg orig cid consumer_did final_hash count s = (case s of (st, x) \<Rightarrow>
     try_then (ensure_signed orig) (\<lambda>caller.
     try_then (ok_or (vector_commitments st cid) (vdb_fail cfg CommitmentNotFound)) (\<lambda>commitment.
     ensure (vc_status commitment = Active) (vdb_fail cfg NotActive) (
     let current_block = system_block_number cfg x in
     ensure (current_block < expires_at commitment) (vdb_fail cfg CommitmentExpiredError) (
     ensure (consumer commitment = consumer_did) (vdb_fail cfg NotConsumer) (
     try_then (ok_or (controller_of cfg consumer_did x) (vdb_fail cfg ConsumerNotEligible))
       (\<lambda>consumer_controller.
     ensure (consumer_controller = caller) (vdb_fail cfg NotConsumer) (
     ensure (is_active_verified cfg consumer_did x) (vdb_fail cfg ConsumerNotEligible) (
     ensure (final_hash = merkle_root commitment) (vdb_fail cfg StreamHashMismatch) (
     let st1 = st\<lparr>stream_receipts := (stream_receipts st)(cid \<mapsto>
                 \<lparr>sr_commitment_id = cid, final_stream_hash = final_hash, sr_chunk_count = count,
                  submitted_at = current_block\<rparr>)\<rparr>;
         st2 = st1\<lparr>vector_commitments := (vector_commitments st1)
                 (cid \<mapsto> commitment\<lparr>vc_status := Settled\<rparr>),
                 active_commitment_count := sat_sub (active_commitment_count st1) 1\<rparr> in
     try_then (escrow_release cfg cid x) (\<lambda>x1.
     Inr (st2, vdb_deposit_event cfg (CommitmentSettled cid final_hash count) x1))))))))))))"

definition raise_dispute ::
  "('x, 'm, 'vk, 'sg, 't) vdb_config \<Rightarrow> origin \<Rightarrow> commitment_id \<Rightarrow> did \<Rightarrow> chunk_index \<Rightarrow> h256
     \<Rightarrow> u64 \<Rightarrow> vdb_storage \<times> 'x \<Rightarrow> ('x, 'm) vdb_result" where
  "raise_dispute cfg orig cid consumer_did index received_hash chunk_count s = (case s of (st, x) \<Rightarrow>
     try_then (ensure_signed orig) (\<lambda>caller.
     try_then (ok_or (vector_commitments st cid) (vdb_fail cfg CommitmentNotFound)) (\<lambda>commitment.
     ensure (vc_status commitment = Active) (vdb_fail cfg NotActive) (
     ensure (consumer commitment = consumer_did) (vdb_fail cfg NotConsumer) (
     let current_block = system_block_number cfg x in
     ensure (current_block < expires_at commitment) (vdb_fail cfg CommitmentExpiredError) (
     try_then (ok_or (controller_of cfg consumer_did x) (vdb_fail cfg ConsumerNotEligible))
       (\<lambda>consumer_controller.
     ensure (consumer_controller = caller) (vdb_fail cfg NotConsumer) (
     ensure (is_active_verified cfg consumer_did x) (vdb_fail cfg ConsumerNotEligible) (
     ensure (dispute_records st cid = None) (vdb_fail cfg DisputeAlreadyRaised) (
     ensure (index < total_chunks commitment) (vdb_fail cfg ChunkIndexOutOfBounds) (
     let deadline = sat_add current_block (effective_dispute_window cfg st);
         st1 = st\<lparr>dispute_records := (dispute_records st)(cid \<mapsto>
                 \<lparr>dr_commitment_id = cid, dr_merkle_root = merkle_root commitment,
                  received_chunk_hash = received_hash, disputed_chunk_index = index,
                  raised_at = current_block, counter_deadline = deadline, verdict = None\<rparr>)\<rparr>;
         root = merkle_root commitment;
         st2 = st1\<lparr>vector_commitments := (vector_commitments st1)
                 (cid \<mapsto> commitment\<lparr>vc_status := Disputed\<rparr>)\<rparr>
     in Inr (st2, vdb_deposit_event cfg (DisputeRaised cid root index received_hash deadline) x))))))))))))"

definition counter_dispute ::
  "('x, 'm, 'vk, 'sg, 't) vdb_config \<Rightarrow> origin \<Rightarrow> commitment_id \<Rightarrow> did \<Rightarrow> bytes \<Rightarrow> h256 list
     \<Rightarrow> vdb_storage \<times> 'x \<Rightarrow> ('x, 'm) vdb_result" where
  "counter_dispute cfg orig cid provider_did chunk_data merkle_proof s = (case s of (st, x) \<Rightarrow>
     try_then (ensure_signed orig) (\<lambda>caller.
     try_then (ok_or (vector_commitments st cid) (vdb_fail cfg CommitmentNotFound)) (\<lambda>commitment.
     ensure (vc_status commitment = Disputed) (vdb_fail cfg NotDisputed) (
     ensure (provider commitment = provider_did) (vdb_fail cfg NotProvider) (
     try_then (ok_or (controller_of cfg provider_did x) (vdb_fail cfg ProviderNotEligible))
       (\<lambda>provider_controller.
     ensure (provider_controller = caller) (vdb_fail cfg NotProvider) (
     ensure (is_active_verified cfg provider_did x) (vdb_fail cfg ProviderNotEligible) (
     let current_block = system_block_number cfg x in
     try_then (ok_or (dispute_records st cid) (vdb_fail cfg CommitmentNotFound)) (\<lambda>dispute.
     ensure (current_block \<le> counter_deadline dispute) (vdb_fail cfg DisputeWindowExpired) (
     ensure (disputed_chunk_index dispute < total_chunks commitment)
       (vdb_fail cfg ChunkIndexOutOfBounds) (
     let leaf_hash = blake2_256 (vdb_prims cfg) chunk_data in
     ensure (proof_verify (vdb_merkle cfg) (onchain_hasher (vdb_prims cfg)) merkle_proof
               (merkle_root commitment)
               [unat (as_usize (disputed_chunk_index dispute))]
               [leaf_hash]
               (unat (as_usize (total_chunks commitment))))
       (vdb_fail cfg InvalidMerkleProof) (
     let vd = ClaimantUnsubstantiated;
         st1 = st\<lparr>dispute_records := (dispute_records st)(cid \<mapsto> dispute\<lparr>verdict := Some vd\<rparr>)\<rparr>;
         cons = consumer commitment;
         st2 = st1\<lparr>vector_commitments := (vector_commitments st1)
                 (cid \<mapsto> commitment\<lparr>vc_status := DisputeResolved\<rparr>),
                 active_commitment_count := sat_sub (active_commitment_count st1) 1\<rparr> in
     try_then (escrow_release cfg cid x) (\<lambda>x1.
     let x2 = penalize_false_disputer cfg cons x1
     in Inr (st2, vdb_deposit_event cfg (DisputeCountered cid vd) x2))))))))))))))"

definition finalize_dispute ::
  "('x, 'm, 'vk, 'sg, 't) vdb_config \<Rightarrow> origin \<Rightarrow> commitment_id
     \<Rightarrow> vdb_storage \<times> 'x \<Rightarrow> ('x, 'm) vdb_result" where
  "finalize_dispute cfg orig cid s = (case s of (st, x) \<Rightarrow>
     try_then (ensure_signed orig) (\<lambda>_.
     try_then (ok_or (vector_commitments st cid) (vdb_fail cfg CommitmentNotFound)) (\<lambda>commitment.
     ensure (vc_status commitment = Disputed) (vdb_fail cfg NotDisputed) (
     let current_block = system_block_number cfg x in
     try_then (ok_or (dispute_records st cid) (vdb_fail cfg CommitmentNotFound)) (\<lambda>dispute.
     ensure (current_block > counter_deadline dispute) (vdb_fail cfg DisputeWindowStillOpen) (
     let prov = provider commitment;
         cons = consumer commitment;
         vd = ProviderGuilty;
         st1 = st\<lparr>dispute_records := (dispute_records st)(cid \<mapsto> dispute\<lparr>verdict := Some vd\<rparr>)\<rparr>;
         st2 = st1\<lparr>vector_commitments := (vector_commitments st1)
                 (cid \<mapsto> commitment\<lparr>vc_status := DisputeResolved\<rparr>),
                 active_commitment_count := sat_sub (active_commitment_count st1) 1\<rparr> in
     try_then (escrow_refund cfg cid x) (\<lambda>x1.
     let x2 = penalize_provider cfg prov x1
     in Inr (st2, vdb_deposit_event cfg (DisputeFinalized cid vd prov cons) x2))))))))"

definition expire_commitment ::
  "('x, 'm, 'vk, 'sg, 't) vdb_config \<Rightarrow> origin \<Rightarrow> commitment_id
     \<Rightarrow> vdb_storage \<times> 'x \<Rightarrow> ('x, 'm) vdb_result" where
  "expire_commitment cfg orig cid s = (case s of (st, x) \<Rightarrow>
     try_then (ensure_signed orig) (\<lambda>_.
     try_then (ok_or (vector_commitments st cid) (vdb_fail cfg CommitmentNotFound)) (\<lambda>commitment.
     ensure (vc_status commitment \<in> {Pending, Active}) (vdb_fail cfg AlreadyFinalized) (
     let current_block = system_block_number cfg x in
     ensure (current_block \<ge> expires_at commitment) (vdb_fail cfg NotYetExpired) (
     let st' = st\<lparr>vector_commitments := (vector_commitments st)(cid := None),
                  active_commitment_count := sat_sub (active_commitment_count st) 1\<rparr>
     in Inr (st', vdb_deposit_event cfg (CommitmentExpired cid) x))))))"

section \<open>The call enum\<close>

datatype vdb_call =
    RegisterCommitment did did merkle_root u64 bytes block_number balance
  | AcknowledgeCommitment commitment_id did
  | CloseCommitment commitment_id did merkle_root u64
  | RaiseDispute commitment_id did chunk_index h256 u64
  | CounterDispute commitment_id did bytes "h256 list"
  | FinalizeDispute commitment_id
  | ExpireCommitment commitment_id

fun vdb_call_bounded :: "vdb_call \<Rightarrow> bool" where
  "vdb_call_bounded (RegisterCommitment _ _ _ _ meta _ _) \<longleftrightarrow> length meta \<le> MAX_VDB_METADATA_LEN"
| "vdb_call_bounded (CounterDispute _ _ chunk_data merkle_proof) \<longleftrightarrow>
     length chunk_data \<le> MAX_CHUNK_LEN \<and> length merkle_proof \<le> MAX_PROOF_DEPTH"
| "vdb_call_bounded _ \<longleftrightarrow> True"

fun dispatch_vdb ::
  "('x, 'm, 'vk, 'sg, 't) vdb_config \<Rightarrow> origin \<Rightarrow> vdb_call \<Rightarrow> vdb_storage \<times> 'x
     \<Rightarrow> ('x, 'm) vdb_result" where
  "dispatch_vdb cfg orig (RegisterCommitment p c root n meta dt prc) s =
     register_commitment cfg orig p c root n meta dt prc s"
| "dispatch_vdb cfg orig (AcknowledgeCommitment cid c) s = acknowledge_commitment cfg orig cid c s"
| "dispatch_vdb cfg orig (CloseCommitment cid c fh n) s = close_commitment cfg orig cid c fh n s"
| "dispatch_vdb cfg orig (RaiseDispute cid c i rh n) s = raise_dispute cfg orig cid c i rh n s"
| "dispatch_vdb cfg orig (CounterDispute cid p data prf) s = counter_dispute cfg orig cid p data prf s"
| "dispatch_vdb cfg orig (FinalizeDispute cid) s = finalize_dispute cfg orig cid s"
| "dispatch_vdb cfg orig (ExpireCommitment cid) s = expire_commitment cfg orig cid s"

section \<open>What a successful call did\<close>

definition fresh_commitment ::
  "('vk, 'sg) prims \<Rightarrow> did \<Rightarrow> did \<Rightarrow> merkle_root \<Rightarrow> u64 \<Rightarrow> bytes \<Rightarrow> block_number \<Rightarrow> block_number
     \<Rightarrow> balance \<Rightarrow> vector_commitment" where
  "fresh_commitment pr p c root n meta now dt prc =
     \<lparr>vc_commitment_id = derive_commitment_id pr p c root now, provider = p, consumer = c,
      merkle_root = root, total_chunks = n, vc_metadata = meta, vc_status = Pending,
      created_at = now, expires_at = sat_add now dt, acknowledged_at = None, price = prc\<rparr>"

lemma fresh_commitment_simps [simp]:
  "vc_commitment_id (fresh_commitment pr p c root n meta now dt prc) = derive_commitment_id pr p c root now"
  "provider (fresh_commitment pr p c root n meta now dt prc) = p"
  "consumer (fresh_commitment pr p c root n meta now dt prc) = c"
  "merkle_root (fresh_commitment pr p c root n meta now dt prc) = root"
  "total_chunks (fresh_commitment pr p c root n meta now dt prc) = n"
  "vc_metadata (fresh_commitment pr p c root n meta now dt prc) = meta"
  "vc_status (fresh_commitment pr p c root n meta now dt prc) = Pending"
  "created_at (fresh_commitment pr p c root n meta now dt prc) = now"
  "expires_at (fresh_commitment pr p c root n meta now dt prc) = sat_add now dt"
  "acknowledged_at (fresh_commitment pr p c root n meta now dt prc) = None"
  "price (fresh_commitment pr p c root n meta now dt prc) = prc"
  by (simp_all add: fresh_commitment_def)

lemma register_commitment_ok_iff:
  "register_commitment cfg orig p c root n meta dt prc (st, x) = Inr (st', x') \<longleftrightarrow>
     (\<exists>caller cid. orig = Signed caller \<and> p \<noteq> c \<and> 0 < n \<and> root \<noteq> 0 \<and>
       controller_of cfg p x = Some caller \<and>
       is_active_verified cfg p x \<and> is_active_verified cfg c x \<and>
       0 < dt \<and> dt \<le> max_commitment_lifetime cfg \<and>
       cid = derive_commitment_id (vdb_prims cfg) p c root (system_block_number cfg x) \<and>
       vector_commitments st cid = None \<and>
       st' = st\<lparr>vector_commitments := (vector_commitments st)(cid \<mapsto>
                  fresh_commitment (vdb_prims cfg) p c root n meta (system_block_number cfg x) dt prc),
                active_commitment_count := sat_add (active_commitment_count st) 1\<rparr> \<and>
       x' = vdb_deposit_event cfg (CommitmentRegistered cid p c root n
              (sat_add (system_block_number cfg x) dt) meta) x)"
  by (auto simp: register_commitment_def Let_def res_simps fresh_commitment_def)

lemma acknowledge_commitment_ok_iff:
  "acknowledge_commitment cfg orig cid c (st, x) = Inr (st', x') \<longleftrightarrow>
     (\<exists>caller cm payee x1. orig = Signed caller \<and> vector_commitments st cid = Some cm \<and>
       vc_status cm = Pending \<and> system_block_number cfg x < expires_at cm \<and> consumer cm = c \<and>
       controller_of cfg c x = Some caller \<and> is_active_verified cfg c x \<and>
       controller_of cfg (provider cm) x = Some payee \<and>
       escrow_lock cfg cid caller payee (price cm) x = Inr x1 \<and>
       st' = st\<lparr>vector_commitments := (vector_commitments st)(cid \<mapsto>
                  cm\<lparr>vc_status := Active, acknowledged_at := Some (system_block_number cfg x)\<rparr>)\<rparr> \<and>
       x' = vdb_deposit_event cfg (CommitmentAcknowledged cid (system_block_number cfg x)) x1)"
  by (auto simp: acknowledge_commitment_def Let_def res_simps)

lemma close_commitment_ok_iff:
  "close_commitment cfg orig cid c fh n (st, x) = Inr (st', x') \<longleftrightarrow>
     (\<exists>caller cm x1. orig = Signed caller \<and> vector_commitments st cid = Some cm \<and>
       vc_status cm = Active \<and> system_block_number cfg x < expires_at cm \<and> consumer cm = c \<and>
       controller_of cfg c x = Some caller \<and> is_active_verified cfg c x \<and>
       fh = merkle_root cm \<and> escrow_release cfg cid x = Inr x1 \<and>
       st' = st\<lparr>vector_commitments := (vector_commitments st)(cid \<mapsto> cm\<lparr>vc_status := Settled\<rparr>),
                active_commitment_count := sat_sub (active_commitment_count st) 1,
                stream_receipts := (stream_receipts st)(cid \<mapsto>
                  \<lparr>sr_commitment_id = cid, final_stream_hash = fh, sr_chunk_count = n,
                   submitted_at = system_block_number cfg x\<rparr>)\<rparr> \<and>
       x' = vdb_deposit_event cfg (CommitmentSettled cid fh n) x1)"
  by (auto simp: close_commitment_def Let_def res_simps)

lemma raise_dispute_ok_iff:
  "raise_dispute cfg orig cid c i rh n (st, x) = Inr (st', x') \<longleftrightarrow>
     (\<exists>caller cm deadline. orig = Signed caller \<and> vector_commitments st cid = Some cm \<and>
       vc_status cm = Active \<and> system_block_number cfg x < expires_at cm \<and> consumer cm = c \<and>
       controller_of cfg c x = Some caller \<and> is_active_verified cfg c x \<and>
       dispute_records st cid = None \<and> i < total_chunks cm \<and>
       deadline = sat_add (system_block_number cfg x) (effective_dispute_window cfg st) \<and>
       st' = st\<lparr>vector_commitments := (vector_commitments st)(cid \<mapsto> cm\<lparr>vc_status := Disputed\<rparr>),
                dispute_records := (dispute_records st)(cid \<mapsto>
                  \<lparr>dr_commitment_id = cid, dr_merkle_root = merkle_root cm,
                   received_chunk_hash = rh, disputed_chunk_index = i,
                   raised_at = system_block_number cfg x, counter_deadline = deadline,
                   verdict = None\<rparr>)\<rparr> \<and>
       x' = vdb_deposit_event cfg (DisputeRaised cid (merkle_root cm) i rh deadline) x)"
  by (auto simp: raise_dispute_def Let_def res_simps)

text \<open>The check \<open>counter_dispute\<close> makes on the chunk and the proof.\<close>

definition refutes ::
  "('x, 'm, 'vk, 'sg, 't) vdb_config \<Rightarrow> vector_commitment \<Rightarrow> dispute_record \<Rightarrow> bytes \<Rightarrow> h256 list
     \<Rightarrow> bool" where
  "refutes cfg cm d data prf =
     proof_verify (vdb_merkle cfg) (onchain_hasher (vdb_prims cfg)) prf (merkle_root cm)
       [unat (as_usize (disputed_chunk_index d))] [blake2_256 (vdb_prims cfg) data]
       (unat (as_usize (total_chunks cm)))"

lemma counter_dispute_ok_iff:
  "counter_dispute cfg orig cid p data prf (st, x) = Inr (st', x') \<longleftrightarrow>
     (\<exists>caller cm d x1. orig = Signed caller \<and> vector_commitments st cid = Some cm \<and>
       vc_status cm = Disputed \<and> provider cm = p \<and>
       controller_of cfg p x = Some caller \<and> is_active_verified cfg p x \<and>
       dispute_records st cid = Some d \<and> system_block_number cfg x \<le> counter_deadline d \<and>
       disputed_chunk_index d < total_chunks cm \<and> refutes cfg cm d data prf \<and>
       escrow_release cfg cid x = Inr x1 \<and>
       st' = st\<lparr>vector_commitments := (vector_commitments st)
                  (cid \<mapsto> cm\<lparr>vc_status := DisputeResolved\<rparr>),
                active_commitment_count := sat_sub (active_commitment_count st) 1,
                dispute_records := (dispute_records st)
                  (cid \<mapsto> d\<lparr>verdict := Some ClaimantUnsubstantiated\<rparr>)\<rparr> \<and>
       x' = vdb_deposit_event cfg (DisputeCountered cid ClaimantUnsubstantiated)
              (penalize_false_disputer cfg (consumer cm) x1))"
  by (auto simp: counter_dispute_def refutes_def Let_def res_simps)

lemma finalize_dispute_ok_iff:
  "finalize_dispute cfg orig cid (st, x) = Inr (st', x') \<longleftrightarrow>
     (\<exists>caller cm d x1. orig = Signed caller \<and> vector_commitments st cid = Some cm \<and>
       vc_status cm = Disputed \<and> dispute_records st cid = Some d \<and>
       counter_deadline d < system_block_number cfg x \<and> escrow_refund cfg cid x = Inr x1 \<and>
       st' = st\<lparr>vector_commitments := (vector_commitments st)
                  (cid \<mapsto> cm\<lparr>vc_status := DisputeResolved\<rparr>),
                active_commitment_count := sat_sub (active_commitment_count st) 1,
                dispute_records := (dispute_records st)
                  (cid \<mapsto> d\<lparr>verdict := Some ProviderGuilty\<rparr>)\<rparr> \<and>
       x' = vdb_deposit_event cfg (DisputeFinalized cid ProviderGuilty (provider cm) (consumer cm))
              (penalize_provider cfg (provider cm) x1))"
  by (auto simp: finalize_dispute_def Let_def res_simps)

lemma expire_commitment_ok_iff:
  "expire_commitment cfg orig cid (st, x) = Inr (st', x') \<longleftrightarrow>
     (\<exists>caller cm. orig = Signed caller \<and> vector_commitments st cid = Some cm \<and>
       vc_status cm \<in> {Pending, Active} \<and> expires_at cm \<le> system_block_number cfg x \<and>
       st' = st\<lparr>vector_commitments := (vector_commitments st)(cid := None),
                active_commitment_count := sat_sub (active_commitment_count st) 1\<rparr> \<and>
       x' = vdb_deposit_event cfg (CommitmentExpired cid) x)"
  by (auto simp: expire_commitment_def Let_def res_simps)

lemmas vdb_ok_iffs =
  register_commitment_ok_iff acknowledge_commitment_ok_iff close_commitment_ok_iff
  raise_dispute_ok_iff counter_dispute_ok_iff finalize_dispute_ok_iff expire_commitment_ok_iff

end
