(* ===== verification/Vector_Db_Inv.thy ===== *)
theory Vector_Db_Inv
  imports Vector_Db
begin

text \<open>
  What \<^verbatim>\<open>pallet-vector-db\<close> needs of the traits it is configured with, as locales (\<^verbatim>\<open>EscrowHandler\<close>,
  \<^verbatim>\<open>AgentLookup\<close>, and the two together with the frame conditions of \<^verbatim>\<open>ReputationHandler\<close> and the
  event log), and what it guarantees on top of them: the lifecycle invariant that ties every
  commitment to its dispute record, its receipt and the state of its money.
\<close>

section \<open>The escrow contract\<close>

text \<open>What a client can see of one escrow: the parties, the amount and where the money is.\<close>

datatype deal_phase = Held | PaidOut | Returned

datatype deal = Deal (deal_payer: account_id) (deal_payee: account_id) (deal_amount: balance)
  (deal_phase: deal_phase)

text \<open>
  \<^verbatim>\<open>EscrowHandler\<close>: a lock opens a fresh deal, release and refund each close a held one, and no
  operation touches another deal. A refund of a held deal cannot fail.
\<close>

locale escrow_handler =
  fixes hlock :: "commitment_id \<Rightarrow> account_id \<Rightarrow> account_id \<Rightarrow> balance \<Rightarrow> 'x \<Rightarrow> 'm dispatch_error + 'x"
    and hrelease :: "commitment_id \<Rightarrow> 'x \<Rightarrow> 'm dispatch_error + 'x"
    and hrefund :: "commitment_id \<Rightarrow> 'x \<Rightarrow> 'm dispatch_error + 'x"
    and deals :: "'x \<Rightarrow> commitment_id \<rightharpoonup> deal"
  assumes lock_opens: "hlock i p q a x = Inr x' \<Longrightarrow>
      deals x i = None \<and> deals x' = (deals x)(i \<mapsto> Deal p q a Held)"
    and release_closes: "hrelease i x = Inr x' \<Longrightarrow>
      \<exists>p q a. deals x i = Some (Deal p q a Held) \<and> deals x' = (deals x)(i \<mapsto> Deal p q a PaidOut)"
    and refund_closes: "hrefund i x = Inr x' \<Longrightarrow>
      \<exists>p q a. deals x i = Some (Deal p q a Held) \<and> deals x' = (deals x)(i \<mapsto> Deal p q a Returned)"
    and refund_possible: "deals x i = Some (Deal p q a Held) \<Longrightarrow> is_ok (hrefund i x)"
begin

lemma closed_is_final:
  assumes "deals x i = Some dl" "deal_phase dl \<noteq> Held"
  shows "\<not> is_ok (hlock i p q a x)" "\<not> is_ok (hrelease i x)" "\<not> is_ok (hrefund i x)"
proof -
  show "\<not> is_ok (hlock i p q a x)"
    using assms lock_opens [of i p q a x] by (cases "hlock i p q a x") auto
  show "\<not> is_ok (hrelease i x)"
    using assms release_closes [of i x] by (cases "hrelease i x") auto
  show "\<not> is_ok (hrefund i x)"
    using assms refund_closes [of i x] by (cases "hrefund i x") auto
qed

end

section \<open>The identity contract\<close>

locale agent_lookup =
  fixes ctl_of :: "did \<Rightarrow> 'x \<Rightarrow> 'a option"
    and eligible :: "did \<Rightarrow> 'x \<Rightarrow> bool"
  assumes eligible_controlled: "eligible d x \<Longrightarrow> \<exists>who. ctl_of d x = Some who"

section \<open>The lifecycle invariant\<close>

text \<open>The dispute record that belongs to a commitment.\<close>

definition dispute_ok :: "commitment_id \<Rightarrow> vector_commitment \<Rightarrow> dispute_record \<Rightarrow> bool" where
  "dispute_ok cid cm d \<longleftrightarrow> dr_commitment_id d = cid \<and> dr_merkle_root d = merkle_root cm \<and>
     disputed_chunk_index d < total_chunks cm \<and> raised_at d \<le> counter_deadline d \<and>
     raised_at d < expires_at cm"

definition holds_price :: "vector_commitment \<Rightarrow> deal_phase \<Rightarrow> deal option \<Rightarrow> bool" where
  "holds_price cm ph dl \<longleftrightarrow> (\<exists>p q. dl = Some (Deal p q (price cm) ph))"

text \<open>What each status says about the dispute, the receipt, the acknowledgement and the money.\<close>

definition stage_ok ::
  "commitment_id \<Rightarrow> vector_commitment \<Rightarrow> dispute_record option \<Rightarrow> stream_receipt option
     \<Rightarrow> deal option \<Rightarrow> bool" where
  "stage_ok cid cm d r dl = (case vc_status cm of
       Pending \<Rightarrow> d = None \<and> r = None \<and> acknowledged_at cm = None
     | Active \<Rightarrow> d = None \<and> r = None \<and> acknowledged_at cm \<noteq> None \<and> holds_price cm Held dl
     | Settled \<Rightarrow> d = None \<and> (\<exists>rc. r = Some rc \<and> final_stream_hash rc = merkle_root cm) \<and>
         acknowledged_at cm \<noteq> None \<and> holds_price cm PaidOut dl
     | Disputed \<Rightarrow> r = None \<and> acknowledged_at cm \<noteq> None \<and> holds_price cm Held dl \<and>
         (\<exists>dr. d = Some dr \<and> dispute_ok cid cm dr \<and> verdict dr = None)
     | DisputeResolved \<Rightarrow> r = None \<and> acknowledged_at cm \<noteq> None \<and>
         (\<exists>dr. d = Some dr \<and> dispute_ok cid cm dr \<and>
            (verdict dr = Some ProviderGuilty \<and> holds_price cm Returned dl \<or>
             verdict dr = Some ClaimantUnsubstantiated \<and> holds_price cm PaidOut dl))
     | Expired \<Rightarrow> False)"

definition identity_ok :: "('vk, 'sg) prims \<Rightarrow> commitment_id \<Rightarrow> vector_commitment \<Rightarrow> bool" where
  "identity_ok pr cid cm \<longleftrightarrow> vc_commitment_id cm = cid \<and>
     cid = derive_commitment_id pr (provider cm) (consumer cm) (merkle_root cm) (created_at cm) \<and>
     provider cm \<noteq> consumer cm \<and> 0 < total_chunks cm \<and> merkle_root cm \<noteq> 0 \<and>
     created_at cm \<le> expires_at cm \<and> length (vc_metadata cm) \<le> MAX_VDB_METADATA_LEN"

definition entry_ok ::
  "('vk, 'sg) prims \<Rightarrow> commitment_id \<Rightarrow> vector_commitment option \<Rightarrow> dispute_record option
     \<Rightarrow> stream_receipt option \<Rightarrow> deal option \<Rightarrow> bool" where
  "entry_ok pr cid c d r dl = (case c of
       None \<Rightarrow> d = None \<and> r = None
     | Some cm \<Rightarrow> identity_ok pr cid cm \<and> stage_ok cid cm d r dl)"

definition vdb_inv :: "('vk, 'sg) prims \<Rightarrow> (commitment_id \<rightharpoonup> deal) \<Rightarrow> vdb_storage \<Rightarrow> bool" where
  "vdb_inv pr dls st \<longleftrightarrow> finite (dom (vector_commitments st)) \<and>
     (\<forall>cid. entry_ok pr cid (vector_commitments st cid) (dispute_records st cid)
        (stream_receipts st cid) (dls cid))"

lemma vdb_inv_genesis: "vdb_inv pr dls (genesis_build w)"
  by (cases w) (simp_all add: genesis_build_def empty_vdb_def vdb_inv_def entry_ok_def)

lemma vdb_invD:
  assumes "vdb_inv pr dls st"
  shows "finite (dom (vector_commitments st))"
    and "vector_commitments st cid = Some cm \<Longrightarrow> identity_ok pr cid cm"
    and "vector_commitments st cid = Some cm \<Longrightarrow>
           stage_ok cid cm (dispute_records st cid) (stream_receipts st cid) (dls cid)"
    and "vector_commitments st cid = None \<Longrightarrow>
           dispute_records st cid = None \<and> stream_receipts st cid = None"
proof -
  have e: "entry_ok pr cid (vector_commitments st cid) (dispute_records st cid)
      (stream_receipts st cid) (dls cid)"
    using assms by (simp add: vdb_inv_def)
  show "finite (dom (vector_commitments st))" using assms by (simp add: vdb_inv_def)
  show "vector_commitments st cid = Some cm \<Longrightarrow> identity_ok pr cid cm"
    "vector_commitments st cid = Some cm \<Longrightarrow>
       stage_ok cid cm (dispute_records st cid) (stream_receipts st cid) (dls cid)"
    "vector_commitments st cid = None \<Longrightarrow>
       dispute_records st cid = None \<and> stream_receipts st cid = None"
    using e by (auto simp: entry_ok_def)
qed

text \<open>An operation touches one identifier.\<close>

lemma vdb_inv_local:
  assumes "vdb_inv pr dls st"
    and "entry_ok pr cid (vector_commitments st' cid) (dispute_records st' cid)
           (stream_receipts st' cid) (dls' cid)"
    and "finite (dom (vector_commitments st'))"
    and "\<And>i. i \<noteq> cid \<Longrightarrow> vector_commitments st' i = vector_commitments st i \<and>
           dispute_records st' i = dispute_records st i \<and>
           stream_receipts st' i = stream_receipts st i \<and> dls' i = dls i"
  shows "vdb_inv pr dls' st'"
  unfolding vdb_inv_def
proof (intro conjI allI assms(3))
  fix i
  show "entry_ok pr i (vector_commitments st' i) (dispute_records st' i) (stream_receipts st' i) (dls' i)"
    using assms(1,2,4) by (cases "i = cid") (simp_all add: vdb_inv_def)
qed

lemma identity_ok_updates [simp]:
  "identity_ok pr cid (cm\<lparr>vc_status := s\<rparr>) = identity_ok pr cid cm"
  "identity_ok pr cid (cm\<lparr>vc_status := s, acknowledged_at := a\<rparr>) = identity_ok pr cid cm"
  by (simp_all add: identity_ok_def)

lemma holds_price_updates [simp]:
  "holds_price (cm\<lparr>vc_status := s\<rparr>) ph dl = holds_price cm ph dl"
  "holds_price (cm\<lparr>vc_status := s, acknowledged_at := a\<rparr>) ph dl = holds_price cm ph dl"
  by (simp_all add: holds_price_def)

lemma holds_price_deal [simp]: "holds_price cm ph (Some (Deal p q a ph')) \<longleftrightarrow> a = price cm \<and> ph' = ph"
  by (auto simp: holds_price_def)

lemma dispute_ok_updates [simp]:
  "dispute_ok cid (cm\<lparr>vc_status := s\<rparr>) d = dispute_ok cid cm d"
  "dispute_ok cid cm (d\<lparr>verdict := v\<rparr>) = dispute_ok cid cm d"
  by (simp_all add: dispute_ok_def)

section \<open>The pallet over its contracts\<close>

locale vdb_env =
  escrow_handler "escrow_lock cfg" "escrow_release cfg" "escrow_refund cfg" deals
  + agent_lookup "controller_of cfg" "is_active_verified cfg"
  for cfg :: "('x, 'm, 'vk, 'sg, 't) vdb_config" and deals :: "'x \<Rightarrow> commitment_id \<rightharpoonup> deal" +
  assumes penalties_keep_deals:
      "deals (penalize_provider cfg d x) = deals x"
      "deals (penalize_false_disputer cfg d x) = deals x"
    and events_keep_deals: "deals (vdb_deposit_event cfg ev x) = deals x"
begin

lemma register_inv:
  assumes ok: "register_commitment cfg orig p c root n meta dt prc (st, x) = Inr (st', x')"
    and inv: "vdb_inv (vdb_prims cfg) (deals x) st" and meta: "length meta \<le> MAX_VDB_METADATA_LEN"
  shows "vdb_inv (vdb_prims cfg) (deals x') st'"
proof -
  let ?cid = "derive_commitment_id (vdb_prims cfg) p c root (system_block_number cfg x)"
  have new: "vector_commitments st ?cid = None"
    using ok by (auto simp: register_commitment_ok_iff)
  show ?thesis
    by (rule vdb_inv_local [OF inv, where cid = ?cid])
      (use ok meta vdb_invD(1) [OF inv] vdb_invD(4) [OF inv new] in
        \<open>auto simp: register_commitment_ok_iff events_keep_deals entry_ok_def identity_ok_def
          stage_ok_def sat_add_ge\<close>)
qed

lemma acknowledge_inv:
  assumes ok: "acknowledge_commitment cfg orig cid c (st, x) = Inr (st', x')"
    and inv: "vdb_inv (vdb_prims cfg) (deals x) st"
  shows "vdb_inv (vdb_prims cfg) (deals x') st'"
proof -
  obtain caller cm payee x1 where *: "vector_commitments st cid = Some cm" "vc_status cm = Pending"
    "escrow_lock cfg cid caller payee (price cm) x = Inr x1"
    "st' = st\<lparr>vector_commitments := (vector_commitments st)(cid \<mapsto>
        cm\<lparr>vc_status := Active, acknowledged_at := Some (system_block_number cfg x)\<rparr>)\<rparr>"
    "deals x' = deals x1"
    using ok by (auto simp: acknowledge_commitment_ok_iff events_keep_deals)
  show ?thesis
    by (rule vdb_inv_local [OF inv, where cid = cid])
      (use * vdb_invD(1) [OF inv] vdb_invD(2,3) [OF inv *(1)] lock_opens [OF *(3)] in
        \<open>auto simp: entry_ok_def stage_ok_def\<close>)
qed

lemma close_inv:
  assumes ok: "close_commitment cfg orig cid c fh n (st, x) = Inr (st', x')"
    and inv: "vdb_inv (vdb_prims cfg) (deals x) st"
  shows "vdb_inv (vdb_prims cfg) (deals x') st'"
proof -
  obtain cm x1 rc where *: "vector_commitments st cid = Some cm" "vc_status cm = Active"
    "escrow_release cfg cid x = Inr x1" "final_stream_hash rc = merkle_root cm"
    "st' = st\<lparr>vector_commitments := (vector_commitments st)(cid \<mapsto> cm\<lparr>vc_status := Settled\<rparr>),
        active_commitment_count := sat_sub (active_commitment_count st) 1,
        stream_receipts := (stream_receipts st)(cid \<mapsto> rc)\<rparr>"
    "deals x' = deals x1"
    using ok by (force simp: close_commitment_ok_iff events_keep_deals)
  show ?thesis
    by (rule vdb_inv_local [OF inv, where cid = cid])
      (use * vdb_invD(1) [OF inv] vdb_invD(2,3) [OF inv *(1)] release_closes [OF *(3)] in
        \<open>auto simp: entry_ok_def stage_ok_def\<close>)
qed

lemma raise_inv:
  assumes ok: "raise_dispute cfg orig cid c i rh n (st, x) = Inr (st', x')"
    and inv: "vdb_inv (vdb_prims cfg) (deals x) st"
  shows "vdb_inv (vdb_prims cfg) (deals x') st'"
proof -
  obtain cm d where *: "vector_commitments st cid = Some cm" "vc_status cm = Active"
    "dispute_ok cid cm d" "verdict d = None"
    "st' = st\<lparr>vector_commitments := (vector_commitments st)(cid \<mapsto> cm\<lparr>vc_status := Disputed\<rparr>),
        dispute_records := (dispute_records st)(cid \<mapsto> d)\<rparr>"
    "deals x' = deals x"
    using ok by (force simp: raise_dispute_ok_iff events_keep_deals dispute_ok_def sat_add_ge)
  show ?thesis
    by (rule vdb_inv_local [OF inv, where cid = cid])
      (use * vdb_invD(1) [OF inv] vdb_invD(2,3) [OF inv *(1)] in
        \<open>auto simp: entry_ok_def stage_ok_def\<close>)
qed

lemma counter_inv:
  assumes ok: "counter_dispute cfg orig cid p data prf (st, x) = Inr (st', x')"
    and inv: "vdb_inv (vdb_prims cfg) (deals x) st"
  shows "vdb_inv (vdb_prims cfg) (deals x') st'"
proof -
  obtain cm d x1 where *: "vector_commitments st cid = Some cm" "vc_status cm = Disputed"
    "dispute_records st cid = Some d" "escrow_release cfg cid x = Inr x1"
    "st' = st\<lparr>vector_commitments := (vector_commitments st)(cid \<mapsto> cm\<lparr>vc_status := DisputeResolved\<rparr>),
        active_commitment_count := sat_sub (active_commitment_count st) 1,
        dispute_records := (dispute_records st)(cid \<mapsto> d\<lparr>verdict := Some ClaimantUnsubstantiated\<rparr>)\<rparr>"
    "deals x' = deals x1"
    using ok by (auto simp: counter_dispute_ok_iff events_keep_deals penalties_keep_deals)
  show ?thesis
    by (rule vdb_inv_local [OF inv, where cid = cid])
      (use * vdb_invD(1) [OF inv] vdb_invD(2,3) [OF inv *(1)] release_closes [OF *(4)] in
        \<open>auto simp: entry_ok_def stage_ok_def\<close>)
qed

lemma finalize_inv:
  assumes ok: "finalize_dispute cfg orig cid (st, x) = Inr (st', x')"
    and inv: "vdb_inv (vdb_prims cfg) (deals x) st"
  shows "vdb_inv (vdb_prims cfg) (deals x') st'"
proof -
  obtain cm d x1 where *: "vector_commitments st cid = Some cm" "vc_status cm = Disputed"
    "dispute_records st cid = Some d" "escrow_refund cfg cid x = Inr x1"
    "st' = st\<lparr>vector_commitments := (vector_commitments st)(cid \<mapsto> cm\<lparr>vc_status := DisputeResolved\<rparr>),
        active_commitment_count := sat_sub (active_commitment_count st) 1,
        dispute_records := (dispute_records st)(cid \<mapsto> d\<lparr>verdict := Some ProviderGuilty\<rparr>)\<rparr>"
    "deals x' = deals x1"
    using ok by (auto simp: finalize_dispute_ok_iff events_keep_deals penalties_keep_deals)
  show ?thesis
    by (rule vdb_inv_local [OF inv, where cid = cid])
      (use * vdb_invD(1) [OF inv] vdb_invD(2,3) [OF inv *(1)] refund_closes [OF *(4)] in
        \<open>auto simp: entry_ok_def stage_ok_def\<close>)
qed

lemma expire_inv:
  assumes ok: "expire_commitment cfg orig cid (st, x) = Inr (st', x')"
    and inv: "vdb_inv (vdb_prims cfg) (deals x) st"
  shows "vdb_inv (vdb_prims cfg) (deals x') st'"
proof -
  obtain cm where *: "vector_commitments st cid = Some cm" "vc_status cm \<in> {Pending, Active}"
    "st' = st\<lparr>vector_commitments := (vector_commitments st)(cid := None),
        active_commitment_count := sat_sub (active_commitment_count st) 1\<rparr>"
    "deals x' = deals x"
    using ok by (auto simp: expire_commitment_ok_iff events_keep_deals)
  show ?thesis
    by (rule vdb_inv_local [OF inv, where cid = cid])
      (use * vdb_invD(1) [OF inv] vdb_invD(3) [OF inv *(1)] in
        \<open>auto simp: entry_ok_def stage_ok_def\<close>)
qed

lemma dispatch_inv:
  assumes "dispatch_vdb cfg orig call (st, x) = Inr (st', x')"
    and "vdb_inv (vdb_prims cfg) (deals x) st" "vdb_call_bounded call"
  shows "vdb_inv (vdb_prims cfg) (deals x') st'"
  using assms
  by (cases call)
    (auto intro: register_inv acknowledge_inv close_inv raise_inv counter_inv finalize_inv expire_inv)

end

end
