(* ===== verification/Vector_Db_Life.thy ===== *)
theory Vector_Db_Life
  imports Vector_Db_Inv
begin

text \<open>
  The commitment lifecycle as an abstract state machine, that every call of the pallet refines it,
  who may take which transition, and what happens to the money on the way.
\<close>

section \<open>The abstract state machine\<close>

text \<open>One commitment's status, \<open>None\<close> when there is no record.\<close>

inductive lifecycle :: "commitment_status option \<Rightarrow> commitment_status option \<Rightarrow> bool" where
  Registered: "lifecycle None (Some Pending)"
| Acknowledged: "lifecycle (Some Pending) (Some Active)"
| Closed: "lifecycle (Some Active) (Some Settled)"
| Raised: "lifecycle (Some Active) (Some Disputed)"
| Resolved: "lifecycle (Some Disputed) (Some DisputeResolved)"
| Lapsed_pending: "lifecycle (Some Pending) None"
| Lapsed_active: "lifecycle (Some Active) None"

code_pred lifecycle .

inductive_simps lifecycle_from [simp]:
  "lifecycle (Some Settled) s" "lifecycle (Some DisputeResolved) s" "lifecycle (Some Expired) s"
  "lifecycle None s" "lifecycle (Some Pending) s" "lifecycle (Some Active) s"
  "lifecycle (Some Disputed) s"

definition status_of :: "vdb_storage \<Rightarrow> commitment_id \<Rightarrow> commitment_status option" where
  "status_of st cid = map_option vc_status (vector_commitments st cid)"

text \<open>The terms the two parties agreed on; nothing may change them.\<close>

definition terms ::
  "vector_commitment \<Rightarrow> did \<times> did \<times> merkle_root \<times> u64 \<times> bytes \<times> block_number \<times> block_number \<times> balance" where
  "terms cm = (provider cm, consumer cm, merkle_root cm, total_chunks cm, vc_metadata cm,
     created_at cm, expires_at cm, price cm)"

lemma terms_updates [simp]:
  "terms (cm\<lparr>vc_status := s\<rparr>) = terms cm"
  "terms (cm\<lparr>vc_status := s, acknowledged_at := a\<rparr>) = terms cm"
  by (simp_all add: terms_def)

text \<open>The commitment a call is about.\<close>

fun call_target :: "('x, 'm, 'vk, 'sg, 't) vdb_config \<Rightarrow> 'x \<Rightarrow> vdb_call \<Rightarrow> commitment_id" where
  "call_target cfg x (RegisterCommitment p c root _ _ _ _) =
     derive_commitment_id (vdb_prims cfg) p c root (system_block_number cfg x)"
| "call_target cfg x (AcknowledgeCommitment cid _) = cid"
| "call_target cfg x (CloseCommitment cid _ _ _) = cid"
| "call_target cfg x (RaiseDispute cid _ _ _ _) = cid"
| "call_target cfg x (CounterDispute cid _ _ _) = cid"
| "call_target cfg x (FinalizeDispute cid) = cid"
| "call_target cfg x (ExpireCommitment cid) = cid"

text \<open>The transition a call takes its target through.\<close>

fun call_edge :: "vdb_call \<Rightarrow> commitment_status option \<Rightarrow> commitment_status option \<Rightarrow> bool" where
  "call_edge (RegisterCommitment _ _ _ _ _ _ _) s t \<longleftrightarrow> s = None \<and> t = Some Pending"
| "call_edge (AcknowledgeCommitment _ _) s t \<longleftrightarrow> s = Some Pending \<and> t = Some Active"
| "call_edge (CloseCommitment _ _ _ _) s t \<longleftrightarrow> s = Some Active \<and> t = Some Settled"
| "call_edge (RaiseDispute _ _ _ _ _) s t \<longleftrightarrow> s = Some Active \<and> t = Some Disputed"
| "call_edge (CounterDispute _ _ _ _) s t \<longleftrightarrow> s = Some Disputed \<and> t = Some DisputeResolved"
| "call_edge (FinalizeDispute _) s t \<longleftrightarrow> s = Some Disputed \<and> t = Some DisputeResolved"
| "call_edge (ExpireCommitment _) s t \<longleftrightarrow> s \<in> {Some Pending, Some Active} \<and> t = None"

lemma call_edge_lifecycle: "call_edge call s t \<Longrightarrow> lifecycle s t"
  by (cases call) (auto intro: lifecycle.intros)

section \<open>Every call refines it\<close>

lemma dispatch_target:
  assumes "dispatch_vdb cfg orig call (st, x) = Inr (st', x')"
  shows "call_edge call (status_of st (call_target cfg x call)) (status_of st' (call_target cfg x call))"
  using assms by (cases call) (auto simp: vdb_ok_iffs status_of_def)

lemma dispatch_terms:
  assumes "dispatch_vdb cfg orig call (st, x) = Inr (st', x')"
    and "vector_commitments st cid = Some cm" "vector_commitments st' cid = Some cm'"
  shows "terms cm' = terms cm"
  using assms by (cases call) (auto simp: vdb_ok_iffs split: if_splits)

lemma dispatch_others:
  assumes "dispatch_vdb cfg orig call (st, x) = Inr (st', x')" "cid \<noteq> call_target cfg x call"
  shows "vector_commitments st' cid = vector_commitments st cid"
    "dispute_records st' cid = dispute_records st cid"
    "stream_receipts st' cid = stream_receipts st cid"
  using assms by (cases call; auto simp: vdb_ok_iffs)+

lemma dispatch_refines:
  assumes "dispatch_vdb cfg orig call (st, x) = Inr (st', x')"
  shows "status_of st' cid = status_of st cid \<or> lifecycle (status_of st cid) (status_of st' cid)"
proof (cases "cid = call_target cfg x call")
  case True
  then show ?thesis using dispatch_target [OF assms] by (blast intro: call_edge_lifecycle)
next
  case False
  then show ?thesis using dispatch_others(1) [OF assms False] by (simp add: status_of_def)
qed

text \<open>A terminal commitment never changes again, and neither do its dispute and receipt.\<close>

lemma dispatch_terminal:
  assumes "dispatch_vdb cfg orig call (st, x) = Inr (st', x')"
    and "status_of st cid \<in> {Some Settled, Some DisputeResolved}"
  shows "vector_commitments st' cid = vector_commitments st cid \<and>
    dispute_records st' cid = dispute_records st cid \<and> stream_receipts st' cid = stream_receipts st cid"
proof -
  have "cid \<noteq> call_target cfg x call"
    using dispatch_target [OF assms(1)] assms(2) call_edge_lifecycle
    by (auto simp: status_of_def) (metis lifecycle_from(1,2))+
  then show ?thesis using dispatch_others [OF assms(1)] by blast
qed

section \<open>Authority\<close>

text \<open>Who must have signed a call: the controller of the named side, or anybody.\<close>

fun call_authorised ::
  "('x, 'm, 'vk, 'sg, 't) vdb_config \<Rightarrow> 'x \<Rightarrow> vdb_storage \<Rightarrow> origin \<Rightarrow> vdb_call \<Rightarrow> bool" where
  "call_authorised cfg x st orig (RegisterCommitment p c _ _ _ _ _) \<longleftrightarrow>
     (\<exists>who. orig = Signed who \<and> controller_of cfg p x = Some who) \<and>
     is_active_verified cfg p x \<and> is_active_verified cfg c x"
| "call_authorised cfg x st orig (FinalizeDispute _) \<longleftrightarrow> (\<exists>who. orig = Signed who)"
| "call_authorised cfg x st orig (ExpireCommitment _) \<longleftrightarrow> (\<exists>who. orig = Signed who)"
| "call_authorised cfg x st orig (CounterDispute cid _ _ _) \<longleftrightarrow>
     (\<exists>who cm. orig = Signed who \<and> vector_commitments st cid = Some cm \<and>
        controller_of cfg (provider cm) x = Some who \<and> is_active_verified cfg (provider cm) x)"
| "call_authorised cfg x st orig call \<longleftrightarrow>
     (\<exists>who cm. orig = Signed who \<and> vector_commitments st (call_target cfg x call) = Some cm \<and>
        controller_of cfg (consumer cm) x = Some who \<and> is_active_verified cfg (consumer cm) x)"

lemma dispatch_authorised:
  assumes "dispatch_vdb cfg orig call (st, x) = Inr (st', x')"
  shows "call_authorised cfg x st orig call"
  using assms by (cases call) (auto simp: vdb_ok_iffs)

section \<open>What a call can do to the rest of the runtime\<close>

text \<open>
  A call reaches the world outside the pallet only through the traits; what each of them keeps,
  every call keeps.
\<close>

lemma dispatch_env_inv:
  assumes ok: "dispatch_vdb cfg orig call (st, x) = Inr (st', x')" and start: "P x"
    and lock: "\<And>i p q a y z. P y \<Longrightarrow> escrow_lock cfg i p q a y = Inr z \<Longrightarrow> P z"
    and release: "\<And>i y z. P y \<Longrightarrow> escrow_release cfg i y = Inr z \<Longrightarrow> P z"
    and refund: "\<And>i y z. P y \<Longrightarrow> escrow_refund cfg i y = Inr z \<Longrightarrow> P z"
    and penalties: "\<And>d y. P y \<Longrightarrow> P (penalize_provider cfg d y)"
      "\<And>d y. P y \<Longrightarrow> P (penalize_false_disputer cfg d y)"
    and events: "\<And>ev y. P y \<Longrightarrow> P (vdb_deposit_event cfg ev y)"
  shows "P x'"
proof (cases call)
  case (AcknowledgeCommitment i c)
  then show ?thesis using ok start by (auto simp: vdb_ok_iffs intro!: events elim: lock)
next
  case (CloseCommitment i c fh n)
  then show ?thesis using ok start by (auto simp: vdb_ok_iffs intro!: events elim: release)
next
  case (CounterDispute i p chunk hashes)
  then show ?thesis using ok start by (auto simp: vdb_ok_iffs intro!: events penalties elim: release)
next
  case (FinalizeDispute i)
  then show ?thesis using ok start by (auto simp: vdb_ok_iffs intro!: events penalties elim: refund)
qed (use ok start in \<open>auto simp: vdb_ok_iffs intro!: events\<close>)

section \<open>The open-commitment counter\<close>

definition is_open :: "vector_commitment \<Rightarrow> nat" where
  "is_open cm = (if vc_status cm \<in> {Pending, Active, Disputed} then 1 else 0)"

definition open_count :: "vdb_storage \<Rightarrow> nat" where
  "open_count st = entry_sum is_open (vector_commitments st)"

definition open_count_exact :: "vdb_storage \<Rightarrow> bool" where
  "open_count_exact st \<longleftrightarrow> unat (active_commitment_count st) = open_count st"

lemma open_count_exact_genesis: "open_count_exact (genesis_build w)"
  by (cases w) (simp_all add: open_count_exact_def open_count_def genesis_build_def empty_vdb_def)

lemma open_count_settle:
  assumes "finite (dom m)" "m cid = Some cm" "is_open cm = 1" "is_open cm' = 0"
  shows "Suc (entry_sum is_open (m(cid \<mapsto> cm'))) = entry_sum is_open m"
  using entry_sum_upd [OF assms(1), of is_open cid cm'] assms(2-) by simp

lemma open_count_drop:
  assumes "finite (dom m)" "m cid = Some cm" "is_open cm = 1"
  shows "Suc (entry_sum is_open (m(cid := None))) = entry_sum is_open m"
  using entry_sum_delete [OF assms(1), of is_open cid] assms(2-) by simp

lemma open_count_dispatch:
  assumes ok: "dispatch_vdb cfg orig call (st, x) = Inr (st', x')"
    and fin: "finite (dom (vector_commitments st))"
  shows "(case call of
            RegisterCommitment _ _ _ _ _ _ _ \<Rightarrow> open_count st' = Suc (open_count st) \<and>
              active_commitment_count st' = sat_add (active_commitment_count st) 1
          | AcknowledgeCommitment _ _ \<Rightarrow> open_count st' = open_count st \<and>
              active_commitment_count st' = active_commitment_count st
          | RaiseDispute _ _ _ _ _ \<Rightarrow> open_count st' = open_count st \<and>
              active_commitment_count st' = active_commitment_count st
          | _ \<Rightarrow> Suc (open_count st') = open_count st \<and>
              active_commitment_count st' = sat_sub (active_commitment_count st) 1)"
  using ok fin
  by (cases call)
    (auto simp: vdb_ok_iffs open_count_def entry_sum_upd_new entry_sum_upd_same is_open_def
      intro!: open_count_settle open_count_drop)

lemma open_count_exact_dispatch:
  assumes "dispatch_vdb cfg orig call (st, x) = Inr (st', x')"
    and "finite (dom (vector_commitments st))" "open_count_exact st" "open_count st' < 2 ^ 32"
  shows "open_count_exact st'"
  using open_count_dispatch [OF assms(1,2)] assms(3,4)
  by (cases call) (auto simp: open_count_exact_def sat_simps)

lemma open_count_step_le:
  assumes "dispatch_vdb cfg orig call (st, x) = Inr (st', x')"
    and "finite (dom (vector_commitments st))"
  shows "open_count st' \<le> Suc (open_count st)"
  using open_count_dispatch [OF assms] by (cases call) auto

section \<open>Money\<close>

text \<open>
  An escrow that no call can reach any more: its commitment is gone (or was registered again and
  cannot be acknowledged, because the identifier is already taken in the escrow pallet).
\<close>

definition stranded :: "vdb_storage \<Rightarrow> (commitment_id \<rightharpoonup> deal) \<Rightarrow> commitment_id \<Rightarrow> bool" where
  "stranded st dls cid \<longleftrightarrow> status_of st cid \<in> {None, Some Pending} \<and>
     (\<exists>p q a. dls cid = Some (Deal p q a Held))"

context vdb_env
begin

text \<open>A call changes at most the deal of its target.\<close>

lemma deals_others:
  assumes "dispatch_vdb cfg orig call (st, x) = Inr (st', x')" "cid \<noteq> call_target cfg x call"
  shows "deals x' cid = deals x cid"
  using assms
  by (cases call)
    (auto simp: vdb_ok_iffs events_keep_deals penalties_keep_deals
      dest!: lock_opens release_closes refund_closes)

text \<open>A deal keeps its parties and amount, and once closed it keeps its outcome.\<close>

lemma deals_monotone:
  assumes ok: "dispatch_vdb cfg orig call (st, x) = Inr (st', x')"
    and dl: "deals x cid = Some (Deal p q a ph)"
  shows "\<exists>ph'. deals x' cid = Some (Deal p q a ph') \<and> (ph \<noteq> Held \<longrightarrow> ph' = ph)"
proof (cases "cid = call_target cfg x call")
  case False
  then show ?thesis using deals_others [OF ok False] dl by simp
next
  case True
  then show ?thesis
    using ok dl
    by (cases call)
      (auto simp: vdb_ok_iffs events_keep_deals penalties_keep_deals
        dest!: lock_opens release_closes refund_closes)
qed

lemma paid_out_only_if:
  assumes ok: "dispatch_vdb cfg orig call (st, x) = Inr (st', x')"
    and held: "deals x cid = Some (Deal p q a Held)" and paid: "deals x' cid = Some (Deal p q a PaidOut)"
  shows "\<exists>cm. vector_commitments st cid = Some cm \<and> call_authorised cfg x st orig call \<and>
    (vc_status cm = Active \<and> (\<exists>n. call = CloseCommitment cid (consumer cm) (merkle_root cm) n) \<or>
     vc_status cm = Disputed \<and>
       (\<exists>d data prf. call = CounterDispute cid (provider cm) data prf \<and>
          dispute_records st cid = Some d \<and> system_block_number cfg x \<le> counter_deadline d \<and>
          refutes cfg cm d data prf))"
proof -
  have t: "cid = call_target cfg x call" using deals_others [OF ok] held paid by fastforce
  show ?thesis
  proof (cases call)
    case (AcknowledgeCommitment i c)
    then show ?thesis
      using ok t held by (auto simp: vdb_ok_iffs dest!: lock_opens)
  next
    case (FinalizeDispute i)
    then show ?thesis
      using ok t paid
      by (auto simp: vdb_ok_iffs events_keep_deals penalties_keep_deals dest!: refund_closes)
  qed (use ok t held paid in \<open>auto simp: vdb_ok_iffs events_keep_deals\<close>)
qed

lemma returned_only_if:
  assumes ok: "dispatch_vdb cfg orig call (st, x) = Inr (st', x')"
    and held: "deals x cid = Some (Deal p q a Held)" and ret: "deals x' cid = Some (Deal p q a Returned)"
  shows "call = FinalizeDispute cid \<and>
    (\<exists>cm d. vector_commitments st cid = Some cm \<and> vc_status cm = Disputed \<and>
       dispute_records st cid = Some d \<and> counter_deadline d < system_block_number cfg x)"
proof -
  have t: "cid = call_target cfg x call" using deals_others [OF ok] held ret by fastforce
  show ?thesis
  proof (cases call)
    case (AcknowledgeCommitment i c)
    then show ?thesis
      using ok t held by (auto simp: vdb_ok_iffs dest!: lock_opens)
  next
    case (CloseCommitment i c fh n)
    then show ?thesis
      using ok t ret by (auto simp: vdb_ok_iffs events_keep_deals dest!: release_closes)
  next
    case (CounterDispute i d chunk hashes)
    then show ?thesis
      using ok t ret
      by (auto simp: vdb_ok_iffs events_keep_deals penalties_keep_deals dest!: release_closes)
  qed (use ok t held ret in \<open>auto simp: vdb_ok_iffs events_keep_deals\<close>)
qed

lemma finalize_live:
  assumes inv: "vdb_inv (vdb_prims cfg) (deals x) st"
    and cm: "vector_commitments st cid = Some cm" "vc_status cm = Disputed"
    and late: "\<And>d. dispute_records st cid = Some d \<Longrightarrow> counter_deadline d < system_block_number cfg x"
  shows "is_ok (finalize_dispute cfg (Signed who) cid (st, x))"
proof -
  obtain d p q a where d: "dispute_records st cid = Some d"
    and held: "deals x cid = Some (Deal p q a Held)"
    using vdb_invD(3) [OF inv cm(1)] cm(2) by (auto simp: stage_ok_def holds_price_def)
  obtain x1 where "escrow_refund cfg cid x = Inr x1"
    using refund_possible [OF held] by (cases "escrow_refund cfg cid x") auto
  then show ?thesis using cm d late [OF d] by (simp add: finalize_dispute_def Let_def)
qed

lemma expire_strands:
  assumes inv: "vdb_inv (vdb_prims cfg) (deals x) st"
    and cm: "vector_commitments st cid = Some cm" "vc_status cm = Active"
    and ok: "expire_commitment cfg orig cid (st, x) = Inr (st', x')"
  shows "stranded st' (deals x') cid \<and> deals x' cid = deals x cid"
  using vdb_invD(3) [OF inv cm(1)] cm ok
  by (auto simp: expire_commitment_ok_iff stranded_def status_of_def stage_ok_def holds_price_def
      events_keep_deals)

lemma stranded_dispatch:
  assumes ok: "dispatch_vdb cfg orig call (st, x) = Inr (st', x')"
    and str: "stranded st (deals x) cid"
  shows "stranded st' (deals x') cid \<and> deals x' cid = deals x cid"
proof (cases "cid = call_target cfg x call")
  case False
  then show ?thesis
    using str deals_others [OF ok False] dispatch_others(1) [OF ok False]
    by (simp add: stranded_def status_of_def)
next
  case True
  then show ?thesis
    using ok str
    by (cases call)
      (auto simp: vdb_ok_iffs stranded_def status_of_def events_keep_deals dest!: lock_opens)
qed

end

end
