(* ===== verification/Template.thy ===== *)
theory Template
  imports Frame
begin

text \<open>
  \<^verbatim>\<open>pallets/template/src/lib.rs\<close>: the example pallet that is part of the runtime. It stores one
  optional \<^verbatim>\<open>u32\<close>; incrementing it is checked, so it fails instead of wrapping.
\<close>

datatype template_event = SomethingStored u32 account_id

datatype template_error = NoneValue | StorageOverflow

record template_storage =
  something :: "u32 option"

type_synonym ('c, 'e) template_result =
  "template_error dispatch_error + (template_storage \<times> ('c, 'e) host)"

definition do_something ::
  "(template_event \<Rightarrow> 'e) \<Rightarrow> origin \<Rightarrow> u32 \<Rightarrow> template_storage \<times> ('c, 'e) host
     \<Rightarrow> ('c, 'e) template_result" where
  "do_something ev orig v s = (case s of (st, h) \<Rightarrow>
     try_then (ensure_signed orig) (\<lambda>who.
     Inr (st\<lparr>something := Some v\<rparr>, deposit_event (ev (SomethingStored v who)) h)))"

definition cause_error ::
  "origin \<Rightarrow> template_storage \<times> ('c, 'e) host \<Rightarrow> ('c, 'e) template_result" where
  "cause_error orig s = (case s of (st, h) \<Rightarrow>
     try_then (ensure_signed orig) (\<lambda>_.
     case something st of
       None \<Rightarrow> Inl (Module NoneValue)
     | Some old \<Rightarrow>
         try_then (ok_or (checked_add old 1) (Module StorageOverflow)) (\<lambda>new.
         Inr (st\<lparr>something := Some new\<rparr>, h))))"

datatype template_call = DoSomething u32 | CauseError

fun dispatch_template ::
  "(template_event \<Rightarrow> 'e) \<Rightarrow> origin \<Rightarrow> template_call \<Rightarrow> template_storage \<times> ('c, 'e) host
     \<Rightarrow> ('c, 'e) template_result" where
  "dispatch_template ev orig (DoSomething v) s = do_something ev orig v s"
| "dispatch_template ev orig CauseError s = cause_error orig s"

lemma dispatch_template_ok_host:
  assumes "dispatch_template ev orig call (st, h) = Inr (st', h')"
  shows "block_number h' = block_number h" "block_hash h' = block_hash h" "ledger h' = ledger h"
    "event_log h' = event_log h \<or> (\<exists>v who. event_log h' = event_log h @ [ev (SomethingStored v who)])"
  using assms
  by (cases call; auto simp: do_something_def cause_error_def res_simps split: option.splits)+

end
