(* ===== verification/Runtime.thy ===== *)
theory Runtime
  imports Registry_Inv Escrow Vector_Db_Life Template
begin

text \<open>
  \<^verbatim>\<open>runtime/src\<close>: the four pallets composed. The adapters of \<^verbatim>\<open>runtime/src/adapters\<close> answer the
  traits of \<^verbatim>\<open>pallet-vector-db\<close> from the registry and the escrow pallet; the constants are those of
  \<^verbatim>\<open>runtime/src/configs/mod.rs\<close>. The parameters that remain are the currency \<open>cur\<close>
  (\<^verbatim>\<open>pallet_balances\<close>), the primitives \<open>pr\<close> and the Merkle crate \<open>rm\<close>.

  The runtime's event log is kept whole: \<^verbatim>\<open>frame_system\<close> clears its own copy at every block, and
  the model's list is the history a subscriber has seen.
\<close>

section \<open>Constants\<close>

definition MILLI_SECS_PER_BLOCK :: u64 where "MILLI_SECS_PER_BLOCK = 6000"
definition MINUTES :: block_number where "MINUTES = 60000 div ucast MILLI_SECS_PER_BLOCK"
definition HOURS :: block_number where "HOURS = MINUTES * 60"
definition DAYS :: block_number where "DAYS = HOURS * 24"
definition BLOCK_HASH_COUNT :: block_number where "BLOCK_HASH_COUNT = 2400"
definition UNIT :: balance where "UNIT = 1000000000000"
definition MILLI_UNIT :: balance where "MILLI_UNIT = 1000000000"
definition MICRO_UNIT :: balance where "MICRO_UNIT = 1000000"
definition EXISTENTIAL_DEPOSIT :: balance where "EXISTENTIAL_DEPOSIT = MILLI_UNIT"

definition StarCooldown :: block_number where "StarCooldown = 1200"
definition RegistrationDeposit :: balance where "RegistrationDeposit = 100 * UNIT"
definition StrikeThreshold :: u32 where "StrikeThreshold = 10"
definition DepositSlashPerStrike :: balance where "DepositSlashPerStrike = 10 * UNIT"
definition DisputeWindow :: block_number where "DisputeWindow = 14400"
definition MaxCommitmentLifetime :: block_number where "MaxCommitmentLifetime = 100800"
definition ProviderGuiltySlash :: u32 where "ProviderGuiltySlash = 5"
definition FalseDisputeSlash :: u32 where "FalseDisputeSlash = 2"

section \<open>State, events, errors, calls\<close>

datatype runtime_event =
    TemplateEvent template_event
  | RegistryEvent registry_event
  | VdbEvent vdb_event
  | EscrowEvent escrow_event

datatype runtime_error =
    TemplateErr template_error
  | RegistryErr registry_error
  | VdbErr vdb_error
  | EscrowErr escrow_error

text \<open>Everything \<^verbatim>\<open>pallet-vector-db\<close> reaches through its traits.\<close>

record 'c rt_env =
  registry :: registry_storage
  escrow :: escrow_storage
  host_of :: "('c, runtime_event) host"

record 'c runtime =
  template :: template_storage
  vectordb :: vdb_storage
  env :: "'c rt_env"

datatype runtime_call =
    TemplateCall template_call
  | RegistryCall registry_call
  | VdbCall vdb_call

type_synonym 'c runtime_result = "runtime_error dispatch_error + 'c runtime"

section \<open>Configurations and adapters\<close>

definition rt_registry_config ::
  "'c currency \<Rightarrow> ('vk, 'sg) prims \<Rightarrow> ('c, runtime_event, 'vk, 'sg) registry_config" where
  "rt_registry_config cur pr = \<lparr>star_cooldown = StarCooldown, reg_currency = cur,
     registration_deposit = RegistrationDeposit, strike_threshold = StrikeThreshold,
     deposit_slash_per_strike = DepositSlashPerStrike, reg_event = RegistryEvent, reg_prims = pr\<rparr>"

definition rt_escrow_config :: "'c currency \<Rightarrow> ('c, runtime_event) escrow_config" where
  "rt_escrow_config cur = \<lparr>esc_currency = cur, esc_event = EscrowEvent\<rparr>"

text \<open>\<^verbatim>\<open>adapters/agent_registry.rs\<close>\<close>

definition adapter_controller_of :: "did \<Rightarrow> 'c rt_env \<Rightarrow> account_id option" where
  "adapter_controller_of d x = map_option controller (agent_profiles (registry x) d)"

definition adapter_is_active_verified :: "did \<Rightarrow> 'c rt_env \<Rightarrow> bool" where
  "adapter_is_active_verified d x = (case agent_profiles (registry x) d of
       Some profile \<Rightarrow> status profile = agent_status.Active \<and> is_verified profile
     | None \<Rightarrow> False)"

text \<open>\<^verbatim>\<open>adapters/reputation_handler.rs\<close>\<close>

definition adapter_penalize_provider ::
  "'c currency \<Rightarrow> ('vk, 'sg) prims \<Rightarrow> did \<Rightarrow> 'c rt_env \<Rightarrow> 'c rt_env" where
  "adapter_penalize_provider cur pr d x =
     (case slash_reputation_for_guilty_delivery (rt_registry_config cur pr) d ProviderGuiltySlash
             (registry x, host_of x) of
        (st, h) \<Rightarrow> x\<lparr>registry := st, host_of := h\<rparr>)"

definition adapter_penalize_false_disputer ::
  "'c currency \<Rightarrow> ('vk, 'sg) prims \<Rightarrow> did \<Rightarrow> 'c rt_env \<Rightarrow> 'c rt_env" where
  "adapter_penalize_false_disputer cur pr d x =
     (case slash_reputation (rt_registry_config cur pr) d FalseDisputeSlash (registry x, host_of x) of
        (st, h) \<Rightarrow> x\<lparr>registry := st, host_of := h\<rparr>)"

text \<open>\<^verbatim>\<open>adapters/escrow.rs\<close>; an error of the escrow pallet becomes one of the runtime.\<close>

definition lift_escrow ::
  "'c rt_env \<Rightarrow> ('c, runtime_event) escrow_result \<Rightarrow> runtime_error dispatch_error + 'c rt_env" where
  "lift_escrow x r = try_then (map_err (map_dispatch_error EscrowErr) r)
     (\<lambda>(st, h). Inr (x\<lparr>escrow := st, host_of := h\<rparr>))"

definition adapter_lock ::
  "'c currency \<Rightarrow> commitment_id \<Rightarrow> account_id \<Rightarrow> account_id \<Rightarrow> balance \<Rightarrow> 'c rt_env
     \<Rightarrow> runtime_error dispatch_error + 'c rt_env" where
  "adapter_lock cur eid pyr pye amt x =
     lift_escrow x (lock (rt_escrow_config cur) eid pyr pye amt (escrow x, host_of x))"

definition adapter_release ::
  "'c currency \<Rightarrow> commitment_id \<Rightarrow> 'c rt_env \<Rightarrow> runtime_error dispatch_error + 'c rt_env" where
  "adapter_release cur eid x =
     lift_escrow x (release (rt_escrow_config cur) eid (escrow x, host_of x))"

definition adapter_refund ::
  "'c currency \<Rightarrow> commitment_id \<Rightarrow> 'c rt_env \<Rightarrow> runtime_error dispatch_error + 'c rt_env" where
  "adapter_refund cur eid x =
     lift_escrow x (refund (rt_escrow_config cur) eid (escrow x, host_of x))"

definition rt_vdb_config ::
  "'c currency \<Rightarrow> ('vk, 'sg) prims \<Rightarrow> 't rs_merkle
     \<Rightarrow> ('c rt_env, runtime_error, 'vk, 'sg, 't) vdb_config" where
  "rt_vdb_config cur pr rm = \<lparr>
     controller_of = adapter_controller_of,
     is_active_verified = adapter_is_active_verified,
     penalize_provider = adapter_penalize_provider cur pr,
     penalize_false_disputer = adapter_penalize_false_disputer cur pr,
     escrow_lock = adapter_lock cur,
     escrow_release = adapter_release cur,
     escrow_refund = adapter_refund cur,
     cfg_dispute_window = DisputeWindow,
     max_commitment_lifetime = MaxCommitmentLifetime,
     provider_guilty_slash = ProviderGuiltySlash,
     false_dispute_slash = FalseDisputeSlash,
     system_block_number = (\<lambda>x. block_number (host_of x)),
     vdb_deposit_event = (\<lambda>ev x. x\<lparr>host_of := deposit_event (VdbEvent ev) (host_of x)\<rparr>),
     vdb_err = VdbErr,
     vdb_prims = pr,
     vdb_merkle = rm \<rparr>"

lemmas rt_configs = rt_registry_config_def rt_escrow_config_def rt_vdb_config_def

section \<open>Dispatch and steps\<close>

fun runtime_call_bounded :: "runtime_call \<Rightarrow> bool" where
  "runtime_call_bounded (TemplateCall _) \<longleftrightarrow> True"
| "runtime_call_bounded (RegistryCall call) \<longleftrightarrow> registry_call_bounded call"
| "runtime_call_bounded (VdbCall call) \<longleftrightarrow> vdb_call_bounded call"

fun dispatch ::
  "'c currency \<Rightarrow> ('vk, 'sg) prims \<Rightarrow> 't rs_merkle \<Rightarrow> origin \<Rightarrow> runtime_call \<Rightarrow> 'c runtime
     \<Rightarrow> 'c runtime_result" where
  "dispatch cur pr rm orig (TemplateCall call) s =
     try_then (map_err (map_dispatch_error TemplateErr)
       (dispatch_template TemplateEvent orig call (template s, host_of (env s))))
       (\<lambda>(st, h). Inr (s\<lparr>template := st, env := (env s)\<lparr>host_of := h\<rparr>\<rparr>))"
| "dispatch cur pr rm orig (RegistryCall call) s =
     try_then (map_err (map_dispatch_error RegistryErr)
       (dispatch_registry (rt_registry_config cur pr) orig call (registry (env s), host_of (env s))))
       (\<lambda>(st, h). Inr (s\<lparr>env := (env s)\<lparr>registry := st, host_of := h\<rparr>\<rparr>))"
| "dispatch cur pr rm orig (VdbCall call) s =
     try_then (dispatch_vdb (rt_vdb_config cur pr rm) orig call (vectordb s, env s))
       (\<lambda>(st, x). Inr (s\<lparr>vectordb := st, env := x\<rparr>))"

text \<open>
  A step of the chain: a call that succeeds (one that fails leaves the state as it was), a new
  block, or something else on the ledger (a transfer, a fee, a reward) that does not touch
  reserved balances.
\<close>

inductive runtime_step ::
  "'c currency \<Rightarrow> ('vk, 'sg) prims \<Rightarrow> 't rs_merkle \<Rightarrow> 'c runtime \<Rightarrow> 'c runtime \<Rightarrow> bool"
  for cur :: "'c currency" and pr :: "('vk, 'sg) prims" and rm :: "'t rs_merkle" where
  Call: "runtime_call_bounded call \<Longrightarrow> dispatch cur pr rm orig call s = Inr t \<Longrightarrow>
    runtime_step cur pr rm s t"
| New_block: "block_number (host_of (env s)) < n \<Longrightarrow>
    runtime_step cur pr rm s (s\<lparr>env := (env s)\<lparr>host_of :=
      (host_of (env s))\<lparr>block_number := n, block_hash := hashes\<rparr>\<rparr>\<rparr>)"
| Ledger: "(\<And>who. reserved_balance cur c who = reserved_balance cur (ledger (host_of (env s))) who) \<Longrightarrow>
    runtime_step cur pr rm s (s\<lparr>env := (env s)\<lparr>host_of := (host_of (env s))\<lparr>ledger := c\<rparr>\<rparr>\<rparr>)"

inductive_cases runtime_stepE: "runtime_step cur pr rm s t"

text \<open>Genesis: empty pallets, the preset's dispute window, and whatever balances the preset endows.\<close>

definition genesis :: "block_number option \<Rightarrow> (block_number \<Rightarrow> h256) \<Rightarrow> 'c \<Rightarrow> 'c runtime" where
  "genesis dispute_window hashes c = \<lparr>
     template = \<lparr>something = None\<rparr>,
     vectordb = genesis_build dispute_window,
     env = \<lparr>registry = empty_registry, escrow = \<lparr>escrows = Map.empty\<rparr>,
            host_of = \<lparr>block_number = 0, block_hash = hashes, event_log = [], ledger = c\<rparr>\<rparr> \<rparr>"

definition reachable ::
  "'c currency \<Rightarrow> ('vk, 'sg) prims \<Rightarrow> 't rs_merkle \<Rightarrow> 'c runtime \<Rightarrow> bool" where
  "reachable cur pr rm s \<longleftrightarrow> (\<exists>w hashes c. (\<forall>who. reserved_balance cur c who = 0) \<and>
     (runtime_step cur pr rm)\<^sup>*\<^sup>* (genesis w hashes c) s)"

section \<open>The adapters satisfy the contracts\<close>

text \<open>What the vector database sees of the escrow pallet.\<close>

definition phase_of :: "escrow_status \<Rightarrow> deal_phase" where
  "phase_of s = (case s of Locked \<Rightarrow> Held | Released \<Rightarrow> PaidOut | Refunded \<Rightarrow> Returned)"

definition deal_of :: "escrow_record \<Rightarrow> deal" where
  "deal_of rec = Deal (payer rec) (payee rec) (amount rec) (phase_of (escrow_status rec))"

definition env_deals :: "'c rt_env \<Rightarrow> commitment_id \<rightharpoonup> deal" where
  "env_deals x cid = map_option deal_of (escrows (escrow x) cid)"

lemma phase_of_simps [simp]:
  "phase_of Locked = Held" "phase_of Released = PaidOut" "phase_of Refunded = Returned"
  "phase_of s = Held \<longleftrightarrow> s = Locked"
  "phase_of s = PaidOut \<longleftrightarrow> s = Released" "phase_of s = Returned \<longleftrightarrow> s = Refunded"
  by (cases s; simp add: phase_of_def)+

lemma deal_of_status [simp]:
  "deal_of (rec\<lparr>escrow_status := s\<rparr>) = Deal (payer rec) (payee rec) (amount rec) (phase_of s)"
  by (simp add: deal_of_def)

lemma env_deals_cong: "escrow x' = escrow x \<Longrightarrow> env_deals x' = env_deals x"
  by (simp add: env_deals_def fun_eq_iff)

lemma lift_escrow_Inr [res_simps]:
  "lift_escrow x r = Inr x' \<longleftrightarrow> (\<exists>st h. r = Inr (st, h) \<and> x' = x\<lparr>escrow := st, host_of := h\<rparr>)"
  by (auto simp: lift_escrow_def res_simps)

lemma adapter_penalize_escrow [simp]:
  "escrow (adapter_penalize_provider cur pr d x) = escrow x"
  "escrow (adapter_penalize_false_disputer cur pr d x) = escrow x"
  by (simp_all add: adapter_penalize_provider_def adapter_penalize_false_disputer_def case_prod_beta)

interpretation escrow_adapter: escrow_handler "adapter_lock cur" "adapter_release cur" "adapter_refund cur"
  env_deals for cur :: "'c currency"
proof
  fix i p q a and x x' :: "'c rt_env"
  assume "adapter_lock cur i p q a x = Inr x'"
  then show "env_deals x i = None \<and> env_deals x' = (env_deals x)(i \<mapsto> Deal p q a Held)"
    by (auto simp: adapter_lock_def res_simps lock_ok_iff env_deals_def deal_of_def fun_eq_iff)
next
  fix i and x x' :: "'c rt_env"
  assume "adapter_release cur i x = Inr x'"
  then show "\<exists>p q a. env_deals x i = Some (Deal p q a Held) \<and>
      env_deals x' = (env_deals x)(i \<mapsto> Deal p q a PaidOut)"
    by (auto simp: adapter_release_def res_simps release_ok_iff env_deals_def deal_of_def fun_eq_iff)
next
  fix i and x x' :: "'c rt_env"
  assume "adapter_refund cur i x = Inr x'"
  then show "\<exists>p q a. env_deals x i = Some (Deal p q a Held) \<and>
      env_deals x' = (env_deals x)(i \<mapsto> Deal p q a Returned)"
    by (auto simp: adapter_refund_def res_simps refund_ok_iff env_deals_def deal_of_def fun_eq_iff)
next
  fix i p q a and x :: "'c rt_env"
  assume "env_deals x i = Some (Deal p q a Held)"
  then show "is_ok (adapter_refund cur i x)"
    by (auto simp: env_deals_def deal_of_def adapter_refund_def lift_escrow_def refund_def
        case_prod_beta Let_def)
qed

interpretation registry_adapter: agent_lookup adapter_controller_of adapter_is_active_verified
  by unfold_locales
    (auto simp: adapter_controller_of_def adapter_is_active_verified_def split: option.splits)

interpretation rt: vdb_env "rt_vdb_config cur pr rm" env_deals
  for cur :: "'c currency" and pr :: "('vk, 'sg) prims" and rm :: "'t rs_merkle"
proof -
  show "vdb_env (rt_vdb_config cur pr rm) env_deals"
  proof (intro vdb_env.intro vdb_env_axioms.intro)
    show "escrow_handler (escrow_lock (rt_vdb_config cur pr rm)) (escrow_release (rt_vdb_config cur pr rm))
        (escrow_refund (rt_vdb_config cur pr rm)) env_deals"
      by (simp add: rt_vdb_config_def escrow_adapter.escrow_handler_axioms)
    show "agent_lookup (controller_of (rt_vdb_config cur pr rm))
        (is_active_verified (rt_vdb_config cur pr rm))"
      by (simp add: rt_vdb_config_def registry_adapter.agent_lookup_axioms)
  qed (rule env_deals_cong, simp add: rt_vdb_config_def)+
qed

end
