(* ===== verification/Runtime_Inv.thy ===== *)
theory Runtime_Inv
  imports Runtime Transition
begin

text \<open>
  Invariants of the composed runtime: the registry's and the vector database's own ones, the link
  between commitments and escrows, and solvency, which accounts for every reserved unit.
\<close>

section \<open>What a call does to each part of the environment\<close>

lemma adapters_registry:
  "adapter_lock cur i p q a x = Inr x' \<Longrightarrow> registry x' = registry x"
  "adapter_release cur i x = Inr x' \<Longrightarrow> registry x' = registry x"
  "adapter_refund cur i x = Inr x' \<Longrightarrow> registry x' = registry x"
  by (auto simp: adapter_lock_def adapter_release_def adapter_refund_def res_simps)

lemma registry_penalize_provider:
  "registry (adapter_penalize_provider cur pr d x) =
     fst (slash_reputation_for_guilty_delivery (rt_registry_config cur pr) d ProviderGuiltySlash
       (registry x, host_of x))"
  by (simp add: adapter_penalize_provider_def case_prod_beta)

lemma registry_penalize_false_disputer:
  "registry (adapter_penalize_false_disputer cur pr d x) =
     fst (slash_reputation (rt_registry_config cur pr) d FalseDisputeSlash (registry x, host_of x))"
  by (simp add: adapter_penalize_false_disputer_def case_prod_beta)

text \<open>The provider penalty on a registered agent, with the runtime's constants.\<close>

lemma penalize_provider_missing:
  "agent_profiles (registry x) d = None \<Longrightarrow> adapter_penalize_provider cur pr d x = x"
  by (simp add: adapter_penalize_provider_def guilty_missing)

lemma penalize_provider_found:
  assumes "agent_profiles (registry x) d = Some p"
    and sl: "slash_reserved cur (controller p) DepositSlashPerStrike (ledger (host_of x)) = (c, rest)"
  defines "slash_event \<equiv> RegistryEvent (ReputationSlashed d ProviderGuiltySlash
      (sat_sub (reputation_score p) ProviderGuiltySlash))"
    and "strikes \<equiv> sat_add (dispute_strikes (registry x) d) 1"
  shows "adapter_penalize_provider cur pr d x = x\<lparr>
    registry := guilty_storage (rt_registry_config cur pr) d ProviderGuiltySlash p (registry x),
    host_of := (if strikes < StrikeThreshold then deposit_event slash_event (host_of x)
      else deposit_event (RegistryEvent (DepositSlashed d (controller p)
             (sat_sub DepositSlashPerStrike rest) strikes))
           ((deposit_event slash_event (host_of x))\<lparr>ledger := c\<rparr>))\<rparr>"
  using guilty_below_threshold [OF assms(1), of "rt_registry_config cur pr"]
    guilty_at_threshold [OF assms(1), of "rt_registry_config cur pr" "host_of x" c rest] sl
  by (auto simp: adapter_penalize_provider_def rt_registry_config_def slash_event_def strikes_def)

lemma vdb_keeps_registry_inv:
  assumes "dispatch_vdb (rt_vdb_config cur pr rm) orig call (st, x) = Inr (st', x')"
    and "registry_inv (registry x)"
  shows "registry_inv (registry x')"
  by (rule dispatch_env_inv [OF assms(1), where P = "\<lambda>x. registry_inv (registry x)"])
    (use assms(2) in \<open>auto simp: rt_vdb_config_def adapters_registry registry_penalize_provider
      registry_penalize_false_disputer intro: guilty_inv slash_reputation_inv\<close>)

lemma vdb_keeps_escrows_finite:
  assumes "dispatch_vdb (rt_vdb_config cur pr rm) orig call (st, x) = Inr (st', x')"
    and "finite (dom (escrows (escrow x)))"
  shows "finite (dom (escrows (escrow x')))"
  by (rule dispatch_env_inv [OF assms(1), where P = "\<lambda>x. finite (dom (escrows (escrow x)))"])
    (use assms(2) in \<open>auto simp: rt_vdb_config_def adapter_lock_def adapter_release_def
      adapter_refund_def res_simps escrow_ok_iffs\<close>)

section \<open>The structural invariant\<close>

lemma rt_vdb_prims [simp]: "vdb_prims (rt_vdb_config cur pr rm) = pr"
  by (simp add: rt_vdb_config_def)

definition runtime_inv :: "('vk, 'sg) prims \<Rightarrow> 'c runtime \<Rightarrow> bool" where
  "runtime_inv pr s \<longleftrightarrow> registry_inv (registry (env s)) \<and>
     vdb_inv pr (env_deals (env s)) (vectordb s) \<and> finite (dom (escrows (escrow (env s))))"

lemma runtime_inv_genesis: "runtime_inv pr (genesis w hashes c)"
  by (simp add: runtime_inv_def genesis_def registry_inv_empty vdb_inv_genesis)

lemma dispatch_ok_cases:
  assumes "dispatch cur pr rm orig call s = Inr t"
  obtains (template) tcall st h where "call = TemplateCall tcall"
      "dispatch_template TemplateEvent orig tcall (template s, host_of (env s)) = Inr (st, h)"
      "t = s\<lparr>template := st, env := (env s)\<lparr>host_of := h\<rparr>\<rparr>"
  | (registry) rcall st h where "call = RegistryCall rcall"
      "dispatch_registry (rt_registry_config cur pr) orig rcall
         (registry (env s), host_of (env s)) = Inr (st, h)"
      "t = s\<lparr>env := (env s)\<lparr>registry := st, host_of := h\<rparr>\<rparr>"
  | (vdb) vcall st x where "call = VdbCall vcall"
      "dispatch_vdb (rt_vdb_config cur pr rm) orig vcall (vectordb s, env s) = Inr (st, x)"
      "t = s\<lparr>vectordb := st, env := x\<rparr>"
  using assms by (cases call) (auto simp: res_simps)

lemma dispatch_runtime_inv:
  assumes "dispatch cur pr rm orig call s = Inr t" "runtime_call_bounded call" "runtime_inv pr s"
  shows "runtime_inv pr t"
  using assms(1)
proof (cases rule: dispatch_ok_cases)
  case (template tcall st h)
  then show ?thesis using assms(3) by (simp add: runtime_inv_def env_deals_def [abs_def])
next
  case (registry rcall st h)
  then show ?thesis
    using assms(2,3) dispatch_registry_inv [OF registry(2)]
    by (simp add: runtime_inv_def env_deals_def [abs_def])
next
  case (vdb vcall st x)
  have "vdb_inv pr (env_deals x) st"
    using rt.dispatch_inv [OF vdb(2)] assms(2,3) vdb(1) by (simp add: runtime_inv_def)
  then show ?thesis
    using vdb_keeps_registry_inv [OF vdb(2)] vdb_keeps_escrows_finite [OF vdb(2)] assms(3) vdb(3)
    by (simp add: runtime_inv_def)
qed

interpretation structural: transition_invariant "runtime_step cur pr rm" "runtime_inv pr"
  for cur :: "'c currency" and pr :: "('vk, 'sg) prims" and rm :: "'t rs_merkle"
proof
  fix s t :: "'c runtime"
  assume inv: "runtime_inv pr s" and "runtime_step cur pr rm s t"
  from this(2) show "runtime_inv pr t"
  proof cases
    case (Call call orig)
    then show ?thesis using dispatch_runtime_inv inv by blast
  qed (use inv in \<open>simp_all add: runtime_inv_def env_deals_def [abs_def]\<close>)
qed

lemma reachable_inv:
  assumes "reachable cur pr rm s"
  shows "runtime_inv pr s"
  using assms structural.run_inv [OF _ runtime_inv_genesis] by (auto simp: reachable_def)

lemma reachable_step: "reachable cur pr rm s \<Longrightarrow> runtime_step cur pr rm s t \<Longrightarrow> reachable cur pr rm t"
  unfolding reachable_def by (meson rtranclp.rtrancl_into_rtrancl)

lemma reachable_run:
  "reachable cur pr rm s \<Longrightarrow> (runtime_step cur pr rm)\<^sup>*\<^sup>* s t \<Longrightarrow> reachable cur pr rm t"
  unfolding reachable_def by (meson rtranclp_trans)

end
