(* ===== verification/Solvency.thy ===== *)
theory Solvency
  imports Runtime_Inv
begin

text \<open>
  Who the reserved balances belong to. Every registered agent holds a deposit of its controller in
  reserve, every locked escrow holds its price; the only thing that takes from a reserve without
  discharging an obligation is the strike penalty, which leaves a \<^verbatim>\<open>DepositSlashed\<close> event.
\<close>

section \<open>Obligations\<close>

fun slashed_from :: "account_id \<Rightarrow> runtime_event \<Rightarrow> nat" where
  "slashed_from who (RegistryEvent (DepositSlashed _ ctl amt _)) = (if ctl = who then unat amt else 0)"
| "slashed_from who _ = 0"

definition slashed_total :: "runtime_event list \<Rightarrow> account_id \<Rightarrow> nat" where
  "slashed_total log who = sum_list (map (slashed_from who) log)"

definition obligations :: "registry_storage \<Rightarrow> escrow_storage \<Rightarrow> account_id \<Rightarrow> nat" where
  "obligations reg esc who =
     unat RegistrationDeposit * length (controller_agents reg who) + locked_total esc who"

definition solvent :: "'c currency \<Rightarrow> 'c rt_env \<Rightarrow> bool" where
  "solvent cur x \<longleftrightarrow> (\<forall>who. obligations (registry x) (escrow x) who
     \<le> reserved_of cur (ledger (host_of x)) who + slashed_total (event_log (host_of x)) who)"

lemma slashed_total_simps [simp]:
  "slashed_total [] who = 0"
  "slashed_total (log @ log') who = slashed_total log who + slashed_total log' who"
  "slashed_total (e # log) who = slashed_from who e + slashed_total log who"
  by (simp_all add: slashed_total_def)

lemma solventD:
  "solvent cur x \<Longrightarrow> obligations (registry x) (escrow x) who
     \<le> reserved_of cur (ledger (host_of x)) who + slashed_total (event_log (host_of x)) who"
  by (simp add: solvent_def)

section \<open>Each primitive keeps it\<close>

lemma solvent_lock:
  assumes "currency_laws cur" "solvent cur x" "finite (dom (escrows (escrow x)))"
    and ok: "adapter_lock cur i p q a x = Inr x'"
  shows "solvent cur x'"
proof -
  obtain st h c where lk: "lock (rt_escrow_config cur) i p q a (escrow x, host_of x) = Inr (st, h)"
    and x': "x' = x\<lparr>escrow := st, host_of := h\<rparr>"
    and c: "reserve cur p a (ledger (host_of x)) = Inr c" "ledger h = c"
      "\<And>who. slashed_total (event_log h) who = slashed_total (event_log (host_of x)) who"
    using ok by (auto simp: adapter_lock_def res_simps lock_ok_iff rt_configs)
  show ?thesis
    unfolding solvent_def
  proof
    fix who
    show "obligations (registry x') (escrow x') who
      \<le> reserved_of cur (ledger (host_of x')) who + slashed_total (event_log (host_of x')) who"
      using solventD [OF assms(2), of who] locked_total_lock [OF lk assms(3), of who]
        reserve_lawD(3) [OF assms(1) c(1), of who] c
      by (simp add: x' obligations_def)
  qed
qed

lemma solvent_settle:
  assumes laws: "currency_laws cur" and slv: "solvent cur x"
    and fin: "finite (dom (escrows (escrow x)))"
    and rec: "escrows (escrow x) i = Some rec" "escrow_status rec = Locked" "s \<noteq> Locked"
    and x': "registry x' = registry x"
      "escrow x' = (escrow x)\<lparr>escrows := (escrows (escrow x))(i \<mapsto> rec\<lparr>escrow_status := s\<rparr>)\<rparr>"
      "\<And>who. slashed_total (event_log (host_of x')) who = slashed_total (event_log (host_of x)) who"
    and res: "\<And>who. reserved_of cur (ledger (host_of x')) who = reserved_of cur (ledger (host_of x)) who -
        (if who = payer rec then min (unat (amount rec)) (reserved_of cur (ledger (host_of x)) (payer rec)) else 0)"
  shows "solvent cur x'"
  unfolding solvent_def
proof
  fix who
  show "obligations (registry x') (escrow x') who
    \<le> reserved_of cur (ledger (host_of x')) who + slashed_total (event_log (host_of x')) who"
    using solventD [OF slv, of who] locked_total_settle [OF rec fin, of who] res [of who]
    by (cases "who = payer rec") (simp_all add: x' obligations_def)
qed

lemma solvent_release:
  assumes "currency_laws cur" "solvent cur x" "finite (dom (escrows (escrow x)))"
    and ok: "adapter_release cur i x = Inr x'"
  shows "solvent cur x'"
proof -
  obtain rec c rest where r: "escrows (escrow x) i = Some rec" "escrow_status rec = Locked"
    "repatriate_reserved cur (payer rec) (payee rec) (amount rec) (ledger (host_of x)) = Inr (c, rest)"
    and x': "registry x' = registry x"
      "escrow x' = (escrow x)\<lparr>escrows := (escrows (escrow x))(i \<mapsto> rec\<lparr>escrow_status := Released\<rparr>)\<rparr>"
      "\<And>who. slashed_total (event_log (host_of x')) who = slashed_total (event_log (host_of x)) who"
      "ledger (host_of x') = c"
    using ok by (auto simp: adapter_release_def res_simps release_ok_iff rt_configs)
  show ?thesis
    by (rule solvent_settle [OF assms(1-3) r(1,2) _ x'(1-3)])
      (simp_all add: x'(4) repatriate_lawD(2) [OF assms(1) r(3)])
qed

lemma solvent_refund:
  assumes "currency_laws cur" "solvent cur x" "finite (dom (escrows (escrow x)))"
    and ok: "adapter_refund cur i x = Inr x'"
  shows "solvent cur x'"
proof -
  obtain rec c rest where r: "escrows (escrow x) i = Some rec" "escrow_status rec = Locked"
    "unreserve cur (payer rec) (amount rec) (ledger (host_of x)) = (c, rest)"
    and x': "registry x' = registry x"
      "escrow x' = (escrow x)\<lparr>escrows := (escrows (escrow x))(i \<mapsto> rec\<lparr>escrow_status := Refunded\<rparr>)\<rparr>"
      "\<And>who. slashed_total (event_log (host_of x')) who = slashed_total (event_log (host_of x)) who"
      "ledger (host_of x') = c"
    using ok by (auto simp: adapter_refund_def res_simps refund_ok_iff rt_configs)
  show ?thesis
    by (rule solvent_settle [OF assms(1-3) r(1,2) _ x'(1-3)])
      (simp_all add: x'(4) unreserve_lawD(3) [OF assms(1) r(3)])
qed

lemma solvent_false_disputer:
  assumes "solvent cur x"
  shows "solvent cur (adapter_penalize_false_disputer cur pr d x)"
proof (cases "agent_profiles (registry x) d")
  case None
  then show ?thesis
    using assms by (simp add: adapter_penalize_false_disputer_def slash_reputation_missing)
next
  case (Some p)
  then show ?thesis
    using assms
    by (simp add: adapter_penalize_false_disputer_def slash_reputation_found solvent_def
        obligations_def rt_registry_config_def)
qed

text \<open>The strike penalty takes exactly what its event says.\<close>

lemma slash_event_exact:
  assumes "currency_laws cur" "slash_reserved cur who v c = (c', rest)"
  shows "reserved_of cur c' x + (if x = who then unat (sat_sub v rest) else 0) = reserved_of cur c x"
  using slash_reserved_lawD [OF assms] by (simp add: sat_simps)

lemma solvent_penalize_provider:
  assumes "currency_laws cur" "solvent cur x"
  shows "solvent cur (adapter_penalize_provider cur pr d x)"
proof (cases "agent_profiles (registry x) d")
  case None
  then show ?thesis using assms by (simp add: penalize_provider_missing)
next
  case (Some p)
  obtain c rest where sl: "slash_reserved cur (controller p) DepositSlashPerStrike (ledger (host_of x))
      = (c, rest)" by force
  show ?thesis
    unfolding solvent_def
  proof
    fix who
    show "obligations (registry (adapter_penalize_provider cur pr d x))
        (escrow (adapter_penalize_provider cur pr d x)) who
      \<le> reserved_of cur (ledger (host_of (adapter_penalize_provider cur pr d x))) who
        + slashed_total (event_log (host_of (adapter_penalize_provider cur pr d x))) who"
      using solventD [OF assms(2), of who] slash_event_exact [OF assms(1) sl, of who]
      by (auto simp: penalize_provider_found [OF Some sl] obligations_def)
  qed
qed

section \<open>Registry calls keep it\<close>

lemma length_filter_remove:
  "distinct xs \<Longrightarrow> d \<in> set xs \<Longrightarrow> Suc (length (filter (\<lambda>x. x \<noteq> d) xs)) = length xs"
proof (induction xs)
  case (Cons y ys)
  show ?case
  proof (cases "y = d")
    case True
    then have "filter (\<lambda>x. x \<noteq> d) ys = ys" using Cons.prems by (auto simp: filter_id_conv)
    then show ?thesis using True by simp
  qed (use Cons in auto)
qed simp

lemma registry_inv_index:
  assumes "registry_inv st" "agent_profiles st d = Some p"
  shows "d \<in> set (controller_agents st (controller p))" "distinct (controller_agents st c)"
  using assms by (auto simp: registry_inv_def index_agrees_def)

lemma solvent_registry:
  assumes laws: "currency_laws cur" and slv: "solvent cur x" and inv: "registry_inv (registry x)"
    and ok: "dispatch_registry (rt_registry_config cur pr) orig call (registry x, host_of x) = Inr (st, h)"
  shows "solvent cur (x\<lparr>registry := st, host_of := h\<rparr>)"
proof (cases call)
  case (RegisterAgent pubkey signature at caps meta lbl)
  then obtain ctl c where c: "reserve cur ctl RegistrationDeposit (ledger (host_of x)) = Inr c"
    "controller_agents st = (controller_agents (registry x))
       (ctl := controller_agents (registry x) ctl @ [derive_did pr pubkey])"
    "ledger h = c" "\<And>who. slashed_total (event_log h) who = slashed_total (event_log (host_of x)) who"
    using ok by (auto simp: register_agent_ok_iff rt_registry_config_def)
  show ?thesis
    unfolding solvent_def
  proof
    fix who
    show "obligations (registry (x\<lparr>registry := st, host_of := h\<rparr>)) (escrow (x\<lparr>registry := st, host_of := h\<rparr>)) who
      \<le> reserved_of cur (ledger (host_of (x\<lparr>registry := st, host_of := h\<rparr>))) who
        + slashed_total (event_log (host_of (x\<lparr>registry := st, host_of := h\<rparr>))) who"
      using solventD [OF slv, of who] reserve_lawD(3) [OF laws c(1), of who] c(2-)
      by (cases "who = ctl") (simp_all add: obligations_def)
  qed
next
  case (DeregisterAgent d)
  then obtain p where p: "agent_profiles (registry x) d = Some p"
    "controller_agents st = (controller_agents (registry x))
       (controller p := filter (\<lambda>y. y \<noteq> d) (controller_agents (registry x) (controller p)))"
    "ledger h = fst (unreserve cur (controller p) RegistrationDeposit (ledger (host_of x)))"
    "\<And>who. slashed_total (event_log h) who = slashed_total (event_log (host_of x)) who"
    using ok by (auto simp: deregister_agent_ok_iff rt_registry_config_def)
  obtain c rest where u: "unreserve cur (controller p) RegistrationDeposit (ledger (host_of x)) = (c, rest)"
    by force
  have len: "Suc (length (filter (\<lambda>y. y \<noteq> d) (controller_agents (registry x) (controller p))))
      = length (controller_agents (registry x) (controller p))"
    using registry_inv_index [OF inv p(1)] by (rule length_filter_remove [rotated])
  show ?thesis
    unfolding solvent_def
  proof
    fix who
    show "obligations (registry (x\<lparr>registry := st, host_of := h\<rparr>)) (escrow (x\<lparr>registry := st, host_of := h\<rparr>)) who
      \<le> reserved_of cur (ledger (host_of (x\<lparr>registry := st, host_of := h\<rparr>))) who
        + slashed_total (event_log (host_of (x\<lparr>registry := st, host_of := h\<rparr>))) who"
      using solventD [OF slv, of who] unreserve_lawD(3) [OF laws u, of who] p(2-) u len [symmetric]
      by (cases "who = controller p") (simp_all add: obligations_def)
  qed
qed (use ok slv in \<open>auto simp: registry_ok_iffs solvent_def obligations_def rt_registry_config_def\<close>)

section \<open>Every step keeps it\<close>

definition solvency_inv :: "'c currency \<Rightarrow> ('vk, 'sg) prims \<Rightarrow> 'c runtime \<Rightarrow> bool" where
  "solvency_inv cur pr s \<longleftrightarrow> runtime_inv pr s \<and> (currency_laws cur \<longrightarrow> solvent cur (env s))"

lemma solvent_vdb:
  assumes laws: "currency_laws cur"
    and ok: "dispatch_vdb (rt_vdb_config cur pr rm) orig call (st, x) = Inr (st', x')"
    and start: "solvent cur x" "finite (dom (escrows (escrow x)))"
  shows "solvent cur x'"
proof -
  have "solvent cur x' \<and> finite (dom (escrows (escrow x')))"
  proof (rule dispatch_env_inv [OF ok, where P = "\<lambda>x. solvent cur x \<and> finite (dom (escrows (escrow x)))"])
    show "solvent cur x \<and> finite (dom (escrows (escrow x)))" using start by blast
  qed (auto simp: rt_vdb_config_def solvent_penalize_provider [OF laws] solvent_false_disputer
      intro: solvent_lock [OF laws] solvent_release [OF laws] solvent_refund [OF laws],
      auto simp: adapter_lock_def adapter_release_def adapter_refund_def res_simps escrow_ok_iffs
        solvent_def)
  then show ?thesis by blast
qed

interpretation solvency: transition_invariant "runtime_step cur pr rm" "solvency_inv cur pr"
  for cur :: "'c currency" and pr :: "('vk, 'sg) prims" and rm :: "'t rs_merkle"
proof
  fix s t :: "'c runtime"
  assume inv: "solvency_inv cur pr s" and step: "runtime_step cur pr rm s t"
  have "solvent cur (env t)" if laws: "currency_laws cur"
    using step
  proof cases
    case (Call call orig)
    from this(2) show ?thesis
    proof (cases rule: dispatch_ok_cases)
      case (template tcall st h)
      then show ?thesis
        using inv laws dispatch_template_ok_host(3,4) [OF template(2)]
        by (auto simp: solvency_inv_def solvent_def)
    next
      case (registry rcall st h)
      then show ?thesis
        using inv laws solvent_registry [OF laws _ _ registry(2)]
        by (simp add: solvency_inv_def runtime_inv_def)
    next
      case (vdb vcall st x)
      then show ?thesis
        using inv laws solvent_vdb [OF laws vdb(2)] by (simp add: solvency_inv_def runtime_inv_def)
    qed
  qed (use inv laws in \<open>simp_all add: solvency_inv_def solvent_def\<close>)
  then show "solvency_inv cur pr t"
    using structural.step_inv [OF _ step] inv by (simp add: solvency_inv_def)
qed

lemma solvency_inv_genesis:
  assumes "\<And>who. reserved_balance cur c who = 0"
  shows "solvency_inv cur pr (genesis w hashes c)"
  using assms runtime_inv_genesis [of pr w hashes c]
  by (simp add: solvency_inv_def solvent_def obligations_def genesis_def empty_registry_def
      locked_total_def)

lemma reachable_solvent:
  assumes "reachable cur pr rm s" "currency_laws cur"
  shows "solvent cur (env s)"
proof -
  obtain w hashes c where "\<forall>who. reserved_balance cur c who = 0"
    and run: "(runtime_step cur pr rm)\<^sup>*\<^sup>* (genesis w hashes c) s"
    using assms(1) by (auto simp: reachable_def)
  then have "solvency_inv cur pr s"
    by (intro solvency.run_inv [OF run] solvency_inv_genesis) simp
  then show ?thesis using assms(2) by (simp add: solvency_inv_def)
qed

text \<open>An account that was never slashed backs every one of its locked escrows in full.\<close>

lemma escrow_backed:
  assumes "solvent cur x" "finite (dom (escrows (escrow x)))"
    and "escrows (escrow x) i = Some rec" "escrow_status rec = Locked"
    and "slashed_total (event_log (host_of x)) (payer rec) = 0"
  shows "unat (amount rec) \<le> reserved_of cur (ledger (host_of x)) (payer rec)"
  using solventD [OF assms(1), of "payer rec"] locked_total_ge [OF assms(3,4,2)] assms(5)
  by (simp add: obligations_def)

end
