(* ===== verification/Counters.thy ===== *)
theory Counters
  imports Runtime_Inv
begin

text \<open>
  The two population counters, \<^verbatim>\<open>ActiveAgentCount\<close> and \<^verbatim>\<open>ActiveCommitmentCount\<close>, are kept by saturating
  \<^verbatim>\<open>u32\<close> arithmetic beside the maps they count. They are exact in every run that is too short to
  saturate them.
\<close>

section \<open>Agents\<close>

lemma live_count_slash:
  assumes "finite (dom (agent_profiles st))"
  shows "live_count (fst (slash_reputation cfg d amt (st, h))) = live_count st"
    "active_agent_count (fst (slash_reputation cfg d amt (st, h))) = active_agent_count st"
  using assms
  by (auto simp: slash_fst live_count_def entry_sum_upd_same split: option.splits)

lemma live_count_guilty:
  assumes "finite (dom (agent_profiles st))"
  shows "live_count (fst (slash_reputation_for_guilty_delivery cfg d amt (st, h))) = live_count st"
    "active_agent_count (fst (slash_reputation_for_guilty_delivery cfg d amt (st, h))) = active_agent_count st"
  using assms
  by (auto simp: guilty_fst live_count_def entry_sum_upd_same split: option.splits)

lemma vdb_keeps_live_count:
  assumes ok: "dispatch_vdb (rt_vdb_config cur pr rm) orig call (st, x) = Inr (st', x')"
    and inv: "registry_inv (registry x)"
  shows "live_count (registry x') = live_count (registry x) \<and>
    active_agent_count (registry x') = active_agent_count (registry x)"
proof -
  let ?P = "\<lambda>y. registry_inv (registry y) \<and> live_count (registry y) = live_count (registry x) \<and>
    active_agent_count (registry y) = active_agent_count (registry x)"
  have "?P x'"
    by (rule dispatch_env_inv [OF ok, where P = ?P])
      (use inv in \<open>auto simp: rt_vdb_config_def adapters_registry registry_penalize_provider
        registry_penalize_false_disputer live_count_slash live_count_guilty registry_inv_finite
        intro: guilty_inv slash_reputation_inv\<close>)
  then show ?thesis by blast
qed

lemma count_exact_dispatch:
  assumes "dispatch_registry cfg orig call (st, h) = Inr (st', h')"
    and "finite (dom (agent_profiles st))" "count_exact st" "live_count st' < 2 ^ 32"
  shows "count_exact st'"
  using live_count_dispatch [OF assms(1,2)] assms(3,4)
  by (auto simp: count_exact_def sat_simps split: registry_call.splits agent_status.splits)

lemma live_count_step_le:
  assumes "dispatch_registry cfg orig call (st, h) = Inr (st', h')"
    and "finite (dom (agent_profiles st))"
  shows "live_count st' \<le> Suc (live_count st)"
  using live_count_dispatch [OF assms] by (auto split: registry_call.splits agent_status.splits)

section \<open>Both counters along a run\<close>

definition counters_exact :: "'c runtime \<Rightarrow> bool" where
  "counters_exact s \<longleftrightarrow> count_exact (registry (env s)) \<and> open_count_exact (vectordb s)"

definition population :: "'c runtime \<Rightarrow> nat" where
  "population s = max (live_count (registry (env s))) (open_count (vectordb s))"

lemma counters_exact_genesis: "counters_exact (genesis w hashes c)" "population (genesis w hashes c) = 0"
proof -
  show "counters_exact (genesis w hashes c)"
    by (simp add: counters_exact_def genesis_def count_exact_empty open_count_exact_genesis)
  show "population (genesis w hashes c) = 0"
    by (cases w) (simp_all add: population_def genesis_def live_count_def open_count_def
        empty_registry_def genesis_build_def empty_vdb_def)
qed

lemma counters_step:
  assumes inv: "runtime_inv pr s" and step: "runtime_step cur pr rm s t"
  shows "population t \<le> Suc (population s) \<and>
    (counters_exact s \<longrightarrow> population t < 2 ^ 32 \<longrightarrow> counters_exact t)"
  using step
proof cases
  case (Call call orig)
  from this(2) show ?thesis
  proof (cases rule: dispatch_ok_cases)
    case (template tcall st h)
    then show ?thesis by (auto simp: population_def counters_exact_def)
  next
    case (registry rcall st h)
    have "finite (dom (agent_profiles (registry (env s))))"
      using inv by (simp add: runtime_inv_def registry_inv_finite)
    note facts = count_exact_dispatch [OF registry(2) this] live_count_step_le [OF registry(2) this]
    show ?thesis using facts registry(3) by (auto simp: population_def counters_exact_def)
  next
    case (vdb vcall st x)
    have "finite (dom (vector_commitments (vectordb s)))"
      using inv by (simp add: runtime_inv_def vdb_invD(1))
    note facts = open_count_exact_dispatch [OF vdb(2) this] open_count_step_le [OF vdb(2) this]
    have "live_count (registry x) = live_count (registry (env s)) \<and>
        active_agent_count (registry x) = active_agent_count (registry (env s))"
      using vdb_keeps_live_count [OF vdb(2)] inv by (simp add: runtime_inv_def)
    then show ?thesis using facts vdb(3) by (auto simp: population_def counters_exact_def count_exact_def)
  qed
qed (auto simp: population_def counters_exact_def)

lemma counters_run:
  assumes "(runtime_step cur pr rm ^^ n) (genesis w hashes c) s" "n < 2 ^ 32"
  shows "counters_exact s \<and> population s \<le> n \<and> runtime_inv pr s"
  using assms
proof (induction n arbitrary: s)
  case 0
  then show ?case using counters_exact_genesis [of w hashes c] runtime_inv_genesis [of pr w hashes c] by simp
next
  case (Suc n)
  then obtain u where u: "(runtime_step cur pr rm ^^ n) (genesis w hashes c) u" "runtime_step cur pr rm u s"
    by auto
  with Suc have IH: "counters_exact u" "population u \<le> n" "runtime_inv pr u" by auto
  then have "population s \<le> Suc n" "runtime_inv pr s"
    using counters_step [OF IH(3) u(2)] structural.step_inv [OF IH(3) u(2)] by auto
  then show ?case using counters_step [OF IH(3) u(2)] IH(1) Suc.prems(2) by simp
qed

end
