(* ===== verification/Sample.thy ===== *)
theory Sample
  imports Sample_Ledger Solvency Counters
begin

text \<open>
  Concrete primitives and a concrete Merkle scheme at which the hypotheses on the parameters hold,
  and a run of the runtime over them, for the witnesses.

  The sample hash is the length of its input (so it has collisions, as every hash has); a sample
  Merkle proof discloses all leaves.
\<close>

section \<open>Primitives\<close>

definition sample_u32_bytes :: "u32 \<Rightarrow> bytes" where
  "sample_u32_bytes n = map (\<lambda>i. ucast (drop_bit (8 * i) n)) [0..<4]"

definition sample_prims :: "(bytes, bytes) prims" where
  "sample_prims = \<lparr>blake2_256 = (\<lambda>xs. of_nat (length xs)), verifying_key_from_slice = Some,
     signature_try_from = Some, mldsa_verify = (\<lambda>vk msg sg. sg = vk), encode_u32 = sample_u32_bytes\<rparr>"

lemma bit_sample_u32_bytes:
  assumes "n < 32"
  shows "bit w n = bit (sample_u32_bytes w ! (n div 8)) (n mod 8)"
proof -
  have "n div 8 < 4" using assms by linarith
  then have "sample_u32_bytes w ! (n div 8) = (ucast (drop_bit (8 * (n div 8)) w) :: u8)"
    by (simp add: sample_u32_bytes_def)
  then show ?thesis by (simp add: bit_ucast_iff bit_drop_bit_eq)
qed

lemma encode_u32_laws_sample: "encode_u32_laws sample_prims"
proof -
  have "inj sample_u32_bytes"
  proof (rule injI, rule bit_word_eqI)
    fix v w :: u32 and n
    assume "sample_u32_bytes v = sample_u32_bytes w" "n < LENGTH(32)"
    then show "bit v n = bit w n" by (simp add: bit_sample_u32_bytes)
  qed
  then show ?thesis by (simp add: encode_u32_laws_def sample_prims_def sample_u32_bytes_def)
qed

section \<open>Merkle scheme\<close>

fun sample_root :: "merkle_hasher \<Rightarrow> h256 list \<Rightarrow> h256 option" where
  "sample_root hsr [] = None"
| "sample_root hsr (x # xs) = Some (foldl (\<lambda>a b. concat_and_hash hsr a (Some b)) x xs)"

definition sample_merkle :: "(h256 option \<times> h256 list) rs_merkle" where
  "sample_merkle = \<lparr>
     from_leaves = (\<lambda>hsr leaves. (sample_root hsr leaves, leaves)),
     tree_root = fst,
     proof_hashes = (\<lambda>t is. snd t),
     proof_verify = (\<lambda>hsr hashes root is leaves total.
       sample_root hsr hashes = Some root \<and> length hashes = total \<and>
       (\<forall>i \<in> set is. i < total) \<and> map ((!) hashes) is = leaves) \<rparr>"

lemma rs_merkle_complete_sample: "rs_merkle_complete sample_merkle"
  unfolding rs_merkle_complete_def
proof (intro allI impI)
  fix hsr :: merkle_hasher and leaves :: "h256 list"
  assume "leaves \<noteq> []"
  then obtain r where "sample_root hsr leaves = Some r" by (cases leaves) auto
  then show "\<exists>r. tree_root sample_merkle (from_leaves sample_merkle hsr leaves) = Some r \<and>
      (\<forall>i < length leaves. proof_verify sample_merkle hsr
         (proof_hashes sample_merkle (from_leaves sample_merkle hsr leaves) [i]) r [i] [leaves ! i]
         (length leaves))"
    by (simp add: sample_merkle_def)
qed

section \<open>Runs\<close>

datatype action = Extrinsic account_id runtime_call | Block block_number

fun perform :: "action \<Rightarrow> sample_ledger runtime \<Rightarrow> sample_ledger runtime option" where
  "perform (Extrinsic who call) s =
     (if runtime_call_bounded call
      then case dispatch sample_currency sample_prims sample_merkle (Signed who) call s of
             Inl _ \<Rightarrow> None | Inr t \<Rightarrow> Some t
      else None)"
| "perform (Block n) s =
     (if block_number (host_of (env s)) < n
      then Some (s\<lparr>env := (env s)\<lparr>host_of := (host_of (env s))\<lparr>block_number := n,
             block_hash := block_hash (host_of (env s))\<rparr>\<rparr>\<rparr>)
      else None)"

fun performs :: "action list \<Rightarrow> sample_ledger runtime \<Rightarrow> sample_ledger runtime option" where
  "performs [] s = Some s"
| "performs (a # as) s = (case perform a s of None \<Rightarrow> None | Some t \<Rightarrow> performs as t)"

definition sample_genesis :: "sample_ledger runtime" where
  "sample_genesis = genesis (Some 10) (\<lambda>_. 0) (\<lambda>_. (2 ^ 60, 0))"

lemma perform_step:
  assumes "perform a s = Some t"
  shows "runtime_step sample_currency sample_prims sample_merkle s t"
proof (cases a)
  case (Extrinsic who call)
  then show ?thesis using assms by (auto split: if_splits sum.splits intro: runtime_step.Call)
next
  case (Block n)
  then show ?thesis
    using assms New_block [of s n sample_currency sample_prims sample_merkle "block_hash (host_of (env s))"]
    by (auto split: if_splits)
qed

lemma performs_relpow:
  assumes "performs as s = Some t"
  shows "(runtime_step sample_currency sample_prims sample_merkle ^^ length as) s t"
  using assms
proof (induction as arbitrary: s)
  case (Cons a as)
  then obtain u where u: "perform a s = Some u" "performs as u = Some t" by (auto split: option.splits)
  from relpowp_Suc_I2 [OF perform_step [OF u(1)] Cons.IH [OF u(2)]] show ?case by simp
qed simp

lemma performs_run:
  assumes "performs as s = Some t"
  shows "(runtime_step sample_currency sample_prims sample_merkle)\<^sup>*\<^sup>* s t"
  by (rule relpowp_imp_rtranclp [OF performs_relpow [OF assms]])

lemma sample_genesis_reachable: "reachable sample_currency sample_prims sample_merkle sample_genesis"
  unfolding reachable_def sample_genesis_def
  by (intro exI [of _ "Some 10"] exI [of _ "\<lambda>_. 0"] exI [of _ "\<lambda>_. (2 ^ 60, 0)"])
    (simp add: sample_currency_def reserved_part_def)

text \<open>
  Two agents register (their DIDs are 17 and 18), the first offers one chunk to the second, who
  acknowledges: the commitment 119 is active.
\<close>

definition setup_actions :: "action list" where
  "setup_actions = [Block 1,
     Extrinsic 1 (RegistryCall (RegisterAgent [7] [7] 1 0 [] [])),
     Extrinsic 2 (RegistryCall (RegisterAgent [7, 8] [7, 8] 1 0 [] [])),
     Extrinsic 1 (VdbCall (RegisterCommitment 17 18 3 1 [] 5 1000)),
     Extrinsic 2 (VdbCall (AcknowledgeCommitment 119 18))]"

definition sample_after :: "action list \<Rightarrow> sample_ledger runtime" where
  "sample_after as = the (performs as sample_genesis)"

lemma sample_after_reachable:
  assumes "performs as sample_genesis \<noteq> None"
  shows "reachable sample_currency sample_prims sample_merkle (sample_after as)"
  using assms reachable_run [OF sample_genesis_reachable] performs_run by (auto simp: sample_after_def)

lemma performs_append: "performs (as @ bs) s = Option.bind (performs as s) (performs bs)"
  by (induction as arbitrary: s) (auto split: option.splits)

text \<open>Running on from a prefix of a sample run.\<close>

lemma sample_after_run:
  assumes "performs (as @ bs) sample_genesis \<noteq> None"
  shows "(runtime_step sample_currency sample_prims sample_merkle)\<^sup>*\<^sup>* (sample_after as) (sample_after (as @ bs))"
proof -
  obtain u where u: "performs as sample_genesis = Some u" "performs bs u \<noteq> None"
    using assms by (cases "performs as sample_genesis") (auto simp: performs_append)
  then show ?thesis using performs_run [of bs u] by (auto simp: sample_after_def performs_append)
qed

lemma setup_runs: "performs setup_actions sample_genesis \<noteq> None"
  by code_simp

text \<open>A host and a registry configuration outside any run.\<close>

definition sample_host :: "block_number \<Rightarrow> (sample_ledger, runtime_event) host" where
  "sample_host n = \<lparr>block_number = n, block_hash = (\<lambda>_. 0), event_log = [],
     ledger = (\<lambda>_. (2 ^ 60, 0))\<rparr>"

definition sample_registry_config ::
  "(sample_ledger, runtime_event, bytes, bytes) registry_config" where
  "sample_registry_config = rt_registry_config sample_currency sample_prims"

lemma sample_registry_config_simps [simp]:
  "reg_currency sample_registry_config = sample_currency"
  "reg_prims sample_registry_config = sample_prims"
  by (simp_all add: sample_registry_config_def rt_registry_config_def)

definition sample_registry_2 :: registry_storage where
  "sample_registry_2 = registry (env (sample_after (take 3 setup_actions)))"

end
