(* ===== verification/Registry_Theorems.thy ===== *)
theory Registry_Theorems
  imports Sample
begin

text \<open>
  Properties of the agent registry, on its own and inside the runtime: consistency of its indexes,
  authenticity of a registration, what a profile can become and who can change it, stars, strikes
  and deposits.
\<close>

section \<open>Profiles along runs\<close>

definition same_but_score :: "agent_profile \<Rightarrow> agent_profile \<Rightarrow> bool" where
  "same_but_score p p' \<longleftrightarrow> p' = p\<lparr>reputation_score := reputation_score p'\<rparr>"

definition only_scores_changed :: "registry_storage \<Rightarrow> registry_storage \<Rightarrow> bool" where
  "only_scores_changed st st' \<longleftrightarrow>
     (\<forall>d. rel_option same_but_score (agent_profiles st d) (agent_profiles st' d))"

lemma same_but_score_refl [simp]: "same_but_score p p"
  by (simp add: same_but_score_def)

lemma same_but_score_upd: "same_but_score p q \<Longrightarrow> same_but_score p (q\<lparr>reputation_score := n\<rparr>)"
  unfolding same_but_score_def by (metis agent_profile.surjective agent_profile.update_convs(4)
      agent_profile.select_convs(4))

lemma only_scores_refl [simp]: "only_scores_changed st st"
  by (simp add: only_scores_changed_def rel_option_iff split: option.split)

lemma only_scores_upd:
  assumes "only_scores_changed st st1" "agent_profiles st1 d = Some p"
    "agent_profiles st2 = (agent_profiles st1)(d \<mapsto> p\<lparr>reputation_score := n\<rparr>)"
  shows "only_scores_changed st st2"
  unfolding only_scores_changed_def
proof
  fix e
  have "rel_option same_but_score (agent_profiles st e) (agent_profiles st1 e)"
    using assms(1) by (simp add: only_scores_changed_def)
  then show "rel_option same_but_score (agent_profiles st e) (agent_profiles st2 e)"
    using assms(2,3) by (cases "e = d") (auto simp: option_rel_Some2 same_but_score_upd)
qed

lemma vdb_only_scores:
  assumes ok: "dispatch_vdb (rt_vdb_config cur pr rm) orig call (st, x) = Inr (st', x')"
  shows "only_scores_changed (registry x) (registry x')"
  by (rule dispatch_env_inv [OF ok, where P = "\<lambda>y. only_scores_changed (registry x) (registry y)"])
    (auto simp: rt_vdb_config_def adapters_registry registry_penalize_provider
      registry_penalize_false_disputer guilty_fst slash_fst split: option.splits
      elim: only_scores_upd)

lemma only_scoresD:
  "only_scores_changed st st' \<Longrightarrow> agent_profiles st d = Some p \<Longrightarrow>
   \<exists>p'. agent_profiles st' d = Some p' \<and> same_but_score p p'"
  unfolding only_scores_changed_def by (metis option_rel_Some1)

text \<open>The fields that a registration fixes for good.\<close>

definition identity_of :: "agent_profile \<Rightarrow> did \<times> account_id \<times> block_number \<times> bool \<times> quantum_scheme" where
  "identity_of p = (profile_did p, controller p, registered_at p, is_verified p,
     agent_profile.quantum_scheme p)"

lemma same_but_score_fields:
  assumes "same_but_score p p'"
  shows "identity_of p' = identity_of p" "status p' = status p" "controller p' = controller p"
proof -
  obtain n where "p' = p\<lparr>reputation_score := n\<rparr>" using assms unfolding same_but_score_def by blast
  then show "identity_of p' = identity_of p" "status p' = status p" "controller p' = controller p"
    by (simp_all add: identity_of_def)
qed

lemma registry_profile_step:
  assumes "dispatch_registry cfg orig call (st, h) = Inr (st', h')" "agent_profiles st d = Some p"
  shows "(\<exists>p'. agent_profiles st' d = Some p' \<and> same_but_score p p') \<or>
    orig = Signed (controller p) \<and> status p \<noteq> Revoked \<and>
    (agent_profiles st' d = None \<or> (\<exists>p'. agent_profiles st' d = Some p' \<and> identity_of p' = identity_of p))"
  using assms
  by (cases call)
    (auto simp: registry_ok_iffs identity_of_def same_but_score_upd split: if_splits)

lemma dispatch_profile_step:
  assumes ok: "dispatch cur pr rm orig call s = Inr t"
    and p: "agent_profiles (registry (env s)) d = Some p"
  shows "(\<exists>p'. agent_profiles (registry (env t)) d = Some p' \<and> same_but_score p p') \<or>
    orig = Signed (controller p) \<and> status p \<noteq> Revoked \<and>
    (agent_profiles (registry (env t)) d = None \<or>
     (\<exists>p'. agent_profiles (registry (env t)) d = Some p' \<and> identity_of p' = identity_of p))"
  using ok
proof (cases rule: dispatch_ok_cases)
  case (template tcall st h)
  then show ?thesis using p by simp
next
  case (registry rcall st h)
  then show ?thesis using registry_profile_step [OF registry(2) p] by simp
next
  case (vdb vcall st x)
  then show ?thesis using only_scoresD [OF vdb_only_scores [OF vdb(2)] p] by simp
qed

section \<open>Strikes\<close>

lemma registry_keeps_strikes:
  assumes "dispatch_registry cfg orig call (st, h) = Inr (st', h')"
  shows "dispute_strikes st' = dispute_strikes st"
  using assms by (cases call) (auto simp: registry_ok_iffs)

definition strikes_ok :: "registry_storage \<Rightarrow> bool" where
  "strikes_ok st \<longleftrightarrow> (\<forall>d. dispute_strikes st d < StrikeThreshold)"

lemma strikes_ok_guilty:
  assumes "strikes_ok st"
  shows "strikes_ok (fst (slash_reputation_for_guilty_delivery (rt_registry_config cur pr) d amt (st, h)))"
  using assms
  by (auto simp: guilty_fst strikes_ok_def guilty_storage_def Let_def rt_registry_config_def
      StrikeThreshold_def split: option.splits)

lemma strikes_ok_slash:
  "strikes_ok (fst (slash_reputation cfg d amt (st, h))) = strikes_ok st"
  by (auto simp: slash_fst strikes_ok_def split: option.splits)

lemma vdb_keeps_strikes_ok:
  assumes ok: "dispatch_vdb (rt_vdb_config cur pr rm) orig call (st, x) = Inr (st', x')"
    and "strikes_ok (registry x)"
  shows "strikes_ok (registry x')"
  by (rule dispatch_env_inv [OF ok, where P = "\<lambda>y. strikes_ok (registry y)"])
    (use assms(2) in \<open>auto simp: rt_vdb_config_def adapters_registry registry_penalize_provider
      registry_penalize_false_disputer strikes_ok_guilty strikes_ok_slash\<close>)

interpretation strikes: transition_invariant "runtime_step cur pr rm"
    "\<lambda>s. strikes_ok (registry (env s))"
  for cur :: "'c currency" and pr :: "('vk, 'sg) prims" and rm :: "'t rs_merkle"
proof
  fix s t :: "'c runtime"
  assume inv: "strikes_ok (registry (env s))" and "runtime_step cur pr rm s t"
  from this(2) show "strikes_ok (registry (env t))"
  proof cases
    case (Call call orig)
    from this(2) show ?thesis
    proof (cases rule: dispatch_ok_cases)
      case (registry rcall st h)
      then show ?thesis using inv registry_keeps_strikes [OF registry(2)] by (simp add: strikes_ok_def)
    next
      case (vdb vcall st x)
      then show ?thesis using inv vdb_keeps_strikes_ok [OF vdb(2)] by simp
    qed (use inv in simp)
  qed (use inv in simp_all)
qed

section \<open>Properties\<close>

text \<open>
  C14. In every reachable state of the chain the registry's two indexes describe the same relation:
  a DID is in a controller's list exactly when its profile names that controller, lists have no
  duplicates and at most 64 entries, and every stored profile is verified, filed under its own DID
  and within the length bounds.
\<close>

theorem registry_consistent:
  assumes "reachable cur pr rm s"
  shows "registry_inv (registry (env s))"
  using reachable_inv [OF assms] by (simp add: runtime_inv_def)

theorem registry_consistent_witness:
  "reachable sample_currency sample_prims sample_merkle (sample_after setup_actions) \<and>
   registry_inv (registry (env (sample_after setup_actions)))"
  using registry_consistent [OF sample_after_reachable [OF setup_runs]]
    sample_after_reachable [OF setup_runs] by blast

text \<open>
  C7. A registration succeeds only with a signature that the ML-DSA verifier accepts, under the
  submitted key, over the challenge for this chain, this DID, this signer and a block at most 64
  old; it creates exactly the profile of the derived DID, owned by the signer, and leaves every
  other profile alone.
\<close>

theorem register_agent_authentic:
  assumes "register_agent cfg orig pubkey signature at caps meta lbl (st, h) = Inr (st', h')"
  shows "\<exists>ctl vk sg. orig = Signed ctl \<and>
    verifying_key_from_slice (reg_prims cfg) pubkey = Some vk \<and>
    signature_try_from (reg_prims cfg) signature = Some sg \<and>
    mldsa_verify (reg_prims cfg) vk (encode_challenge (reg_prims cfg) (block_hash h 0)
      (derive_did (reg_prims cfg) pubkey) ctl at (block_hash h at)) sg \<and>
    unat at \<le> unat (block_number h) \<and> unat (block_number h) \<le> unat at + 64 \<and>
    agent_profiles st (derive_did (reg_prims cfg) pubkey) = None \<and>
    agent_profiles st' = (agent_profiles st)(derive_did (reg_prims cfg) pubkey \<mapsto>
      fresh_profile (derive_did (reg_prims cfg) pubkey) ctl caps (block_number h) meta lbl)"
  using assms
  by (auto simp: register_agent_ok_iff word_le_nat_alt sat_simps REPLAY_WINDOW_def)

theorem register_agent_authentic_witness:
  "\<exists>st' h' sg. register_agent sample_registry_config (Signed 1) [7] [7] 1 0 [] []
      (empty_registry, sample_host 3) = Inr (st', h') \<and>
    mldsa_verify sample_prims [7] (encode_challenge sample_prims 0
      (derive_did sample_prims [7]) 1 1 0) sg"
proof -
  have "is_ok (register_agent sample_registry_config (Signed 1) [7] [7] 1 0 [] []
      (empty_registry, sample_host 3))" by code_simp
  then obtain st' h' where ok: "register_agent sample_registry_config (Signed 1) [7] [7] 1 0 [] []
      (empty_registry, sample_host 3) = Inr (st', h')" by (auto elim: is_okE)
  from register_agent_authentic [OF this] show ?thesis
    using ok by (auto simp: sample_host_def sample_prims_def)
qed

text \<open>
  The challenge determines every value it is meant to bind: two challenges are equal as byte
  strings only if genesis hash, DID, controller, block number and block hash are all equal, so a
  signature cannot be replayed for another chain, agent, account or block.
\<close>

lemma challenge_binding:
  assumes "encode_u32_laws pr"
    and "encode_challenge pr g d c n b = encode_challenge pr g' d' c' n' b'"
  shows "g = g' \<and> d = d' \<and> c = c' \<and> n = n' \<and> b = b'"
  using assms
  by (auto simp: encode_challenge_def h256_bytes_append_inject append_eq_append_conv
      encode_u32_laws_def inj_eq)

lemma challenge_binding_witness:
  "encode_u32_laws sample_prims \<and>
   encode_challenge sample_prims 1 2 3 4 5 \<noteq> encode_challenge sample_prims 1 2 3 6 5"
  using encode_u32_laws_sample challenge_binding [OF encode_u32_laws_sample, of 1 2 3 4 5 1 2 3 6 5]
  by auto

text \<open>
  C23. Revocation is final: along every run from a state where an agent is revoked, its profile stays
  in storage and only its reputation score may still change.
\<close>

theorem revoked_is_final:
  assumes "(runtime_step cur pr rm)\<^sup>*\<^sup>* s t"
    and "agent_profiles (registry (env s)) d = Some p" "status p = Revoked"
  shows "\<exists>p'. agent_profiles (registry (env t)) d = Some p' \<and> same_but_score p p'"
  using assms(1)
proof (induction rule: rtranclp_induct)
  case base
  then show ?case using assms(2) by simp
next
  case (step u v)
  then obtain q where q: "agent_profiles (registry (env u)) d = Some q" "same_but_score p q" by blast
  then have "status q \<noteq> Revoked \<Longrightarrow> False" using same_but_score_fields(2) assms(3) by metis
  from step(2) show ?case
  proof cases
    case (Call call orig)
    then obtain p' where "agent_profiles (registry (env v)) d = Some p'" "same_but_score q p'"
      using dispatch_profile_step [OF Call(2) q(1)] \<open>status q \<noteq> Revoked \<Longrightarrow> False\<close> by blast
    then show ?thesis using q(2) same_but_score_upd unfolding same_but_score_def by metis
  qed (use q in simp_all)
qed

definition revoke_actions :: "action list" where
  "revoke_actions = [Block 1,
     Extrinsic 1 (RegistryCall (RegisterAgent [7] [7] 1 0 [] [])),
     Extrinsic 1 (RegistryCall (SetAgentStatus 17 Revoked))]"

theorem revoked_is_final_witness:
  "\<exists>p p'. agent_profiles (registry (env (sample_after revoke_actions))) 17 = Some p \<and>
     status p = Revoked \<and>
     agent_profiles (registry (env (sample_after (revoke_actions @ [Block 2])))) 17 = Some p' \<and>
     same_but_score p p'"
proof -
  have "map_option status (agent_profiles (registry (env (sample_after revoke_actions))) 17) = Some Revoked"
    by code_simp
  then obtain p where p: "agent_profiles (registry (env (sample_after revoke_actions))) 17 = Some p"
    "status p = Revoked" by auto
  have "performs (revoke_actions @ [Block 2]) sample_genesis \<noteq> None" by code_simp
  from revoked_is_final [OF sample_after_run [OF this] p] p show ?thesis by blast
qed

text \<open>
  C22. Whatever call succeeds, an existing profile either changes in nothing but its reputation
  score, or the call was signed by the profile's own controller and the agent was not revoked; even
  then DID, controller, registration block, verification flag and signature scheme are unchanged as
  long as the profile exists.
\<close>

theorem profile_changes_authorised:
  assumes "dispatch cur pr rm orig call s = Inr t"
    and "agent_profiles (registry (env s)) d = Some p"
  shows "(\<exists>p'. agent_profiles (registry (env t)) d = Some p' \<and> same_but_score p p') \<or>
    orig = Signed (controller p) \<and> status p \<noteq> Revoked \<and>
    (agent_profiles (registry (env t)) d = None \<or>
     (\<exists>p'. agent_profiles (registry (env t)) d = Some p' \<and> identity_of p' = identity_of p))"
  by (rule dispatch_profile_step [OF assms])

theorem profile_changes_authorised_witness:
  "\<exists>t p p'. dispatch sample_currency sample_prims sample_merkle (Signed 1)
       (RegistryCall (UpdateProfile 17 3 [] [])) (sample_after setup_actions) = Inr t \<and>
     agent_profiles (registry (env (sample_after setup_actions))) 17 = Some p \<and>
     agent_profiles (registry (env t)) 17 = Some p' \<and> identity_of p' = identity_of p"
proof -
  let ?s = "sample_after setup_actions" and ?call = "RegistryCall (UpdateProfile 17 3 [] [])"
  have "is_ok (dispatch sample_currency sample_prims sample_merkle (Signed 1) ?call ?s)" by code_simp
  then obtain t where t: "dispatch sample_currency sample_prims sample_merkle (Signed 1) ?call ?s = Inr t"
    by (rule is_okE)
  have "agent_profiles (registry (env ?s)) 17 \<noteq> None" by code_simp
  then obtain p where p: "agent_profiles (registry (env ?s)) 17 = Some p" by blast
  have "agent_profiles (registry (env t)) 17 \<noteq> None"
    using t by (auto simp: res_simps update_profile_ok_iff)
  with profile_changes_authorised [OF t p] obtain p' where
    "agent_profiles (registry (env t)) 17 = Some p'" "identity_of p' = identity_of p"
    using same_but_score_fields(1) by blast
  with t p show ?thesis by blast
qed

text \<open>
  Removing a star undoes giving it: the receiver's profile is as before (unless the score was
  already at its maximum) and the pair's ledger entry is zero. With it the cooldown is gone: the
  same giver can star the same receiver again at once, in the same block.
\<close>

lemma remove_star_undoes_give:
  assumes "give_star cfg orig g r (st, h) = Inr (st1, h1)"
    and "remove_star cfg orig g r (st1, h1) = Inr (st2, h2)"
    and "agent_profiles st r = Some p" "reputation_score p \<noteq> - 1"
  shows "agent_profiles st2 = agent_profiles st \<and> star_givers st2 g r = 0 \<and>
    is_ok (give_star cfg orig g r (st2, h2))"
proof -
  have st1: "agent_profiles st1 = (agent_profiles st)
      (r \<mapsto> p\<lparr>reputation_score := sat_add (reputation_score p) 1\<rparr>)"
    "controller_agents st1 = controller_agents st"
    using assms(1,3) by (auto simp: give_star_ok_iff)
  then obtain p1 where p1: "agent_profiles st1 r = Some p1"
    "p1 = p\<lparr>reputation_score := sat_add (reputation_score p) 1\<rparr>" by simp
  have ap2: "agent_profiles st2 = (agent_profiles st1)
      (r \<mapsto> p1\<lparr>reputation_score := sat_sub (reputation_score p1) 1\<rparr>)"
    and st2: "star_givers st2 g r = 0" "controller_agents st2 = controller_agents st1"
    using assms(2) p1(1) by (auto simp: remove_star_ok_iff)
  then have restored: "agent_profiles st2 = agent_profiles st"
    using ap2 assms(3,4) p1(2) st1(1) by (simp add: sat_add_sub_1 fun_upd_idem)
  obtain who where "orig = Signed who" "g \<in> set (controller_agents st who)" "g \<noteq> r"
    "status p \<noteq> Revoked" "controller p \<noteq> who"
    using assms(1,3) by (auto simp: give_star_ok_iff)
  then show ?thesis
    using st1(2) st2 restored assms(3) by (simp add: give_star_def mutate_reputation_def Let_def)
qed

lemma remove_star_undoes_give_witness:
  "\<exists>st1 h1 st2 h2. give_star sample_registry_config (Signed 1) 17 18 (sample_registry_2, sample_host 1)
       = Inr (st1, h1) \<and>
     remove_star sample_registry_config (Signed 1) 17 18 (st1, h1) = Inr (st2, h2) \<and>
     star_givers st2 17 18 = 0 \<and> is_ok (give_star sample_registry_config (Signed 1) 17 18 (st2, h2))"
proof -
  let ?give = "give_star sample_registry_config (Signed 1) 17 18 (sample_registry_2, sample_host 1)"
  have "is_ok (try_then ?give (remove_star sample_registry_config (Signed 1) 17 18))" by code_simp
  then obtain st1 h1 st2 h2 where ok: "?give = Inr (st1, h1)"
    "remove_star sample_registry_config (Signed 1) 17 18 (st1, h1) = Inr (st2, h2)"
    by (auto simp: res_simps elim!: is_okE)
  have "map_option reputation_score (agent_profiles sample_registry_2 18) = Some 0" by code_simp
  then obtain p where p: "agent_profiles sample_registry_2 18 = Some p" "reputation_score p = 0" by auto
  from remove_star_undoes_give [OF ok p(1)] p(2) ok show ?thesis by auto
qed

text \<open>
  C30. The strike counter of a DID never reaches the threshold between calls: it is reset in the
  same call that triggers the deposit slash.
\<close>

theorem strikes_below_threshold:
  assumes "reachable cur pr rm s"
  shows "dispute_strikes (registry (env s)) d < StrikeThreshold"
proof -
  obtain w hashes c where run: "(runtime_step cur pr rm)\<^sup>*\<^sup>* (genesis w hashes c) s"
    using assms by (auto simp: reachable_def)
  have "strikes_ok (registry (env (genesis w hashes c)))"
    by (simp add: strikes_ok_def genesis_def empty_registry_def StrikeThreshold_def)
  from strikes.run_inv [OF run this] show ?thesis by (simp add: strikes_ok_def)
qed

theorem strikes_below_threshold_witness:
  "reachable sample_currency sample_prims sample_merkle (sample_after setup_actions) \<and>
   dispute_strikes (registry (env (sample_after setup_actions))) 17 < StrikeThreshold"
  using strikes_below_threshold [OF sample_after_reachable [OF setup_runs]]
    sample_after_reachable [OF setup_runs] by blast

end
