(* ===== verification/Money_Theorems.thy ===== *)
theory Money_Theorems
  imports Sample
begin

text \<open>
  Where the money goes: properties of the composed runtime about escrows, deposits and penalties.
\<close>

section \<open>Deals along runs\<close>

lemma env_deals_host [simp]: "env_deals (x\<lparr>host_of := h\<rparr>) = env_deals x"
  "env_deals (x\<lparr>registry := st\<rparr>) = env_deals x"
  by (simp_all add: env_deals_def fun_eq_iff)

lemma step_deals_monotone:
  assumes "runtime_step cur pr rm s t" "env_deals (env s) cid = Some (Deal p q a ph)"
  shows "\<exists>ph'. env_deals (env t) cid = Some (Deal p q a ph') \<and> (ph \<noteq> Held \<longrightarrow> ph' = ph)"
  using assms(1)
proof cases
  case (Call call orig)
  from this(2) show ?thesis
  proof (cases rule: dispatch_ok_cases)
    case (vdb vcall st x)
    then show ?thesis using rt.deals_monotone [OF vdb(2) assms(2)] by simp
  qed (use assms(2) in simp_all)
qed (use assms(2) in simp_all)

lemma step_stranded:
  assumes "runtime_step cur pr rm s t" "stranded (vectordb s) (env_deals (env s)) cid"
  shows "stranded (vectordb t) (env_deals (env t)) cid \<and> env_deals (env t) cid = env_deals (env s) cid"
  using assms(1)
proof cases
  case (Call call orig)
  from this(2) show ?thesis
  proof (cases rule: dispatch_ok_cases)
    case (vdb vcall st x)
    then show ?thesis using rt.stranded_dispatch [OF vdb(2) assms(2)] by simp
  qed (use assms(2) in simp_all)
qed (use assms(2) in simp_all)




section \<open>Properties\<close>

text \<open>
  C1. Solvency: in every reachable state, and for every account, the reserved balance plus what
  strike penalties have ever taken from it covers one registration deposit per agent in the
  account's list and the amount of every locked escrow the account pays for.
\<close>

theorem reserves_cover_obligations:
  assumes "reachable cur pr rm s" "currency_laws cur"
  shows "unat RegistrationDeposit * length (controller_agents (registry (env s)) who)
      + locked_total (escrow (env s)) who
    \<le> reserved_of cur (ledger (host_of (env s))) who + slashed_total (event_log (host_of (env s))) who"
  using solventD [OF reachable_solvent [OF assms]] by (simp add: obligations_def)

theorem reserves_cover_obligations_witness:
  "reachable sample_currency sample_prims sample_merkle (sample_after setup_actions) \<and>
   currency_laws sample_currency \<and>
   unat RegistrationDeposit * length (controller_agents (registry (env (sample_after setup_actions))) 2)
      + locked_total (escrow (env (sample_after setup_actions))) 2
    \<le> reserved_of sample_currency (ledger (host_of (env (sample_after setup_actions)))) 2
      + slashed_total (event_log (host_of (env (sample_after setup_actions)))) 2"
  using reserves_cover_obligations [OF sample_after_reachable [OF setup_runs] currency_laws_sample]
    sample_after_reachable [OF setup_runs] currency_laws_sample by blast




definition dispute_actions :: "action list" where
  "dispute_actions = setup_actions @ [Extrinsic 2 (VdbCall (RaiseDispute 119 18 0 0 1)), Block 12]"

lemma dispute_runs: "performs dispute_actions sample_genesis \<noteq> None"
  by code_simp


text \<open>
  C13. An escrow settles at most once: along every run its parties and its amount never change, and
  once the money was paid out or returned, that outcome never changes either.
\<close>

theorem escrow_settles_once:
  assumes "(runtime_step cur pr rm)\<^sup>*\<^sup>* s t"
    and "env_deals (env s) cid = Some (Deal p q a ph)"
  shows "\<exists>ph'. env_deals (env t) cid = Some (Deal p q a ph') \<and> (ph \<noteq> Held \<longrightarrow> ph' = ph)"
  using assms(1)
proof (induction rule: rtranclp_induct)
  case base
  then show ?case using assms(2) by simp
next
  case (step u v)
  then show ?case using step_deals_monotone by metis
qed

theorem escrow_settles_once_witness:
  "env_deals (env (sample_after setup_actions)) 119 = Some (Deal 2 1 1000 Held) \<and>
   (\<exists>ph. env_deals (env (sample_after (setup_actions @ [Block 2]))) 119 = Some (Deal 2 1 1000 ph))"
proof -
  have d: "env_deals (env (sample_after setup_actions)) 119 = Some (Deal 2 1 1000 Held)" by code_simp
  have "performs (setup_actions @ [Block 2]) sample_genesis \<noteq> None" by code_simp
  from escrow_settles_once [OF sample_after_run [OF this] d] d show ?thesis by blast
qed

text \<open>
  C3. No money reaches a provider without consent or proof: a call that turns a held escrow into a
  paid one is either the closing of an active commitment with its own Merkle root, signed by the
  controller of the consumer, or a counter to an open dispute, signed by the controller of the
  provider before the deadline, with a chunk and a proof that verify against the committed root.
\<close>

theorem payment_needs_consent_or_proof:
  assumes "dispatch cur pr rm orig call s = Inr t"
    and "env_deals (env s) cid = Some (Deal p q a Held)"
    and "env_deals (env t) cid = Some (Deal p q a PaidOut)"
  shows "\<exists>cm who. vector_commitments (vectordb s) cid = Some cm \<and> orig = Signed who \<and>
    (vc_status cm = Active \<and> adapter_controller_of (consumer cm) (env s) = Some who \<and>
       (\<exists>n. call = VdbCall (CloseCommitment cid (consumer cm) (merkle_root cm) n)) \<or>
     vc_status cm = Disputed \<and> adapter_controller_of (provider cm) (env s) = Some who \<and>
       (\<exists>d data hashes. call = VdbCall (CounterDispute cid (provider cm) data hashes) \<and>
          dispute_records (vectordb s) cid = Some d \<and>
          block_number (host_of (env s)) \<le> counter_deadline d \<and>
          refutes (rt_vdb_config cur pr rm) cm d data hashes))"
  using assms(1)
proof (cases rule: dispatch_ok_cases)
  case (vdb vcall st x)
  have "env_deals x cid = Some (Deal p q a PaidOut)" using assms(3) vdb(3) by simp
  from rt.paid_out_only_if [OF vdb(2) assms(2) this] show ?thesis
    using vdb(1) by (auto simp: rt_vdb_config_def)
qed (use assms(2,3) in simp_all)

theorem payment_needs_consent_or_proof_witness:
  "\<exists>t cm who. dispatch sample_currency sample_prims sample_merkle (Signed 2)
       (VdbCall (CloseCommitment 119 18 3 1)) (sample_after setup_actions) = Inr t \<and>
     env_deals (env t) 119 = Some (Deal 2 1 1000 PaidOut) \<and>
     vector_commitments (vectordb (sample_after setup_actions)) 119 = Some cm \<and>
     Signed 2 = Signed who \<and>
     adapter_controller_of (consumer cm) (env (sample_after setup_actions)) = Some who"
proof -
  let ?s = "sample_after setup_actions" and ?call = "VdbCall (CloseCommitment 119 18 3 1)"
  let ?r = "dispatch sample_currency sample_prims sample_merkle (Signed 2) ?call ?s"
  have "case ?r of Inl _ \<Rightarrow> False | Inr t \<Rightarrow> env_deals (env t) 119 = Some (Deal 2 1 1000 PaidOut)"
    by code_simp
  then obtain t where t: "?r = Inr t" "env_deals (env t) 119 = Some (Deal 2 1 1000 PaidOut)"
    by (auto split: sum.splits)
  have "env_deals (env ?s) 119 = Some (Deal 2 1 1000 Held)" by code_simp
  from payment_needs_consent_or_proof [OF t(1) this t(2)] t show ?thesis by auto
qed

text \<open>
  C12. No money returns to a payer while the provider can still answer: a call that turns a held
  escrow into a returned one is the finalization of an open dispute whose deadline has passed.
\<close>

theorem refund_needs_missed_deadline:
  assumes "dispatch cur pr rm orig call s = Inr t"
    and "env_deals (env s) cid = Some (Deal p q a Held)"
    and "env_deals (env t) cid = Some (Deal p q a Returned)"
  shows "call = VdbCall (FinalizeDispute cid) \<and>
    (\<exists>cm d. vector_commitments (vectordb s) cid = Some cm \<and> vc_status cm = Disputed \<and>
       dispute_records (vectordb s) cid = Some d \<and>
       counter_deadline d < block_number (host_of (env s)))"
  using assms(1)
proof (cases rule: dispatch_ok_cases)
  case (vdb vcall st x)
  have "env_deals x cid = Some (Deal p q a Returned)" using assms(3) vdb(3) by simp
  from rt.returned_only_if [OF vdb(2) assms(2) this] show ?thesis
    using vdb(1) by (auto simp: rt_vdb_config_def)
qed (use assms(2,3) in simp_all)

theorem refund_needs_missed_deadline_witness:
  "\<exists>t d. dispatch sample_currency sample_prims sample_merkle (Signed 9)
       (VdbCall (FinalizeDispute 119)) (sample_after dispute_actions) = Inr t \<and>
     env_deals (env t) 119 = Some (Deal 2 1 1000 Returned) \<and>
     dispute_records (vectordb (sample_after dispute_actions)) 119 = Some d \<and>
     counter_deadline d < block_number (host_of (env (sample_after dispute_actions)))"
proof -
  let ?s = "sample_after dispute_actions" and ?call = "VdbCall (FinalizeDispute 119)"
  let ?r = "dispatch sample_currency sample_prims sample_merkle (Signed 9) ?call ?s"
  have "case ?r of Inl _ \<Rightarrow> False | Inr t \<Rightarrow> env_deals (env t) 119 = Some (Deal 2 1 1000 Returned)"
    by code_simp
  then obtain t where t: "?r = Inr t" "env_deals (env t) 119 = Some (Deal 2 1 1000 Returned)"
    by (auto split: sum.splits)
  have "env_deals (env ?s) 119 = Some (Deal 2 1 1000 Held)" by code_simp
  from refund_needs_missed_deadline [OF t(1) this t(2)] t show ?thesis by auto
qed

text \<open>
  C10. A dispute can always be finalized: in every reachable state, once the deadline of an open
  dispute has passed, the permissionless call succeeds for every signed origin.
\<close>

theorem finalize_always_possible:
  assumes "reachable cur pr rm s"
    and "vector_commitments (vectordb s) cid = Some cm" "vc_status cm = Disputed"
    and "\<And>d. dispute_records (vectordb s) cid = Some d \<Longrightarrow>
           counter_deadline d < block_number (host_of (env s))"
  shows "is_ok (dispatch cur pr rm (Signed who) (VdbCall (FinalizeDispute cid)) s)"
proof -
  have "is_ok (finalize_dispute (rt_vdb_config cur pr rm) (Signed who) cid (vectordb s, env s))"
  proof (rule rt.finalize_live [OF _ assms(2,3)])
    show "vdb_inv (vdb_prims (rt_vdb_config cur pr rm)) (env_deals (env s)) (vectordb s)"
      using reachable_inv [OF assms(1)] by (simp add: runtime_inv_def)
  qed (use assms(4) in \<open>simp add: rt_vdb_config_def\<close>)
  then show ?thesis by (auto elim: is_okE)
qed

theorem finalize_always_possible_witness:
  "is_ok (dispatch sample_currency sample_prims sample_merkle (Signed 5)
     (VdbCall (FinalizeDispute 119)) (sample_after dispute_actions))"
proof -
  let ?s = "sample_after dispute_actions"
  have "map_option vc_status (vector_commitments (vectordb ?s) 119) = Some Disputed"
    "map_option counter_deadline (dispute_records (vectordb ?s) 119) = Some 11"
    "block_number (host_of (env ?s)) = 12" by code_simp+
  then obtain cm where cm: "vector_commitments (vectordb ?s) 119 = Some cm" "vc_status cm = Disputed"
    and late: "\<And>d. dispute_records (vectordb ?s) 119 = Some d \<Longrightarrow>
      counter_deadline d < block_number (host_of (env ?s))" by auto
  show ?thesis
    by (rule finalize_always_possible [OF sample_after_reachable [OF dispute_runs] cm late])
qed

text \<open>
  C27. Expiring an active commitment does not settle its escrow: the record is purged while the
  consumer's payment stays held, and no later step of the chain can release or refund it. Every
  run from there leaves the escrow as it is.
\<close>

theorem expired_escrow_is_stuck:
  assumes "reachable cur pr rm s"
    and "vector_commitments (vectordb s) cid = Some cm" "vc_status cm = Active"
    and "dispatch cur pr rm orig (VdbCall (ExpireCommitment cid)) s = Inr t"
    and "(runtime_step cur pr rm)\<^sup>*\<^sup>* t u"
  shows "\<exists>p q. env_deals (env u) cid = Some (Deal p q (price cm) Held)"
proof -
  have inv: "vdb_inv pr (env_deals (env s)) (vectordb s)"
    using reachable_inv [OF assms(1)] by (simp add: runtime_inv_def)
  obtain st x where ex: "expire_commitment (rt_vdb_config cur pr rm) orig cid (vectordb s, env s) = Inr (st, x)"
    and t: "t = s\<lparr>vectordb := st, env := x\<rparr>"
    using assms(4) by (auto simp: res_simps)
  then have start: "stranded (vectordb t) (env_deals (env t)) cid \<and>
      env_deals (env t) cid = env_deals (env s) cid"
    using rt.expire_strands [OF _ assms(2,3) ex] inv by simp
  from assms(5) have "stranded (vectordb u) (env_deals (env u)) cid \<and>
      env_deals (env u) cid = env_deals (env s) cid"
  proof (induction rule: rtranclp_induct)
    case base
    show ?case by (rule start)
  next
    case (step v w)
    then show ?case using step_stranded [OF step(2)] by auto
  qed
  then show ?thesis
    using vdb_invD(3) [OF inv assms(2)] assms(3) by (auto simp: stage_ok_def holds_price_def)
qed

definition lapse_actions :: "action list" where
  "lapse_actions = setup_actions @ [Block 6]"

lemma lapse_runs: "performs lapse_actions sample_genesis \<noteq> None"
  by code_simp

theorem expired_escrow_is_stuck_witness:
  "\<exists>t p q. dispatch sample_currency sample_prims sample_merkle (Signed 9)
       (VdbCall (ExpireCommitment 119)) (sample_after lapse_actions) = Inr t \<and>
     vector_commitments (vectordb t) 119 = None \<and> env_deals (env t) 119 = Some (Deal p q 1000 Held)"
proof -
  let ?s = "sample_after lapse_actions"
  let ?r = "dispatch sample_currency sample_prims sample_merkle (Signed 9) (VdbCall (ExpireCommitment 119)) ?s"
  have "case ?r of Inl _ \<Rightarrow> False | Inr t \<Rightarrow> vector_commitments (vectordb t) 119 = None" by code_simp
  then obtain t where t: "?r = Inr t" "vector_commitments (vectordb t) 119 = None"
    by (auto split: sum.splits)
  have "map_option (\<lambda>cm. (vc_status cm, price cm)) (vector_commitments (vectordb ?s) 119)
      = Some (Active, 1000)" by code_simp
  then obtain cm where cm: "vector_commitments (vectordb ?s) 119 = Some cm" "vc_status cm = Active"
    "price cm = 1000" by auto
  from expired_escrow_is_stuck [OF sample_after_reachable [OF lapse_runs] cm(1,2) t(1) rtranclp.rtrancl_refl]
    cm(3) t show ?thesis by auto
qed

text \<open>
  What a guilty verdict costs a registered provider: five points of reputation, and a strike.
  The tenth strike resets the counter and takes up to 10 UNIT from the reserved balance of the
  controller, whatever that reserve was made for; nobody else's reserve and no free balance
  changes, and no escrow record is touched.
\<close>

lemma strike_penalty_exact:
  assumes "currency_laws cur" "agent_profiles (registry x) d = Some p"
    and x': "x' = adapter_penalize_provider cur pr d x"
  shows "agent_profiles (registry x') d
      = Some (p\<lparr>reputation_score := sat_sub (reputation_score p) 5\<rparr>) \<and>
    (if sat_add (dispute_strikes (registry x) d) 1 < 10
     then dispute_strikes (registry x') d = sat_add (dispute_strikes (registry x) d) 1 \<and>
       ledger (host_of x') = ledger (host_of x)
     else dispute_strikes (registry x') d = 0 \<and>
       reserved_of cur (ledger (host_of x')) who = reserved_of cur (ledger (host_of x)) who -
        (if who = controller p then min (unat (10 * UNIT))
           (reserved_of cur (ledger (host_of x)) (controller p)) else 0)) \<and>
    free_of cur (ledger (host_of x')) who = free_of cur (ledger (host_of x)) who \<and>
    escrow x' = escrow x"
proof -
  obtain c rest where sl: "slash_reserved cur (controller p) DepositSlashPerStrike (ledger (host_of x))
      = (c, rest)" by force
  show ?thesis
    using slash_reserved_lawD(2,3) [OF assms(1) sl, of who]
    by (simp add: x' penalize_provider_found [OF assms(2) sl] rt_registry_config_def
        ProviderGuiltySlash_def StrikeThreshold_def DepositSlashPerStrike_def)
qed

lemma strike_penalty_exact_witness:
  "\<exists>p. agent_profiles (registry (env (sample_after setup_actions))) 17 = Some p \<and>
     agent_profiles (registry (adapter_penalize_provider sample_currency sample_prims 17
       (env (sample_after setup_actions)))) 17
     = Some (p\<lparr>reputation_score := sat_sub (reputation_score p) 5\<rparr>)"
proof -
  have "agent_profiles (registry (env (sample_after setup_actions))) 17 \<noteq> None" by code_simp
  then obtain p where p: "agent_profiles (registry (env (sample_after setup_actions))) 17 = Some p" by blast
  from strike_penalty_exact [OF currency_laws_sample p refl, of sample_prims] p show ?thesis by blast
qed

text \<open>
  C28. The penalty and the deposit refund can take the same money twice: a controller with one agent
  and exactly backed escrows, struck for the tenth time, gets the whole registration deposit back
  when the agent is deregistered. What is left in reserve is then 10 UNIT short of the locked
  escrows (or nothing, when they are smaller).
\<close>

theorem slash_then_exit_underfunds_escrow:
  assumes laws: "currency_laws cur"
    and p: "agent_profiles (registry x) d = Some p"
    and ninth: "dispute_strikes (registry x) d = 9"
    and backed: "reserved_of cur (ledger (host_of x)) (controller p)
        = unat RegistrationDeposit + locked_total (escrow x) (controller p)"
    and x': "x' = adapter_penalize_provider cur pr d x"
    and exit: "deregister_agent (rt_registry_config cur pr) orig d (registry x', host_of x') = Inr (st, h)"
  shows "reserved_of cur (ledger h) (controller p)
    = locked_total (escrow x') (controller p) - unat (10 * UNIT)"
proof -
  let ?who = "controller p"
  obtain c rest where sl: "slash_reserved cur ?who DepositSlashPerStrike (ledger (host_of x)) = (c, rest)"
    by force
  have eq: "ledger (host_of x') = c" "escrow x' = escrow x"
    "agent_profiles (registry x') d = Some (p\<lparr>reputation_score := sat_sub (reputation_score p) 5\<rparr>)"
    by (simp_all add: x' penalize_provider_found [OF p sl] ninth StrikeThreshold_def
        ProviderGuiltySlash_def sat_add_def)
  obtain c2 rest2 where u: "unreserve cur ?who RegistrationDeposit c = (c2, rest2)" by force
  have "ledger h = c2"
    using exit eq u by (auto simp: deregister_agent_ok_iff rt_registry_config_def)
  moreover have "reserved_of cur c ?who = unat RegistrationDeposit + locked_total (escrow x) ?who
      - unat (10 * UNIT)"
    using slash_reserved_lawD(2) [OF laws sl, of ?who] backed
    by (simp add: DepositSlashPerStrike_def RegistrationDeposit_def UNIT_def)
  ultimately show ?thesis
    using unreserve_lawD(3) [OF laws u, of ?who] eq(2)
    by (simp add: RegistrationDeposit_def UNIT_def)
qed

definition short_env :: "sample_ledger rt_env" where
  "short_env = \<lparr>
     registry = empty_registry\<lparr>
       agent_profiles := [17 \<mapsto> fresh_profile 17 1 0 1 [] []],
       controller_agents := (\<lambda>_. [])(1 := [17]),
       active_agent_count := 1,
       dispute_strikes := (\<lambda>_. 0)(17 := 9)\<rparr>,
     escrow = \<lparr>escrows = [5 \<mapsto> \<lparr>payer = 1, payee = 2, amount = 30 * UNIT, escrow_status = Locked,
       locked_at = 1\<rparr>]\<rparr>,
     host_of = (sample_host 2)\<lparr>ledger := (\<lambda>_. (2 ^ 60, 130 * UNIT))\<rparr> \<rparr>"

theorem slash_then_exit_underfunds_escrow_witness:
  "\<exists>st h. deregister_agent (rt_registry_config sample_currency sample_prims) (Signed 1) 17
       (registry (adapter_penalize_provider sample_currency sample_prims 17 short_env),
        host_of (adapter_penalize_provider sample_currency sample_prims 17 short_env)) = Inr (st, h) \<and>
     reserved_of sample_currency (ledger h) 1 < unat (30 * UNIT)"
proof -
  let ?x' = "adapter_penalize_provider sample_currency sample_prims 17 short_env"
  have "is_ok (deregister_agent (rt_registry_config sample_currency sample_prims) (Signed 1) 17
      (registry ?x', host_of ?x'))" by code_simp
  then obtain st h where ok: "deregister_agent (rt_registry_config sample_currency sample_prims) (Signed 1) 17
      (registry ?x', host_of ?x') = Inr (st, h)" by (auto elim: is_okE)
  have p: "agent_profiles (registry short_env) 17 = Some (fresh_profile 17 1 0 1 [] [])"
    and strikes: "dispute_strikes (registry short_env) 17 = 9"
    by (simp_all add: short_env_def)
  have total: "locked_total (escrow short_env) 1 = unat (30 * UNIT)"
    by (simp add: short_env_def locked_total_def entry_sum_upd_new locked_value_def)
  have "reserved_of sample_currency (ledger (host_of short_env)) 1 = unat (130 * UNIT)"
    by (simp add: short_env_def sample_host_def sample_currency_def reserved_part_def UNIT_def min_def)
  then have backed: "reserved_of sample_currency (ledger (host_of short_env))
      (controller (fresh_profile 17 1 0 1 [] []))
      = unat RegistrationDeposit + locked_total (escrow short_env) (controller (fresh_profile 17 1 0 1 [] []))"
    using total by (simp add: RegistrationDeposit_def UNIT_def)
  from slash_then_exit_underfunds_escrow [OF currency_laws_sample p strikes backed refl ok] ok total
  show ?thesis by (auto simp: UNIT_def)
qed

end
