(* ===== verification/Lifecycle_Theorems.thy ===== *)
theory Lifecycle_Theorems
  imports Sample
begin

text \<open>
  Properties of commitments and disputes, on the pallet and in the composed runtime.
\<close>

section \<open>Commitments along runs\<close>

lemma step_commitments:
  assumes "runtime_step cur pr rm s t"
  obtains (vdb) orig call x where
      "dispatch_vdb (rt_vdb_config cur pr rm) orig call (vectordb s, env s) = Inr (vectordb t, x)"
  | (other) "vectordb t = vectordb s"
  using assms
proof cases
  case (Call call orig)
  from this(2) show ?thesis
    by (cases rule: dispatch_ok_cases) (use that in auto)
qed (use that in auto)

lemma step_terminal:
  assumes "runtime_step cur pr rm s t" "status_of (vectordb s) cid \<in> {Some Settled, Some DisputeResolved}"
  shows "vector_commitments (vectordb t) cid = vector_commitments (vectordb s) cid \<and>
    dispute_records (vectordb t) cid = dispute_records (vectordb s) cid \<and>
    stream_receipts (vectordb t) cid = stream_receipts (vectordb s) cid"
  using assms(1)
  by (cases rule: step_commitments) (simp_all add: dispatch_terminal [OF _ assms(2)])

lemma dispatch_keeps_override:
  assumes "dispatch_vdb cfg orig call (st, x) = Inr (st', x')"
  shows "dispute_window_override st' = dispute_window_override st"
  using assms by (cases call) (auto simp: vdb_ok_iffs)

lemma map_dispatch_error_Module:
  "map_dispatch_error f e = Module m \<longleftrightarrow> (\<exists>a. e = Module a \<and> m = f a)"
  "Module m = map_dispatch_error f e \<longleftrightarrow> (\<exists>a. e = Module a \<and> m = f a)"
  by (cases e; auto)+

text \<open>A dispute record keeps its deadline for good.\<close>

lemma dispatch_keeps_deadline:
  assumes "dispatch_vdb cfg orig call (st, x) = Inr (st', x')" "dispute_records st cid = Some d"
  shows "\<exists>d'. dispute_records st' cid = Some d' \<and> counter_deadline d' = counter_deadline d"
  using assms by (cases call) (auto simp: vdb_ok_iffs)

lemma run_keeps_deadline:
  assumes "(runtime_step cur pr rm)\<^sup>*\<^sup>* s t" "dispute_records (vectordb s) cid = Some d"
  shows "\<exists>d'. dispute_records (vectordb t) cid = Some d' \<and> counter_deadline d' = counter_deadline d"
  using assms(1)
proof (induction rule: rtranclp_induct)
  case (step u v)
  then obtain d1 where d1: "dispute_records (vectordb u) cid = Some d1" "counter_deadline d1 = counter_deadline d"
    by blast
  from step(2) show ?case
    by (cases rule: step_commitments) (use d1 dispatch_keeps_deadline [OF _ d1(1)] in auto)
qed (use assms(2) in simp)

interpretation override: transition_invariant "runtime_step cur pr rm"
    "\<lambda>s. dispute_window_override (vectordb s) = w"
  for cur :: "'c currency" and pr :: "('vk, 'sg) prims" and rm :: "'t rs_merkle" and w
proof
  fix s t :: "'c runtime"
  assume inv: "dispute_window_override (vectordb s) = w" and "runtime_step cur pr rm s t"
  from this(2) show "dispute_window_override (vectordb t) = w"
    by (cases rule: step_commitments) (use inv in \<open>simp_all add: dispatch_keeps_override\<close>)
qed

section \<open>Properties\<close>

text \<open>
  C2. In every reachable state each commitment is in one of five stages, and its status, its dispute
  record, its delivery receipt, its acknowledgement and its escrow agree: pending has none of them;
  active and disputed hold exactly the price in escrow; settled has a receipt for the committed root
  and was paid out; resolved carries a verdict, and the money went where the verdict says. Every
  commitment is stored under the hash of its own terms, has at least one chunk, a nonzero root and
  two different parties.
\<close>

theorem commitment_stages_agree:
  assumes "reachable cur pr rm s" "vector_commitments (vectordb s) cid = Some cm"
  shows "identity_ok pr cid cm \<and>
    stage_ok cid cm (dispute_records (vectordb s) cid) (stream_receipts (vectordb s) cid)
      (env_deals (env s) cid)"
proof -
  have "vdb_inv pr (env_deals (env s)) (vectordb s)"
    using reachable_inv [OF assms(1)] by (simp add: runtime_inv_def)
  from vdb_invD(2,3) [OF this assms(2)] show ?thesis by blast
qed

theorem commitment_stages_agree_witness:
  "\<exists>cm. vector_commitments (vectordb (sample_after setup_actions)) 119 = Some cm \<and>
     vc_status cm = Active \<and> holds_price cm Held (env_deals (env (sample_after setup_actions)) 119)"
proof -
  have "map_option vc_status (vector_commitments (vectordb (sample_after setup_actions)) 119) = Some Active"
    by code_simp
  then obtain cm where cm: "vector_commitments (vectordb (sample_after setup_actions)) 119 = Some cm"
    "vc_status cm = Active" by auto
  from commitment_stages_agree [OF sample_after_reachable [OF setup_runs] cm(1)] cm
  show ?thesis by (auto simp: stage_ok_def)
qed

text \<open>
  C6. Refinement of the lifecycle: a step of the chain leaves a commitment's status as it is or takes
  it along one edge of the abstract state machine, and as long as the record exists its terms (the
  parties, root, chunk count, metadata, dates and price) never change.
\<close>

theorem commitment_refines_lifecycle:
  assumes "runtime_step cur pr rm s t"
  shows "(status_of (vectordb t) cid = status_of (vectordb s) cid \<or>
      lifecycle (status_of (vectordb s) cid) (status_of (vectordb t) cid)) \<and>
    (\<forall>cm cm'. vector_commitments (vectordb s) cid = Some cm \<longrightarrow>
       vector_commitments (vectordb t) cid = Some cm' \<longrightarrow> terms cm' = terms cm)"
  using assms
proof (cases rule: step_commitments)
  case (vdb orig call x)
  then show ?thesis using dispatch_refines [OF vdb, of cid] dispatch_terms [OF vdb, of cid] by blast
qed simp

theorem commitment_refines_lifecycle_witness:
  "\<exists>t. runtime_step sample_currency sample_prims sample_merkle (sample_after setup_actions) t \<and>
     status_of (vectordb t) 119 = Some Settled \<and>
     lifecycle (status_of (vectordb (sample_after setup_actions)) 119) (status_of (vectordb t) 119)"
proof -
  let ?s = "sample_after setup_actions"
  let ?p = "perform (Extrinsic 2 (VdbCall (CloseCommitment 119 18 3 1))) ?s"
  have "map_option (\<lambda>t. status_of (vectordb t) 119) ?p = Some (Some Settled)"
    "status_of (vectordb ?s) 119 = Some Active" by code_simp+
  then obtain t where "?p = Some t" and t: "status_of (vectordb t) 119 = Some Settled"
    "status_of (vectordb ?s) 119 = Some Active" by auto
  then have "runtime_step sample_currency sample_prims sample_merkle ?s t" by (intro perform_step)
  with commitment_refines_lifecycle [OF this, of 119] t show ?thesis by auto
qed

text \<open>
  C16. Settled and resolved are terminal: along every run, the commitment, its dispute record and its
  receipt stay exactly as they are.
\<close>

theorem outcomes_are_final:
  assumes "(runtime_step cur pr rm)\<^sup>*\<^sup>* s t"
    and "status_of (vectordb s) cid \<in> {Some Settled, Some DisputeResolved}"
  shows "vector_commitments (vectordb t) cid = vector_commitments (vectordb s) cid \<and>
    dispute_records (vectordb t) cid = dispute_records (vectordb s) cid \<and>
    stream_receipts (vectordb t) cid = stream_receipts (vectordb s) cid"
  using assms(1)
proof (induction rule: rtranclp_induct)
  case (step u v)
  then have "status_of (vectordb u) cid \<in> {Some Settled, Some DisputeResolved}"
    using assms(2) by (simp add: status_of_def)
  from step_terminal [OF step(2) this] step(3) show ?case by simp
qed simp

definition settle_actions :: "action list" where
  "settle_actions = setup_actions @ [Extrinsic 2 (VdbCall (CloseCommitment 119 18 3 1))]"

theorem outcomes_are_final_witness:
  "status_of (vectordb (sample_after settle_actions)) 119 = Some Settled \<and>
   vector_commitments (vectordb (sample_after (settle_actions @ [Block 7]))) 119
     = vector_commitments (vectordb (sample_after settle_actions)) 119"
proof -
  have st: "status_of (vectordb (sample_after settle_actions)) 119 = Some Settled" by code_simp
  have "performs (settle_actions @ [Block 7]) sample_genesis \<noteq> None" by code_simp
  from outcomes_are_final [OF sample_after_run [OF this], of 119] st show ?thesis by simp
qed



text \<open>
  C15. The provider gets the whole response window: after a dispute is raised, no run and no signer
  can finalize it before the chain has passed the block of the dispute plus the effective window.
\<close>

theorem provider_gets_full_window:
  assumes "dispatch cur pr rm orig (VdbCall (RaiseDispute cid c i rh n)) s = Inr t"
    and "(runtime_step cur pr rm)\<^sup>*\<^sup>* t u"
    and "block_number (host_of (env u))
      \<le> sat_add (block_number (host_of (env s)))
           (effective_dispute_window (rt_vdb_config cur pr rm) (vectordb s))"
  shows "\<not> is_ok (dispatch cur pr rm orig' (VdbCall (FinalizeDispute cid)) u)"
proof
  assume "is_ok (dispatch cur pr rm orig' (VdbCall (FinalizeDispute cid)) u)"
  then obtain v where "dispatch cur pr rm orig' (VdbCall (FinalizeDispute cid)) u = Inr v" by (rule is_okE)
  then obtain d where d: "dispute_records (vectordb u) cid = Some d"
    "counter_deadline d < block_number (host_of (env u))"
    by (auto simp: res_simps finalize_dispute_ok_iff rt_vdb_config_def)
  obtain d0 where d0: "dispute_records (vectordb t) cid = Some d0"
    "counter_deadline d0 = sat_add (block_number (host_of (env s)))
       (effective_dispute_window (rt_vdb_config cur pr rm) (vectordb s))"
    using assms(1) by (auto simp: res_simps raise_dispute_ok_iff rt_vdb_config_def)
  from run_keeps_deadline [OF assms(2) d0(1)] d d0(2) assms(3) show False by auto
qed

definition raise_actions :: "action list" where
  "raise_actions = setup_actions @ [Extrinsic 2 (VdbCall (RaiseDispute 119 18 0 0 1))]"

theorem provider_gets_full_window_witness:
  "\<exists>t. dispatch sample_currency sample_prims sample_merkle (Signed 2)
       (VdbCall (RaiseDispute 119 18 0 0 1)) (sample_after setup_actions) = Inr t \<and>
     \<not> is_ok (dispatch sample_currency sample_prims sample_merkle (Signed 9)
       (VdbCall (FinalizeDispute 119)) t)"
proof -
  let ?s = "sample_after setup_actions" and ?call = "VdbCall (RaiseDispute 119 18 0 0 1)"
  let ?r = "dispatch sample_currency sample_prims sample_merkle (Signed 2) ?call ?s"
  have "case ?r of Inl _ \<Rightarrow> False | Inr t \<Rightarrow> block_number (host_of (env t)) \<le> sat_add (block_number (host_of (env ?s)))
      (effective_dispute_window (rt_vdb_config sample_currency sample_prims sample_merkle) (vectordb ?s))"
    by code_simp
  then obtain t where t: "?r = Inr t" "block_number (host_of (env t)) \<le> sat_add (block_number (host_of (env ?s)))
      (effective_dispute_window (rt_vdb_config sample_currency sample_prims sample_merkle) (vectordb ?s))"
    by (auto split: sum.splits)
  from provider_gets_full_window [OF t(1) rtranclp.rtrancl_refl t(2)] t(1) show ?thesis by blast
qed

text \<open>
  The dispute window is fixed at genesis: in every run it is the preset's override if there is one,
  and the configured 14,400 blocks otherwise.
\<close>

lemma dispute_window_fixed:
  assumes "(runtime_step cur pr rm)\<^sup>*\<^sup>* (genesis w hashes c) s"
  shows "effective_dispute_window (rt_vdb_config cur pr rm) (vectordb s)
    = (case w of Some n \<Rightarrow> n | None \<Rightarrow> 14400)"
proof -
  have "dispute_window_override (vectordb (genesis w hashes c)) = w"
    by (cases w) (simp_all add: genesis_def genesis_build_def empty_vdb_def)
  from override.run_inv [OF assms this] show ?thesis
    by (simp add: effective_dispute_window_def rt_vdb_config_def DisputeWindow_def split: option.split)
qed

text \<open>
  Two of the pallet's errors are defensive only: no reachable state makes a dispute fail as
  already raised, or a counter fail because the recorded chunk index is out of bounds.
\<close>

lemma defensive_errors_unreachable:
  assumes "reachable cur pr rm s"
  shows "dispatch cur pr rm orig (VdbCall (RaiseDispute cid c i rh n)) s
      \<noteq> Inl (Module (VdbErr DisputeAlreadyRaised)) \<and>
    dispatch cur pr rm orig (VdbCall (CounterDispute cid p data hashes)) s
      \<noteq> Inl (Module (VdbErr ChunkIndexOutOfBounds))"
proof -
  have inv: "vdb_inv pr (env_deals (env s)) (vectordb s)"
    using reachable_inv [OF assms] by (simp add: runtime_inv_def)
  note stage = vdb_invD(3) [OF inv, of cid]
  have "raise_dispute (rt_vdb_config cur pr rm) orig cid c i rh n (vectordb s, env s)
      \<noteq> Inl (Module (VdbErr DisputeAlreadyRaised))"
    by (auto simp: raise_dispute_def err_simps res_simps ensure_signed_Inl Let_def rt_vdb_config_def stage_ok_def
        dest: stage)
  moreover have "counter_dispute (rt_vdb_config cur pr rm) orig cid p data hashes (vectordb s, env s)
      \<noteq> Inl (Module (VdbErr ChunkIndexOutOfBounds))"
  proof -
    have "adapter_release cur cid (env s) \<noteq> Inl (Module (VdbErr ChunkIndexOutOfBounds))"
      by (auto simp: adapter_release_def lift_escrow_def err_simps map_dispatch_error_Module)
    then show ?thesis
      by (auto simp: counter_dispute_def err_simps res_simps ensure_signed_Inl Let_def rt_vdb_config_def
          stage_ok_def dispute_ok_def dest: stage)
  qed
  ultimately show ?thesis by (auto simp: err_simps)
qed

lemma defensive_errors_unreachable_witness:
  "reachable sample_currency sample_prims sample_merkle (sample_after setup_actions) \<and>
   dispatch sample_currency sample_prims sample_merkle (Signed 2)
     (VdbCall (RaiseDispute 119 18 7 0 1)) (sample_after setup_actions)
     \<noteq> Inl (Module (VdbErr DisputeAlreadyRaised))"
  using defensive_errors_unreachable [OF sample_after_reachable [OF setup_runs]]
    sample_after_reachable [OF setup_runs] by blast



text \<open>
  C29. The population counters are exact: in every state reached from genesis by fewer than
  2^32 steps, \<^verbatim>\<open>ActiveAgentCount\<close> is the number of profiles that are not revoked and
  \<^verbatim>\<open>ActiveCommitmentCount\<close> the number of pending, active and disputed commitments.
\<close>

theorem counters_are_exact:
  assumes "(runtime_step cur pr rm ^^ n) (genesis w hashes c) s" "n < 2 ^ 32"
  shows "unat (active_agent_count (registry (env s)))
      = card {d. \<exists>p. agent_profiles (registry (env s)) d = Some p \<and> status p \<noteq> Revoked} \<and>
    unat (active_commitment_count (vectordb s))
      = card {cid. \<exists>cm. vector_commitments (vectordb s) cid = Some cm \<and>
          vc_status cm \<in> {Pending, Active, Disputed}}"
proof -
  note run = counters_run [OF assms]
  have fin: "finite (dom (agent_profiles (registry (env s))))" "finite (dom (vector_commitments (vectordb s)))"
    using run by (auto simp: runtime_inv_def registry_inv_finite vdb_invD(1))
  have "live = (\<lambda>p. if status p \<noteq> Revoked then 1 else 0)" by (auto simp: live_def)
  then have "live_count (registry (env s))
      = card {d. \<exists>p. agent_profiles (registry (env s)) d = Some p \<and> status p \<noteq> Revoked}"
    using entry_sum_card [OF fin(1), of "\<lambda>p. status p \<noteq> Revoked"]
    by (simp add: live_count_def)
  moreover have "open_count (vectordb s)
      = card {cid. \<exists>cm. vector_commitments (vectordb s) cid = Some cm \<and>
          vc_status cm \<in> {Pending, Active, Disputed}}"
    using entry_sum_card [OF fin(2), of "\<lambda>cm. vc_status cm \<in> {Pending, Active, Disputed}"]
    by (simp add: open_count_def is_open_def [abs_def])
  ultimately show ?thesis
    using run by (simp add: counters_exact_def count_exact_def open_count_exact_def)
qed

theorem counters_are_exact_witness:
  "card {d. \<exists>p. agent_profiles (registry (env (sample_after setup_actions))) d = Some p \<and>
     status p \<noteq> Revoked} = 2"
proof -
  obtain t where t: "performs setup_actions sample_genesis = Some t" using setup_runs by blast
  have len: "length setup_actions < 2 ^ 32" by (simp add: setup_actions_def)
  have "active_agent_count (registry (env (sample_after setup_actions))) = 2" by code_simp
  with counters_are_exact [OF performs_relpow [OF t, unfolded sample_genesis_def] len] t
  show ?thesis by (simp add: sample_after_def)
qed

end
