(* ===== verification/Weights.thy ===== *)
theory Weights
  imports Prelude
begin

text \<open>
  The weights the pallets declare for their calls: a pair of reference time and proof size, both
  \<^verbatim>\<open>u64\<close>, added with saturation. \<^verbatim>\<open>pallet-agent-registry\<close> and \<^verbatim>\<open>pallet-template\<close> have two tables each,
  \<^verbatim>\<open>SubstrateWeight<T>\<close> and the one for \<^verbatim>\<open>()\<close>; \<^verbatim>\<open>pallet-vector-db\<close> has only the latter.
\<close>

section \<open>Weights\<close>

record weight =
  ref_time :: u64
  proof_size :: u64

definition from_parts :: "u64 \<Rightarrow> u64 \<Rightarrow> weight" where
  "from_parts t p = \<lparr>ref_time = t, proof_size = p\<rparr>"

definition weight_saturating_add :: "weight \<Rightarrow> weight \<Rightarrow> weight" where
  "weight_saturating_add a b = from_parts (sat_add (ref_time a) (ref_time b))
     (sat_add (proof_size a) (proof_size b))"

section \<open>The agent registry\<close>

datatype registry_weight_key =
    WRegisterAgent | WUpdateProfile | WSetAgentStatus | WGiveStar | WRemoveStar | WDeregisterAgent

fun registry_substrate_weight :: "registry_weight_key \<Rightarrow> weight" where
  "registry_substrate_weight WRegisterAgent =
     weight_saturating_add (weight_saturating_add (weight_saturating_add (from_parts 10000 0)
       (from_parts (25000000 * 6) 0)) (from_parts (100000000 * 3) 0)) (from_parts 300000000 0)"
| "registry_substrate_weight WUpdateProfile =
     weight_saturating_add (weight_saturating_add (from_parts 8000 0)
       (from_parts 25000000 0)) (from_parts 100000000 0)"
| "registry_substrate_weight WSetAgentStatus =
     weight_saturating_add (weight_saturating_add (from_parts 6000 0)
       (from_parts (25000000 * 2) 0)) (from_parts (100000000 * 2) 0)"
| "registry_substrate_weight WGiveStar =
     weight_saturating_add (weight_saturating_add (from_parts 8000 0)
       (from_parts (25000000 * 4) 0)) (from_parts (100000000 * 2) 0)"
| "registry_substrate_weight WRemoveStar =
     weight_saturating_add (weight_saturating_add (from_parts 8000 0)
       (from_parts (25000000 * 3) 0)) (from_parts (100000000 * 2) 0)"
| "registry_substrate_weight WDeregisterAgent =
     weight_saturating_add (weight_saturating_add (from_parts 6000 0)
       (from_parts (25000000 * 3) 0)) (from_parts (100000000 * 3) 0)"

fun registry_unit_weight :: "registry_weight_key \<Rightarrow> weight" where
  "registry_unit_weight WRegisterAgent = from_parts 750010000 0"
| "registry_unit_weight WUpdateProfile = from_parts 125008000 0"
| "registry_unit_weight WSetAgentStatus = from_parts 250006000 0"
| "registry_unit_weight WGiveStar = from_parts 300008000 0"
| "registry_unit_weight WRemoveStar = from_parts 275008000 0"
| "registry_unit_weight WDeregisterAgent = from_parts 375006000 0"

lemma weight_add_parts [simp]:
  "weight_saturating_add (from_parts a b) (from_parts c d) = from_parts (sat_add a c) (sat_add b d)"
  by (simp add: weight_saturating_add_def from_parts_def)

section \<open>The vector database\<close>

datatype vdb_weight_key =
    WRegisterCommitment | WAcknowledgeCommitment | WCloseCommitment | WRaiseDispute
  | WCounterDispute | WFinalizeDispute | WExpireCommitment

fun vdb_unit_weight :: "vdb_weight_key \<Rightarrow> weight" where
  "vdb_unit_weight WRegisterCommitment = from_parts 175000000 0"
| "vdb_unit_weight WAcknowledgeCommitment = from_parts 150006000 0"
| "vdb_unit_weight WCloseCommitment = from_parts 250006000 0"
| "vdb_unit_weight WRaiseDispute = from_parts 300008000 0"
| "vdb_unit_weight WCounterDispute = from_parts 500034000 0"
| "vdb_unit_weight WFinalizeDispute = from_parts 250006000 0"
| "vdb_unit_weight WExpireCommitment = from_parts 175004000 0"

section \<open>The template pallet\<close>

text \<open>
  \<^verbatim>\<open>T::DbWeight\<close> and \<^verbatim>\<open>RocksDbWeight\<close> are \<^verbatim>\<open>RuntimeDbWeight\<close>s of \<^verbatim>\<open>frame_support\<close>: the cost of one
  read and of one write, multiplied with saturation.
\<close>

record db_weight =
  db_reads :: "u64 \<Rightarrow> weight"
  db_writes :: "u64 \<Rightarrow> weight"

datatype template_weight_key = WDoSomething | WCauseError

fun template_substrate_weight :: "db_weight \<Rightarrow> template_weight_key \<Rightarrow> weight" where
  "template_substrate_weight t_db WDoSomething =
     weight_saturating_add (from_parts 9000000 0) (db_writes t_db 1)"
| "template_substrate_weight t_db WCauseError =
     weight_saturating_add (weight_saturating_add (from_parts 6000000 1489) (db_reads t_db 1))
       (db_writes t_db 1)"

fun template_unit_weight :: "db_weight \<Rightarrow> template_weight_key \<Rightarrow> weight" where
  "template_unit_weight rocks_db WDoSomething =
     weight_saturating_add (from_parts 9000000 0) (db_writes rocks_db 1)"
| "template_unit_weight rocks_db WCauseError =
     weight_saturating_add (weight_saturating_add (from_parts 6000000 1489) (db_reads rocks_db 1))
       (db_writes rocks_db 1)"

section \<open>Properties\<close>

text \<open>
  The two weight tables of the agent registry agree: for every call the sum that
  \<^verbatim>\<open>SubstrateWeight\<close> computes, with saturation, is the constant of the development table.
\<close>

lemma registry_weights_agree: "registry_substrate_weight k = registry_unit_weight k"
  by (cases k) (simp_all add: sat_add_def)

end
