(* ===== verification/Chunk_Store.thy ===== *)
theory Chunk_Store
  imports Vector_Db
begin

text \<open>
  \<^verbatim>\<open>offchain-vector-db/src/lib.rs\<close>, local chunk persistence. The trait \<^verbatim>\<open>ChunkStore\<close> is a record of
  operations on a backend state \<open>'s\<close>; its contract, which the clients rely on, is the locale
  \<open>chunk_store_laws\<close> over a view of what is stored; \<^verbatim>\<open>FsChunkStore\<close> on the operating system
  implements it.
\<close>

section \<open>The ChunkStore trait\<close>

record 's chunk_store =
  persist :: "commitment_id \<Rightarrow> bytes list \<Rightarrow> ('s, io_error, unit) io"
  load_chunk :: "commitment_id \<Rightarrow> u64 \<Rightarrow> ('s, io_error, bytes) io"
  rekey :: "commitment_id \<Rightarrow> commitment_id \<Rightarrow> ('s, io_error, unit) io"

text \<open>\<^verbatim>\<open>(0..total_chunks).map(load).collect()\<close> stops at the first error.\<close>

primrec load_each :: "'s chunk_store \<Rightarrow> commitment_id \<Rightarrow> u64 list \<Rightarrow> ('s, io_error, bytes list) io" where
  "load_each st cid [] = io_return []"
| "load_each st cid (i # is) =
     io_then (load_chunk st cid i) (\<lambda>c. io_then (load_each st cid is) (\<lambda>cs. io_return (c # cs)))"

definition load_all_chunks ::
  "'s chunk_store \<Rightarrow> commitment_id \<Rightarrow> u64 \<Rightarrow> ('s, io_error, bytes list) io" where
  "load_all_chunks st cid count = load_each st cid (map of_nat [0..<unat count])"

section \<open>FsChunkStore\<close>

definition commitment_dir :: "hex_crate \<Rightarrow> path \<Rightarrow> commitment_id \<Rightarrow> path" where
  "commitment_dir hx root_dir cid = path_join root_dir (hex_encode hx (h256_bytes cid))"

definition chunk_path :: "path \<Rightarrow> nat \<Rightarrow> path" where
  "chunk_path dir i = path_join dir (show_nat i @ ''.bin'')"

primrec persist_from :: "path \<Rightarrow> nat \<Rightarrow> bytes list \<Rightarrow> (os, io_error, unit) io" where
  "persist_from dir i [] = io_return ()"
| "persist_from dir i (chunk # chunks) =
     io_then (write_file (chunk_path dir i) chunk) (\<lambda>_. persist_from dir (Suc i) chunks)"

definition fs_persist ::
  "hex_crate \<Rightarrow> path \<Rightarrow> commitment_id \<Rightarrow> bytes list \<Rightarrow> (os, io_error, unit) io" where
  "fs_persist hx root_dir cid chunks =
     (let dir = commitment_dir hx root_dir cid in
      io_then (create_dir_all dir) (\<lambda>_. persist_from dir 0 chunks))"

definition fs_load_chunk ::
  "hex_crate \<Rightarrow> path \<Rightarrow> commitment_id \<Rightarrow> u64 \<Rightarrow> (os, io_error, bytes) io" where
  "fs_load_chunk hx root_dir cid index =
     read_file (chunk_path (commitment_dir hx root_dir cid) (unat index))"

definition fs_rekey ::
  "hex_crate \<Rightarrow> path \<Rightarrow> commitment_id \<Rightarrow> commitment_id \<Rightarrow> (os, io_error, unit) io" where
  "fs_rekey hx root_dir old_id new_id =
     rename_dir (commitment_dir hx root_dir old_id) (commitment_dir hx root_dir new_id)"

definition fs_chunk_store :: "hex_crate \<Rightarrow> path \<Rightarrow> os chunk_store" where
  "fs_chunk_store hx root_dir = \<lparr>persist = fs_persist hx root_dir,
     load_chunk = fs_load_chunk hx root_dir, rekey = fs_rekey hx root_dir\<rparr>"

section \<open>The contract\<close>

text \<open>
  \<open>view s cid i\<close> is the \<open>i\<close>-th chunk stored under \<open>cid\<close>, \<open>apart\<close> says that the backend keeps two
  identifiers apart, and \<open>good\<close> that the backend answers every request.
\<close>

locale chunk_store_laws =
  fixes st :: "'s chunk_store" and view :: "'s \<Rightarrow> commitment_id \<Rightarrow> nat \<Rightarrow> bytes option"
    and apart :: "commitment_id \<Rightarrow> commitment_id \<Rightarrow> bool" and good :: "'s \<Rightarrow> bool"
  assumes persist_view: "persist st cid chunks s = (Inr (), s') \<Longrightarrow> i < length chunks \<Longrightarrow>
      view s' cid i = Some (chunks ! i)"
    and persist_frame: "persist st cid chunks s = (r, s') \<Longrightarrow> apart cid' cid \<Longrightarrow>
      view s' cid' = view s cid'"
    and load_view: "load_chunk st cid n s = (Inr data, s') \<Longrightarrow> view s cid (unat n) = Some data"
    and load_keeps: "load_chunk st cid n s = (rd, s') \<Longrightarrow> view s' = view s"
    and load_live: "good s \<Longrightarrow> view s cid (unat n) = Some data \<Longrightarrow>
      \<exists>s'. load_chunk st cid n s = (Inr data, s') \<and> good s'"
    and rekey_view: "rekey st old new s = (Inr (), s') \<Longrightarrow> view s' new = view s old"
    and rekey_frame: "rekey st old new s = (r, s') \<Longrightarrow> apart cid old \<Longrightarrow> apart cid new \<Longrightarrow>
      view s' cid = view s cid"
    and rekey_error: "rekey st old new s = (Inl e, s') \<Longrightarrow> view s' = view s"
begin

lemma load_each_view:
  assumes "load_each st cid is s = (Inr cs, s')"
  shows "view s' = view s \<and> map (\<lambda>i. view s cid (unat i)) is = map Some cs"
  using assms
proof (induction "is" arbitrary: s cs s')
  case (Cons i "is")
  then obtain c s1 cs1 where "load_chunk st cid i s = (Inr c, s1)"
    "load_each st cid is s1 = (Inr cs1, s')" "cs = c # cs1"
    by (auto simp: io_simps)
  then show ?case using Cons.IH [of s1 cs1 s'] load_view load_keeps by simp
qed simp

lemma load_each_live:
  assumes "good s" "map (\<lambda>i. view s cid (unat i)) is = map Some cs"
  shows "\<exists>s'. load_each st cid is s = (Inr cs, s') \<and> good s' \<and> view s' = view s"
  using assms
proof (induction "is" arbitrary: s cs)
  case (Cons i "is")
  then obtain c cs1 where cs: "cs = c # cs1" "view s cid (unat i) = Some c"
    "map (\<lambda>i. view s cid (unat i)) is = map Some cs1"
    by (cases cs) auto
  obtain s1 where s1: "load_chunk st cid i s = (Inr c, s1)" "good s1"
    using load_live [OF Cons.prems(1) cs(2)] by blast
  have v1: "view s1 = view s" using load_keeps s1(1) .
  then obtain s2 where s2: "load_each st cid is s1 = (Inr cs1, s2)" "good s2" "view s2 = view s1"
    using Cons.IH [of s1 cs1] s1(2) cs(3) by auto
  have "load_each st cid (i # is) s = (Inr (c # cs1), s2)"
    using s1(1) s2(1) by (simp add: io_then_eval)
  with s2(2,3) v1 cs(1) show ?case by auto
qed auto

lemma load_all_view:
  assumes "load_all_chunks st cid count s = (Inr cs, s')"
  shows "length cs = unat count" and "i < unat count \<Longrightarrow> view s cid i = Some (cs ! i)"
    and "view s' = view s"
proof -
  have eq: "map (\<lambda>i. view s cid (unat i)) (map (of_nat :: nat \<Rightarrow> u64) [0..<unat count]) = map Some cs"
    and v: "view s' = view s"
    using load_each_view [OF assms [unfolded load_all_chunks_def]] by blast+
  show "view s' = view s" by (rule v)
  show len: "length cs = unat count" using arg_cong [OF eq, of length] by simp
  show "view s cid i = Some (cs ! i)" if "i < unat count"
  proof -
    have "i < 2 ^ 64" using that unsigned_less [of count, where 'a = nat] by simp
    then show ?thesis using arg_cong [OF eq, of "\<lambda>xs. xs ! i"] that len
      by (simp add: unat_of_nat)
  qed
qed

lemma load_all_live:
  assumes "good s" "length cs = unat count" "\<And>i. i < unat count \<Longrightarrow> view s cid i = Some (cs ! i)"
  shows "\<exists>s'. load_all_chunks st cid count s = (Inr cs, s') \<and> good s' \<and> view s' = view s"
  unfolding load_all_chunks_def
proof (rule load_each_live [OF assms(1)], rule nth_equalityI)
  fix i
  assume "i < length (map (\<lambda>i. view s cid (unat i)) (map (of_nat :: nat \<Rightarrow> u64) [0..<unat count]))"
  then have i: "i < unat count" by simp
  then have "i < 2 ^ 64" using unsigned_less [of count, where 'a = nat] by simp
  then show "map (\<lambda>i. view s cid (unat i)) (map (of_nat :: nat \<Rightarrow> u64) [0..<unat count]) ! i
    = map Some cs ! i"
    using i assms(2,3) by (simp add: unat_of_nat)
qed (simp add: assms(2))

end

section \<open>FsChunkStore keeps the contract\<close>

definition fs_view :: "hex_crate \<Rightarrow> path \<Rightarrow> os \<Rightarrow> commitment_id \<Rightarrow> nat \<Rightarrow> bytes option" where
  "fs_view hx root_dir s cid i = file_at s (chunk_path (commitment_dir hx root_dir cid) i)"

definition fs_apart :: "hex_crate \<Rightarrow> path \<Rightarrow> commitment_id \<Rightarrow> commitment_id \<Rightarrow> bool" where
  "fs_apart hx root_dir a b \<longleftrightarrow>
     \<not> prefix (commitment_dir hx root_dir a) (commitment_dir hx root_dir b) \<and>
     \<not> prefix (commitment_dir hx root_dir b) (commitment_dir hx root_dir a)"

lemma chunk_path_eq: "chunk_path dir i = dir @ [show_nat i @ ''.bin'']"
proof -
  have "CHR ''/'' \<noteq> digit_char d" if "d < 10" for d
  proof
    assume "CHR ''/'' = digit_char d"
    then have "of_char (CHR ''/'') = (of_char (digit_char d) :: nat)" by simp
    then show False using that by (simp add: digit_char_def)
  qed
  then have "CHR ''/'' \<notin> set (show_nat i)" using show_nat_digits by blast
  then show ?thesis unfolding chunk_path_def by (intro path_join_component) auto
qed

lemma chunk_path_inject: "chunk_path d i = chunk_path e j \<longleftrightarrow> d = e \<and> i = j"
  by (simp add: chunk_path_eq)

lemma chunk_path_prefix:
  "prefix e (chunk_path d i) \<Longrightarrow> e = chunk_path d i \<or> prefix e d"
  by (auto simp: chunk_path_eq)

lemma fs_apart_distinct:
  assumes "hex_laws hx" "a \<noteq> b"
  shows "fs_apart hx root_dir a b"
proof -
  have ne: "h256_bytes x \<noteq> []" for x using length_h256_bytes [of x] by fastforce
  show ?thesis
    using assms ne by (simp add: fs_apart_def commitment_dir_def path_join_hex hex_encode_inject)
qed

lemma write_file_view:
  "write_file p data s = (r, s') \<Longrightarrow> q \<noteq> p \<Longrightarrow> file_at s' q = file_at s q"
  by (auto simp: write_file_def split: if_splits option.splits)

lemma persist_from_others:
  assumes "persist_from dir i chunks s = (r, s')" "\<And>j. i \<le> j \<Longrightarrow> q \<noteq> chunk_path dir j"
  shows "file_at s' q = file_at s q"
  using assms
proof (induction chunks arbitrary: i s)
  case (Cons c cs)
  obtain r1 s1 where w: "write_file (chunk_path dir i) c s = (r1, s1)" by fastforce
  then have v: "file_at s1 q = file_at s q" using Cons.prems(2) by (intro write_file_view) auto
  show ?case
  proof (cases r1)
    case (Inl e)
    then show ?thesis using Cons.prems(1) w v by (simp add: io_then_eval(2))
  next
    case (Inr u)
    then have "persist_from dir (Suc i) cs s1 = (r, s')"
      using Cons.prems(1) w by (simp add: io_then_eval(1))
    then show ?thesis using Cons.IH [of "Suc i" s1] Cons.prems(2) v by simp
  qed
qed simp

lemma persist_from_view:
  assumes "persist_from dir i chunks s = (Inr (), s')" "j < length chunks"
  shows "file_at s' (chunk_path dir (i + j)) = Some (chunks ! j)"
  using assms
proof (induction chunks arbitrary: i j s)
  case (Cons c cs)
  then obtain s1 where w: "write_file (chunk_path dir i) c s = (Inr (), s1)"
    and rest: "persist_from dir (Suc i) cs s1 = (Inr (), s')"
    by (auto simp: io_simps)
  show ?case
  proof (cases j)
    case 0
    have "file_at s1 (chunk_path dir i) = Some c"
      using w by (auto simp: write_file_def split: if_splits option.splits)
    moreover have "file_at s' (chunk_path dir i) = file_at s1 (chunk_path dir i)"
      by (rule persist_from_others [OF rest]) (simp add: chunk_path_inject)
    ultimately show ?thesis using 0 by simp
  next
    case (Suc k)
    then show ?thesis using Cons.IH [OF rest, of k] Cons.prems(2) by simp
  qed
qed simp

lemma create_dir_all_files: "create_dir_all p s = (r, s') \<Longrightarrow> os_files s' = os_files s"
  by (auto simp: create_dir_all_def split: if_splits)

lemma fs_persist_frame:
  assumes "fs_persist hx root_dir cid chunks s = (r, s')" "fs_apart hx root_dir cid' cid"
  shows "fs_view hx root_dir s' cid' = fs_view hx root_dir s cid'"
proof
  fix i
  let ?d = "commitment_dir hx root_dir cid"
  let ?q = "chunk_path (commitment_dir hx root_dir cid') i"
  obtain r1 s1 where c: "create_dir_all ?d s = (r1, s1)" by fastforce
  have q: "?q \<noteq> chunk_path ?d j" for j using assms(2) by (auto simp: chunk_path_inject fs_apart_def)
  have "file_at s' ?q = file_at s1 ?q"
    using assms(1) c persist_from_others [of ?d 0 chunks s1 r s' ?q] q
    by (cases r1) (auto simp: fs_persist_def Let_def io_then_def)
  then show "fs_view hx root_dir s' cid' i = fs_view hx root_dir s cid' i"
    using create_dir_all_files [OF c] by (simp add: fs_view_def)
qed

lemma fs_persist_view:
  assumes "fs_persist hx root_dir cid chunks s = (Inr (), s')" "i < length chunks"
  shows "fs_view hx root_dir s' cid i = Some (chunks ! i)"
  using assms persist_from_view [of "commitment_dir hx root_dir cid" 0 chunks _ s' i]
  by (auto simp: fs_persist_def Let_def fs_view_def io_simps)

lemma fs_rekey_view:
  assumes "fs_rekey hx root_dir old new s = (Inr (), s')"
  shows "fs_view hx root_dir s' new = fs_view hx root_dir s old"
proof (cases "commitment_dir hx root_dir old = commitment_dir hx root_dir new")
  case True
  then show ?thesis
    using assms by (auto simp: fs_rekey_def rename_dir_def fs_view_def split: if_splits)
next
  case False
  then show ?thesis
    using rename_dir_files [OF assms [unfolded fs_rekey_def] False]
    by (auto simp: fs_view_def chunk_path_eq)
qed

lemma fs_rekey_frame:
  assumes "fs_rekey hx root_dir old new s = (r, s')" "fs_apart hx root_dir cid old"
    "fs_apart hx root_dir cid new"
  shows "fs_view hx root_dir s' cid = fs_view hx root_dir s cid"
proof
  fix i
  let ?q = "chunk_path (commitment_dir hx root_dir cid) i"
  show "fs_view hx root_dir s' cid i = fs_view hx root_dir s cid i"
  proof (cases "r = Inr () \<and> commitment_dir hx root_dir old \<noteq> commitment_dir hx root_dir new")
    case True
    have "\<not> prefix (commitment_dir hx root_dir old) ?q" "\<not> prefix (commitment_dir hx root_dir new) ?q"
      using assms(2,3) by (auto simp: fs_apart_def chunk_path_eq)
    then show ?thesis
      using True assms(1) rename_dir_files [of _ _ s s' ?q] by (simp add: fs_rekey_def fs_view_def)
  next
    case False
    then have "os_files s' = os_files s"
      using assms(1) by (auto simp: fs_rekey_def rename_dir_def split: if_splits)
    then show ?thesis by (simp add: fs_view_def)
  qed
qed

lemma fs_view_cong: "os_files s = os_files t \<Longrightarrow> fs_view hx root_dir s = fs_view hx root_dir t"
  by (intro ext) (simp add: fs_view_def)

lemma fs_load_view:
  "fs_load_chunk hx root_dir cid n s = (Inr data, s') \<Longrightarrow>
   fs_view hx root_dir s cid (unat n) = Some data"
  by (simp add: fs_load_chunk_def read_file_def fs_view_def ok_or_Inr split: if_splits)

lemma fs_load_keeps:
  "fs_load_chunk hx root_dir cid n s = (r, s') \<Longrightarrow> fs_view hx root_dir s' = fs_view hx root_dir s"
  by (rule fs_view_cong) (auto simp: fs_load_chunk_def read_file_def split: if_splits)

lemma fs_load_live:
  assumes "healthy s" "fs_view hx root_dir s cid (unat n) = Some data"
  shows "\<exists>s'. fs_load_chunk hx root_dir cid n s = (Inr data, s') \<and> healthy s'"
  using assms healthy_faulty [OF assms(1)] by (simp add: fs_load_chunk_def read_file_def fs_view_def)

lemma fs_rekey_error:
  "fs_rekey hx root_dir old new s = (Inl e, s') \<Longrightarrow> fs_view hx root_dir s' = fs_view hx root_dir s"
  by (rule fs_view_cong) (auto simp: fs_rekey_def dest: rename_dir_error)

interpretation fs: chunk_store_laws "fs_chunk_store hx root_dir" "fs_view hx root_dir"
  "fs_apart hx root_dir" healthy for hx root_dir
  by unfold_locales
    (simp_all add: fs_chunk_store_def fs_persist_view fs_persist_frame fs_load_view fs_load_keeps
      fs_load_live fs_rekey_view fs_rekey_frame fs_rekey_error)

end
