(* ===== verification/Dyn_Client.thy ===== *)
theory Dyn_Client
  imports Host_Io
begin

text \<open>
  The boundary between the clients and the chain: \<^verbatim>\<open>subxt\<close>'s dynamic transactions and events. A
  transaction names a pallet and a call and lists argument values; nothing checks at compile time
  that they fit the extrinsic. The node (and \<^verbatim>\<open>subxt\<close> itself) is a parameter: it answers a
  submission with an error or the events of the finalized block.
\<close>

section \<open>Dynamic values\<close>

datatype dyn_value =
    DynBytes bytes
  | DynU128 u128
  | DynComposite "dyn_value list"
  | DynVariant string "dyn_value list"

record dyn_tx =
  tx_pallet :: string
  tx_call :: string
  tx_args :: "dyn_value list"

text \<open>\<^verbatim>\<open>Value::from_bytes\<close> of a 32-byte array and \<^verbatim>\<open>Value::u128(x as u128)\<close> of a narrower integer.\<close>

abbreviation dyn_h256 :: "h256 \<Rightarrow> dyn_value" where
  "dyn_h256 x \<equiv> DynBytes (h256_bytes x)"

abbreviation dyn_uint :: "'n::len word \<Rightarrow> dyn_value" where
  "dyn_uint n \<equiv> DynU128 (ucast n)"

section \<open>Events\<close>

text \<open>The shape of \<^verbatim>\<open>scale_value\<close>'s \<^verbatim>\<open>ValueDef\<close> and \<^verbatim>\<open>Composite\<close> that the decoder matches on.\<close>

datatype scale_value =
    SComposite scale_composite
  | SVariant string scale_composite
  | SBitSequence "bool list"
  | SPrimitive "u128 option"
and scale_composite =
    Unnamed "scale_value list"
  | Named "(string \<times> scale_value) list"

record event_details =
  ev_pallet :: string
  ev_variant :: string
  ev_fields :: "scale_composite option"

text \<open>
  \<^verbatim>\<open>events.iter().filter_map(|e| e.ok()).find(..)\<close>: an event that does not decode is \<open>None\<close> and
  skipped.
\<close>

definition find_event :: "string \<Rightarrow> string \<Rightarrow> event_details option list \<Rightarrow> event_details option" where
  "find_event pallet variant events =
     List.find (\<lambda>e. ev_pallet e = pallet \<and> ev_variant e = variant) (List.map_filter id events)"

text \<open>The bytes of a \<^verbatim>\<open>[u8; 32]\<close> back to the value they list.\<close>

definition bytes_h256 :: "bytes \<Rightarrow> h256" where
  "bytes_h256 bs = horner_sum of_bool 2 (map (\<lambda>n. bit (bs ! (31 - n div 8)) (n mod 8)) [0..<256])"

lemma bytes_h256_bytes [simp]: "bytes_h256 (h256_bytes w) = w"
  by (rule bit_word_eqI) (simp add: bytes_h256_def bit_horner_sum_bit_word_iff flip: bit_h256_bytes)

fun decode_byte :: "scale_value \<Rightarrow> u8 option" where
  "decode_byte (SPrimitive p) = map_option ucast p"
| "decode_byte _ = None"

primrec decode_bytes :: "scale_value list \<Rightarrow> bytes option" where
  "decode_bytes [] = Some []"
| "decode_bytes (v # vs) = (case decode_byte v of
       None \<Rightarrow> None
     | Some b \<Rightarrow> map_option (\<lambda>bs. b # bs) (decode_bytes vs))"

definition decode_fixed_bytes_field :: "scale_composite \<Rightarrow> nat \<Rightarrow> h256 option" where
  "decode_fixed_bytes_field composite index =
     (case (case composite of
              Unnamed vals \<Rightarrow> if index < length vals then Some (vals ! index) else None
            | Named vals \<Rightarrow> if index < length vals then Some (snd (vals ! index)) else None) of
        None \<Rightarrow> None
      | Some value \<Rightarrow>
          (case value of
             SComposite (Unnamed bs) \<Rightarrow>
               if length bs \<noteq> 32 then None else map_option bytes_h256 (decode_bytes bs)
           | _ \<Rightarrow> None))"

text \<open>How the node presents a 32-byte field of an event: a composite of 32 primitives.\<close>

definition scale_h256 :: "h256 \<Rightarrow> scale_value" where
  "scale_h256 w = SComposite (Unnamed (map (\<lambda>b. SPrimitive (Some (ucast b))) (h256_bytes w)))"

lemma ucast_up_down:
  "(ucast (ucast b :: u128) :: u8) = b" "(ucast (ucast m :: u128) :: u32) = m"
  "(ucast (ucast n :: u128) :: u64) = n" for b :: u8 and m :: u32 and n :: u64
  by (rule bit_word_eqI, simp add: bit_simps)+

lemma ucast_wide_inject:
  "(ucast a :: u128) = ucast b \<longleftrightarrow> a = b" "(ucast c :: u128) = ucast d \<longleftrightarrow> c = d"
  for a b :: u64 and c d :: u32
  by (metis ucast_up_down(3)) (metis ucast_up_down(2))

lemma decode_bytes_primitives: "decode_bytes (map (\<lambda>b. SPrimitive (Some (ucast b))) bs) = Some bs"
  by (induction bs) (simp_all only: list.map decode_bytes.simps decode_byte.simps option.map option.case ucast_up_down)

lemma decode_fixed_bytes_unnamed:
  "index < length vals \<Longrightarrow> vals ! index = scale_h256 w \<Longrightarrow>
   decode_fixed_bytes_field (Unnamed vals) index = Some w"
  by (simp add: decode_fixed_bytes_field_def scale_h256_def decode_bytes_primitives)

lemma decode_fixed_bytes_named:
  "index < length vals \<Longrightarrow> snd (vals ! index) = scale_h256 w \<Longrightarrow>
   decode_fixed_bytes_field (Named vals) index = Some w"
  by (simp add: decode_fixed_bytes_field_def scale_h256_def decode_bytes_primitives)

section \<open>The node\<close>

datatype subxt_error = SubxtError string

record 'n chain_node =
  sign_and_submit :: "account_id \<Rightarrow> dyn_tx \<Rightarrow> ('n, subxt_error, event_details option list) io"
  at_latest :: "('n, subxt_error, block_number \<times> h256) io"
  genesis_hash :: "'n \<Rightarrow> h256"

text \<open>The two ways in which a plain call can fail at the client.\<close>

datatype call_error = Subxt subxt_error | EventMissing

text \<open>
  The world of a client: the node, the machine the client runs on, and the transactions submitted
  so far with their signers (a history no client reads).
\<close>

record ('n, 's) world =
  w_node :: 'n
  w_host :: 's
  w_sent :: "(account_id \<times> dyn_tx) list"

definition submit ::
  "'n chain_node \<Rightarrow> account_id \<Rightarrow> dyn_tx
     \<Rightarrow> (('n, 's) world, subxt_error, event_details option list) io" where
  "submit nd who tx w = (case sign_and_submit nd who tx (w_node w) of (r, n) \<Rightarrow>
     (r, w\<lparr>w_node := n, w_sent := w_sent w @ [(who, tx)]\<rparr>))"

definition latest_block :: "'n chain_node \<Rightarrow> (('n, 's) world, subxt_error, block_number \<times> h256) io" where
  "latest_block nd w = (case at_latest nd (w_node w) of (r, n) \<Rightarrow> (r, w\<lparr>w_node := n\<rparr>))"

definition on_host :: "('s, 'e, 'a) io \<Rightarrow> (('n, 's) world, 'e, 'a) io" where
  "on_host m w = (case m (w_host w) of (r, s) \<Rightarrow> (r, w\<lparr>w_host := s\<rparr>))"

definition on_node :: "('n, 'e, 'a) io \<Rightarrow> (('n, 's) world, 'e, 'a) io" where
  "on_node m w = (case m (w_node w) of (r, n) \<Rightarrow> (r, w\<lparr>w_node := n\<rparr>))"

text \<open>
  The tail every client shares: submit, wait for the finalized block, and require the event that
  confirms the call.
\<close>

definition submit_expect ::
  "'n chain_node \<Rightarrow> account_id \<Rightarrow> dyn_tx \<Rightarrow> string \<Rightarrow> (subxt_error \<Rightarrow> 'e) \<Rightarrow> 'e
     \<Rightarrow> (('n, 's) world, 'e, event_details) io" where
  "submit_expect nd who tx variant subxt_err missing =
     io_then (io_map_err subxt_err (submit nd who tx)) (\<lambda>events.
     io_lift (ok_or (find_event (tx_pallet tx) variant events) missing))"

lemma submit_sent:
  "w_sent (snd (submit nd who tx w)) = w_sent w @ [(who, tx)]"
  "w_host (snd (submit nd who tx w)) = w_host w"
  by (simp_all add: submit_def split: prod.splits)

lemma submit_expect_snd: "snd (submit_expect nd who tx variant g missing w) = snd (submit nd who tx w)"
  by (auto simp: submit_expect_def io_then_def io_map_err_def split: prod.splits sum.splits)

lemma submit_expect_sent [simp]:
  "w_sent (snd (submit_expect nd who tx variant g missing w)) = w_sent w @ [(who, tx)]"
  "w_host (snd (submit_expect nd who tx variant g missing w)) = w_host w"
  by (simp_all add: submit_expect_snd submit_sent)

lemma on_node_simps [simp]:
  "w_sent (snd (on_node m w)) = w_sent w" "w_host (snd (on_node m w)) = w_host w"
  by (simp_all add: on_node_def case_prod_beta)

lemma on_host_simps [simp]:
  "w_sent (snd (on_host m w)) = w_sent w" "w_node (snd (on_host m w)) = w_node w"
  "w_host (snd (on_host m w)) = snd (m (w_host w))" "fst (on_host m w) = fst (m (w_host w))"
  by (simp_all add: on_host_def split: prod.splits)

lemma on_host_eval: "m (w_host w) = (r, s) \<Longrightarrow> on_host m w = (r, w\<lparr>w_host := s\<rparr>)"
  by (simp add: on_host_def)

lemma latest_block_Inr [io_simps]:
  "latest_block nd w = (Inr r, w') \<longleftrightarrow> (\<exists>n. at_latest nd (w_node w) = (Inr r, n) \<and> w' = w\<lparr>w_node := n\<rparr>)"
  by (auto simp: latest_block_def split: prod.splits)

lemma on_host_Inr [io_simps]:
  "on_host m w = (Inr r, w') \<longleftrightarrow> (\<exists>s. m (w_host w) = (Inr r, s) \<and> w' = w\<lparr>w_host := s\<rparr>)"
  by (auto simp: on_host_def split: prod.splits)

text \<open>What submits nothing.\<close>

definition same_sent :: "('n, 's) world \<Rightarrow> ('n, 's) world \<Rightarrow> bool" where
  "same_sent w w' \<longleftrightarrow> w_sent w' = w_sent w"

lemma same_sent_rel: "reflp same_sent" "transp same_sent"
  by (auto simp: same_sent_def intro!: reflpI transpI)

lemma same_sent_on_host: "io_keeps same_sent (on_host m)"
  by (simp add: io_keeps_def same_sent_def)

lemma same_sent_latest_block: "io_keeps same_sent (latest_block nd)"
  by (simp add: io_keeps_def same_sent_def latest_block_def case_prod_beta)

lemma same_sent_on_node: "io_keeps same_sent (on_node m)"
  by (simp add: io_keeps_def same_sent_def)

lemmas same_sent_intros = same_sent_on_host same_sent_latest_block same_sent_on_node
  io_keeps_then [OF same_sent_rel(2)] io_keeps_ensure [OF same_sent_rel(1)]
  io_keeps_basic [OF same_sent_rel(1)] io_keeps_map_err

lemma io_then_sent: "(\<And>x. io_keeps same_sent (f x)) \<Longrightarrow> w_sent (snd (io_then m f w)) = w_sent (snd (m w))"
  using io_then_keeps [OF same_sent_rel(1)] unfolding same_sent_def .

text \<open>What submits only transactions that satisfy \<open>Q\<close>, and what submits at most one.\<close>

definition sends_only :: "(account_id \<times> dyn_tx \<Rightarrow> bool) \<Rightarrow> ('n, 's) world \<Rightarrow> ('n, 's) world \<Rightarrow> bool" where
  "sends_only Q w w' \<longleftrightarrow> (\<exists>extra. w_sent w' = w_sent w @ extra \<and> (\<forall>x \<in> set extra. Q x))"

lemma sends_only_rel: "reflp (sends_only Q)" "transp (sends_only Q)"
proof -
  show "reflp (sends_only Q)" by (rule reflpI) (simp add: sends_only_def)
  show "transp (sends_only Q)"
  proof (rule transpI)
    fix u v w
    assume "sends_only Q u v" "sends_only Q v w"
    then obtain xs ys where "w_sent v = w_sent u @ xs" "\<forall>x \<in> set xs. Q x"
      "w_sent w = w_sent v @ ys" "\<forall>x \<in> set ys. Q x"
      unfolding sends_only_def by blast
    then show "sends_only Q u w" unfolding sends_only_def by (intro exI [of _ "xs @ ys"]) auto
  qed
qed

lemma sends_only_same: "w_sent w' = w_sent w \<Longrightarrow> sends_only Q w w'"
  unfolding sends_only_def by (intro exI [of _ "[]"]) simp

definition sends_one :: "(account_id \<times> dyn_tx \<Rightarrow> bool) \<Rightarrow> (('n, 's) world, 'e, 'a) io \<Rightarrow> bool" where
  "sends_one Q m \<longleftrightarrow> (\<forall>w. w_sent (snd (m w)) = w_sent w \<or>
     (\<exists>x. Q x \<and> w_sent (snd (m w)) = w_sent w @ [x]))"

lemma sends_oneI: "(\<And>w. w_sent (snd (m w)) = w_sent w @ [x]) \<Longrightarrow> Q x \<Longrightarrow> sends_one Q m"
  unfolding sends_one_def by blast

lemma sends_one_cases:
  "(\<And>w r w'. m w = (r, w') \<Longrightarrow> w_sent w' = w_sent w \<or> (\<exists>x. Q x \<and> w_sent w' = w_sent w @ [x])) \<Longrightarrow>
   sends_one Q m"
  unfolding sends_one_def by (metis prod.collapse)

lemma sends_one_none: "io_keeps same_sent m \<Longrightarrow> sends_one Q m"
  by (simp add: sends_one_def io_keeps_def same_sent_def)

lemma sends_one_map_err: "sends_one Q m \<Longrightarrow> sends_one Q (io_map_err g m)"
  by (simp add: sends_one_def)

lemma sends_one_last: "sends_one Q m \<Longrightarrow> sends_one Q (io_then m (\<lambda>x. io_return (g x)))"
  by (simp add: sends_one_def io_then_return_snd)

lemma sends_one_lift: "(\<And>x. r = Inr x \<Longrightarrow> sends_one Q (f x)) \<Longrightarrow> sends_one Q (io_then (io_lift r) f)"
  by (cases r) (simp_all add: sends_one_def io_then_def)

lemma sends_one_then:
  assumes "io_keeps same_sent m" "\<And>x. sends_one Q (f x)"
  shows "sends_one Q (io_then m f)"
  unfolding sends_one_def
proof
  fix w
  obtain r w1 where m: "m w = (r, w1)" by fastforce
  then have "w_sent w1 = w_sent w"
    using assms(1) unfolding io_keeps_def same_sent_def by (metis snd_conv)
  then show "w_sent (snd (io_then m f w)) = w_sent w \<or>
      (\<exists>x. Q x \<and> w_sent (snd (io_then m f w)) = w_sent w @ [x])"
    using m assms(2) unfolding sends_one_def by (cases r) (simp_all add: io_then_def, metis)
qed

text \<open>What leaves the oracles of the machine alone.\<close>

definition host_oracles :: "('n, os) world \<Rightarrow> ('n, os) world \<Rightarrow> bool" where
  "host_oracles w w' \<longleftrightarrow> same_oracles (w_host w) (w_host w')"

lemma host_oracles_rel: "reflp host_oracles" "transp host_oracles"
  by (auto simp: host_oracles_def same_oracles_def intro!: reflpI transpI)

lemma host_oracles_on_host: "io_keeps same_oracles m \<Longrightarrow> io_keeps host_oracles (on_host m)"
  by (simp add: io_keeps_def host_oracles_def)

lemma host_oracles_chain:
  "io_keeps host_oracles (submit_expect nd who tx variant g missing)"
  "io_keeps host_oracles (latest_block nd)"
  by (simp_all add: io_keeps_def host_oracles_def same_oracles_def latest_block_def case_prod_beta)

lemmas host_oracles_intros = host_oracles_on_host host_oracles_chain
  io_keeps_then [OF host_oracles_rel(2)] io_keeps_ensure [OF host_oracles_rel(1)]
  io_keeps_basic [OF host_oracles_rel(1)] io_keeps_map_err io_keeps_case_prod io_keeps_if

lemma submit_expect_Inr:
  assumes "submit_expect nd who tx variant g missing w = (Inr e, w')"
  obtains events n where "sign_and_submit nd who tx (w_node w) = (Inr events, n)"
    "find_event (tx_pallet tx) variant events = Some e"
    "w' = w\<lparr>w_node := n, w_sent := w_sent w @ [(who, tx)]\<rparr>"
  using assms
  by (auto simp: submit_expect_def io_simps submit_def res_simps split: prod.splits)

end
