(* ===== verification/Vdb_Client.thy ===== *)
theory Vdb_Client
  imports Chunk_Store Dyn_Client
begin

text \<open>
  \<^verbatim>\<open>offchain-vector-db/src/lib.rs\<close>: the clients of the seven extrinsics of \<^verbatim>\<open>pallet-vector-db\<close>.
  \<open>vdb_tx\<close> writes down what a dynamic transaction for a call of the pallet must look like (the
  function name, and the arguments in the order of the signature); the lemmas show that each
  client submits exactly that, within the pallet's bounds, and that a provider who kept its chunks
  can answer every dispute.
\<close>

section \<open>Constants and errors\<close>

definition PALLET_NAME :: string where "PALLET_NAME = ''VectorDb''"
definition CLIENT_MAX_CHUNK_LEN :: nat where "CLIENT_MAX_CHUNK_LEN = 1024"
definition CLIENT_MAX_METADATA_LEN :: nat where "CLIENT_MAX_METADATA_LEN = 256"
definition CLIENT_MAX_PROOF_DEPTH :: nat where "CLIENT_MAX_PROOF_DEPTH = 32"

datatype register_commitment_error =
    MetadataTooLarge nat nat
  | EmptyPayload
  | RcSubxt subxt_error
  | RcStorage io_error
  | RcEventMissing

datatype counter_dispute_error =
    ChunkTooLarge nat nat
  | ProofTooDeep nat nat
  | CdChunkIndexOutOfBounds u64 u64
  | CdSubxt subxt_error
  | CdStorage io_error
  | CdEventMissing

text \<open>The error types of the other five clients have the same two constructors.\<close>

type_synonym acknowledge_commitment_error = call_error
type_synonym close_commitment_error = call_error
type_synonym raise_dispute_error = call_error
type_synonym finalize_dispute_error = call_error
type_synonym expire_commitment_error = call_error

record register_commitment_result =
  res_commitment_id :: commitment_id
  res_merkle_root :: merkle_root
  res_total_chunks :: u64

section \<open>Chunking\<close>

text \<open>\<^verbatim>\<open>payload.chunks(n)\<close>\<close>

function slice_chunks :: "nat \<Rightarrow> 'a list \<Rightarrow> 'a list list" where
  "slice_chunks n xs = (if n = 0 \<or> xs = [] then [] else take n xs # slice_chunks n (drop n xs))"
  by pat_completeness auto
termination
  by (relation "measure (\<lambda>(n, xs). length xs)") auto

declare slice_chunks.simps [simp del]

definition NEWLINE :: u8 where "NEWLINE = 10"
definition CARRIAGE_RETURN :: u8 where "CARRIAGE_RETURN = 13"

definition strip_cr :: "bytes \<Rightarrow> bytes" where
  "strip_cr line = (if line \<noteq> [] \<and> last line = CARRIAGE_RETURN then butlast line else line)"

primrec rows_loop :: "bytes list \<Rightarrow> bytes list \<Rightarrow> register_commitment_error + bytes list" where
  "rows_loop [] out = Inr out"
| "rows_loop (line # lines) out =
     (let line = strip_cr line in
      if line = [] then rows_loop lines out
      else if length line > CLIENT_MAX_CHUNK_LEN then Inl EmptyPayload
      else rows_loop lines (out @ [line]))"

text \<open>\<open>chunk_mode\<close> is the environment variable \<^verbatim>\<open>CHUNK_MODE\<close>.\<close>

definition chunk_payload :: "string option \<Rightarrow> bytes \<Rightarrow> register_commitment_error + bytes list" where
  "chunk_payload chunk_mode payload =
     (let mode = (case chunk_mode of Some m \<Rightarrow> m | None \<Rightarrow> ''bytes'') in
      if mode = ''rows'' then
        try_then (rows_loop (split_on NEWLINE payload) []) (\<lambda>out.
        ensure (out \<noteq> []) EmptyPayload (Inr out))
      else Inr (slice_chunks CLIENT_MAX_CHUNK_LEN payload))"

section \<open>The clients\<close>

definition register_commitment_client ::
  "('vk, 'sg) prims \<Rightarrow> 't rs_merkle \<Rightarrow> 'n chain_node \<Rightarrow> string option \<Rightarrow> 's chunk_store
     \<Rightarrow> account_id \<Rightarrow> did \<Rightarrow> did \<Rightarrow> bytes \<Rightarrow> bytes \<Rightarrow> u32 \<Rightarrow> u128
     \<Rightarrow> (('n, 's) world, register_commitment_error fault, register_commitment_result) io" where
  "register_commitment_client pr rm nd chunk_mode store who provider_did consumer_did payload meta
     expires_in_blocks prc =
     io_ensure (length meta \<le> CLIENT_MAX_METADATA_LEN)
       (Err (MetadataTooLarge (length meta) CLIENT_MAX_METADATA_LEN)) (
     io_ensure (payload \<noteq> []) (Err EmptyPayload) (
     io_then (io_lift (map_err Err (chunk_payload chunk_mode payload))) (\<lambda>chunks.
     io_then (io_lift (ok_or (build_merkle_tree pr rm chunks) Panic)) (\<lambda>(root, _).
     let count = of_nat (length chunks) :: u64;
         staging_id = hash_leaf (offchain_hasher pr) payload in
     io_then (io_map_err (\<lambda>e. Err (RcStorage e)) (on_host (persist store staging_id chunks))) (\<lambda>_.
     let tx = \<lparr>tx_pallet = PALLET_NAME, tx_call = ''register_commitment'',
               tx_args = [dyn_h256 provider_did, dyn_h256 consumer_did, dyn_h256 root,
                          dyn_uint count, DynBytes meta, dyn_uint expires_in_blocks,
                          DynU128 prc]\<rparr> in
     io_then (submit_expect nd who tx ''CommitmentRegistered'' (\<lambda>e. Err (RcSubxt e))
                (Err RcEventMissing)) (\<lambda>event.
     io_then (io_lift (ok_or (ev_fields event) (Err RcEventMissing))) (\<lambda>field_values.
     io_then (io_lift (ok_or (decode_fixed_bytes_field field_values 0) (Err RcEventMissing)))
       (\<lambda>cid.
     io_then (io_map_err (\<lambda>e. Err (RcStorage e)) (on_host (rekey store staging_id cid))) (\<lambda>_.
     io_return \<lparr>res_commitment_id = cid, res_merkle_root = root, res_total_chunks = count\<rparr>)))))))))"

definition acknowledge_commitment_client ::
  "'n chain_node \<Rightarrow> account_id \<Rightarrow> commitment_id \<Rightarrow> did
     \<Rightarrow> (('n, 's) world, acknowledge_commitment_error, unit) io" where
  "acknowledge_commitment_client nd who cid consumer_did =
     (let tx = \<lparr>tx_pallet = PALLET_NAME, tx_call = ''acknowledge_commitment'',
                tx_args = [dyn_h256 cid, dyn_h256 consumer_did]\<rparr> in
      io_then (submit_expect nd who tx ''CommitmentAcknowledged'' Subxt EventMissing)
        (\<lambda>_. io_return ()))"

definition close_commitment_client ::
  "'n chain_node \<Rightarrow> account_id \<Rightarrow> commitment_id \<Rightarrow> did \<Rightarrow> merkle_root \<Rightarrow> u64
     \<Rightarrow> (('n, 's) world, close_commitment_error, unit) io" where
  "close_commitment_client nd who cid consumer_did final_hash chunk_count =
     (let tx = \<lparr>tx_pallet = PALLET_NAME, tx_call = ''close_commitment'',
                tx_args = [dyn_h256 cid, dyn_h256 consumer_did, dyn_h256 final_hash,
                           dyn_uint chunk_count]\<rparr> in
      io_then (submit_expect nd who tx ''CommitmentSettled'' Subxt EventMissing)
        (\<lambda>_. io_return ()))"

definition raise_dispute_client ::
  "'n chain_node \<Rightarrow> account_id \<Rightarrow> commitment_id \<Rightarrow> did \<Rightarrow> u64 \<Rightarrow> h256 \<Rightarrow> u64
     \<Rightarrow> (('n, 's) world, raise_dispute_error, unit) io" where
  "raise_dispute_client nd who cid consumer_did index received_hash chunk_count =
     (let tx = \<lparr>tx_pallet = PALLET_NAME, tx_call = ''raise_dispute'',
                tx_args = [dyn_h256 cid, dyn_h256 consumer_did, dyn_uint index,
                           dyn_h256 received_hash, dyn_uint chunk_count]\<rparr> in
      io_then (submit_expect nd who tx ''DisputeRaised'' Subxt EventMissing)
        (\<lambda>_. io_return ()))"

definition finalize_dispute_client ::
  "'n chain_node \<Rightarrow> account_id \<Rightarrow> commitment_id
     \<Rightarrow> (('n, 's) world, finalize_dispute_error, unit) io" where
  "finalize_dispute_client nd who cid =
     (let tx = \<lparr>tx_pallet = PALLET_NAME, tx_call = ''finalize_dispute'', tx_args = [dyn_h256 cid]\<rparr> in
      io_then (submit_expect nd who tx ''DisputeFinalized'' Subxt EventMissing)
        (\<lambda>_. io_return ()))"

definition expire_commitment_client ::
  "'n chain_node \<Rightarrow> account_id \<Rightarrow> commitment_id
     \<Rightarrow> (('n, 's) world, expire_commitment_error, unit) io" where
  "expire_commitment_client nd who cid =
     (let tx = \<lparr>tx_pallet = PALLET_NAME, tx_call = ''expire_commitment'', tx_args = [dyn_h256 cid]\<rparr> in
      io_then (submit_expect nd who tx ''CommitmentExpired'' Subxt EventMissing)
        (\<lambda>_. io_return ()))"

text \<open>The client runs on a 64-bit host, where \<^verbatim>\<open>disputed_chunk_index as usize\<close> is the same number.\<close>

definition counter_dispute_client ::
  "('vk, 'sg) prims \<Rightarrow> 't rs_merkle \<Rightarrow> 'n chain_node \<Rightarrow> 's chunk_store
     \<Rightarrow> account_id \<Rightarrow> commitment_id \<Rightarrow> did \<Rightarrow> u64 \<Rightarrow> u64
     \<Rightarrow> (('n, 's) world, counter_dispute_error fault, unit) io" where
  "counter_dispute_client pr rm nd store who cid provider_did index count =
     io_ensure (index < count) (Err (CdChunkIndexOutOfBounds index count)) (
     io_then (io_map_err (\<lambda>e. Err (CdStorage e)) (on_host (load_all_chunks store cid count)))
       (\<lambda>chunks.
     let target_chunk = chunks ! unat index in
     io_ensure (length target_chunk \<le> CLIENT_MAX_CHUNK_LEN)
       (Err (ChunkTooLarge (length target_chunk) CLIENT_MAX_CHUNK_LEN)) (
     io_then (io_lift (ok_or (build_merkle_tree pr rm chunks) Panic)) (\<lambda>(_, tree).
     let hashes = generate_inclusion_proof rm tree (unat index) in
     io_ensure (length hashes \<le> CLIENT_MAX_PROOF_DEPTH)
       (Err (ProofTooDeep (length hashes) CLIENT_MAX_PROOF_DEPTH)) (
     let tx = \<lparr>tx_pallet = PALLET_NAME, tx_call = ''counter_dispute'',
               tx_args = [dyn_h256 cid, dyn_h256 provider_did, DynBytes target_chunk,
                          DynComposite (map dyn_h256 hashes)]\<rparr> in
     io_then (submit_expect nd who tx ''DisputeCountered'' (\<lambda>e. Err (CdSubxt e)) (Err CdEventMissing))
       (\<lambda>_. io_return ()))))))"

section \<open>What a transaction for a call looks like\<close>

fun vdb_tx :: "vdb_call \<Rightarrow> dyn_tx" where
  "vdb_tx (RegisterCommitment p c root n meta dt prc) =
     \<lparr>tx_pallet = ''VectorDb'', tx_call = ''register_commitment'',
      tx_args = [dyn_h256 p, dyn_h256 c, dyn_h256 root, dyn_uint n, DynBytes meta, dyn_uint dt,
                 DynU128 prc]\<rparr>"
| "vdb_tx (AcknowledgeCommitment cid c) =
     \<lparr>tx_pallet = ''VectorDb'', tx_call = ''acknowledge_commitment'',
      tx_args = [dyn_h256 cid, dyn_h256 c]\<rparr>"
| "vdb_tx (CloseCommitment cid c fh n) =
     \<lparr>tx_pallet = ''VectorDb'', tx_call = ''close_commitment'',
      tx_args = [dyn_h256 cid, dyn_h256 c, dyn_h256 fh, dyn_uint n]\<rparr>"
| "vdb_tx (RaiseDispute cid c i rh n) =
     \<lparr>tx_pallet = ''VectorDb'', tx_call = ''raise_dispute'',
      tx_args = [dyn_h256 cid, dyn_h256 c, dyn_uint i, dyn_h256 rh, dyn_uint n]\<rparr>"
| "vdb_tx (CounterDispute cid p data hashes) =
     \<lparr>tx_pallet = ''VectorDb'', tx_call = ''counter_dispute'',
      tx_args = [dyn_h256 cid, dyn_h256 p, DynBytes data, DynComposite (map dyn_h256 hashes)]\<rparr>"
| "vdb_tx (FinalizeDispute cid) =
     \<lparr>tx_pallet = ''VectorDb'', tx_call = ''finalize_dispute'', tx_args = [dyn_h256 cid]\<rparr>"
| "vdb_tx (ExpireCommitment cid) =
     \<lparr>tx_pallet = ''VectorDb'', tx_call = ''expire_commitment'', tx_args = [dyn_h256 cid]\<rparr>"


lemma dyn_h256_list_inject: "map dyn_h256 xs = map dyn_h256 ys \<longleftrightarrow> xs = ys"
  by (simp add: inj_map_eq_map inj_def)

lemma vdb_tx_inject: "vdb_tx a = vdb_tx b \<longleftrightarrow> a = b"
  by (cases a; cases b) (simp_all add: ucast_wide_inject dyn_h256_list_inject conj_ac)

section \<open>Chunking loses nothing\<close>

lemma slice_chunks_concat: "0 < n \<Longrightarrow> concat (slice_chunks n xs) = xs"
proof (induction n xs rule: slice_chunks.induct)
  case (1 n xs)
  then show ?case by (subst slice_chunks.simps) simp
qed

lemma slice_chunks_sizes: "c \<in> set (slice_chunks n xs) \<Longrightarrow> 0 < length c \<and> length c \<le> n"
proof (induction n xs rule: slice_chunks.induct)
  case (1 n xs)
  then show ?case by (subst (asm) (2) slice_chunks.simps) (auto split: if_splits)
qed

lemma slice_chunks_full: "Suc i < length (slice_chunks n xs) \<Longrightarrow> length (slice_chunks n xs ! i) = n"
proof (induction n xs arbitrary: i rule: slice_chunks.induct)
  case (1 n xs)
  have ne: "n \<noteq> 0" "xs \<noteq> []" using "1.prems" by (auto simp: slice_chunks.simps [of n xs] split: if_splits)
  then have eq: "slice_chunks n xs = take n xs # slice_chunks n (drop n xs)"
    by (subst slice_chunks.simps) simp
  show ?case
  proof (cases i)
    case 0
    have "slice_chunks n (drop n xs) \<noteq> []" using "1.prems" 0 eq by auto
    then have "drop n xs \<noteq> []" by (metis slice_chunks.simps)
    then show ?thesis using 0 eq by simp
  next
    case (Suc j)
    then show ?thesis using "1.IH" [of j] "1.prems" eq ne by simp
  qed
qed

lemma slice_chunks_nonempty: "0 < n \<Longrightarrow> xs \<noteq> [] \<Longrightarrow> slice_chunks n xs \<noteq> []"
  by (subst slice_chunks.simps) simp

text \<open>In row mode the chunks are the non-empty lines, without a trailing carriage return.\<close>

definition rows :: "bytes \<Rightarrow> bytes list" where
  "rows payload = filter (\<lambda>line. line \<noteq> []) (map strip_cr (split_on NEWLINE payload))"

lemma rows_loop_iff:
  "rows_loop lines out =
     (if \<forall>line \<in> set (map strip_cr lines). length line \<le> CLIENT_MAX_CHUNK_LEN
      then Inr (out @ filter (\<lambda>line. line \<noteq> []) (map strip_cr lines)) else Inl EmptyPayload)"
  by (induction lines arbitrary: out) (auto simp: Let_def)

lemma chunk_payload_rows:
  "chunk_payload (Some ''rows'') payload =
     (if rows payload \<noteq> [] \<and> (\<forall>line \<in> set (rows payload). length line \<le> CLIENT_MAX_CHUNK_LEN)
      then Inr (rows payload) else Inl EmptyPayload)"
proof -
  have "(\<forall>line \<in> set (map strip_cr (split_on NEWLINE payload)). length line \<le> CLIENT_MAX_CHUNK_LEN) \<longleftrightarrow>
    (\<forall>line \<in> set (rows payload). length line \<le> CLIENT_MAX_CHUNK_LEN)"
    by (fastforce simp: rows_def)
  then show ?thesis
    by (simp add: chunk_payload_def rows_loop_iff Let_def ensure_def flip: rows_def)
qed

lemma chunk_payload_bytes:
  "chunk_mode \<noteq> Some ''rows'' \<Longrightarrow>
   chunk_payload chunk_mode payload = Inr (slice_chunks CLIENT_MAX_CHUNK_LEN payload)"
  by (auto simp: chunk_payload_def Let_def split: option.splits)

lemma chunk_payload_ok:
  assumes "chunk_payload chunk_mode payload = Inr chunks" "payload \<noteq> []"
  shows "chunks \<noteq> []" and "c \<in> set chunks \<Longrightarrow> 0 < length c \<and> length c \<le> MAX_CHUNK_LEN"
proof -
  have "chunks \<noteq> [] \<and> (\<forall>c \<in> set chunks. 0 < length c \<and> length c \<le> MAX_CHUNK_LEN)"
  proof (cases "chunk_mode = Some ''rows''")
    case True
    then show ?thesis using assms(1)
      by (auto simp: chunk_payload_rows CLIENT_MAX_CHUNK_LEN_def MAX_CHUNK_LEN_def rows_def
          split: if_splits)
  next
    case False
    then have "chunks = slice_chunks CLIENT_MAX_CHUNK_LEN payload"
      using assms(1) by (simp add: chunk_payload_bytes)
    then show ?thesis
      using slice_chunks_sizes [of _ 1024 payload] slice_chunks_nonempty [of 1024 payload] assms(2)
      by (auto simp: CLIENT_MAX_CHUNK_LEN_def MAX_CHUNK_LEN_def)
  qed
  then show "chunks \<noteq> []" and "c \<in> set chunks \<Longrightarrow> 0 < length c \<and> length c \<le> MAX_CHUNK_LEN"
    by blast+
qed

section \<open>What the clients send\<close>

lemmas client_defs = acknowledge_commitment_client_def close_commitment_client_def
  raise_dispute_client_def finalize_dispute_client_def expire_commitment_client_def

lemma simple_clients_send:
  "w_sent (snd (acknowledge_commitment_client nd who cid c w))
     = w_sent w @ [(who, vdb_tx (AcknowledgeCommitment cid c))]"
  "w_sent (snd (close_commitment_client nd who cid c fh n w))
     = w_sent w @ [(who, vdb_tx (CloseCommitment cid c fh n))]"
  "w_sent (snd (raise_dispute_client nd who cid c i rh n w))
     = w_sent w @ [(who, vdb_tx (RaiseDispute cid c i rh n))]"
  "w_sent (snd (finalize_dispute_client nd who cid w))
     = w_sent w @ [(who, vdb_tx (FinalizeDispute cid))]"
  "w_sent (snd (expire_commitment_client nd who cid w))
     = w_sent w @ [(who, vdb_tx (ExpireCommitment cid))]"
  by (simp_all add: client_defs Let_def io_then_return_snd PALLET_NAME_def)

lemma hashers_agree: "offchain_hasher pr = onchain_hasher pr"
  by (simp add: offchain_hasher_def onchain_hasher_def)


text \<open>
  On every path, errors included, \<open>register_commitment_client\<close> submits nothing, or one transaction:
  a call within the pallet's bounds that commits to the Merkle root and the number of the chunks.
\<close>

lemma register_client_sends:
  assumes "register_commitment_client pr rm nd mode store who p c payload meta dt prc w = (r, w')"
  shows "w_sent w' = w_sent w \<or>
    (\<exists>chunks root tree call. chunk_payload mode payload = Inr chunks \<and>
       build_merkle_tree pr rm chunks = Some (root, tree) \<and>
       call = RegisterCommitment p c root (of_nat (length chunks)) meta dt prc \<and>
       vdb_call_bounded call \<and> w_sent w' = w_sent w @ [(who, vdb_tx call)])"
proof (cases "length meta \<le> CLIENT_MAX_METADATA_LEN \<and> payload \<noteq> []")
  case False
  then show ?thesis using assms by (auto simp: register_commitment_client_def io_ensure_def split: if_splits)
next
  case True
  then have bounded: "length meta \<le> MAX_VDB_METADATA_LEN"
    by (simp add: CLIENT_MAX_METADATA_LEN_def MAX_VDB_METADATA_LEN_def)
  show ?thesis
  proof (cases "\<exists>chunks root tree. chunk_payload mode payload = Inr chunks \<and>
      build_merkle_tree pr rm chunks = Some (root, tree)")
    case False
    then show ?thesis using assms True
      by (cases "chunk_payload mode payload")
        (auto simp: register_commitment_client_def io_then_def ok_or_def split: option.splits)
  next
    case True2: True
    then obtain chunks root tree where c: "chunk_payload mode payload = Inr chunks"
      "build_merkle_tree pr rm chunks = Some (root, tree)" by blast
    show ?thesis
    proof (cases "fst (persist store (hash_leaf (offchain_hasher pr) payload) chunks (w_host w))")
      case (Inl e)
      then show ?thesis using assms True c
        by (auto simp: register_commitment_client_def Let_def io_then_def io_map_err_def on_host_def
            split: prod.splits)
    next
      case (Inr u)
      then obtain s1 where
        "persist store (hash_leaf (offchain_hasher pr) payload) chunks (w_host w) = (Inr u, s1)"
        by (metis prod.collapse)
      then have p: "on_host (persist store (hash_leaf (offchain_hasher pr) payload) chunks) w
          = (Inr u, w\<lparr>w_host := s1\<rparr>)"
        by (rule on_host_eval)
      have "w_sent w' = w_sent w @ [(who, vdb_tx (RegisterCommitment p c root (of_nat (length chunks)) meta dt prc))]"
        using assms True c p
        by (auto simp: register_commitment_client_def Let_def io_then_eval io_map_err_eval io_then_sent
            same_sent_intros PALLET_NAME_def dest!: arg_cong [of _ _ "\<lambda>x. w_sent (snd x)"])
      with c bounded show ?thesis by simp
    qed
  qed
qed


text \<open>The outcome when every step goes through.\<close>

lemma register_client_eval:
  assumes "length meta \<le> CLIENT_MAX_METADATA_LEN" "payload \<noteq> []"
    "chunk_payload mode payload = Inr chunks" "build_merkle_tree pr rm chunks = Some (root, tree)"
    "persist store (blake2_256 pr payload) chunks (w_host w) = (Inr (), s1)"
    "tx = vdb_tx (RegisterCommitment p c root (of_nat (length chunks)) meta dt prc)"
    "sign_and_submit nd who tx (w_node w) = (Inr events, n)"
    "find_event ''VectorDb'' ''CommitmentRegistered'' events = Some e" "ev_fields e = Some fv"
    "decode_fixed_bytes_field fv 0 = Some cid"
    "rekey store (blake2_256 pr payload) cid s1 = (Inr (), s2)"
  shows "register_commitment_client pr rm nd mode store who p c payload meta dt prc w =
    (Inr \<lparr>res_commitment_id = cid, res_merkle_root = root, res_total_chunks = of_nat (length chunks)\<rparr>,
     w\<lparr>w_node := n, w_host := s2, w_sent := w_sent w @ [(who, tx)]\<rparr>)"
  using assms
  by (simp add: register_commitment_client_def io_then_def io_map_err_def on_host_def Let_def
      offchain.leaf_eq submit_expect_def submit_def PALLET_NAME_def)

context chunk_store_laws
begin

lemma register_client_stores:
  assumes "register_commitment_client pr rm nd mode st who p c payload meta dt prc w = (Inr res, w')"
  obtains chunks tree where "chunk_payload mode payload = Inr chunks"
    "build_merkle_tree pr rm chunks = Some (res_merkle_root res, tree)"
    "res_total_chunks res = of_nat (length chunks)"
    "\<And>i. i < length chunks \<Longrightarrow> view (w_host w') (res_commitment_id res) i = Some (chunks ! i)"
    "\<And>cid. apart cid (blake2_256 pr payload) \<Longrightarrow> apart cid (res_commitment_id res) \<Longrightarrow>
       view (w_host w') cid = view (w_host w) cid"
proof -
  let ?staging = "blake2_256 pr payload"
  have staging: "hash_leaf (offchain_hasher pr) payload = ?staging" by (simp add: offchain.leaf_eq)
  from assms obtain chunks tree s1 s3 where
    c: "chunk_payload mode payload = Inr chunks"
       "build_merkle_tree pr rm chunks = Some (res_merkle_root res, tree)"
       "res_total_chunks res = of_nat (length chunks)"
    and p: "persist st ?staging chunks (w_host w) = (Inr (), s1)"
    and k: "rekey st ?staging (res_commitment_id res) s1 = (Inr (), s3)" "w_host w' = s3"
    by (auto simp: register_commitment_client_def Let_def io_simps res_simps staging
        elim!: submit_expect_Inr)
  have "view (w_host w') (res_commitment_id res) i = Some (chunks ! i)" if "i < length chunks" for i
    using persist_view [OF p that] rekey_view [OF k(1)] k(2) by simp
  moreover have "view (w_host w') cid = view (w_host w) cid"
    if "apart cid ?staging" "apart cid (res_commitment_id res)" for cid
    using persist_frame [OF p that(1)] rekey_frame [OF k(1) that] k(2) by simp
  ultimately show thesis using that c by blast
qed

text \<open>
  On every path \<open>counter_dispute_client\<close> submits nothing, or one call within the pallet's bounds that
  carries the stored chunk at the disputed index and its inclusion proof.
\<close>

lemma counter_client_sends:
  assumes "counter_dispute_client pr rm nd st who cid p index count w = (r, w')"
  shows "w_sent w' = w_sent w \<or>
    (\<exists>chunks root tree call. length chunks = unat count \<and> unat index < unat count \<and>
       (\<forall>i < unat count. view (w_host w) cid i = Some (chunks ! i)) \<and>
       build_merkle_tree pr rm chunks = Some (root, tree) \<and>
       call = CounterDispute cid p (chunks ! unat index) (generate_inclusion_proof rm tree (unat index)) \<and>
       vdb_call_bounded call \<and> w_sent w' = w_sent w @ [(who, vdb_tx call)])"
proof -
  obtain r1 s1 where l: "load_all_chunks st cid count (w_host w) = (r1, s1)" by fastforce
  show ?thesis
  proof (cases "index < count \<and> is_ok r1")
    case False
    then show ?thesis using assms l
      by (cases r1) (auto simp: counter_dispute_client_def io_ensure_def io_then_def io_map_err_def
          on_host_def split: if_splits)
  next
    case True
    then obtain chunks where r1: "r1 = Inr chunks" "index < count" by (auto elim: is_okE)
    note v = load_all_view [OF l [unfolded r1(1)]]
    have i: "unat index < unat count" using r1(2) by (simp add: word_less_nat_alt)
    show ?thesis
    proof (cases "w_sent w' = w_sent w")
      case False
      obtain root tree where b: "build_merkle_tree pr rm chunks = Some (root, tree)"
        and bounds: "length (chunks ! unat index) \<le> CLIENT_MAX_CHUNK_LEN"
          "length (generate_inclusion_proof rm tree (unat index)) \<le> CLIENT_MAX_PROOF_DEPTH"
        using assms False l r1
        by (cases "build_merkle_tree pr rm chunks")
          (auto simp: counter_dispute_client_def io_ensure_def io_then_def io_map_err_def on_host_def
            Let_def split: if_splits)
      have "w_sent w' = w_sent w @ [(who, vdb_tx (CounterDispute cid p (chunks ! unat index)
          (generate_inclusion_proof rm tree (unat index))))]"
        using assms l r1 b bounds
        by (auto simp: counter_dispute_client_def io_then_eval io_map_err_eval on_host_eval Let_def
            io_then_return_snd PALLET_NAME_def dest!: arg_cong [of _ _ "\<lambda>x. w_sent (snd x)"])
      then show ?thesis using v i b bounds
        by (auto simp: CLIENT_MAX_CHUNK_LEN_def CLIENT_MAX_PROOF_DEPTH_def MAX_CHUNK_LEN_def
            MAX_PROOF_DEPTH_def)
    qed simp
  qed
qed

text \<open>A provider whose store still holds the chunks does get its answer submitted.\<close>

lemma counter_client_live:
  assumes "good (w_host w)" "length chunks = unat count"
    "\<And>i. i < unat count \<Longrightarrow> view (w_host w) cid i = Some (chunks ! i)"
    "build_merkle_tree pr rm chunks = Some (root, tree)" "index < count"
    "length (chunks ! unat index) \<le> MAX_CHUNK_LEN"
    "length (generate_inclusion_proof rm tree (unat index)) \<le> MAX_PROOF_DEPTH"
  shows "w_sent (snd (counter_dispute_client pr rm nd st who cid p index count w)) =
    w_sent w @ [(who, vdb_tx (CounterDispute cid p (chunks ! unat index)
                        (generate_inclusion_proof rm tree (unat index))))]"
proof -
  obtain s' where "load_all_chunks st cid count (w_host w) = (Inr chunks, s')"
    using load_all_live [OF assms(1,2,3)] by blast
  then show ?thesis
    using assms(4-7)
    by (simp add: counter_dispute_client_def io_then_eval io_map_err_eval on_host_eval Let_def
        io_then_return_snd PALLET_NAME_def CLIENT_MAX_CHUNK_LEN_def CLIENT_MAX_PROOF_DEPTH_def
        MAX_CHUNK_LEN_def MAX_PROOF_DEPTH_def)
qed

end

section \<open>The proof the client computes is the proof the pallet checks\<close>

lemma unat_as_usize: "unat n < 2 ^ 32 \<Longrightarrow> unat (as_usize n) = unat n"
  by (simp add: as_usize_def unsigned_ucast_eq take_bit_nat_eq_self)

lemma client_proof_refutes:
  assumes "rs_merkle_complete (vdb_merkle cfg)"
    "build_merkle_tree (vdb_prims cfg) (vdb_merkle cfg) chunks = Some (merkle_root cm, tree)"
    "total_chunks cm = of_nat (length chunks)" "length chunks < 2 ^ 32"
    "disputed_chunk_index d < total_chunks cm"
  shows "refutes cfg cm d (chunks ! unat (disputed_chunk_index d))
    (generate_inclusion_proof (vdb_merkle cfg) tree (unat (disputed_chunk_index d)))"
proof -
  let ?hsr = "onchain_hasher (vdb_prims cfg)" and ?i = "unat (disputed_chunk_index d)"
  let ?leaves = "map (hash_leaf ?hsr) chunks"
  have tree: "tree = from_leaves (vdb_merkle cfg) ?hsr ?leaves"
    "tree_root (vdb_merkle cfg) (from_leaves (vdb_merkle cfg) ?hsr ?leaves) = Some (merkle_root cm)"
    using assms(2) by (auto simp: build_merkle_tree_def Let_def hashers_agree split: option.splits)
  have n: "unat (total_chunks cm) = length chunks" using assms(3,4) by (simp add: unat_of_nat)
  then have i: "?i < length chunks" using assms(5) by (simp add: word_less_nat_alt)
  have "proof_verify (vdb_merkle cfg) ?hsr (proof_hashes (vdb_merkle cfg) tree [?i]) (merkle_root cm)
      [?i] [?leaves ! ?i] (length ?leaves)"
    unfolding tree(1) by (rule rs_merkle_completeD [OF assms(1) tree(2)]) (use i in simp)
  then show ?thesis
    using i n assms(4) by (simp add: refutes_def generate_inclusion_proof_def unat_as_usize onchain.leaf_eq)
qed

end
