(* ===== verification/Keystore.thy ===== *)
theory Keystore
  imports Dyn_Client
begin

text \<open>
  \<^verbatim>\<open>offchain-agent-registry/src/keystore.rs\<close>: the encrypted key files of an agent. The third-party
  crates (Argon2id, ChaCha20Poly1305, base64, serde_json, hex) are functions of the record
  \<open>crypto_crates\<close>, with their documented round trips in \<open>crypto_laws\<close>. A Rust string is the list of
  the characters its UTF-8 bytes stand for.
\<close>

section \<open>Constants and types\<close>

definition SALT_LEN :: nat where "SALT_LEN = 16"
definition NONCE_LEN :: nat where "NONCE_LEN = 12"
definition DERIVED_KEY_LEN :: nat where "DERIVED_KEY_LEN = 32"
definition ARGON2_MEM_COST_KIB :: u32 where "ARGON2_MEM_COST_KIB = 65536"
definition ARGON2_TIME_COST :: u32 where "ARGON2_TIME_COST = 3"
definition ARGON2_PARALLELISM :: u32 where "ARGON2_PARALLELISM = 4"

datatype key_store_error =
    Io io_error
  | Serde string
  | Kdf string
  | DecryptionFailed
  | AlreadyExists string string
  | NotFound string string
  | InvalidLabel string

record key_file =
  version :: u8
  did_hex :: string
  salt_b64 :: string
  nonce_b64 :: string
  ciphertext_b64 :: string

record stored_identity =
  stored_did :: did
  stored_key_bytes :: bytes

section \<open>The crates\<close>

record crypto_crates =
  argon2id :: "u32 \<Rightarrow> u32 \<Rightarrow> u32 \<Rightarrow> nat \<Rightarrow> bytes \<Rightarrow> bytes \<Rightarrow> string + bytes"
  aead_encrypt :: "bytes \<Rightarrow> bytes \<Rightarrow> bytes \<Rightarrow> bytes option"
  aead_decrypt :: "bytes \<Rightarrow> bytes \<Rightarrow> bytes \<Rightarrow> bytes option"
  b64_encode :: "bytes \<Rightarrow> string"
  b64_decode :: "string \<Rightarrow> bytes option"
  json_pretty :: "key_file \<Rightarrow> string + string"
  json_parse :: "string \<Rightarrow> string + key_file"
  hex_of :: hex_crate

text \<open>
  Documented: a ciphertext decrypts under the key and nonce it was made with, base64 and JSON
  decode what they encoded, and a serialised value is a valid string.
\<close>

fun utf8_cont :: "u8 list \<Rightarrow> bool" where
  "utf8_cont bs = (\<forall>b \<in> set bs. 0x80 \<le> b \<and> b \<le> 0xBF)"

fun valid_utf8 :: "bytes \<Rightarrow> bool" where
  "valid_utf8 [] = True"
| "valid_utf8 (a # bs) =
     (if a < 0x80 then valid_utf8 bs
      else case bs of
        [] \<Rightarrow> False
      | b # cs \<Rightarrow>
          if 0xC2 \<le> a \<and> a \<le> 0xDF then utf8_cont [b] \<and> valid_utf8 cs
          else case cs of
            [] \<Rightarrow> False
          | c # ds \<Rightarrow>
              if 0xE0 \<le> a \<and> a \<le> 0xEF then
                utf8_cont [b, c] \<and> (a = 0xE0 \<longrightarrow> 0xA0 \<le> b) \<and> (a = 0xED \<longrightarrow> b \<le> 0x9F) \<and> valid_utf8 ds
              else case ds of
                [] \<Rightarrow> False
              | d # es \<Rightarrow>
                  0xF0 \<le> a \<and> a \<le> 0xF4 \<and> utf8_cont [b, c, d] \<and> (a = 0xF0 \<longrightarrow> 0x90 \<le> b) \<and>
                  (a = 0xF4 \<longrightarrow> b \<le> 0x8F) \<and> valid_utf8 es)"

text \<open>The string with the given UTF-8 bytes.\<close>

definition string_of :: "bytes \<Rightarrow> string" where
  "string_of bs = map (\<lambda>b. char_of (unat b)) bs"

lemma string_of_ascii [simp]: "string_of (ascii s) = s"
proof -
  have "char_of (unat (of_nat (of_char c) :: u8)) = c" for c
  proof -
    have "(of_char c :: nat) < 256" by simp
    then have "unat (of_nat (of_char c) :: u8) = (of_char c :: nat)" by (simp add: unat_of_nat)
    then show ?thesis by simp
  qed
  then show ?thesis by (simp add: string_of_def ascii_def comp_def)
qed

lemma ascii_string_of [simp]: "ascii (string_of b) = b"
proof -
  have "of_nat (of_char (char_of (unat b) :: char)) = b" for b :: u8
    using unsigned_less [of b, where 'a = nat] by simp
  then show ?thesis by (simp add: string_of_def ascii_def comp_def)
qed

lemma valid_utf8_ascii: "\<forall>b \<in> set bs. b < 0x80 \<Longrightarrow> valid_utf8 bs"
  by (induction bs) simp_all

definition crypto_laws :: "crypto_crates \<Rightarrow> bool" where
  "crypto_laws cc \<longleftrightarrow>
     (\<forall>k n m c. aead_encrypt cc k n m = Some c \<longrightarrow> aead_decrypt cc k n c = Some m) \<and>
     (\<forall>b. b64_decode cc (b64_encode cc b) = Some b) \<and>
     (\<forall>kf js. json_pretty cc kf = Inr js \<longrightarrow> json_parse cc js = Inr kf \<and> valid_utf8 (ascii js)) \<and>
     hex_laws (hex_of cc)"

section \<open>Labels and paths\<close>

text \<open>\<open>home\<close> is the environment variable \<^verbatim>\<open>HOME\<close>.\<close>

definition default_keystore_dir :: "string option \<Rightarrow> key_store_error + path" where
  "default_keystore_dir home =
     try_then (ok_or home (Io IoError)) (\<lambda>home.
     Inr (path_join (path_join (path_of home) ''.arthneura'') ''keys''))"

definition is_ascii_alphanumeric :: "char \<Rightarrow> bool" where
  "is_ascii_alphanumeric c \<longleftrightarrow> (let n = of_char c :: nat in
     (48 \<le> n \<and> n \<le> 57) \<or> (65 \<le> n \<and> n \<le> 90) \<or> (97 \<le> n \<and> n \<le> 122))"

definition validate_label :: "string \<Rightarrow> key_store_error + unit" where
  "validate_label lbl =
     (let valid = lbl \<noteq> [] \<and> list_all (\<lambda>c. is_ascii_alphanumeric c \<or> c = CHR ''-'' \<or> c = CHR ''_'') lbl
      in if valid then Inr () else Inl (InvalidLabel lbl))"

definition key_file_path :: "path \<Rightarrow> string \<Rightarrow> key_store_error + path" where
  "key_file_path dir lbl =
     try_then (validate_label lbl) (\<lambda>_. Inr (path_join dir (lbl @ ''.json'')))"

text \<open>\<^verbatim>\<open>path.display()\<close>\<close>

fun path_display :: "path \<Rightarrow> string" where
  "path_display [] = []"
| "path_display [c] = c"
| "path_display (c # cs) = (if c = ''/'' then c @ path_display cs else c @ ''/'' @ path_display cs)"

section \<open>Primitives\<close>

definition random_bytes :: "nat \<Rightarrow> (os, key_store_error, bytes) io" where
  "random_bytes n = io_map_err (\<lambda>_. Kdf ''OS RNG failure'') (fill_random n)"

definition derive_key :: "crypto_crates \<Rightarrow> string \<Rightarrow> bytes \<Rightarrow> key_store_error + bytes" where
  "derive_key cc passphrase salt =
     map_err Kdf (argon2id cc ARGON2_MEM_COST_KIB ARGON2_TIME_COST ARGON2_PARALLELISM DERIVED_KEY_LEN
       (ascii passphrase) salt)"

definition base64_encode :: "crypto_crates \<Rightarrow> bytes \<Rightarrow> string" where
  "base64_encode cc b = b64_encode cc b"

definition base64_decode :: "crypto_crates \<Rightarrow> string \<Rightarrow> bytes option" where
  "base64_decode cc s = b64_decode cc s"

section \<open>Saving and loading\<close>

text \<open>Permission bits are written in octal.\<close>

definition octal :: "nat \<Rightarrow> nat \<Rightarrow> nat \<Rightarrow> nat" where
  "octal a b c = a * 64 + b * 8 + c"

definition save_identity ::
  "crypto_crates \<Rightarrow> path \<Rightarrow> string \<Rightarrow> did \<Rightarrow> bytes \<Rightarrow> string \<Rightarrow> (os, key_store_error, unit) io" where
  "save_identity cc dir lbl d key_bytes passphrase =
     io_then (io_lift (key_file_path dir lbl)) (\<lambda>path.
     io_then (path_exists path) (\<lambda>found.
     io_ensure (\<not> found) (AlreadyExists lbl (path_display path)) (
     io_then (io_map_err Io (create_dir_all dir)) (\<lambda>_.
     io_then (io_map_err Io (set_permissions dir (octal 7 0 0))) (\<lambda>_.
     io_then (random_bytes SALT_LEN) (\<lambda>salt.
     io_then (random_bytes NONCE_LEN) (\<lambda>nonce_bytes.
     io_then (io_lift (derive_key cc passphrase salt)) (\<lambda>derived_key.
     io_then (io_lift (ok_or (aead_encrypt cc derived_key nonce_bytes key_bytes)
                (Kdf ''AEAD encryption failed''))) (\<lambda>ciphertext.
     let kf = \<lparr>version = 1, did_hex = hex_encode (hex_of cc) (h256_bytes d),
               salt_b64 = base64_encode cc salt, nonce_b64 = base64_encode cc nonce_bytes,
               ciphertext_b64 = base64_encode cc ciphertext\<rparr> in
     io_then (io_lift (map_err Serde (json_pretty cc kf))) (\<lambda>json.
     io_then (io_map_err Io (write_file path (ascii json))) (\<lambda>_.
     io_map_err Io (set_permissions path (octal 6 0 0)))))))))))))"


text \<open>
  \<^verbatim>\<open>Nonce::from_slice\<close> panics on a slice that is not 12 bytes long. \<^verbatim>\<open>fs::read_to_string\<close> fails on
  contents that are not UTF-8.
\<close>

definition load_identity ::
  "crypto_crates \<Rightarrow> path \<Rightarrow> string \<Rightarrow> string \<Rightarrow> (os, key_store_error fault, stored_identity) io" where
  "load_identity cc dir lbl passphrase =
     io_then (io_lift (map_err Err (key_file_path dir lbl))) (\<lambda>path.
     io_then (path_exists path) (\<lambda>found.
     io_ensure found (Err (NotFound lbl (path_display path))) (
     io_then (io_map_err (\<lambda>e. Err (Io e)) (read_file path)) (\<lambda>data.
     io_ensure (valid_utf8 data) (Err (Io IoError)) (
     io_then (io_lift (map_err (\<lambda>e. Err (Serde e)) (json_parse cc (string_of data)))) (\<lambda>kf.
     io_then (io_lift (ok_or (base64_decode cc (salt_b64 kf)) (Err DecryptionFailed))) (\<lambda>salt.
     io_then (io_lift (ok_or (base64_decode cc (nonce_b64 kf)) (Err DecryptionFailed))) (\<lambda>nonce_bytes.
     io_then (io_lift (ok_or (base64_decode cc (ciphertext_b64 kf)) (Err DecryptionFailed)))
       (\<lambda>ciphertext.
     io_then (io_lift (map_err Err (derive_key cc passphrase salt))) (\<lambda>derived_key.
     io_ensure (length nonce_bytes = NONCE_LEN) Panic (
     io_then (io_lift (ok_or (aead_decrypt cc derived_key nonce_bytes ciphertext)
                (Err DecryptionFailed))) (\<lambda>plaintext.
     io_then (io_lift (ok_or (hex_decode (hex_of cc) (did_hex kf)) (Err DecryptionFailed))) (\<lambda>did_vec.
     io_ensure (length did_vec = 32) (Err DecryptionFailed) (
     io_return \<lparr>stored_did = bytes_h256 did_vec, stored_key_bytes = plaintext\<rparr>))))))))))))))"

definition identity_exists :: "path \<Rightarrow> string \<Rightarrow> (os, 'e, bool) io" where
  "identity_exists dir lbl =
     (case key_file_path dir lbl of
        Inl _ \<Rightarrow> io_return False
      | Inr path \<Rightarrow> path_exists path)"

section \<open>Labels stay inside the directory\<close>

lemma validate_label_ok:
  assumes "validate_label lbl = Inr ()"
  shows "lbl \<noteq> []" and "CHR ''/'' \<notin> set lbl" and "CHR ''.'' \<notin> set lbl"
  using assms by (auto simp: validate_label_def Let_def is_ascii_alphanumeric_def list_all_iff
      split: if_splits)

lemma key_file_path_Inr:
  "key_file_path dir lbl = Inr p \<longleftrightarrow> validate_label lbl = Inr () \<and> p = dir @ [lbl @ ''.json'']"
proof -
  have "path_join dir (lbl @ ''.json'') = dir @ [lbl @ ''.json'']" if "validate_label lbl = Inr ()"
    using validate_label_ok [OF that] by (intro path_join_component) auto
  then show ?thesis by (auto simp: key_file_path_def res_simps)
qed

section \<open>What saving does\<close>

text \<open>The file \<open>save_identity\<close> writes.\<close>

definition written_key_file ::
  "crypto_crates \<Rightarrow> did \<Rightarrow> bytes \<Rightarrow> string \<Rightarrow> bytes \<Rightarrow> bytes \<Rightarrow> key_file \<Rightarrow> bool" where
  "written_key_file cc d key_bytes passphrase salt nonce kf \<longleftrightarrow>
     length nonce = NONCE_LEN \<and>
     (\<exists>k c. derive_key cc passphrase salt = Inr k \<and> aead_encrypt cc k nonce key_bytes = Some c \<and>
        kf = \<lparr>version = 1, did_hex = hex_encode (hex_of cc) (h256_bytes d),
              salt_b64 = base64_encode cc salt, nonce_b64 = base64_encode cc nonce,
              ciphertext_b64 = base64_encode cc c\<rparr>)"

lemma fill_random_Inr:
  "fill_random n s = (Inr bs, s') \<longleftrightarrow> (\<exists>f. os_random s (os_clock s) = Some f \<and> bs = map f [0..<n] \<and> s' = tick s)"
  by (auto simp: fill_random_def split: option.splits)

lemma path_exists_Inr:
  "path_exists p s = (Inr b, s') \<longleftrightarrow>
     b = (\<not> faulty s \<and> (file_at s p \<noteq> None \<or> p \<in> set (os_dirs s))) \<and> s' = tick s"
  by (auto simp: path_exists_def)

lemma set_permissions_Inr:
  "set_permissions p mode s = (Inr (), s') \<longleftrightarrow> \<not> faulty s \<and> (file_at s p \<noteq> None \<or> p \<in> set (os_dirs s)) \<and>
     s' = tick s\<lparr>os_modes := (os_modes s)(p := Some mode)\<rparr>"
  by (auto simp: set_permissions_def)

lemma write_file_Inr:
  "write_file p data s = (Inr (), s') \<longleftrightarrow> p \<notin> set (os_dirs s) \<and> butlast p \<in> set (os_dirs s) \<and>
     os_fault s (os_clock s) = None \<and> s' = tick (store_file p data s)"
  by (auto simp: write_file_def split: option.splits)

lemma create_dir_all_Inr:
  "create_dir_all p s = (Inr (), s') \<longleftrightarrow> \<not> faulty s \<and> (\<forall>q \<in> set (prefixes p). file_at s q = None) \<and>
     s' = tick s\<lparr>os_dirs := prefixes p @ os_dirs s\<rparr>"
  by (auto simp: create_dir_all_def)

lemmas os_ok_iffs = fill_random_Inr path_exists_Inr set_permissions_Inr write_file_Inr
  create_dir_all_Inr

lemma save_identity_ok:
  assumes "save_identity cc dir lbl d key_bytes passphrase s = (Inr (), s')"
  obtains salt nonce kf js where "validate_label lbl = Inr ()"
    "written_key_file cc d key_bytes passphrase salt nonce kf" "json_pretty cc kf = Inr js"
    "\<And>q. file_at s' q = (if q = dir @ [lbl @ ''.json''] then Some (ascii js) else file_at s q)"
    "os_modes s' = (os_modes s)(dir := Some (octal 7 0 0), dir @ [lbl @ ''.json''] := Some (octal 6 0 0))"
    "os_fault s' = os_fault s" "os_dirs s' = prefixes dir @ os_dirs s"
proof -
  let ?p = "dir @ [lbl @ ''.json'']"
  have "\<exists>f g k c js. validate_label lbl = Inr () \<and>
      derive_key cc passphrase (map f [0..<SALT_LEN]) = Inr k \<and>
      aead_encrypt cc k (map g [0..<NONCE_LEN]) key_bytes = Some c \<and>
      json_pretty cc \<lparr>version = 1, did_hex = hex_encode (hex_of cc) (h256_bytes d),
        salt_b64 = base64_encode cc (map f [0..<SALT_LEN]),
        nonce_b64 = base64_encode cc (map g [0..<NONCE_LEN]),
        ciphertext_b64 = base64_encode cc c\<rparr> = Inr js \<and>
      (\<forall>q. file_at s' q = (if q = ?p then Some (ascii js) else file_at s q)) \<and>
      os_modes s' = (os_modes s)(dir := Some (octal 7 0 0), ?p := Some (octal 6 0 0)) \<and>
      os_fault s' = os_fault s \<and> os_dirs s' = prefixes dir @ os_dirs s"
    using assms
    by (auto simp: save_identity_def Let_def io_simps res_simps key_file_path_Inr random_bytes_def
        os_ok_iffs) blast+
  then obtain f g k c js where
    v: "validate_label lbl = Inr ()" and
    k: "derive_key cc passphrase (map f [0..<SALT_LEN]) = Inr k"
      "aead_encrypt cc k (map g [0..<NONCE_LEN]) key_bytes = Some c" and
    j: "json_pretty cc \<lparr>version = 1, did_hex = hex_encode (hex_of cc) (h256_bytes d),
        salt_b64 = base64_encode cc (map f [0..<SALT_LEN]),
        nonce_b64 = base64_encode cc (map g [0..<NONCE_LEN]),
        ciphertext_b64 = base64_encode cc c\<rparr> = Inr js" (is "json_pretty cc ?kf = _") and
    fs: "\<And>q. file_at s' q = (if q = ?p then Some (ascii js) else file_at s q)"
      "os_modes s' = (os_modes s)(dir := Some (octal 7 0 0), ?p := Some (octal 6 0 0))"
      "os_fault s' = os_fault s" "os_dirs s' = prefixes dir @ os_dirs s"
    by blast
  have "written_key_file cc d key_bytes passphrase (map f [0..<SALT_LEN]) (map g [0..<NONCE_LEN]) ?kf"
    using k by (auto simp: written_key_file_def)
  then show thesis using that v j fs by blast
qed

text \<open>On a working machine a new label can be saved.\<close>

lemma save_identity_live:
  assumes "validate_label lbl = Inr ()" "healthy s" "file_at s (dir @ [lbl @ ''.json'']) = None"
    "dir @ [lbl @ ''.json''] \<notin> set (os_dirs s)" "\<forall>q \<in> set (prefixes dir). file_at s q = None"
    "\<And>salt. is_ok (derive_key cc passphrase salt)"
    "\<And>k nonce. aead_encrypt cc k nonce key_bytes \<noteq> None" "\<And>kf. is_ok (json_pretty cc kf)"
  shows "\<exists>s'. save_identity cc dir lbl d key_bytes passphrase s = (Inr (), s')"
proof -
  let ?p = "dir @ [lbl @ ''.json'']"
  have p: "key_file_path dir lbl = Inr ?p" using assms(1) by (simp add: key_file_path_Inr)
  obtain F where F: "os_random s = (\<lambda>k. Some (F k))"
  proof
    show "os_random s = (\<lambda>k. Some (the (os_random s k)))" using assms(2) by (auto simp: healthy_def)
  qed
  define s2 where "s2 = tick (tick s)\<lparr>os_dirs := prefixes dir @ os_dirs s\<rparr>"
  define s3 where "s3 = tick s2\<lparr>os_modes := (os_modes s2)(dir := Some (octal 7 0 0))\<rparr>"
  let ?salt = "map (F (os_clock s3)) [0..<SALT_LEN]" and ?nonce = "map (F (Suc (os_clock s3))) [0..<NONCE_LEN]"
  obtain dk where dk: "derive_key cc passphrase ?salt = Inr dk" using assms(6) by (rule is_okE)
  obtain c where c: "aead_encrypt cc dk ?nonce key_bytes = Some c" using assms(7) by blast
  let ?kf = "\<lparr>version = 1, did_hex = hex_encode (hex_of cc) (h256_bytes d),
    salt_b64 = base64_encode cc ?salt, nonce_b64 = base64_encode cc ?nonce,
    ciphertext_b64 = base64_encode cc c\<rparr>"
  obtain js where js: "json_pretty cc ?kf = Inr js" using assms(8) by (rule is_okE)
  have fault: "os_fault s = (\<lambda>_. None)" using assms(2) by (simp add: healthy_def)
  have "(path_exists ?p :: (os, key_store_error, bool) io) s = (Inr False, tick s)"
    using assms(3,4) by (simp add: path_exists_def)
  moreover have "create_dir_all dir (tick s) = (Inr (), s2)"
    using assms(5) fault by (simp add: create_dir_all_def s2_def)
  moreover have "set_permissions dir (octal 7 0 0) s2 = (Inr (), s3)"
    using fault by (simp add: set_permissions_def s3_def s2_def)
  moreover have "random_bytes SALT_LEN s3 = (Inr ?salt, tick s3)"
    "random_bytes NONCE_LEN (tick s3) = (Inr ?nonce, tick (tick s3))"
    using F by (simp_all add: random_bytes_def io_map_err_def fill_random_def s3_def s2_def)
  moreover have "write_file ?p (ascii js) (tick (tick s3)) = (Inr (), tick (store_file ?p (ascii js) (tick (tick s3))))"
    using assms(4) fault by (simp add: write_file_def s3_def s2_def)
  moreover have "\<exists>s'. set_permissions ?p (octal 6 0 0) (tick (store_file ?p (ascii js) (tick (tick s3)))) = (Inr (), s')"
    using fault by (simp add: set_permissions_def s3_def s2_def)
  ultimately show ?thesis
    by (auto simp: save_identity_def p io_then_def io_map_err_def Let_def dk c js)
qed

text \<open>\<open>save_identity\<close> returns \<open>AlreadyExists\<close> and leaves the files alone when there is one for the label.\<close>

lemma save_identity_refuses:
  assumes "validate_label lbl = Inr ()" "\<not> faulty s" "file_at s (dir @ [lbl @ ''.json'']) \<noteq> None"
  shows "save_identity cc dir lbl d key_bytes passphrase s =
    (Inl (AlreadyExists lbl (path_display (dir @ [lbl @ ''.json'']))), tick s)"
proof -
  have "key_file_path dir lbl = Inr (dir @ [lbl @ ''.json''])" using assms(1) by (simp add: key_file_path_Inr)
  moreover have "(path_exists (dir @ [lbl @ ''.json'']) :: (os, key_store_error, bool) io) s
      = (Inr True, tick s)"
    using assms(2,3) by (simp add: path_exists_def)
  ultimately show ?thesis by (simp add: save_identity_def io_then_eval)
qed

lemma save_identity_invalid:
  "validate_label lbl = Inl e \<Longrightarrow> save_identity cc dir lbl d key_bytes passphrase s = (Inl e, s)"
  by (simp add: save_identity_def key_file_path_def io_then_def)

text \<open>Whatever happens, saving touches no file but the one of its label.\<close>

definition only_file :: "path \<Rightarrow> os \<Rightarrow> os \<Rightarrow> bool" where
  "only_file p s s' \<longleftrightarrow> (\<forall>q. q \<noteq> p \<longrightarrow> file_at s' q = file_at s q)"

lemma only_file_rel: "reflp (only_file p)" "transp (only_file p)"
  by (auto simp: only_file_def intro!: reflpI transpI)

lemma only_file_ops:
  "io_keeps (only_file p) (path_exists q)" "io_keeps (only_file p) (create_dir_all q)"
  "io_keeps (only_file p) (set_permissions q mode)" "io_keeps (only_file p) (fill_random n)"
  "io_keeps (only_file p) (write_file p data)"
  by (auto simp: io_keeps_def only_file_def path_exists_def create_dir_all_def set_permissions_def
      fill_random_def write_file_def split: option.splits)

lemma save_identity_others:
  assumes "validate_label lbl = Inr ()" "q \<noteq> dir @ [lbl @ ''.json'']"
  shows "file_at (snd (save_identity cc dir lbl d key_bytes passphrase s)) q = file_at s q"
proof -
  let ?p = "dir @ [lbl @ ''.json'']"
  have p: "key_file_path dir lbl = Inr ?p" using assms(1) by (simp add: key_file_path_Inr)
  have "io_keeps (only_file ?p) (save_identity cc dir lbl d key_bytes passphrase)"
    unfolding save_identity_def p io_then_lift random_bytes_def Let_def
    by (intro io_keeps_then [OF only_file_rel(2)] io_keeps_ensure [OF only_file_rel(1)]
        io_keeps_basic [OF only_file_rel(1)] io_keeps_map_err only_file_ops)
  then show ?thesis using assms(2) by (simp add: io_keeps_def only_file_def)
qed

section \<open>What loading returns\<close>

lemma load_identity_eval:
  assumes "crypto_laws cc" "validate_label lbl = Inr ()"
    "written_key_file cc d key_bytes passphrase salt nonce kf" "json_pretty cc kf' = Inr js"
    "kf' = kf\<lparr>did_hex := hex_encode (hex_of cc) (h256_bytes d')\<rparr>"
    "file_at s (dir @ [lbl @ ''.json'']) = Some (ascii js)" "\<not> faulty s" "\<not> faulty (tick s)"
  shows "load_identity cc dir lbl passphrase s =
    (Inr \<lparr>stored_did = d', stored_key_bytes = key_bytes\<rparr>, tick (tick s))"
proof -
  have p: "key_file_path dir lbl = Inr (dir @ [lbl @ ''.json''])" using assms(2) by (simp add: key_file_path_Inr)
  from assms(3) obtain k c where kf: "length nonce = NONCE_LEN" "derive_key cc passphrase salt = Inr k"
    "aead_encrypt cc k nonce key_bytes = Some c"
    "salt_b64 kf = base64_encode cc salt" "nonce_b64 kf = base64_encode cc nonce"
    "ciphertext_b64 kf = base64_encode cc c"
    unfolding written_key_file_def by auto
  have laws: "aead_decrypt cc k nonce c = Some key_bytes" "json_parse cc js = Inr kf'"
    "valid_utf8 (ascii js)" "\<And>b. b64_decode cc (b64_encode cc b) = Some b"
    "\<And>b. hex_decode (hex_of cc) (hex_encode (hex_of cc) b) = Some b"
    using assms(1,4) kf(3) by (auto simp: crypto_laws_def hex_laws_def)
  show ?thesis
    using p kf laws assms(5-8)
    by (simp add: load_identity_def io_then_def path_exists_def io_map_err_def read_file_def
        base64_encode_def base64_decode_def)
qed


lemma keystore_oracles:
  "io_keeps same_oracles (save_identity cc dir lbl d key_bytes passphrase)"
  "io_keeps same_oracles (load_identity cc dir lbl passphrase)"
  "io_keeps same_oracles (identity_exists dir lbl)"
  unfolding save_identity_def load_identity_def identity_exists_def random_bytes_def Let_def
  by (intro io_keeps_then [OF same_oracles_rel(2)] io_keeps_ensure [OF same_oracles_rel(1)]
      io_keeps_basic [OF same_oracles_rel(1)] io_keeps_map_err os_keeps_oracles
      | simp add: io_keeps_basic same_oracles_rel os_keeps_oracles split: sum.split)+

end
