(* ===== verification/Registry_Client.thy ===== *)
theory Registry_Client
  imports Agent_Registry Keystore
begin

text \<open>
  \<^verbatim>\<open>offchain-agent-registry/src/lib.rs\<close>: the clients of the six extrinsics of
  \<^verbatim>\<open>pallet-agent-registry\<close>, and the two operations that tie a registration to the keystore. The
  signing crates (\<^verbatim>\<open>ml_dsa\<close> for identities, \<^verbatim>\<open>sr25519\<close> for accounts) are the record \<open>key_crates\<close>.
\<close>

section \<open>Constants, errors, results\<close>

definition REGISTRY_PALLET_NAME :: string where "REGISTRY_PALLET_NAME = ''AgentRegistry''"
definition DID_DOMAIN_TAG :: bytes where "DID_DOMAIN_TAG = ascii ''ArthNeura-DID-v1''"

type_synonym register_agent_error = call_error
type_synonym update_profile_error = call_error
type_synonym set_agent_status_error = call_error
type_synonym give_star_error = call_error
type_synonym remove_star_error = call_error
type_synonym deregister_agent_error = call_error

datatype register_or_load_error = RlRegister register_agent_error | RlKeyStore key_store_error

datatype bootstrap_agent_error =
    Funding subxt_error
  | BaRegister register_agent_error
  | BaKeyStore key_store_error
  | AccountKey string

record registered_agent =
  agent_did :: did
  signing_key_bytes :: bytes

record 'kp bootstrapped_agent =
  boot_did :: did
  boot_account :: 'kp

section \<open>The signing crates\<close>

text \<open>
  \<open>sk_generate\<close> makes a key from 32 random bytes, \<open>sk_public\<close> and \<open>sk_sign\<close> are the encoded
  verifying key and signature. Documented: a signature verifies under the key it was made with,
  and the encodings have the sizes of ML-DSA-65.
\<close>

record ('sk, 'kp) key_crates =
  sk_generate :: "bytes \<Rightarrow> 'sk"
  sk_public :: "'sk \<Rightarrow> bytes"
  sk_bytes :: "'sk \<Rightarrow> bytes"
  sk_sign :: "'sk \<Rightarrow> bytes \<Rightarrow> bytes"
  keypair_from_secret :: "bytes \<Rightarrow> string + 'kp"
  keypair_account :: "'kp \<Rightarrow> account_id"

definition mldsa_correct :: "('vk, 'sg) prims \<Rightarrow> ('sk, 'kp) key_crates \<Rightarrow> bool" where
  "mldsa_correct pr kc \<longleftrightarrow> (\<forall>sk msg. \<exists>vk sg.
     verifying_key_from_slice pr (sk_public kc sk) = Some vk \<and>
     signature_try_from pr (sk_sign kc sk msg) = Some sg \<and> mldsa_verify pr vk msg sg \<and>
     length (sk_public kc sk) \<le> 1952 \<and> length (sk_sign kc sk msg) \<le> 3309)"

section \<open>The clients\<close>

text \<open>The SCALE encoding of a tuple of byte arrays and one \<^verbatim>\<open>u32\<close>, in the client's order.\<close>

definition client_challenge ::
  "('vk, 'sg) prims \<Rightarrow> h256 \<Rightarrow> did \<Rightarrow> account_id \<Rightarrow> block_number \<Rightarrow> h256 \<Rightarrow> bytes" where
  "client_challenge pr genesis d ctl signed_at_block signed_at_hash =
     h256_bytes genesis @ h256_bytes d @ h256_bytes ctl @ encode_u32 pr signed_at_block
       @ h256_bytes signed_at_hash"

definition fetch_genesis_hash :: "'n chain_node \<Rightarrow> (('n, 's) world, 'e, h256) io" where
  "fetch_genesis_hash nd w = (Inr (genesis_hash nd (w_node w)), w)"

text \<open>Key generation panics when the random number generator fails.\<close>

definition register_agent_client ::
  "('vk, 'sg) prims \<Rightarrow> ('sk, 'kp) key_crates \<Rightarrow> 'n chain_node \<Rightarrow> account_id \<Rightarrow> u32 \<Rightarrow> bytes \<Rightarrow> bytes
     \<Rightarrow> (('n, os) world, register_agent_error fault, registered_agent) io" where
  "register_agent_client pr kc nd who caps meta lbl =
     io_then (io_map_err (\<lambda>_. Panic) (on_host (fill_random 32))) (\<lambda>seed.
     let signing_key = sk_generate kc seed;
         pubkey_bytes = sk_public kc signing_key;
         key_bytes = sk_bytes kc signing_key;
         d = blake2_256 pr (DID_DOMAIN_TAG @ pubkey_bytes) in
     io_then (fetch_genesis_hash nd) (\<lambda>genesis.
     io_then (io_map_err (\<lambda>e. Err (Subxt e)) (latest_block nd)) (\<lambda>(signed_at_block, signed_at_hash).
     let ctl = who;
         challenge = client_challenge pr genesis d ctl signed_at_block signed_at_hash;
         signature_bytes = sk_sign kc signing_key challenge;
         tx = \<lparr>tx_pallet = REGISTRY_PALLET_NAME, tx_call = ''register_agent'',
               tx_args = [DynBytes pubkey_bytes, DynBytes signature_bytes, dyn_uint signed_at_block,
                          dyn_uint caps, DynBytes meta, DynBytes lbl]\<rparr> in
     io_then (submit_expect nd who tx ''AgentRegistered'' (\<lambda>e. Err (Subxt e)) (Err EventMissing)) (\<lambda>_.
     io_return \<lparr>agent_did = d, signing_key_bytes = key_bytes\<rparr>))))"

definition submit_signed_registration ::
  "('vk, 'sg) prims \<Rightarrow> 'n chain_node \<Rightarrow> account_id \<Rightarrow> bytes \<Rightarrow> bytes \<Rightarrow> u32 \<Rightarrow> u32 \<Rightarrow> bytes \<Rightarrow> bytes
     \<Rightarrow> (('n, 's) world, register_agent_error, did) io" where
  "submit_signed_registration pr nd who pubkey signature signed_at_block caps meta lbl =
     (let d = blake2_256 pr (DID_DOMAIN_TAG @ pubkey);
          tx = \<lparr>tx_pallet = REGISTRY_PALLET_NAME, tx_call = ''register_agent'',
                tx_args = [DynBytes pubkey, DynBytes signature, dyn_uint signed_at_block,
                           dyn_uint caps, DynBytes meta, DynBytes lbl]\<rparr> in
      io_then (submit_expect nd who tx ''AgentRegistered'' Subxt EventMissing) (\<lambda>_. io_return d))"

definition update_profile_client ::
  "'n chain_node \<Rightarrow> account_id \<Rightarrow> did \<Rightarrow> u64 \<Rightarrow> bytes \<Rightarrow> bytes
     \<Rightarrow> (('n, 's) world, update_profile_error, unit) io" where
  "update_profile_client nd who d caps meta lbl =
     (let tx = \<lparr>tx_pallet = REGISTRY_PALLET_NAME, tx_call = ''update_profile'',
                tx_args = [dyn_h256 d, dyn_uint caps, DynBytes meta, DynBytes lbl]\<rparr> in
      io_then (submit_expect nd who tx ''AgentProfileUpdated'' Subxt EventMissing)
        (\<lambda>_. io_return ()))"

text \<open>The client's own copy of the status enum.\<close>

datatype client_agent_status = ClientActive | ClientSuspended | ClientRevoked

fun variant_name :: "client_agent_status \<Rightarrow> string" where
  "variant_name ClientActive = ''Active''"
| "variant_name ClientSuspended = ''Suspended''"
| "variant_name ClientRevoked = ''Revoked''"

definition set_agent_status_client ::
  "'n chain_node \<Rightarrow> account_id \<Rightarrow> did \<Rightarrow> client_agent_status
     \<Rightarrow> (('n, 's) world, set_agent_status_error, unit) io" where
  "set_agent_status_client nd who d new_status =
     (let tx = \<lparr>tx_pallet = REGISTRY_PALLET_NAME, tx_call = ''set_agent_status'',
                tx_args = [dyn_h256 d, DynVariant (variant_name new_status) []]\<rparr> in
      io_then (submit_expect nd who tx ''AgentStatusChanged'' Subxt EventMissing)
        (\<lambda>_. io_return ()))"

definition give_star_client ::
  "'n chain_node \<Rightarrow> account_id \<Rightarrow> did \<Rightarrow> did \<Rightarrow> (('n, 's) world, give_star_error, unit) io" where
  "give_star_client nd who giver_did receiver =
     (let tx = \<lparr>tx_pallet = REGISTRY_PALLET_NAME, tx_call = ''give_star'',
                tx_args = [dyn_h256 giver_did, dyn_h256 receiver]\<rparr> in
      io_then (submit_expect nd who tx ''StarGiven'' Subxt EventMissing) (\<lambda>_. io_return ()))"

definition remove_star_client ::
  "'n chain_node \<Rightarrow> account_id \<Rightarrow> did \<Rightarrow> did \<Rightarrow> (('n, 's) world, remove_star_error, unit) io" where
  "remove_star_client nd who giver_did receiver =
     (let tx = \<lparr>tx_pallet = REGISTRY_PALLET_NAME, tx_call = ''remove_star'',
                tx_args = [dyn_h256 giver_did, dyn_h256 receiver]\<rparr> in
      io_then (submit_expect nd who tx ''StarRemoved'' Subxt EventMissing) (\<lambda>_. io_return ()))"

definition deregister_agent_client ::
  "'n chain_node \<Rightarrow> account_id \<Rightarrow> did \<Rightarrow> (('n, 's) world, deregister_agent_error, unit) io" where
  "deregister_agent_client nd who d =
     (let tx = \<lparr>tx_pallet = REGISTRY_PALLET_NAME, tx_call = ''deregister_agent'',
                tx_args = [dyn_h256 d]\<rparr> in
      io_then (submit_expect nd who tx ''AgentDeregistered'' Subxt EventMissing) (\<lambda>_. io_return ()))"

section \<open>Registration and the keystore\<close>

definition register_or_load_agent ::
  "('vk, 'sg) prims \<Rightarrow> ('sk, 'kp) key_crates \<Rightarrow> crypto_crates \<Rightarrow> 'n chain_node \<Rightarrow> account_id \<Rightarrow> path
     \<Rightarrow> string \<Rightarrow> string \<Rightarrow> u32 \<Rightarrow> bytes \<Rightarrow> bytes
     \<Rightarrow> (('n, os) world, register_or_load_error fault, registered_agent) io" where
  "register_or_load_agent pr kc cc nd who dir key_label passphrase caps meta display_label =
     io_then (on_host (identity_exists dir key_label)) (\<lambda>found.
     if found then
       io_then (io_map_err (lift_fault RlKeyStore) (on_host (load_identity cc dir key_label passphrase)))
         (\<lambda>stored. io_return \<lparr>agent_did = stored_did stored, signing_key_bytes = stored_key_bytes stored\<rparr>)
     else
       io_then (io_map_err (lift_fault RlRegister) (register_agent_client pr kc nd who caps meta display_label))
         (\<lambda>agent.
       io_then (io_map_err (\<lambda>e. Err (RlKeyStore e)) (on_host
                  (save_identity cc dir key_label (agent_did agent) (signing_key_bytes agent) passphrase)))
         (\<lambda>_. io_return agent)))"

definition transfer_keep_alive_tx :: "account_id \<Rightarrow> u128 \<Rightarrow> dyn_tx" where
  "transfer_keep_alive_tx dest amount = \<lparr>tx_pallet = ''Balances'', tx_call = ''transfer_keep_alive'',
     tx_args = [DynVariant ''Id'' [dyn_h256 dest], DynU128 amount]\<rparr>"

definition account_label_of :: "string \<Rightarrow> string" where
  "account_label_of key_label = key_label @ ''-account''"

definition bootstrap_fast_path ::
  "('sk, 'kp) key_crates \<Rightarrow> crypto_crates \<Rightarrow> path \<Rightarrow> string \<Rightarrow> string
     \<Rightarrow> (('n, os) world, bootstrap_agent_error fault, 'kp bootstrapped_agent) io" where
  "bootstrap_fast_path kc cc dir key_label passphrase =
     io_then (io_map_err (lift_fault BaKeyStore) (on_host (load_identity cc dir key_label passphrase)))
       (\<lambda>identity.
     io_then (io_map_err (lift_fault BaKeyStore)
                (on_host (load_identity cc dir (account_label_of key_label) passphrase))) (\<lambda>account_secret.
     io_ensure (length (stored_key_bytes account_secret) = 32)
       (Err (AccountKey ''stored account seed is not 32 bytes'')) (
     io_then (io_lift (map_err (\<lambda>e. Err (AccountKey e))
                (keypair_from_secret kc (stored_key_bytes account_secret)))) (\<lambda>account.
     io_return \<lparr>boot_did = stored_did identity, boot_account = account\<rparr>))))"

definition bootstrap_new_agent ::
  "('vk, 'sg) prims \<Rightarrow> ('sk, 'kp) key_crates \<Rightarrow> crypto_crates \<Rightarrow> 'n chain_node \<Rightarrow> account_id \<Rightarrow> path
     \<Rightarrow> string \<Rightarrow> string \<Rightarrow> u128 \<Rightarrow> u32 \<Rightarrow> bytes \<Rightarrow> bytes
     \<Rightarrow> (('n, os) world, bootstrap_agent_error fault, 'kp bootstrapped_agent) io" where
  "bootstrap_new_agent pr kc cc nd sponsor dir key_label passphrase funding_amount caps meta
     display_label =
     (let account_label = account_label_of key_label in
     io_then (on_host (identity_exists dir key_label)) (\<lambda>has_identity.
     io_then (if has_identity then on_host (identity_exists dir account_label) else io_return False)
       (\<lambda>has_both.
     if has_both then bootstrap_fast_path kc cc dir key_label passphrase
     else
       io_then (io_map_err (\<lambda>_. Err (AccountKey ''OS RNG failure'')) (on_host (fill_random 32)))
         (\<lambda>account_seed.
       io_then (io_lift (map_err (\<lambda>e. Err (AccountKey e)) (keypair_from_secret kc account_seed)))
         (\<lambda>new_account.
       let new_account_id = keypair_account kc new_account in
       io_then (io_map_err (\<lambda>e. Err (Funding e))
                  (submit nd sponsor (transfer_keep_alive_tx new_account_id funding_amount))) (\<lambda>_.
       io_then (io_map_err (lift_fault BaRegister)
                  (register_agent_client pr kc nd new_account_id caps meta display_label)) (\<lambda>agent.
       io_then (io_map_err (\<lambda>e. Err (BaKeyStore e)) (on_host
                  (save_identity cc dir key_label (agent_did agent) (signing_key_bytes agent) passphrase)))
         (\<lambda>_.
       io_then (io_map_err (\<lambda>e. Err (BaKeyStore e)) (on_host
                  (save_identity cc dir account_label (agent_did agent) account_seed passphrase)))
         (\<lambda>_. io_return \<lparr>boot_did = agent_did agent, boot_account = new_account\<rparr>)))))))))"


section \<open>What a transaction for a call looks like\<close>

fun status_name :: "agent_status \<Rightarrow> string" where
  "status_name Active = ''Active''"
| "status_name Suspended = ''Suspended''"
| "status_name Revoked = ''Revoked''"

fun registry_tx :: "registry_call \<Rightarrow> dyn_tx" where
  "registry_tx (RegisterAgent pubkey signature at caps meta lbl) =
     \<lparr>tx_pallet = ''AgentRegistry'', tx_call = ''register_agent'',
      tx_args = [DynBytes pubkey, DynBytes signature, dyn_uint at, dyn_uint caps, DynBytes meta,
                 DynBytes lbl]\<rparr>"
| "registry_tx (UpdateProfile d caps meta lbl) =
     \<lparr>tx_pallet = ''AgentRegistry'', tx_call = ''update_profile'',
      tx_args = [dyn_h256 d, dyn_uint caps, DynBytes meta, DynBytes lbl]\<rparr>"
| "registry_tx (SetAgentStatus d s) =
     \<lparr>tx_pallet = ''AgentRegistry'', tx_call = ''set_agent_status'',
      tx_args = [dyn_h256 d, DynVariant (status_name s) []]\<rparr>"
| "registry_tx (GiveStar g r) =
     \<lparr>tx_pallet = ''AgentRegistry'', tx_call = ''give_star'', tx_args = [dyn_h256 g, dyn_h256 r]\<rparr>"
| "registry_tx (RemoveStar g r) =
     \<lparr>tx_pallet = ''AgentRegistry'', tx_call = ''remove_star'', tx_args = [dyn_h256 g, dyn_h256 r]\<rparr>"
| "registry_tx (DeregisterAgent d) =
     \<lparr>tx_pallet = ''AgentRegistry'', tx_call = ''deregister_agent'', tx_args = [dyn_h256 d]\<rparr>"

lemma status_name_inject [simp]: "status_name a = status_name b \<longleftrightarrow> a = b"
  by (cases a; cases b) simp_all

lemma registry_tx_inject: "registry_tx a = registry_tx b \<longleftrightarrow> a = b"
  by (cases a; cases b) (simp_all add: ucast_wide_inject conj_ac)

text \<open>The pallet's status a client status stands for.\<close>

fun pallet_status :: "client_agent_status \<Rightarrow> agent_status" where
  "pallet_status ClientActive = Active"
| "pallet_status ClientSuspended = Suspended"
| "pallet_status ClientRevoked = Revoked"

lemma variant_name_status: "variant_name s = status_name (pallet_status s)"
  by (cases s) simp_all

lemma ucast_caps: "(ucast (ucast caps :: u64) :: u128) = ucast caps" for caps :: u32
  by (rule bit_word_eqI) (auto simp: bit_simps dest: bit_imp_le_length)

section \<open>What the clients send\<close>

lemma simple_registry_clients_send:
  "w_sent (snd (submit_signed_registration pr nd who pubkey signature at caps meta lbl w))
     = w_sent w @ [(who, registry_tx (RegisterAgent pubkey signature at (ucast caps) meta lbl))]"
  "w_sent (snd (update_profile_client nd who d caps' meta lbl w))
     = w_sent w @ [(who, registry_tx (UpdateProfile d caps' meta lbl))]"
  "w_sent (snd (set_agent_status_client nd who d s w))
     = w_sent w @ [(who, registry_tx (SetAgentStatus d (pallet_status s)))]"
  "w_sent (snd (give_star_client nd who d r w)) = w_sent w @ [(who, registry_tx (GiveStar d r))]"
  "w_sent (snd (remove_star_client nd who d r w)) = w_sent w @ [(who, registry_tx (RemoveStar d r))]"
  "w_sent (snd (deregister_agent_client nd who d w)) = w_sent w @ [(who, registry_tx (DeregisterAgent d))]"
  by (simp_all add: submit_signed_registration_def update_profile_client_def set_agent_status_client_def
      give_star_client_def remove_star_client_def deregister_agent_client_def Let_def
      io_then_return_snd REGISTRY_PALLET_NAME_def variant_name_status ucast_caps)

text \<open>The call \<open>register_agent_client\<close> makes from a seed and the node's answers.\<close>

definition client_registration ::
  "('vk, 'sg) prims \<Rightarrow> ('sk, 'kp) key_crates \<Rightarrow> bytes \<Rightarrow> h256 \<Rightarrow> account_id \<Rightarrow> block_number \<Rightarrow> h256
     \<Rightarrow> u32 \<Rightarrow> bytes \<Rightarrow> bytes \<Rightarrow> registry_call" where
  "client_registration pr kc seed genesis who at at_hash caps meta lbl =
     (let sk = sk_generate kc seed; pk = sk_public kc sk in
      RegisterAgent pk
        (sk_sign kc sk (encode_challenge pr genesis (derive_did pr pk) who at at_hash))
        at (ucast caps) meta lbl)"

lemma client_did: "blake2_256 pr (DID_DOMAIN_TAG @ pk) = derive_did pr pk"
  by (simp add: DID_DOMAIN_TAG_def derive_did_def did_preimage_def)

lemma client_challenge_eq: "client_challenge = encode_challenge"
  by (intro ext) (simp add: client_challenge_def encode_challenge_def)

lemma register_client_sends_registration:
  assumes "os_random (w_host w) (os_clock (w_host w)) = Some f"
    "at_latest nd (w_node w) = (Inr (at, at_hash), n)"
  shows "w_sent (snd (register_agent_client pr kc nd who caps meta lbl w)) = w_sent w @
    [(who, registry_tx (client_registration pr kc (map f [0..<32]) (genesis_hash nd (w_node w)) who at
        at_hash caps meta lbl))]"
proof -
  have r: "on_host (fill_random 32) w = (Inr (map f [0..<32]), w\<lparr>w_host := tick (w_host w)\<rparr>)"
    using assms(1) by (intro on_host_eval) (simp add: fill_random_def)
  show ?thesis
    using assms(2)
    by (simp add: register_agent_client_def io_then_eval io_map_err_eval r fetch_genesis_hash_def
        latest_block_def Let_def io_then_return_snd client_did client_challenge_eq
        client_registration_def REGISTRY_PALLET_NAME_def ucast_caps)
qed


lemma register_client_ok:
  assumes "register_agent_client pr kc nd who caps meta lbl w = (Inr agent, w')"
  obtains f at at_hash n where "os_random (w_host w) (os_clock (w_host w)) = Some f"
    "at_latest nd (w_node w) = (Inr (at, at_hash), n)"
    "agent = \<lparr>agent_did = derive_did pr (sk_public kc (sk_generate kc (map f [0..<32]))),
              signing_key_bytes = sk_bytes kc (sk_generate kc (map f [0..<32]))\<rparr>"
    "w_host w' = tick (w_host w)"
  using assms
  by (auto simp: register_agent_client_def Let_def io_simps fill_random_Inr
      fetch_genesis_hash_def client_did elim!: submit_expect_Inr)

text \<open>A registration the client made is one the pallet accepts.\<close>

lemma client_registration_accepted:
  fixes cfg :: "('c, 'e, 'vk, 'sg) registry_config"
  defines "pr \<equiv> reg_prims cfg"
  assumes "mldsa_correct pr kc" and d: "d = derive_did pr (sk_public kc (sk_generate kc seed))"
    and chain: "block_hash h 0 = genesis" "block_hash h at = at_hash"
    and fresh: "at \<le> block_number h" "sat_sub (block_number h) at \<le> REPLAY_WINDOW"
    and room: "agent_profiles st d = None" "length (controller_agents st who) < MAX_AGENTS_PER_CONTROLLER"
    and funds: "reserve (reg_currency cfg) who (registration_deposit cfg) (ledger h) = Inr c"
    and sizes: "length meta \<le> MAX_METADATA_LEN" "length lbl \<le> MAX_LABEL_LEN"
  shows "\<exists>st' h' p. dispatch_registry cfg (Signed who)
      (client_registration pr kc seed genesis who at at_hash caps meta lbl) (st, h) = Inr (st', h') \<and>
      agent_profiles st' d = Some p \<and> controller p = who \<and> status p = Active \<and> is_verified p"
    and "registry_call_bounded (client_registration pr kc seed genesis who at at_hash caps meta lbl)"
proof -
  let ?sk = "sk_generate kc seed"
  obtain vk sg where v: "verifying_key_from_slice pr (sk_public kc ?sk) = Some vk"
    "signature_try_from pr (sk_sign kc ?sk (encode_challenge pr genesis d who at at_hash)) = Some sg"
    "mldsa_verify pr vk (encode_challenge pr genesis d who at at_hash) sg"
    "length (sk_public kc ?sk) \<le> 1952"
    "length (sk_sign kc ?sk (encode_challenge pr genesis d who at at_hash)) \<le> 3309"
    using assms(2) unfolding mldsa_correct_def by meson
  show "registry_call_bounded (client_registration pr kc seed genesis who at at_hash caps meta lbl)"
    using v(4,5) sizes
    by (simp add: client_registration_def Let_def d MAX_PUBKEY_LEN_def MAX_SIG_LEN_def)
  show "\<exists>st' h' p. dispatch_registry cfg (Signed who)
      (client_registration pr kc seed genesis who at at_hash caps meta lbl) (st, h) = Inr (st', h') \<and>
      agent_profiles st' d = Some p \<and> controller p = who \<and> status p = Active \<and> is_verified p"
    using v(1-3) chain fresh room funds
    by (simp add: client_registration_def Let_def register_agent_def ensure_signed_def pr_def
        flip: d [unfolded pr_def])
qed

section \<open>Registration and the keystore\<close>

lemma identity_exists_valid:
  "validate_label lbl = Inr () \<Longrightarrow> identity_exists dir lbl = path_exists (dir @ [lbl @ ''.json''])"
  using key_file_path_Inr [of dir lbl "dir @ [lbl @ ''.json'']"] by (simp add: identity_exists_def)

lemma identity_exists_invalid: "validate_label lbl = Inl e \<Longrightarrow> identity_exists dir lbl = io_return False"
  by (simp add: identity_exists_def key_file_path_def)

text \<open>Once an identity was saved, running again loads it and submits nothing.\<close>

lemma load_after_save:
  assumes laws: "crypto_laws cc"
    and saved: "save_identity cc dir lbl d key_bytes passphrase s0 = (Inr (), s1)"
    and later: "file_at s (dir @ [lbl @ ''.json'']) = file_at s1 (dir @ [lbl @ ''.json''])"
    and io: "\<not> faulty s" "\<not> faulty (tick s)"
  shows "load_identity cc dir lbl passphrase s =
      (Inr \<lparr>stored_did = d, stored_key_bytes = key_bytes\<rparr>, tick (tick s))"
    and "validate_label lbl = Inr ()" and "file_at s (dir @ [lbl @ ''.json'']) \<noteq> None"
proof -
  obtain salt nonce kf js where w: "validate_label lbl = Inr ()"
    "written_key_file cc d key_bytes passphrase salt nonce kf" "json_pretty cc kf = Inr js"
    "file_at s1 (dir @ [lbl @ ''.json'']) = Some (ascii js)"
    using saved by (elim save_identity_ok) simp
  have kf: "kf = kf\<lparr>did_hex := hex_encode (hex_of cc) (h256_bytes d)\<rparr>"
    using w(2) by (auto simp: written_key_file_def)
  show "load_identity cc dir lbl passphrase s =
      (Inr \<lparr>stored_did = d, stored_key_bytes = key_bytes\<rparr>, tick (tick s))"
    by (rule load_identity_eval [OF laws w(1,2,3) kf _ io]) (simp add: later w(4))
  show "validate_label lbl = Inr ()" "file_at s (dir @ [lbl @ ''.json'']) \<noteq> None"
    using w(1,4) later by simp_all
qed


lemma load_identity_same:
  assumes "load_identity cc dir lbl passphrase s = (Inr r, s')"
    "file_at t (dir @ [lbl @ ''.json'']) = file_at s (dir @ [lbl @ ''.json''])"
    "\<not> faulty t" "\<not> faulty (tick t)"
  shows "load_identity cc dir lbl passphrase t = (Inr r, tick (tick t))"
    and "validate_label lbl = Inr ()" and "file_at t (dir @ [lbl @ ''.json'']) \<noteq> None"
proof -
  let ?p = "dir @ [lbl @ ''.json'']"
  show v: "validate_label lbl = Inr ()"
    using assms(1) by (auto simp: load_identity_def io_simps res_simps key_file_path_Inr)
  then have p: "key_file_path dir lbl = Inr ?p" by (simp add: key_file_path_Inr)
  from assms(1) obtain data kf salt nonce c k pt dv where
    "file_at s ?p = Some data" "valid_utf8 data" "json_parse cc (string_of data) = Inr kf"
    "base64_decode cc (salt_b64 kf) = Some salt" "base64_decode cc (nonce_b64 kf) = Some nonce"
    "base64_decode cc (ciphertext_b64 kf) = Some c" "derive_key cc passphrase salt = Inr k"
    "length nonce = NONCE_LEN" "aead_decrypt cc k nonce c = Some pt"
    "hex_decode (hex_of cc) (did_hex kf) = Some dv" "length dv = 32"
    "r = \<lparr>stored_did = bytes_h256 dv, stored_key_bytes = pt\<rparr>"
    by (auto simp: load_identity_def io_simps res_simps p path_exists_Inr read_file_def split: if_splits)
  then show "load_identity cc dir lbl passphrase t = (Inr r, tick (tick t))" "file_at t ?p \<noteq> None"
    using assms(2-4) p
    by (simp_all add: load_identity_def io_then_def path_exists_def io_map_err_def read_file_def)
qed

lemma healthy_ticks: "healthy s \<Longrightarrow> \<not> faulty s \<and> \<not> faulty (tick s) \<and> \<not> faulty (tick (tick s))"
  by (simp add: healthy_def)

lemma register_or_load_loads:
  assumes "validate_label lbl = Inr ()" "healthy (w_host w)"
    "file_at (w_host w) (dir @ [lbl @ ''.json'']) \<noteq> None"
    "load_identity cc dir lbl passphrase (tick (w_host w)) = (Inr r, s)"
  shows "register_or_load_agent pr kc cc nd who dir lbl passphrase caps meta dl w =
    (Inr \<lparr>agent_did = stored_did r, signing_key_bytes = stored_key_bytes r\<rparr>, w\<lparr>w_host := s\<rparr>)"
proof -
  have "on_host (identity_exists dir lbl :: (os, register_or_load_error fault, bool) io) w
      = (Inr True, w\<lparr>w_host := tick (w_host w)\<rparr>)"
    using assms(1-3) healthy_ticks [OF assms(2)]
    by (intro on_host_eval) (simp add: identity_exists_valid path_exists_def)
  moreover have "on_host (load_identity cc dir lbl passphrase) (w\<lparr>w_host := tick (w_host w)\<rparr>)
      = (Inr r, w\<lparr>w_host := s\<rparr>)"
    using assms(4) by (simp add: on_host_def)
  ultimately show ?thesis by (simp add: register_or_load_agent_def io_then_eval io_map_err_eval)
qed


lemma register_or_load_stored:
  assumes "register_or_load_agent pr kc cc nd who dir lbl passphrase caps meta dl w = (Inr agent, w1)"
    and laws: "crypto_laws cc" and h: "healthy (w_host w)"
    and t: "file_at t (dir @ [lbl @ ''.json'']) = file_at (w_host w1) (dir @ [lbl @ ''.json''])"
      "\<not> faulty t" "\<not> faulty (tick t)"
  shows "load_identity cc dir lbl passphrase t =
      (Inr \<lparr>stored_did = agent_did agent, stored_key_bytes = signing_key_bytes agent\<rparr>, tick (tick t)) \<and>
    validate_label lbl = Inr () \<and> file_at t (dir @ [lbl @ ''.json'']) \<noteq> None"
proof -
  obtain found s0 where e: "(identity_exists dir lbl :: (os, register_or_load_error fault, bool) io) (w_host w)
      = (Inr found, s0)"
    using assms(1) by (auto simp: register_or_load_agent_def io_simps)
  then have s0: "healthy s0"
    using h by (auto simp: identity_exists_def path_exists_def split: sum.splits)
  show ?thesis
  proof (cases found)
    case True
    then obtain r s1 where l: "load_identity cc dir lbl passphrase s0 = (Inr r, s1)"
      "agent = \<lparr>agent_did = stored_did r, signing_key_bytes = stored_key_bytes r\<rparr>" "w_host w1 = s1"
      using assms(1) e by (auto simp: register_or_load_agent_def io_simps)
    have "s1 = tick (tick s0)"
      using load_identity_same(1) [OF l(1) refl] healthy_ticks [OF s0] l(1) by simp
    with l(3) t(1) have "file_at t (dir @ [lbl @ ''.json'']) = file_at s0 (dir @ [lbl @ ''.json''])" by simp
    from load_identity_same [OF l(1) this t(2,3)] show ?thesis using l(2) by simp
  next
    case False
    then obtain s s1 where s: "save_identity cc dir lbl (agent_did agent) (signing_key_bytes agent) passphrase s
        = (Inr (), s1)" "w_host w1 = s1"
      using assms(1) e by (auto simp: register_or_load_agent_def io_simps)
    from load_after_save [OF laws s(1) _ t(2,3)] show ?thesis using t(1) s(2) by simp
  qed
qed

text \<open>The oracles of the machine are the same afterwards.\<close>

lemma register_or_load_healthy:
  assumes "register_or_load_agent pr kc cc nd who dir lbl passphrase caps meta dl w = (Inr agent, w1)"
    and "healthy (w_host w)"
  shows "healthy (w_host w1)"
proof -
  have "io_keeps host_oracles (fetch_genesis_hash nd :: (('a, os) world, register_agent_error fault, h256) io)"
    for nd :: "'a chain_node"
    by (simp add: io_keeps_def fetch_genesis_hash_def host_oracles_def same_oracles_def)
  then have "io_keeps host_oracles (register_or_load_agent pr kc cc nd who dir lbl passphrase caps meta dl)"
    unfolding register_or_load_agent_def register_agent_client_def Let_def
    by (intro host_oracles_intros keystore_oracles os_keeps_oracles)
  then have "host_oracles w w1" using assms(1) unfolding io_keeps_def by (metis snd_conv)
  then show ?thesis using assms(2) by (simp add: host_oracles_def same_oracles_def healthy_def)
qed

section \<open>Interrupted bootstraps\<close>

lemma account_label_valid: "validate_label lbl = Inr () \<Longrightarrow> validate_label (account_label_of lbl) = Inr ()"
  by (auto simp: validate_label_def account_label_of_def Let_def is_ascii_alphanumeric_def split: if_splits)

text \<open>A node that finalizes whatever is submitted to it, and a key generator that works.\<close>

definition cooperative :: "'n chain_node \<Rightarrow> bool" where
  "cooperative nd \<longleftrightarrow>
     (\<forall>who tx n. \<exists>events n'. sign_and_submit nd who tx n = (Inr events, n') \<and>
        find_event (tx_pallet tx) ''AgentRegistered'' events \<noteq> None) \<and>
     (\<forall>n. \<exists>at at_hash n'. at_latest nd n = (Inr (at, at_hash), n'))"

lemma cooperative_submit:
  assumes "cooperative nd"
  obtains events n where "submit nd who tx w = (Inr events, w\<lparr>w_node := n, w_sent := w_sent w @ [(who, tx)]\<rparr>)"
    "find_event (tx_pallet tx) ''AgentRegistered'' events \<noteq> None"
proof -
  obtain events n where "sign_and_submit nd who tx (w_node w) = (Inr events, n)"
    "find_event (tx_pallet tx) ''AgentRegistered'' events \<noteq> None"
    using assms unfolding cooperative_def by blast
  then show thesis using that by (simp add: submit_def)
qed

lemma cooperative_confirm:
  assumes "cooperative nd"
  shows "\<exists>x w'. io_then (submit_expect nd who tx ''AgentRegistered'' g missing) (\<lambda>_. io_return a) w
    = (Inr x, w')"
proof -
  obtain events n where s: "submit nd who tx w = (Inr events, w\<lparr>w_node := n, w_sent := w_sent w @ [(who, tx)]\<rparr>)"
    "find_event (tx_pallet tx) ''AgentRegistered'' events \<noteq> None"
    by (rule cooperative_submit [OF assms])
  then show ?thesis by (auto simp: submit_expect_def io_then_def io_map_err_eval)
qed

lemma cooperative_register:
  assumes "cooperative nd" "healthy (w_host w)"
  obtains agent w' call where "register_agent_client pr kc nd who caps meta lbl w = (Inr agent, w')"
    "w_host w' = tick (w_host w)" "w_sent w' = w_sent w @ [(who, registry_tx call)]"
proof -
  obtain f where f: "os_random (w_host w) (os_clock (w_host w)) = Some f"
    using assms(2) by (auto simp: healthy_def)
  obtain at at_hash n where a: "at_latest nd (w_node w) = (Inr (at, at_hash), n)"
    using assms(1) unfolding cooperative_def by blast
  have r: "on_host (fill_random 32) w = (Inr (map f [0..<32]), w\<lparr>w_host := tick (w_host w)\<rparr>)"
    using f by (intro on_host_eval) (simp add: fill_random_def)
  have "\<exists>agent w'. register_agent_client pr kc nd who caps meta lbl w = (Inr agent, w')"
    by (simp add: register_agent_client_def io_then_eval io_map_err_eval r a fetch_genesis_hash_def
        latest_block_def Let_def)
      (rule cooperative_confirm [OF assms(1)])
  then obtain agent w' where rw: "register_agent_client pr kc nd who caps meta lbl w = (Inr agent, w')"
    by blast
  have "w_host w' = tick (w_host w)" using rw by (elim register_client_ok)
  moreover have "\<exists>call. w_sent w' = w_sent w @ [(who, registry_tx call)]"
    using register_client_sends_registration [OF f a, of pr kc who caps meta lbl] rw by auto
  ultimately show thesis using that rw by blast
qed


lemma register_or_load_fresh:
  assumes "validate_label lbl = Inr ()" "healthy (w_host w)" "cooperative nd"
    "file_at (w_host w) (dir @ [lbl @ ''.json'']) = None"
    "dir @ [lbl @ ''.json''] \<notin> set (os_dirs (w_host w))"
    "\<forall>q \<in> set (prefixes dir). file_at (w_host w) q = None"
    "\<And>salt. is_ok (derive_key cc passphrase salt)"
    "\<And>k nonce m. aead_encrypt cc k nonce m \<noteq> None" "\<And>kf. is_ok (json_pretty cc kf)"
  shows "\<exists>agent w'. register_or_load_agent pr kc cc nd who dir lbl passphrase caps meta dl w = (Inr agent, w')"
proof -
  let ?w1 = "w\<lparr>w_host := tick (w_host w)\<rparr>"
  have e: "on_host (identity_exists dir lbl :: (os, register_or_load_error fault, bool) io) w = (Inr False, ?w1)"
    using assms(1,4,5) by (intro on_host_eval) (simp add: identity_exists_valid path_exists_def)
  obtain agent w2 where reg: "register_agent_client pr kc nd who caps meta dl ?w1 = (Inr agent, w2)"
    "w_host w2 = tick (w_host ?w1)"
    by (rule cooperative_register [OF assms(3), of ?w1 pr kc who caps meta dl]) (use assms(2) in auto)
  have "\<exists>s'. save_identity cc dir lbl (agent_did agent) (signing_key_bytes agent) passphrase (w_host w2)
      = (Inr (), s')"
    by (rule save_identity_live [OF assms(1)]) (use assms(2,4-9) reg(2) in simp_all)
  then show ?thesis
    using reg(1) e
    by (auto simp: register_or_load_agent_def io_then_def io_map_err_def on_host_def)
qed

end
