(* ===== verification/Client_Sample.thy ===== *)
theory Client_Sample
  imports Sample Vdb_Client Registry_Client
begin

text \<open>
  Concrete crates, a concrete node and a concrete machine for the witnesses about the clients:
  hexadecimal numerals, a one-byte "authentication tag", key files as hexadecimal fields, and a
  node that confirms every call.
\<close>

section \<open>Hexadecimal\<close>

definition hex_digit :: "nat \<Rightarrow> char" where
  "hex_digit n = ''0123456789abcdef'' ! n"

definition hex_value :: "char \<Rightarrow> nat option" where
  "hex_value c = map_of (zip ''0123456789abcdef'' [0..<16]) c"

primrec sample_hex_encode :: "bytes \<Rightarrow> string" where
  "sample_hex_encode [] = []"
| "sample_hex_encode (b # bs) = hex_digit (unat b div 16) # hex_digit (unat b mod 16) # sample_hex_encode bs"

fun sample_hex_decode :: "string \<Rightarrow> bytes option" where
  "sample_hex_decode [] = Some []"
| "sample_hex_decode [_] = None"
| "sample_hex_decode (a # b # cs) = (case (hex_value a, hex_value b, sample_hex_decode cs) of
       (Some x, Some y, Some bs) \<Rightarrow> Some (of_nat (16 * x + y) # bs)
     | _ \<Rightarrow> None)"

definition sample_hex :: hex_crate where
  "sample_hex = \<lparr>hex_encode = sample_hex_encode, hex_decode = sample_hex_decode\<rparr>"

lemma hex_value_digit: "n < 16 \<Longrightarrow> hex_value (hex_digit n) = Some n"
proof -
  assume n: "n < 16"
  have "\<forall>n \<in> set [0..<16]. hex_value (hex_digit n) = Some n" by code_simp
  then show ?thesis using n by simp
qed

definition hex_chars :: "char set" where
  "hex_chars = set ''0123456789abcdef''"

lemma hex_digit_range: "n < 16 \<Longrightarrow> hex_digit n \<in> hex_chars"
proof -
  assume "n < 16"
  then have "n < length ''0123456789abcdef''" by simp
  then show ?thesis unfolding hex_digit_def hex_chars_def by (rule nth_mem)
qed

lemma u8_nibbles: "unat b div 16 < 16" "unat b mod 16 < 16" for b :: u8
  using unsigned_less [of b, where 'a = nat] by simp_all

lemma sample_hex_roundtrip: "sample_hex_decode (sample_hex_encode b) = Some b"
  by (induction b) (simp_all add: hex_value_digit u8_nibbles)

lemma sample_hex_length: "length (sample_hex_encode b) = 2 * length b"
  by (induction b) simp_all

lemma sample_hex_chars: "set (sample_hex_encode b) \<subseteq> hex_chars"
  using hex_digit_range u8_nibbles by (induction b) simp_all

lemma hex_laws_sample: "hex_laws sample_hex"
  unfolding hex_laws_def
  by (simp add: sample_hex_def sample_hex_roundtrip sample_hex_length sample_hex_chars
      hex_chars_def [symmetric] del: list.set)

section \<open>Key files\<close>

definition sample_json :: "key_file \<Rightarrow> string" where
  "sample_json kf = sample_hex_encode [version kf] @ ''/'' @ sample_hex_encode (ascii (did_hex kf)) @ ''/''
     @ sample_hex_encode (ascii (salt_b64 kf)) @ ''/'' @ sample_hex_encode (ascii (nonce_b64 kf)) @ ''/''
     @ sample_hex_encode (ascii (ciphertext_b64 kf))"

definition sample_json_parse :: "string \<Rightarrow> string + key_file" where
  "sample_json_parse s = (case map sample_hex_decode (split_on (CHR ''/'') s) of
       [Some [v], Some d, Some sl, Some n, Some c] \<Rightarrow>
         Inr \<lparr>version = v, did_hex = string_of d, salt_b64 = string_of sl, nonce_b64 = string_of n,
              ciphertext_b64 = string_of c\<rparr>
     | _ \<Rightarrow> Inl ''malformed'')"

definition sample_crypto :: crypto_crates where
  "sample_crypto = \<lparr>argon2id = (\<lambda>_ _ _ n _ _. Inr (replicate n 0)),
     aead_encrypt = (\<lambda>k n m. Some (m @ [0])), aead_decrypt = (\<lambda>k n c. Some (butlast c)),
     b64_encode = string_of, b64_decode = (\<lambda>s. Some (ascii s)),
     json_pretty = (\<lambda>kf. Inr (sample_json kf)), json_parse = sample_json_parse, hex_of = sample_hex\<rparr>"

lemma sample_json_valid: "valid_utf8 (ascii (sample_json kf))"
proof (rule valid_utf8_ascii, rule ballI)
  fix b
  assume "b \<in> set (ascii (sample_json kf))"
  then obtain c where "c \<in> set (sample_json kf)" and b: "b = of_nat (of_char c)" by (auto simp: ascii_def)
  moreover have "set (sample_json kf) \<subseteq> insert (CHR ''/'') hex_chars"
    unfolding sample_json_def set_append
    using sample_hex_chars by (simp add: subset_insertI2 del: sample_hex_encode.simps)
  ultimately have "c \<in> insert (CHR ''/'') hex_chars" by blast
  moreover have "\<forall>c \<in> insert (CHR ''/'') hex_chars. (of_nat (of_char c) :: u8) < 0x80" by code_simp
  ultimately show "b < 0x80" using b by blast
qed

lemma slash_not_hex: "CHR ''/'' \<notin> hex_chars"
  by code_simp

lemma sample_json_roundtrip: "sample_json_parse (sample_json kf) = Inr kf"
proof -
  have slash: "CHR ''/'' \<notin> set (sample_hex_encode b)" for b
    using sample_hex_chars [of b] slash_not_hex by blast
  have "map sample_hex_decode (split_on (CHR ''/'') (sample_json kf)) =
    [Some [version kf], Some (ascii (did_hex kf)), Some (ascii (salt_b64 kf)),
     Some (ascii (nonce_b64 kf)), Some (ascii (ciphertext_b64 kf))]"
    by (simp add: sample_json_def split_on_append split_on_absent slash sample_hex_roundtrip
        del: sample_hex_encode.simps)
  then show ?thesis by (simp add: sample_json_parse_def)
qed

lemma crypto_laws_sample: "crypto_laws sample_crypto"
  using hex_laws_sample
  by (simp add: crypto_laws_def sample_crypto_def sample_json_valid sample_json_roundtrip)

section \<open>Keys, node, machine\<close>

definition sample_keys :: "(bytes, bytes) key_crates" where
  "sample_keys = \<lparr>sk_generate = (\<lambda>seed. seed), sk_public = take 32, sk_bytes = (\<lambda>sk. sk),
     sk_sign = (\<lambda>sk _. take 32 sk), keypair_from_secret = Inr, keypair_account = (\<lambda>kp. 77)\<rparr>"

lemma mldsa_correct_sample: "mldsa_correct sample_prims sample_keys"
  by (simp add: mldsa_correct_def sample_prims_def sample_keys_def min_le_iff_disj)

definition sample_events :: "string list" where
  "sample_events = [''AgentRegistered'', ''CommitmentRegistered'', ''DisputeCountered'']"

text \<open>The node confirms every call and reports block 1 with hash 0; new commitments are number 119.\<close>

definition sample_node :: "unit chain_node" where
  "sample_node = \<lparr>
     sign_and_submit = (\<lambda>who tx n. (Inr (map (\<lambda>v. Some \<lparr>ev_pallet = tx_pallet tx, ev_variant = v,
        ev_fields = Some (Unnamed [scale_h256 119])\<rparr>) sample_events), n)),
     at_latest = (\<lambda>n. (Inr (1, 0), n)),
     genesis_hash = (\<lambda>n. 0)\<rparr>"

definition sample_os :: os where
  "sample_os = \<lparr>os_files = [], os_dirs = [[]], os_modes = Map.empty, os_clock = 0,
     os_fault = (\<lambda>_. None), os_random = (\<lambda>k. Some (\<lambda>i. of_nat (k + i)))\<rparr>"

definition sample_world :: "(unit, os) world" where
  "sample_world = \<lparr>w_node = (), w_host = sample_os, w_sent = []\<rparr>"

lemma healthy_sample: "healthy sample_os"
  by (simp add: healthy_def sample_os_def)


lemma sample_crates_work:
  "is_ok (derive_key sample_crypto passphrase salt)" "aead_encrypt sample_crypto k nonce m \<noteq> None"
  "is_ok (json_pretty sample_crypto kf)"
  by (simp_all add: derive_key_def sample_crypto_def)

lemma cooperative_sample: "cooperative sample_node"
  by (simp add: cooperative_def sample_node_def find_event_def sample_events_def List.map_filter_simps)

text \<open>A registration over the sample node succeeds whenever the machine stores the chunks.\<close>

lemma sample_client_registers:
  assumes "length meta \<le> CLIENT_MAX_METADATA_LEN" "payload \<noteq> []"
    "chunk_payload mode payload = Inr chunks"
    "build_merkle_tree sample_prims sample_merkle chunks = Some (root, tree)"
    "is_ok (fst (fs_persist sample_hex root_dir (blake2_256 sample_prims payload) chunks sample_os))"
    "is_ok (fst (fs_rekey sample_hex root_dir (blake2_256 sample_prims payload) 119
       (snd (fs_persist sample_hex root_dir (blake2_256 sample_prims payload) chunks sample_os))))"
  shows "\<exists>s. register_commitment_client sample_prims sample_merkle sample_node mode
      (fs_chunk_store sample_hex root_dir) who p c payload meta dt prc sample_world =
    (Inr \<lparr>res_commitment_id = 119, res_merkle_root = root, res_total_chunks = of_nat (length chunks)\<rparr>,
     sample_world\<lparr>w_host := s,
       w_sent := [(who, vdb_tx (RegisterCommitment p c root (of_nat (length chunks)) meta dt prc))]\<rparr>)"
proof -
  let ?st = "fs_chunk_store sample_hex root_dir" and ?id = "blake2_256 sample_prims payload"
  let ?tx = "vdb_tx (RegisterCommitment p c root (of_nat (length chunks)) meta dt prc)"
  let ?p = "fs_persist sample_hex root_dir ?id chunks sample_os"
  let ?k = "fs_rekey sample_hex root_dir ?id 119 (snd ?p)"
  from assms(5,6) obtain s1 s2 where s1: "?p = (Inr (), s1)" and s2: "?k = (Inr (), s2)"
    by (cases ?p; cases ?k) (auto elim!: is_okE)
  let ?e = "\<lparr>ev_pallet = ''VectorDb'', ev_variant = ''CommitmentRegistered'',
    ev_fields = Some (Unnamed [scale_h256 119])\<rparr>"
  let ?events = "map (\<lambda>v. Some (?e\<lparr>ev_variant := v\<rparr>)) sample_events"
  have sub: "sign_and_submit sample_node who ?tx (w_node sample_world) = (Inr ?events, ())"
    by (simp add: sample_node_def)
  have found: "find_event ''VectorDb'' ''CommitmentRegistered'' ?events = Some ?e"
    by (simp add: find_event_def sample_events_def List.map_filter_simps)
  have dec: "decode_fixed_bytes_field (Unnamed [scale_h256 119]) 0 = Some 119"
    by (simp add: decode_fixed_bytes_unnamed)
  have per: "persist ?st ?id chunks (w_host sample_world) = (Inr (), s1)"
    using s1 by (simp add: fs_chunk_store_def sample_world_def)
  have rek: "rekey ?st ?id 119 s1 = (Inr (), s2)" using s1 s2 by (simp add: fs_chunk_store_def)
  show ?thesis
    using register_client_eval [OF assms(1-4) per refl sub found _ dec rek]
    by (auto simp: sample_world_def)
qed

end
