(* ===== verification/Client_Theorems.thy ===== *)
theory Client_Theorems
  imports Client_Sample
begin

text \<open>
  The properties of the off-chain side: what the clients send is what the pallets accept, what is
  stored locally is what was committed, and where an interruption loses something.
\<close>

section \<open>Disputes\<close>

text \<open>A machine that holds the one chunk of commitment 119, and a chain on which it is disputed.\<close>

definition provider_world :: "(unit, os) world" where
  "provider_world = sample_world\<lparr>w_host := sample_os\<lparr>os_files :=
     [(chunk_path (commitment_dir sample_hex [''store''] 119) 0, [1, 2, 3])]\<rparr>, w_sent := []\<rparr>"

definition disputed_state :: "sample_ledger runtime" where
  "disputed_state = sample_after (setup_actions @ [Extrinsic 2 (VdbCall (RaiseDispute 119 18 0 5 1))])"

text \<open>
  A provider can answer every dispute of a commitment whose chunks are still in its file
  store: \<open>counter_dispute_client\<close> submits one call, within the pallet's bounds, and the pallet
  accepts it whenever the escrow can be paid out. The hypotheses are the documented completeness
  of \<^verbatim>\<open>rs_merkle\<close>, a working disk, an open dispute inside its window, fewer than \<open>2 ^ 32\<close> chunks and
  a proof within the depth the pallet allows.
\<close>

lemma honest_provider_can_refute:
  assumes "rs_merkle_complete (vdb_merkle cfg)" "healthy (w_host w)"
    "\<And>i. i < length chunks \<Longrightarrow> fs_view hx root_dir (w_host w) cid i = Some (chunks ! i)"
    "build_merkle_tree (vdb_prims cfg) (vdb_merkle cfg) chunks = Some (merkle_root cm, tree)"
    "total_chunks cm = of_nat (length chunks)" "length chunks < 2 ^ 32"
    "vector_commitments st cid = Some cm" "vc_status cm = Disputed"
    "dispute_records st cid = Some d" "disputed_chunk_index d < total_chunks cm"
    "system_block_number cfg x \<le> counter_deadline d"
    "controller_of cfg (provider cm) x = Some who" "is_active_verified cfg (provider cm) x"
    "length (chunks ! unat (disputed_chunk_index d)) \<le> MAX_CHUNK_LEN"
    "length (generate_inclusion_proof (vdb_merkle cfg) tree (unat (disputed_chunk_index d)))
       \<le> MAX_PROOF_DEPTH"
  shows "\<exists>call. vdb_call_bounded call \<and>
    w_sent (snd (counter_dispute_client (vdb_prims cfg) (vdb_merkle cfg) nd
      (fs_chunk_store hx root_dir) who cid (provider cm) (disputed_chunk_index d) (total_chunks cm) w))
      = w_sent w @ [(who, vdb_tx call)] \<and>
    is_ok (dispatch_vdb cfg (Signed who) call (st, x)) = is_ok (escrow_release cfg cid x)"
proof -
  let ?i = "unat (disputed_chunk_index d)"
  let ?call = "CounterDispute cid (provider cm) (chunks ! ?i)
    (generate_inclusion_proof (vdb_merkle cfg) tree ?i)"
  have n: "length chunks = unat (total_chunks cm)" using assms(5,6) by (simp add: unat_of_nat)
  have sent: "w_sent (snd (counter_dispute_client (vdb_prims cfg) (vdb_merkle cfg) nd
      (fs_chunk_store hx root_dir) who cid (provider cm) (disputed_chunk_index d) (total_chunks cm) w))
      = w_sent w @ [(who, vdb_tx ?call)]"
    by (rule fs.counter_client_live [OF assms(2) n _ assms(4,10,14,15)]) (simp add: assms(3) n)
  have "refutes cfg cm d (chunks ! ?i) (generate_inclusion_proof (vdb_merkle cfg) tree ?i)"
    using client_proof_refutes [OF assms(1,4,5,6,10)] .
  then have "is_ok (dispatch_vdb cfg (Signed who) ?call (st, x)) = is_ok (escrow_release cfg cid x)"
    using assms(7-13)
    by (cases "escrow_release cfg cid x")
      (simp_all add: counter_dispute_def ensure_signed_def Let_def refutes_def)
  with sent show ?thesis using assms(14,15) by (intro exI [of _ ?call]) simp
qed

lemma honest_provider_can_refute_witness:
  "\<exists>call. vdb_call_bounded call \<and>
    w_sent (snd (counter_dispute_client sample_prims sample_merkle sample_node
      (fs_chunk_store sample_hex [''store'']) 1 119 17 0 1 provider_world)) = [(1, vdb_tx call)] \<and>
    is_ok (dispatch_vdb (rt_vdb_config sample_currency sample_prims sample_merkle) (Signed 1) call
      (vectordb disputed_state, env disputed_state))
      = is_ok (adapter_release sample_currency 119 (env disputed_state))"
proof -
  let ?cfg = "rt_vdb_config sample_currency sample_prims sample_merkle"
  have cfg: "vdb_merkle ?cfg = sample_merkle" "vdb_prims ?cfg = sample_prims"
    "escrow_release ?cfg = adapter_release sample_currency"
    by (simp_all add: rt_vdb_config_def)
  have "map_option (\<lambda>cm. (merkle_root cm, total_chunks cm, vc_status cm, provider cm))
      (vector_commitments (vectordb disputed_state) 119) = Some (3, 1, Disputed, 17)"
    "map_option (\<lambda>d. (disputed_chunk_index d, system_block_number ?cfg (env disputed_state) \<le> counter_deadline d))
      (dispute_records (vectordb disputed_state) 119) = Some (0, True)"
    by code_simp+
  then obtain cm d where cm: "vector_commitments (vectordb disputed_state) 119 = Some cm"
    "merkle_root cm = 3" "total_chunks cm = 1" "vc_status cm = Disputed" "provider cm = 17"
    and d: "dispute_records (vectordb disputed_state) 119 = Some d" "disputed_chunk_index d = 0"
      "system_block_number ?cfg (env disputed_state) \<le> counter_deadline d"
    by auto
  have chain: "controller_of ?cfg 17 (env disputed_state) = Some 1"
    "is_active_verified ?cfg 17 (env disputed_state)"
    by code_simp+
  have tree: "build_merkle_tree sample_prims sample_merkle [[1, 2, 3]] = Some (3, (Some 3, [3]))"
    "length (generate_inclusion_proof sample_merkle (Some 3, [3]) 0) \<le> MAX_PROOF_DEPTH"
    by code_simp+
  have store: "fs_view sample_hex [''store''] (w_host provider_world) 119 0 = Some [1, 2, 3]"
    by (simp add: fs_view_def provider_world_def)
  have "healthy (w_host provider_world)" by (simp add: provider_world_def healthy_def sample_os_def)
  from honest_provider_can_refute [of ?cfg provider_world "[[1, 2, 3]]" sample_hex "[''store'']" 119 cm
      "(Some 3, [3])" "vectordb disputed_state" d "env disputed_state" 1 sample_node, OF _ this]
  show ?thesis
    using rs_merkle_complete_sample store tree cm d chain
    by (simp add: cfg MAX_CHUNK_LEN_def provider_world_def)
qed

text \<open>
  C18. When \<open>register_commitment_client\<close> succeeds over the file store, the chunks whose Merkle root
  and number it reports are stored under the identifier it reports, and the chunks of every other
  commitment are untouched.
\<close>

theorem registered_chunks_are_kept:
  assumes "register_commitment_client pr rm nd mode (fs_chunk_store hx root_dir) who p c payload meta
      dt prc w = (Inr res, w')"
    and "hex_laws hx"
  shows "\<exists>chunks tree. chunk_payload mode payload = Inr chunks \<and>
      build_merkle_tree pr rm chunks = Some (res_merkle_root res, tree) \<and>
      res_total_chunks res = of_nat (length chunks) \<and>
      (\<forall>i < length chunks. fs_view hx root_dir (w_host w') (res_commitment_id res) i = Some (chunks ! i)) \<and>
      (\<forall>cid. cid \<noteq> res_commitment_id res \<longrightarrow> cid \<noteq> blake2_256 pr payload \<longrightarrow>
         fs_view hx root_dir (w_host w') cid = fs_view hx root_dir (w_host w) cid)"
  using assms(1)
  by (rule fs.register_client_stores) (use fs_apart_distinct [OF assms(2)] in blast)

lemma sample_registration:
  "\<exists>s. register_commitment_client sample_prims sample_merkle sample_node None
      (fs_chunk_store sample_hex [''store'']) 1 17 18 [1, 2, 3] [] 5 1000 sample_world =
    (Inr \<lparr>res_commitment_id = 119, res_merkle_root = 3, res_total_chunks = 1\<rparr>,
     sample_world\<lparr>w_host := s, w_sent := [(1, vdb_tx (RegisterCommitment 17 18 3 1 [] 5 1000))]\<rparr>)"
proof -
  have h: "blake2_256 sample_prims [1, 2, 3] = 3" by (simp add: sample_prims_def)
  let ?p = "fs_persist sample_hex [''store''] 3 [[1, 2, 3]] sample_os"
  have ok: "is_ok (fst ?p)" "is_ok (fst (fs_rekey sample_hex [''store''] 3 119 (snd ?p)))" by code_simp+
  have payload: "chunk_payload None [1, 2, 3] = Inr [[1, 2, 3]]"
    "build_merkle_tree sample_prims sample_merkle [[1, 2, 3]] = Some (3, (Some 3, [3]))"
    by code_simp+
  from sample_client_registers [OF _ _ payload, of "[]" "[''store'']" 1 17 18 5 1000] ok
  show ?thesis by (simp add: h)
qed

theorem registered_chunks_are_kept_witness:
  "\<exists>res w'. register_commitment_client sample_prims sample_merkle sample_node None
      (fs_chunk_store sample_hex [''store'']) 1 17 18 [1, 2, 3] [] 5 1000 sample_world = (Inr res, w') \<and>
    res_commitment_id res = 119 \<and> fs_view sample_hex [''store''] (w_host w') 119 0 = Some [1, 2, 3]"
proof -
  obtain res w' where r: "register_commitment_client sample_prims sample_merkle sample_node None
      (fs_chunk_store sample_hex [''store'']) 1 17 18 [1, 2, 3] [] 5 1000 sample_world = (Inr res, w')"
    "res_commitment_id res = 119"
    using sample_registration by auto
  obtain chunks where c: "chunk_payload None [1, 2, 3] = Inr chunks"
    "\<forall>i < length chunks. fs_view sample_hex [''store''] (w_host w') 119 i = Some (chunks ! i)"
    using registered_chunks_are_kept [OF r(1) hex_laws_sample] r(2) by auto
  have "chunk_payload None [1, 2, 3] = Inr [[1, 2, 3]]" by code_simp
  with c have "fs_view sample_hex [''store''] (w_host w') 119 0 = Some [1, 2, 3]" by auto
  with r show ?thesis by blast
qed

section \<open>Transactions\<close>

text \<open>
  C20. The dynamic transactions fit the extrinsics: each plain client, on every outcome, submits
  exactly one transaction, signed by its caller, with the name and the arguments (in order and
  type) of the pallet's call; and a transaction of this form stands for one call only.
\<close>

theorem clients_send_pallet_calls:
  "(w_sent (snd (acknowledge_commitment_client nd who cid c w))
     = w_sent w @ [(who, vdb_tx (AcknowledgeCommitment cid c))]) \<and>
   (w_sent (snd (close_commitment_client nd who cid c fh n w))
     = w_sent w @ [(who, vdb_tx (CloseCommitment cid c fh n))]) \<and>
   (w_sent (snd (raise_dispute_client nd who cid c i rh n w))
     = w_sent w @ [(who, vdb_tx (RaiseDispute cid c i rh n))]) \<and>
   (w_sent (snd (finalize_dispute_client nd who cid w)) = w_sent w @ [(who, vdb_tx (FinalizeDispute cid))]) \<and>
   (w_sent (snd (expire_commitment_client nd who cid w)) = w_sent w @ [(who, vdb_tx (ExpireCommitment cid))]) \<and>
   (w_sent (snd (submit_signed_registration pr nd who pubkey sig at caps meta lbl w))
     = w_sent w @ [(who, registry_tx (RegisterAgent pubkey sig at (ucast caps) meta lbl))]) \<and>
   (w_sent (snd (update_profile_client nd who d caps' meta lbl w))
     = w_sent w @ [(who, registry_tx (UpdateProfile d caps' meta lbl))]) \<and>
   (w_sent (snd (set_agent_status_client nd who d s w))
     = w_sent w @ [(who, registry_tx (SetAgentStatus d (pallet_status s)))]) \<and>
   (w_sent (snd (give_star_client nd who d r w)) = w_sent w @ [(who, registry_tx (GiveStar d r))]) \<and>
   (w_sent (snd (remove_star_client nd who d r w)) = w_sent w @ [(who, registry_tx (RemoveStar d r))]) \<and>
   (w_sent (snd (deregister_agent_client nd who d w)) = w_sent w @ [(who, registry_tx (DeregisterAgent d))]) \<and>
   (inj vdb_tx) \<and>
   (inj registry_tx)"
  by (simp_all only: simple_clients_send simple_registry_clients_send inj_def vdb_tx_inject
      registry_tx_inject simp_thms)

text \<open>
  The two clients that carry data never submit a call the pallet cannot decode: on every
  outcome they submit nothing, or one call within the bounds of the pallet's arguments, and the
  counter carries the stored chunk at the disputed index.
\<close>

lemma data_calls_are_bounded:
  assumes "register_commitment_client pr rm nd mode store who p c payload meta dt prc w = (r, w')"
    and "counter_dispute_client pr rm nd (fs_chunk_store hx root_dir) who cid p index count v = (q, v')"
  shows "(w_sent w' = w_sent w \<or>
      (\<exists>call. vdb_call_bounded call \<and> w_sent w' = w_sent w @ [(who, vdb_tx call)])) \<and>
    (w_sent v' = w_sent v \<or>
      (\<exists>data hashes. vdb_call_bounded (CounterDispute cid p data hashes) \<and>
         fs_view hx root_dir (w_host v) cid (unat index) = Some data \<and>
         w_sent v' = w_sent v @ [(who, vdb_tx (CounterDispute cid p data hashes))]))"
  using register_client_sends [OF assms(1)] fs.counter_client_sends [OF assms(2)] by blast

lemma data_calls_are_bounded_witness:
  "\<exists>call. vdb_call_bounded call \<and>
    w_sent (snd (register_commitment_client sample_prims sample_merkle sample_node None
      (fs_chunk_store sample_hex [''store'']) 1 17 18 [1, 2, 3] [] 5 1000 sample_world)) = [(1, vdb_tx call)]"
proof -
  obtain r w' where r: "register_commitment_client sample_prims sample_merkle sample_node None
      (fs_chunk_store sample_hex [''store'']) 1 17 18 [1, 2, 3] [] 5 1000 sample_world = (r, w')"
    "w_sent w' \<noteq> []"
    using sample_registration by fastforce
  obtain q v' where q: "counter_dispute_client sample_prims sample_merkle sample_node
      (fs_chunk_store sample_hex [''store'']) 1 119 17 0 1 provider_world = (q, v')" by fastforce
  have "w_sent sample_world = []" by (simp add: sample_world_def)
  with data_calls_are_bounded [OF r(1) q] r show ?thesis by auto
qed

section \<open>Chunking\<close>

text \<open>
  C35. Chunking loses nothing. In byte mode the chunks concatenate to the payload, every chunk but
  the last is full and none is empty. In row mode the chunks are the payload's non-empty lines
  (without a trailing carriage return), and the call fails exactly when there is none or one is
  longer than a chunk may be.
\<close>

theorem chunking_faithful:
  "(let chunks = slice_chunks CLIENT_MAX_CHUNK_LEN payload in
      (mode \<noteq> Some ''rows'' \<longrightarrow> chunk_payload mode payload = Inr chunks) \<and>
      concat chunks = payload \<and>
      (\<forall>c \<in> set chunks. 0 < length c \<and> length c \<le> MAX_CHUNK_LEN) \<and>
      (\<forall>i. Suc i < length chunks \<longrightarrow> length (chunks ! i) = MAX_CHUNK_LEN)) \<and>
   chunk_payload (Some ''rows'') payload =
     (let lines = filter (\<lambda>line. line \<noteq> []) (map strip_cr (split_on NEWLINE payload)) in
      if lines \<noteq> [] \<and> (\<forall>line \<in> set lines. length line \<le> MAX_CHUNK_LEN)
      then Inr lines else Inl EmptyPayload)"
proof -
  have bound: "CLIENT_MAX_CHUNK_LEN = MAX_CHUNK_LEN" and pos: "0 < MAX_CHUNK_LEN"
    by (simp_all add: CLIENT_MAX_CHUNK_LEN_def MAX_CHUNK_LEN_def)
  show ?thesis
    unfolding Let_def bound
    using chunk_payload_bytes [unfolded bound, of mode payload] slice_chunks_concat [OF pos]
      slice_chunks_sizes slice_chunks_full chunk_payload_rows [unfolded rows_def bound, of payload]
    by blast
qed

theorem chunking_faithful_witness:
  "chunk_payload None [65, 13, 10, 10, 66] = Inr [[65, 13, 10, 10, 66]] \<and>
   chunk_payload (Some ''rows'') [65, 13, 10, 10, 66] = Inr [[65], [66]]"
proof -
  have "slice_chunks CLIENT_MAX_CHUNK_LEN [65, 13, 10, 10, 66 :: u8] = [[65, 13, 10, 10, 66]]" by code_simp
  then show ?thesis
    using chunking_faithful [of "[65, 13, 10, 10, 66]" None]
    by (simp add: NEWLINE_def strip_cr_def CARRIAGE_RETURN_def MAX_CHUNK_LEN_def)
qed




text \<open>
  C37. Which leaf a counter proof is checked at. Below \<open>2 ^ 32\<close> chunks it is the disputed one.
  The runtime casts the 64-bit index to a 32-bit \<^verbatim>\<open>usize\<close>, so an index and the same index plus
  \<open>2 ^ 32\<close> are checked against the same leaf: in a larger commitment a dispute about one chunk can
  be refuted with another.
\<close>

theorem refutation_index_width:
  assumes "disputed_chunk_index d < total_chunks cm" "unat (total_chunks cm) < 2 ^ 32"
    and "disputed_chunk_index e' = disputed_chunk_index e + 2 ^ 32"
  shows "refutes cfg cm d data hashes = proof_verify (vdb_merkle cfg) (onchain_hasher (vdb_prims cfg))
      hashes (merkle_root cm) [unat (disputed_chunk_index d)] [blake2_256 (vdb_prims cfg) data]
      (unat (total_chunks cm)) \<and>
    refutes cfg cm' e' data hashes = refutes cfg cm' e data hashes"
proof -
  have "unat (disputed_chunk_index d) < 2 ^ 32" using assms(1,2) by (simp add: word_less_nat_alt)
  moreover have "as_usize (disputed_chunk_index e') = as_usize (disputed_chunk_index e)"
    unfolding assms(3) as_usize_def by (simp add: unsigned_ucast_eq word_unat_eq_iff unat_word_ariths
        take_bit_eq_mod mod_mod_cancel mod_add_eq)
  ultimately show ?thesis using assms(2) by (simp add: refutes_def unat_as_usize)
qed

theorem refutation_index_width_witness:
  "\<exists>cm (d :: dispute_record) e e'. disputed_chunk_index d < total_chunks cm \<and> unat (total_chunks cm) < 2 ^ 32 \<and>
    disputed_chunk_index e' = disputed_chunk_index e + 2 ^ 32 \<and>
    refutes (rt_vdb_config sample_currency sample_prims sample_merkle) cm e' [1, 2, 3] [3]
      = refutes (rt_vdb_config sample_currency sample_prims sample_merkle) cm e [1, 2, 3] [3]"
proof -
  define cm where "cm = fresh_commitment sample_prims 17 18 3 1 [] 1 5 1000"
  define e :: dispute_record where "e = \<lparr>dr_commitment_id = 119, dr_merkle_root = 3,
    received_chunk_hash = 5, disputed_chunk_index = 0, raised_at = 1, counter_deadline = 11, verdict = None\<rparr>"
  define e' where "e' = e\<lparr>disputed_chunk_index := 2 ^ 32\<rparr>"
  have "disputed_chunk_index e < total_chunks cm" "unat (total_chunks cm) < 2 ^ 32"
    "disputed_chunk_index e' = disputed_chunk_index e + 2 ^ 32"
    by (simp_all add: cm_def e_def e'_def)
  then show ?thesis
    using refutation_index_width [where d = e and cm = cm and e' = e' and e = e and cm' = cm and
        cfg = "rt_vdb_config sample_currency sample_prims sample_merkle" and data = "[1, 2, 3]" and
        hashes = "[3]"]
    by blast
qed

section \<open>Identities\<close>

text \<open>
  C8. The registration \<open>register_agent_client\<close> submits is one the pallet accepts: the DID, the
  challenge layout and the argument order of the client are those of the pallet, so with a correct
  ML-DSA, the genesis hash and a block of the node's chain inside the replay window, a free DID and
  the funds for the deposit, the call succeeds and makes the signer the controller of the
  client's DID.
\<close>

theorem registration_is_accepted:
  assumes "mldsa_correct (reg_prims cfg) kc"
    "os_random (w_host w) (os_clock (w_host w)) = Some f"
    "at_latest nd (w_node w) = (Inr (at, at_hash), n)"
    "block_hash h 0 = genesis_hash nd (w_node w)" "block_hash h at = at_hash"
    "at \<le> block_number h" "sat_sub (block_number h) at \<le> REPLAY_WINDOW"
    "d = derive_did (reg_prims cfg) (sk_public kc (sk_generate kc (map f [0..<32])))"
    "agent_profiles st d = None" "length (controller_agents st who) < MAX_AGENTS_PER_CONTROLLER"
    "reserve (reg_currency cfg) who (registration_deposit cfg) (ledger h) = Inr c"
    "length meta \<le> MAX_METADATA_LEN" "length lbl \<le> MAX_LABEL_LEN"
  shows "\<exists>call st' h' p.
    w_sent (snd (register_agent_client (reg_prims cfg) kc nd who caps meta lbl w))
      = w_sent w @ [(who, registry_tx call)] \<and> registry_call_bounded call \<and>
    dispatch_registry cfg (Signed who) call (st, h) = Inr (st', h') \<and>
    agent_profiles st' d = Some p \<and> controller p = who \<and> status p = agent_status.Active \<and> is_verified p"
  using register_client_sends_registration [OF assms(2,3), of "reg_prims cfg" kc who caps meta lbl]
    client_registration_accepted [OF assms(1,8,4,5,6,7,9,10,11,12,13), of caps]
  by blast

theorem registration_is_accepted_witness:
  "\<exists>call st' h' p.
    w_sent (snd (register_agent_client sample_prims sample_keys sample_node 1 1 [] [] sample_world))
      = [(1, registry_tx call)] \<and>
    dispatch_registry sample_registry_config (Signed 1) call (empty_registry, sample_host 5) = Inr (st', h') \<and>
    agent_profiles st' 48 = Some p \<and> controller p = 1"
proof -
  let ?f = "\<lambda>i. of_nat (0 + i) :: u8"
  have "is_ok (reserve sample_currency 1 RegistrationDeposit (ledger (sample_host 5)))" by code_simp
  then obtain c where c: "reserve sample_currency 1 RegistrationDeposit (ledger (sample_host 5)) = Inr c"
    by (rule is_okE)
  have os: "os_random (w_host sample_world) (os_clock (w_host sample_world)) = Some ?f"
    by (simp add: sample_world_def sample_os_def)
  have node: "at_latest sample_node (w_node sample_world) = (Inr (1, 0), ())"
    by (simp add: sample_node_def)
  have d: "48 = derive_did sample_prims (sk_public sample_keys (sk_generate sample_keys (map ?f [0..<32])))"
    by (simp add: derive_did_def did_preimage_def sample_prims_def sample_keys_def)
  have fresh: "(1 :: block_number) \<le> block_number (sample_host 5)"
    "sat_sub (block_number (sample_host 5)) 1 \<le> REPLAY_WINDOW"
    by code_simp+
  show ?thesis
    using registration_is_accepted [of sample_registry_config sample_keys sample_world ?f sample_node 1 0
        "()" "sample_host 5" 48 empty_registry 1 c "[]" "[]" 1] mldsa_correct_sample os node d fresh c
    by (simp add: sample_host_def sample_node_def empty_registry_def MAX_AGENTS_PER_CONTROLLER_def
        sample_registry_config_def rt_registry_config_def sample_world_def) blast
qed

text \<open>
  C31. Saving and loading an identity round-trips: after a successful \<open>save_identity\<close>, loading the
  label with the same passphrase returns the DID and the key bytes. The saved file is readable by
  its owner only, the directory is closed to others, and no other file changed.
\<close>

theorem keystore_roundtrip:
  assumes "crypto_laws cc" "save_identity cc dir lbl d key_bytes passphrase s0 = (Inr (), s1)"
    "file_at s (dir @ [lbl @ ''.json'']) = file_at s1 (dir @ [lbl @ ''.json''])"
    "\<not> faulty s" "\<not> faulty (tick s)"
  shows "load_identity cc dir lbl passphrase s =
      (Inr \<lparr>stored_did = d, stored_key_bytes = key_bytes\<rparr>, tick (tick s)) \<and>
    os_modes s1 (dir @ [lbl @ ''.json'']) = Some (octal 6 0 0) \<and> os_modes s1 dir = Some (octal 7 0 0) \<and>
    (\<forall>q. q \<noteq> dir @ [lbl @ ''.json''] \<longrightarrow> file_at s1 q = file_at s0 q)"
proof -
  have "load_identity cc dir lbl passphrase s =
      (Inr \<lparr>stored_did = d, stored_key_bytes = key_bytes\<rparr>, tick (tick s))"
    by (rule load_after_save(1) [OF assms])
  moreover have "os_modes s1 (dir @ [lbl @ ''.json'']) = Some (octal 6 0 0) \<and>
      os_modes s1 dir = Some (octal 7 0 0) \<and>
      (\<forall>q. q \<noteq> dir @ [lbl @ ''.json''] \<longrightarrow> file_at s1 q = file_at s0 q)"
    using assms(2) by (elim save_identity_ok) simp
  ultimately show ?thesis by blast
qed

theorem keystore_roundtrip_witness:
  "\<exists>s. save_identity sample_crypto [''keys''] ''me'' 48 [1, 2] ''pw'' sample_os = (Inr (), s) \<and>
    load_identity sample_crypto [''keys''] ''me'' ''pw'' s =
      (Inr \<lparr>stored_did = 48, stored_key_bytes = [1, 2]\<rparr>, tick (tick s))"
proof -
  have "validate_label ''me'' = Inr ()" by code_simp
  then obtain s where s: "save_identity sample_crypto [''keys''] ''me'' 48 [1, 2] ''pw'' sample_os = (Inr (), s)"
    using save_identity_live [of "''me''" sample_os "[''keys'']" sample_crypto "''pw''" "[1, 2]" 48]
      healthy_sample sample_crates_work by (auto simp: sample_os_def)
  have "os_fault s = os_fault sample_os" using s by (elim save_identity_ok)
  then have "\<not> faulty s" "\<not> faulty (tick s)" by (simp_all add: sample_os_def)
  from keystore_roundtrip [OF crypto_laws_sample s refl this] s show ?thesis by blast
qed



text \<open>
  The DID in a key file is not authenticated: replacing it in a file that \<open>save_identity\<close>
  wrote, and nothing else, makes \<open>load_identity\<close> return the other DID together with the original
  key, without an error.
\<close>

lemma stored_did_not_authenticated:
  assumes "crypto_laws cc" "validate_label lbl = Inr ()"
    "written_key_file cc d key_bytes passphrase salt nonce kf"
    "json_pretty cc (kf\<lparr>did_hex := hex_encode (hex_of cc) (h256_bytes d')\<rparr>) = Inr js"
    "file_at s (dir @ [lbl @ ''.json'']) = Some (ascii js)" "\<not> faulty s" "\<not> faulty (tick s)"
  shows "load_identity cc dir lbl passphrase s =
    (Inr \<lparr>stored_did = d', stored_key_bytes = key_bytes\<rparr>, tick (tick s))"
  by (rule load_identity_eval [OF assms(1-4) refl assms(5-7)])

lemma stored_did_not_authenticated_witness:
  "\<exists>s. load_identity sample_crypto [''keys''] ''me'' ''pw'' s =
    (Inr \<lparr>stored_did = 5, stored_key_bytes = [1, 2]\<rparr>, tick (tick s))"
proof -
  define kf where "kf = \<lparr>version = 1, did_hex = hex_encode (hex_of sample_crypto) (h256_bytes 48),
    salt_b64 = base64_encode sample_crypto [], nonce_b64 = base64_encode sample_crypto (replicate 12 0),
    ciphertext_b64 = base64_encode sample_crypto [1, 2, 0]\<rparr>"
  define kf' where "kf' = kf\<lparr>did_hex := hex_encode (hex_of sample_crypto) (h256_bytes 5)\<rparr>"
  define s where "s = sample_os\<lparr>os_files := [([''keys'', ''me.json''], ascii (sample_json kf'))]\<rparr>"
  have w: "written_key_file sample_crypto 48 [1, 2] ''pw'' [] (replicate 12 0) kf"
    by (simp add: written_key_file_def kf_def NONCE_LEN_def derive_key_def sample_crypto_def)
  have v: "validate_label ''me'' = Inr ()" by code_simp
  have j: "json_pretty sample_crypto (kf\<lparr>did_hex := hex_encode (hex_of sample_crypto) (h256_bytes 5)\<rparr>)
      = Inr (sample_json kf')"
    by (simp add: sample_crypto_def kf'_def)
  have f: "file_at s ([''keys''] @ [''me'' @ ''.json'']) = Some (ascii (sample_json kf'))"
    "\<not> faulty s" "\<not> faulty (tick s)"
    by (simp_all add: s_def sample_os_def)
  from stored_did_not_authenticated [OF crypto_laws_sample v w j f] show ?thesis by blast
qed

text \<open>
  \<open>register_or_load_agent\<close> is idempotent: after it returned an agent, every later call with the
  same label and passphrase, while the key file is as it was left, returns the same agent and
  submits nothing.
\<close>

lemma register_or_load_idempotent:
  assumes "register_or_load_agent pr kc cc nd who dir lbl passphrase caps meta dl w = (Inr agent, w1)"
    "crypto_laws cc" "healthy (w_host w)" "healthy (w_host w2)"
    "file_at (w_host w2) (dir @ [lbl @ ''.json'']) = file_at (w_host w1) (dir @ [lbl @ ''.json''])"
  shows "\<exists>s. register_or_load_agent pr kc cc nd' who' dir lbl passphrase caps' meta' dl' w2
    = (Inr agent, w2\<lparr>w_host := s\<rparr>)"
proof -
  have t: "\<not> faulty (tick (w_host w2))" "\<not> faulty (tick (tick (w_host w2)))"
    using healthy_ticks [OF assms(4)] by simp_all
  have "file_at (tick (w_host w2)) (dir @ [lbl @ ''.json'']) = file_at (w_host w1) (dir @ [lbl @ ''.json''])"
    using assms(5) by simp
  from register_or_load_stored [OF assms(1-3) this t]
  have l: "load_identity cc dir lbl passphrase (tick (w_host w2)) =
      (Inr \<lparr>stored_did = agent_did agent, stored_key_bytes = signing_key_bytes agent\<rparr>,
       tick (tick (tick (w_host w2))))"
    and v: "validate_label lbl = Inr ()" and p: "file_at (w_host w2) (dir @ [lbl @ ''.json'']) \<noteq> None"
    by simp_all
  show ?thesis
    using register_or_load_loads [OF v assms(4) p l,
        where pr = pr and kc = kc and nd = nd' and who = who' and caps = caps' and meta = meta' and dl = dl']
    by auto
qed


lemma register_or_load_idempotent_witness:
  "\<exists>agent w1 s. register_or_load_agent sample_prims sample_keys sample_crypto sample_node 1 [''keys''] ''me''
      ''pw'' 1 [] [] sample_world = (Inr agent, w1) \<and>
    register_or_load_agent sample_prims sample_keys sample_crypto sample_node 1 [''keys''] ''me''
      ''pw'' 1 [] [] w1 = (Inr agent, w1\<lparr>w_host := s\<rparr>)"
proof -
  have h: "healthy (w_host sample_world)" using healthy_sample by (simp add: sample_world_def)
  have v: "validate_label ''me'' = Inr ()" by code_simp
  obtain agent w1 where r: "register_or_load_agent sample_prims sample_keys sample_crypto sample_node 1
      [''keys''] ''me'' ''pw'' 1 [] [] sample_world = (Inr agent, w1)"
    using register_or_load_fresh [OF v h cooperative_sample, of "[''keys'']" sample_crypto "''pw''"
        sample_prims sample_keys 1 1 "[]" "[]"] sample_crates_work
    by (auto simp: sample_world_def sample_os_def)
  have h1: "healthy (w_host w1)" using register_or_load_healthy [OF r h] .
  from register_or_load_idempotent [OF r crypto_laws_sample h h1 refl] r show ?thesis by blast
qed



end
