(* ===== verification/Rust_Text.thy ===== *)
theory Rust_Text
  imports Keystore
begin

text \<open>
  The string operations of Rust's standard library that the binaries use, and environment variables. A string is the list of
  the characters its UTF-8 bytes stand for; all separators and digits are ASCII, so working on
  bytes is working on characters.
\<close>

section \<open>Lossy decoding\<close>

text \<open>
  One step of \<^verbatim>\<open>String::from_utf8_lossy\<close>: \<open>Inr k\<close> when the input starts with a well-formed sequence of
  \<open>k\<close> bytes, \<open>Inl k\<close> when its first \<open>k\<close> bytes are replaced by U+FFFD.
\<close>

definition cont_byte :: "u8 \<Rightarrow> bool" where
  "cont_byte b \<longleftrightarrow> 0x80 \<le> b \<and> b \<le> 0xBF"

definition second_ok :: "u8 \<Rightarrow> u8 \<Rightarrow> bool" where
  "second_ok a b \<longleftrightarrow> cont_byte b \<and> (a = 0xE0 \<longrightarrow> 0xA0 \<le> b) \<and> (a = 0xED \<longrightarrow> b \<le> 0x9F) \<and>
     (a = 0xF0 \<longrightarrow> 0x90 \<le> b) \<and> (a = 0xF4 \<longrightarrow> b \<le> 0x8F)"

fun utf8_step :: "bytes \<Rightarrow> nat + nat" where
  "utf8_step [] = Inl 0"
| "utf8_step (a # bs) =
     (if a < 0x80 then Inr 1
      else if a < 0xC2 \<or> 0xF4 < a then Inl 1
      else case bs of
        [] \<Rightarrow> Inl 1
      | b # cs \<Rightarrow>
          if \<not> second_ok a b then Inl 1
          else if a \<le> 0xDF then Inr 2
          else case cs of
            [] \<Rightarrow> Inl 2
          | c # ds \<Rightarrow>
              if \<not> cont_byte c then Inl 2
              else if a \<le> 0xEF then Inr 3
              else case ds of
                [] \<Rightarrow> Inl 3
              | d # _ \<Rightarrow> if cont_byte d then Inr 4 else Inl 3)"

definition REPLACEMENT :: string where
  "REPLACEMENT = string_of [0xEF, 0xBF, 0xBD]"

function utf8_lossy :: "bytes \<Rightarrow> string" where
  "utf8_lossy bs =
     (if bs = [] then []
      else case utf8_step bs of
        Inr k \<Rightarrow> string_of (take k bs) @ utf8_lossy (drop (max 1 k) bs)
      | Inl k \<Rightarrow> REPLACEMENT @ utf8_lossy (drop (max 1 k) bs))"
  by pat_completeness auto
termination
  by (relation "measure length") auto

declare utf8_lossy.simps [simp del]

lemma utf8_lossy_ascii: "\<forall>b \<in> set bs. b < 0x80 \<Longrightarrow> utf8_lossy bs = string_of bs"
proof (induction bs)
  case Nil
  then show ?case by (simp add: utf8_lossy.simps string_of_def)
next
  case (Cons a bs)
  then show ?case by (subst utf8_lossy.simps) (simp add: string_of_def)
qed

section \<open>Splitting and trimming\<close>

definition strip_prefix :: "string \<Rightarrow> string \<Rightarrow> string option" where
  "strip_prefix p s = (if take (length p) s = p then Some (drop (length p) s) else None)"

definition starts_with :: "string \<Rightarrow> string \<Rightarrow> bool" where
  "starts_with s p \<longleftrightarrow> take (length p) s = p"

text \<open>\<^verbatim>\<open>s.split(p)\<close> for a non-empty string pattern \<open>p\<close>.\<close>

fun split_str_acc :: "string \<Rightarrow> string \<Rightarrow> string \<Rightarrow> nat \<Rightarrow> string list" where
  "split_str_acc p acc [] skip = [acc]"
| "split_str_acc p acc (c # cs) (Suc skip) = split_str_acc p acc cs skip"
| "split_str_acc p acc (c # cs) 0 =
     (if starts_with (c # cs) p then acc # split_str_acc p [] cs (length p - 1)
      else split_str_acc p (acc @ [c]) cs 0)"

definition split_str :: "string \<Rightarrow> string \<Rightarrow> string list" where
  "split_str p s = split_str_acc p [] s 0"

definition nth_or_empty :: "nat \<Rightarrow> string list \<Rightarrow> string" where
  "nth_or_empty n xs = (if n < length xs then xs ! n else [])"

text \<open>\<^verbatim>\<open>s.lines()\<close>: an empty last line does not count, and a line loses one trailing carriage return.\<close>

definition drop_cr :: "string \<Rightarrow> string" where
  "drop_cr l = (if l \<noteq> [] \<and> last l = char_of (13 :: nat) then butlast l else l)"

definition lines_of :: "string \<Rightarrow> string list" where
  "lines_of s = (let ls = split_on (char_of (10 :: nat)) s in
     map drop_cr (if last ls = [] then butlast ls else ls))"

text \<open>
  \<^verbatim>\<open>trim\<close> removes the characters with the Unicode property White_Space; these are their UTF-8
  encodings.
\<close>

definition WHITESPACE :: "string list" where
  "WHITESPACE = map (map char_of) ([[9], [10], [11], [12], [13], [32], [0xC2, 0x85], [0xC2, 0xA0],
     [0xE1, 0x9A, 0x80], [0xE2, 0x80, 0xA8], [0xE2, 0x80, 0xA9], [0xE2, 0x80, 0xAF],
     [0xE2, 0x81, 0x9F], [0xE3, 0x80, 0x80]] @ map (\<lambda>k. [0xE2, 0x80, 0x80 + k]) [0..<11 :: nat])"

function drop_leading :: "string list \<Rightarrow> string \<Rightarrow> string" where
  "drop_leading ws s = (case List.find (\<lambda>w. w \<noteq> [] \<and> take (length w) s = w) ws of
       None \<Rightarrow> s
     | Some w \<Rightarrow> drop_leading ws (drop (length w) s))"
  by pat_completeness auto
termination
proof (relation "measure (\<lambda>(ws, s). length s)")
  fix ws and s w :: string
  assume "List.find (\<lambda>w. w \<noteq> [] \<and> take (length w) s = w) ws = Some w"
  then have "w \<noteq> []" "take (length w) s = w" by (auto simp: find_Some_iff)
  then show "((ws, drop (length w) s), ws, s) \<in> measure (\<lambda>(ws, s). length s)" by (cases s) auto
qed simp

declare drop_leading.simps [simp del]

definition trim :: "string \<Rightarrow> string" where
  "trim s = rev (drop_leading (map rev WHITESPACE) (rev (drop_leading WHITESPACE s)))"

text \<open>\<^verbatim>\<open>trim_start_matches("0x")\<close> removes every leading occurrence.\<close>

fun trim_0x :: "string \<Rightarrow> string" where
  "trim_0x (a # b # cs) = (if [a, b] = ''0x'' then trim_0x cs else a # b # cs)"
| "trim_0x s = s"

definition ascii_lower :: "char \<Rightarrow> char" where
  "ascii_lower c = (let n = of_char c :: nat in if 65 \<le> n \<and> n \<le> 90 then char_of (n + 32) else c)"

definition to_ascii_lowercase :: "string \<Rightarrow> string" where
  "to_ascii_lowercase s = map ascii_lower s"

section \<open>Numbers\<close>

text \<open>
  \<^verbatim>\<open>s.parse()\<close> to an unsigned integer below \<open>bound\<close>: an optional plus sign and at least one decimal
  digit, nothing else, and no overflow.
\<close>

definition digit_value :: "char \<Rightarrow> nat option" where
  "digit_value c = (let n = of_char c :: nat in if 48 \<le> n \<and> n \<le> 57 then Some (n - 48) else None)"

fun parse_digits :: "nat \<Rightarrow> nat \<Rightarrow> string \<Rightarrow> nat option" where
  "parse_digits bound acc [] = Some acc"
| "parse_digits bound acc (c # cs) = (case digit_value c of
       None \<Rightarrow> None
     | Some d \<Rightarrow> if acc * 10 + d < bound then parse_digits bound (acc * 10 + d) cs else None)"

definition parse_uint :: "nat \<Rightarrow> string \<Rightarrow> nat option" where
  "parse_uint bound s =
     (let ds = (case s of c # cs \<Rightarrow> if c = CHR ''+'' then cs else s | [] \<Rightarrow> []) in
      if ds = [] then None else parse_digits bound 0 ds)"

lemma parse_digits_bound: "parse_digits bound acc s = Some n \<Longrightarrow> acc < bound \<Longrightarrow> n < bound"
  by (induction bound acc s rule: parse_digits.induct) (auto split: option.splits if_splits)

lemma parse_digits_append:
  "parse_digits bound acc (xs @ ys) = Option.bind (parse_digits bound acc xs) (\<lambda>n. parse_digits bound n ys)"
  by (induction bound acc xs rule: parse_digits.induct) (auto split: option.splits)

lemma digit_value_char: "d < 10 \<Longrightarrow> digit_value (digit_char d) = Some d"
  by (simp add: digit_value_def digit_char_def)

lemma parse_show_digits: "n < bound \<Longrightarrow> parse_digits bound 0 (show_nat n) = Some n"
proof (induction n rule: show_nat.induct)
  case (1 n)
  show ?case
  proof (cases "n < 10")
    case True
    then show ?thesis using "1.prems" by (subst show_nat.simps) (simp add: digit_value_char)
  next
    case False
    then have "parse_digits bound 0 (show_nat (n div 10)) = Some (n div 10)"
      using 1 by simp
    then show ?thesis
      using False "1.prems" by (subst show_nat.simps) (simp add: parse_digits_append digit_value_char)
  qed
qed

section \<open>Environment variables\<close>

text \<open>\<^verbatim>\<open>env::var\<close> fails for a variable that is unset or not Unicode, which is \<open>None\<close>.\<close>

type_synonym environ = "string \<Rightarrow> string option"

definition var_or :: "environ \<Rightarrow> string \<Rightarrow> string \<Rightarrow> string" where
  "var_or env name fallback = (case env name of Some s \<Rightarrow> s | None \<Rightarrow> fallback)"

end
