(* ===== verification/Vdb_Main.thy ===== *)
theory Vdb_Main
  imports Vdb_Client Rust_Text
begin

text \<open>
  \<^verbatim>\<open>offchain-vector-db/src/main.rs\<close>: the command-line program over the vector-db clients. It is driven
  by environment variables (\<open>environ\<close>); each \<^verbatim>\<open>ACTION\<close> is a definition that returns the lines printed
  to standard output. An error that makes the program exit with status 1 carries the client's error.
\<close>

section \<open>Environment\<close>

text \<open>\<^verbatim>\<open>env::var(name).ok().and_then(|s| s.parse().ok()).unwrap_or(n)\<close> for an integer below \<open>bound\<close>.\<close>

definition parse_or :: "nat \<Rightarrow> environ \<Rightarrow> string \<Rightarrow> nat \<Rightarrow> nat" where
  "parse_or bound env name fallback = (case Option.bind (env name) (parse_uint bound) of
       Some n \<Rightarrow> n
     | None \<Rightarrow> fallback)"

datatype cli_error =
    VarError string
  | FromHexError
  | BadHex32 string
  | CliSubxt subxt_error
  | ParseIntError
  | RegisterFailed register_commitment_error
  | AcknowledgeFailed acknowledge_commitment_error
  | CloseFailed close_commitment_error
  | RaiseFailed raise_dispute_error
  | CounterFailed counter_dispute_error
  | FinalizeFailed finalize_dispute_error

text \<open>
  What the program gets from other crates: the node, the storage read of an account (rendered as
  text), hexadecimal, the Merkle crate, and the account of an sr25519 secret.
\<close>

record ('n, 'vk, 'sg, 't) cli_config =
  cli_node :: "'n chain_node"
  cli_connect :: "string \<Rightarrow> ('n, subxt_error, unit) io"
  cli_fetch_account :: "account_id \<Rightarrow> ('n, subxt_error, string option) io"
  cli_prims :: "('vk, 'sg) prims"
  cli_merkle :: "'t rs_merkle"
  cli_hex :: hex_crate
  cli_keypair :: "bytes \<Rightarrow> string + account_id"
  dev_alice :: account_id
  dev_bob :: account_id

type_synonym ('n, 'a) cli_io = "(('n, os) world, cli_error fault, 'a) io"

definition hex32 :: "('n, 'vk, 'sg, 't) cli_config \<Rightarrow> environ \<Rightarrow> string \<Rightarrow> cli_error fault + h256" where
  "hex32 cfg env name =
     try_then (ok_or (env name) (Err (VarError name))) (\<lambda>raw.
     try_then (ok_or (hex_decode (cli_hex cfg) (trim_0x (trim raw))) (Err FromHexError)) (\<lambda>b.
     ensure (length b = 32) (Err (BadHex32 name)) (Inr (bytes_h256 b))))"

text \<open>
  \<^verbatim>\<open>CONTROLLER_SEED\<close>: text that is not hexadecimal, has another length than 32 bytes
  (\<^verbatim>\<open>copy_from_slice\<close>) or is no secret key panics.
\<close>

definition seed_account :: "('n, 'vk, 'sg, 't) cli_config \<Rightarrow> string \<Rightarrow> cli_error fault + account_id" where
  "seed_account cfg s =
     try_then (ok_or (hex_decode (cli_hex cfg) (trim_0x (trim s))) Panic) (\<lambda>raw.
     ensure (length raw = 32) Panic (map_err (\<lambda>_. Panic) (cli_keypair cfg raw)))"

definition seed_or ::
  "('n, 'vk, 'sg, 't) cli_config \<Rightarrow> environ \<Rightarrow> account_id \<Rightarrow> cli_error fault + account_id" where
  "seed_or cfg env fallback = (case env ''CONTROLLER_SEED'' of
       Some s \<Rightarrow> if trim s \<noteq> [] then seed_account cfg s else Inr fallback
     | None \<Rightarrow> Inr fallback)"

definition signer_from_env ::
  "('n, 'vk, 'sg, 't) cli_config \<Rightarrow> environ \<Rightarrow> cli_error fault + account_id" where
  "signer_from_env cfg env =
     seed_or cfg env (if var_or env ''SIGNER'' ''bob'' = ''alice'' then dev_alice cfg else dev_bob cfg)"

definition STORE_ROOT :: path where
  "STORE_ROOT = path_of ''/tmp/arthneura-offchain-store''"

section \<open>The actions\<close>

definition action_balance :: "('n, 'vk, 'sg, 't) cli_config \<Rightarrow> environ \<Rightarrow> ('n, string list) cli_io" where
  "action_balance cfg env =
     (let who = var_or env ''SIGNER'' ''alice'' in
      io_then (io_lift (signer_from_env cfg env)) (\<lambda>signer.
      io_then (io_map_err (\<lambda>e. Err (CliSubxt e)) (on_node (cli_fetch_account cfg signer))) (\<lambda>found.
      io_return [''BALANCE_RAW_'' @ who @ ''='' @
        (case found of Some val \<Rightarrow> val | None \<Rightarrow> ''MISSING'')])))"

definition action_raise :: "('n, 'vk, 'sg, 't) cli_config \<Rightarrow> environ \<Rightarrow> ('n, string list) cli_io" where
  "action_raise cfg env =
     io_then (io_lift (hex32 cfg env ''COMMITMENT_ID'')) (\<lambda>cid.
     io_then (io_lift (hex32 cfg env ''CONSUMER_DID'')) (\<lambda>consumer_did.
     let index = of_nat (parse_or (2 ^ 64) env ''CHUNK_INDEX'' 0);
         chunks = of_nat (parse_or (2 ^ 64) env ''TOTAL_CHUNKS'' 1) in
     io_then (io_lift (hex32 cfg env ''RECEIVED_CHUNK_HASH'')) (\<lambda>bad.
     io_then (io_lift (signer_from_env cfg env)) (\<lambda>signer.
     io_then (io_map_err (\<lambda>e. Err (RaiseFailed e))
       (raise_dispute_client (cli_node cfg) signer cid consumer_did index bad chunks)) (\<lambda>_.
     io_return [''RAISE=OK''])))))"

definition action_counter :: "('n, 'vk, 'sg, 't) cli_config \<Rightarrow> environ \<Rightarrow> ('n, string list) cli_io" where
  "action_counter cfg env =
     io_then (io_lift (hex32 cfg env ''COMMITMENT_ID'')) (\<lambda>cid.
     io_then (io_lift (hex32 cfg env ''PROVIDER_DID'')) (\<lambda>provider_did.
     let index = of_nat (parse_or (2 ^ 64) env ''CHUNK_INDEX'' 0);
         chunks = of_nat (parse_or (2 ^ 64) env ''TOTAL_CHUNKS'' 1) in
     io_then (io_lift (signer_from_env cfg env)) (\<lambda>signer.
     io_then (io_map_err (lift_fault CounterFailed)
       (counter_dispute_client (cli_prims cfg) (cli_merkle cfg) (cli_node cfg)
          (fs_chunk_store (cli_hex cfg) STORE_ROOT) signer cid provider_did index chunks)) (\<lambda>_.
     io_return [''COUNTER=OK'']))))"

definition action_finalize :: "('n, 'vk, 'sg, 't) cli_config \<Rightarrow> environ \<Rightarrow> ('n, string list) cli_io" where
  "action_finalize cfg env =
     io_then (io_lift (hex32 cfg env ''COMMITMENT_ID'')) (\<lambda>cid.
     io_then (io_lift (signer_from_env cfg env)) (\<lambda>signer.
     io_then (io_map_err (\<lambda>e. Err (FinalizeFailed e))
       (finalize_dispute_client (cli_node cfg) signer cid)) (\<lambda>_.
     io_return [''FINALIZE=OK''])))"

definition action_acknowledge :: "('n, 'vk, 'sg, 't) cli_config \<Rightarrow> environ \<Rightarrow> ('n, string list) cli_io" where
  "action_acknowledge cfg env =
     io_then (io_lift (hex32 cfg env ''COMMITMENT_ID'')) (\<lambda>cid.
     io_then (io_lift (hex32 cfg env ''CONSUMER_DID'')) (\<lambda>consumer_did.
     io_then (io_lift (signer_from_env cfg env)) (\<lambda>signer.
     io_then (io_map_err (\<lambda>e. Err (AcknowledgeFailed e))
       (acknowledge_commitment_client (cli_node cfg) signer cid consumer_did)) (\<lambda>_.
     io_return [''acknowledge_commitment succeeded: commitment_id=0x'' @
       hex_encode (cli_hex cfg) (h256_bytes cid)]))))"

definition transfer_allow_death_tx :: "h256 \<Rightarrow> u128 \<Rightarrow> dyn_tx" where
  "transfer_allow_death_tx dest funding =
     \<lparr>tx_pallet = ''Balances'', tx_call = ''transfer_allow_death'',
      tx_args = [DynVariant ''Id'' [dyn_h256 dest], DynU128 funding]\<rparr>"

definition action_transfer :: "('n, 'vk, 'sg, 't) cli_config \<Rightarrow> environ \<Rightarrow> ('n, string list) cli_io" where
  "action_transfer cfg env =
     io_then (io_lift (hex32 cfg env ''TO'')) (\<lambda>to.
     io_then (io_lift (ok_or (parse_uint (2 ^ 128) (var_or env ''AMOUNT'' ''100'')) (Err ParseIntError)))
       (\<lambda>funding.
     io_then (io_map_err (\<lambda>e. Err (CliSubxt e))
       (submit (cli_node cfg) (dev_alice cfg) (transfer_allow_death_tx to (of_nat funding)))) (\<lambda>_.
     io_return [''TRANSFER=OK''])))"

definition action_close :: "('n, 'vk, 'sg, 't) cli_config \<Rightarrow> environ \<Rightarrow> ('n, string list) cli_io" where
  "action_close cfg env =
     io_then (io_lift (hex32 cfg env ''COMMITMENT_ID'')) (\<lambda>cid.
     io_then (io_lift (hex32 cfg env ''CONSUMER_DID'')) (\<lambda>consumer_did.
     io_then (io_lift (hex32 cfg env ''MERKLE_ROOT'')) (\<lambda>root.
     let chunks = of_nat (parse_or (2 ^ 64) env ''TOTAL_CHUNKS'' 1) in
     io_then (io_lift (signer_from_env cfg env)) (\<lambda>signer.
     io_then (io_map_err (\<lambda>e. Err (CloseFailed e))
       (close_commitment_client (cli_node cfg) signer cid consumer_did root chunks)) (\<lambda>_.
     io_return [''close_commitment succeeded: commitment_id=0x'' @
       hex_encode (cli_hex cfg) (h256_bytes cid)])))))"

text \<open>
  Registration: the payload and the schema have defaults, \<^verbatim>\<open>MERKLE_ROOT\<close> replaces the root in what is
  printed.
\<close>

definition env_payload :: "environ \<Rightarrow> bytes" where
  "env_payload env = (case env ''PAYLOAD'' of
       Some s \<Rightarrow> if s \<noteq> [] then ascii s else ascii ''arthneura stamp payload''
     | None \<Rightarrow> ascii ''arthneura stamp payload'')"

definition env_schema :: "environ \<Rightarrow> bytes" where
  "env_schema env = ascii (case map_option trim (env ''SCHEMA'') of
       Some s \<Rightarrow> if s \<noteq> [] then s else ''csv.v1''
     | None \<Rightarrow> ''csv.v1'')"

definition provided_root :: "('n, 'vk, 'sg, 't) cli_config \<Rightarrow> environ \<Rightarrow> h256 option" where
  "provided_root cfg env =
     Option.bind (env ''MERKLE_ROOT'') (\<lambda>s.
     Option.bind (hex_decode (cli_hex cfg) (trim_0x (trim s))) (\<lambda>b.
     if length b = 32 then Some (bytes_h256 b) else None))"

definition register_report :: "hex_crate \<Rightarrow> register_commitment_result \<Rightarrow> string list" where
  "register_report hx res =
     (let cid = hex_encode hx (h256_bytes (res_commitment_id res));
          root = hex_encode hx (h256_bytes (res_merkle_root res));
          n = show_nat (unat (res_total_chunks res)) in
      [''register_commitment succeeded: commitment_id=0x'' @ cid @ '' merkle_root=0x'' @ root
         @ '' total_chunks='' @ n,
       ''COMMITMENT_ID=0x'' @ cid, ''MERKLE_ROOT=0x'' @ root, ''TOTAL_CHUNKS='' @ n])"

definition action_register :: "('n, 'vk, 'sg, 't) cli_config \<Rightarrow> environ \<Rightarrow> ('n, string list) cli_io" where
  "action_register cfg env =
     io_then (io_lift (hex32 cfg env ''PROVIDER_DID'')) (\<lambda>provider_did.
     io_then (io_lift (hex32 cfg env ''CONSUMER_DID'')) (\<lambda>consumer_did.
     let expires = of_nat (parse_or (2 ^ 32) env ''EXPIRES_IN_BLOCKS'' 1000);
         prc = of_nat (parse_or (2 ^ 128) env ''PRICE'' 75) in
     io_then (io_lift (seed_or cfg env (dev_alice cfg))) (\<lambda>signer.
     io_then (io_map_err (lift_fault RegisterFailed)
       (register_commitment_client (cli_prims cfg) (cli_merkle cfg) (cli_node cfg) (env ''CHUNK_MODE'')
          (fs_chunk_store (cli_hex cfg) STORE_ROOT) signer provider_did consumer_did (env_payload env)
          (env_schema env) expires prc)) (\<lambda>res.
     io_return (register_report (cli_hex cfg) (case provided_root cfg env of
         Some r \<Rightarrow> res\<lparr>res_merkle_root := r\<rparr>
       | None \<Rightarrow> res))))))"

definition vdb_main :: "('n, 'vk, 'sg, 't) cli_config \<Rightarrow> environ \<Rightarrow> ('n, string list) cli_io" where
  "vdb_main cfg env =
     (let ws = var_or env ''CHAIN_WS'' ''ws://127.0.0.1:9944'';
          action = var_or env ''ACTION'' ''register'' in
      io_then (io_map_err (\<lambda>e. Err (CliSubxt e)) (on_node (cli_connect cfg ws))) (\<lambda>_.
      if action = ''balance'' then action_balance cfg env
      else if action = ''raise'' then action_raise cfg env
      else if action = ''counter'' then action_counter cfg env
      else if action = ''finalize'' then action_finalize cfg env
      else if action = ''acknowledge'' then action_acknowledge cfg env
      else if action = ''transfer'' then action_transfer cfg env
      else if action = ''close'' then action_close cfg env
      else action_register cfg env))"

section \<open>What each action may submit\<close>

text \<open>
  The one transaction an environment asks for: the signer, the call and where its arguments come
  from. \<^verbatim>\<open>balance\<close> submits nothing.
\<close>

definition env_index :: "environ \<Rightarrow> u64" where
  "env_index env = of_nat (parse_or (2 ^ 64) env ''CHUNK_INDEX'' 0)"

definition env_chunks :: "environ \<Rightarrow> u64" where
  "env_chunks env = of_nat (parse_or (2 ^ 64) env ''TOTAL_CHUNKS'' 1)"

definition asked_by_env ::
  "('n, 'vk, 'sg, 't) cli_config \<Rightarrow> environ \<Rightarrow> string \<Rightarrow> account_id \<times> dyn_tx \<Rightarrow> bool" where
  "asked_by_env cfg env action x = (case x of (who, tx) \<Rightarrow>
     let arg = hex32 cfg env; signed = (signer_from_env cfg env = Inr who) in
     if action = ''balance'' then False
     else if action = ''raise'' then signed \<and>
       (\<exists>cid c rh. arg ''COMMITMENT_ID'' = Inr cid \<and> arg ''CONSUMER_DID'' = Inr c \<and>
          arg ''RECEIVED_CHUNK_HASH'' = Inr rh \<and>
          tx = vdb_tx (RaiseDispute cid c (env_index env) rh (env_chunks env)))
     else if action = ''counter'' then signed \<and>
       (\<exists>cid p data hashes. arg ''COMMITMENT_ID'' = Inr cid \<and> arg ''PROVIDER_DID'' = Inr p \<and>
          vdb_call_bounded (CounterDispute cid p data hashes) \<and> tx = vdb_tx (CounterDispute cid p data hashes))
     else if action = ''finalize'' then signed \<and>
       (\<exists>cid. arg ''COMMITMENT_ID'' = Inr cid \<and> tx = vdb_tx (FinalizeDispute cid))
     else if action = ''acknowledge'' then signed \<and>
       (\<exists>cid c. arg ''COMMITMENT_ID'' = Inr cid \<and> arg ''CONSUMER_DID'' = Inr c \<and>
          tx = vdb_tx (AcknowledgeCommitment cid c))
     else if action = ''transfer'' then who = dev_alice cfg \<and>
       (\<exists>to n. arg ''TO'' = Inr to \<and> parse_uint (2 ^ 128) (var_or env ''AMOUNT'' ''100'') = Some n \<and>
          tx = transfer_allow_death_tx to (of_nat n))
     else if action = ''close'' then signed \<and>
       (\<exists>cid c root. arg ''COMMITMENT_ID'' = Inr cid \<and> arg ''CONSUMER_DID'' = Inr c \<and>
          arg ''MERKLE_ROOT'' = Inr root \<and> tx = vdb_tx (CloseCommitment cid c root (env_chunks env)))
     else seed_or cfg env (dev_alice cfg) = Inr who \<and>
       (\<exists>p c chunks root tree. arg ''PROVIDER_DID'' = Inr p \<and> arg ''CONSUMER_DID'' = Inr c \<and>
          chunk_payload (env ''CHUNK_MODE'') (env_payload env) = Inr chunks \<and>
          build_merkle_tree (cli_prims cfg) (cli_merkle cfg) chunks = Some (root, tree) \<and>
          tx = vdb_tx (RegisterCommitment p c root (of_nat (length chunks)) (env_schema env)
            (of_nat (parse_or (2 ^ 32) env ''EXPIRES_IN_BLOCKS'' 1000))
            (of_nat (parse_or (2 ^ 128) env ''PRICE'' 75)))))"

lemma sends_one_submit: "Q (who, tx) \<Longrightarrow> sends_one Q (submit nd who tx)"
  by (rule sends_oneI [of _ "(who, tx)"]) (simp_all add: submit_sent)

lemma sends_one_counter:
  assumes "\<And>data hashes. vdb_call_bounded (CounterDispute cid p data hashes) \<Longrightarrow>
    Q (who, vdb_tx (CounterDispute cid p data hashes))"
  shows "sends_one Q (counter_dispute_client pr rm nd (fs_chunk_store hx root_dir) who cid p index count)"
  by (rule sends_one_cases) (drule fs.counter_client_sends, use assms in metis)

lemma sends_one_register:
  assumes "\<And>chunks root tree. chunk_payload mode payload = Inr chunks \<Longrightarrow>
    build_merkle_tree pr rm chunks = Some (root, tree) \<Longrightarrow>
    Q (who, vdb_tx (RegisterCommitment p c root (of_nat (length chunks)) meta dt prc))"
  shows "sends_one Q (register_commitment_client pr rm nd mode store who p c payload meta dt prc)"
  by (rule sends_one_cases) (drule register_client_sends, use assms in metis)

lemma sends_one_simple:
  "Q (who, vdb_tx (AcknowledgeCommitment cid c)) \<Longrightarrow> sends_one Q (acknowledge_commitment_client nd who cid c)"
  "Q (who, vdb_tx (CloseCommitment cid c fh n)) \<Longrightarrow> sends_one Q (close_commitment_client nd who cid c fh n)"
  "Q (who, vdb_tx (RaiseDispute cid c i rh n)) \<Longrightarrow> sends_one Q (raise_dispute_client nd who cid c i rh n)"
  "Q (who, vdb_tx (FinalizeDispute cid)) \<Longrightarrow> sends_one Q (finalize_dispute_client nd who cid)"
  by (erule sends_oneI [rotated], rule simple_clients_send)+

lemmas sends_one_clients = sends_one_simple sends_one_submit sends_one_counter sends_one_register

lemmas action_defs = action_balance_def action_raise_def action_counter_def action_finalize_def
  action_acknowledge_def action_transfer_def action_close_def action_register_def

lemma actions_send:
  "sends_one (asked_by_env cfg env ''balance'') (action_balance cfg env)"
  "sends_one (asked_by_env cfg env ''raise'') (action_raise cfg env)"
  "sends_one (asked_by_env cfg env ''counter'') (action_counter cfg env)"
  "sends_one (asked_by_env cfg env ''finalize'') (action_finalize cfg env)"
  "sends_one (asked_by_env cfg env ''acknowledge'') (action_acknowledge cfg env)"
  "sends_one (asked_by_env cfg env ''transfer'') (action_transfer cfg env)"
  "sends_one (asked_by_env cfg env ''close'') (action_close cfg env)"
  unfolding action_defs Let_def
  by (rule sends_one_none, intro same_sent_intros)
    (intro sends_one_lift sends_one_last sends_one_map_err sends_one_clients;
     auto simp: asked_by_env_def env_index_def env_chunks_def res_simps)+

lemma register_action_sends:
  assumes "action \<notin> {''balance'', ''raise'', ''counter'', ''finalize'', ''acknowledge'', ''transfer'', ''close''}"
  shows "sends_one (asked_by_env cfg env action) (action_register cfg env)"
  unfolding action_defs Let_def
  using assms
  by (intro sends_one_lift sends_one_last sends_one_map_err sends_one_clients)
    (auto simp: asked_by_env_def)

lemma main_sends: "sends_one (asked_by_env cfg env (var_or env ''ACTION'' ''register'')) (vdb_main cfg env)"
proof -
  let ?a = "var_or env ''ACTION'' ''register''"
  have "sends_one (asked_by_env cfg env ?a)
     (if ?a = ''balance'' then action_balance cfg env
      else if ?a = ''raise'' then action_raise cfg env
      else if ?a = ''counter'' then action_counter cfg env
      else if ?a = ''finalize'' then action_finalize cfg env
      else if ?a = ''acknowledge'' then action_acknowledge cfg env
      else if ?a = ''transfer'' then action_transfer cfg env
      else if ?a = ''close'' then action_close cfg env
      else action_register cfg env)"
    using actions_send [of cfg env] register_action_sends [of ?a cfg env] by (auto split: if_split)
  then show ?thesis
    unfolding vdb_main_def Let_def by (intro sends_one_then same_sent_intros)
qed

section \<open>A successful registration\<close>

lemma register_client_committed:
  assumes "register_commitment_client pr rm nd mode store who p c payload meta dt prc w = (Inr res, w')"
  shows "w_sent w' = w_sent w @ [(who, vdb_tx (RegisterCommitment p c (res_merkle_root res)
    (res_total_chunks res) meta dt prc))]"
  using assms
  by (auto simp: register_commitment_client_def Let_def io_simps res_simps PALLET_NAME_def
      elim!: submit_expect_Inr)

lemma register_main_ok:
  assumes "vdb_main cfg env w = (Inr lines, w')" "env ''ACTION'' \<in> {None, Some ''register''}"
  obtains who p c res where
    "lines = register_report (cli_hex cfg) (case provided_root cfg env of
       Some r \<Rightarrow> res\<lparr>res_merkle_root := r\<rparr> | None \<Rightarrow> res)"
    "w_sent w' = w_sent w @ [(who, vdb_tx (RegisterCommitment p c (res_merkle_root res) (res_total_chunks res)
       (env_schema env) (of_nat (parse_or (2 ^ 32) env ''EXPIRES_IN_BLOCKS'' 1000))
       (of_nat (parse_or (2 ^ 128) env ''PRICE'' 75))))]"
proof -
  have "var_or env ''ACTION'' ''register'' = ''register''" using assms(2) by (auto simp: var_or_def)
  with assms(1) obtain w1 where w1: "on_node (cli_connect cfg (var_or env ''CHAIN_WS'' ''ws://127.0.0.1:9944'')) w
      = (Inr (), w1)" "action_register cfg env w1 = (Inr lines, w')"
    by (auto simp: vdb_main_def Let_def io_simps)
  have "w_sent w1 = w_sent w" using on_node_simps(1) w1(1) by (metis snd_conv)
  then show thesis
    using w1(2) that unfolding action_register_def Let_def
    by (auto simp: io_simps dest!: register_client_committed)
qed

lemma register_main_eval:
  assumes "var_or env ''ACTION'' ''register'' = ''register''"
    "on_node (cli_connect cfg (var_or env ''CHAIN_WS'' ''ws://127.0.0.1:9944'')) w = (Inr (), w)"
    "hex32 cfg env ''PROVIDER_DID'' = Inr p" "hex32 cfg env ''CONSUMER_DID'' = Inr c"
    "seed_or cfg env (dev_alice cfg) = Inr who"
    "register_commitment_client (cli_prims cfg) (cli_merkle cfg) (cli_node cfg) (env ''CHUNK_MODE'')
       (fs_chunk_store (cli_hex cfg) STORE_ROOT) who p c (env_payload env) (env_schema env)
       (of_nat (parse_or (2 ^ 32) env ''EXPIRES_IN_BLOCKS'' 1000))
       (of_nat (parse_or (2 ^ 128) env ''PRICE'' 75)) w = (Inr res, w')"
  shows "vdb_main cfg env w = (Inr (register_report (cli_hex cfg) (case provided_root cfg env of
      Some r \<Rightarrow> res\<lparr>res_merkle_root := r\<rparr> | None \<Rightarrow> res)), w')"
  using assms by (simp add: vdb_main_def action_register_def io_then_def io_map_err_def)

end
