(* ===== verification/Registry_Main.thy ===== *)
theory Registry_Main
  imports Registry_Client Rust_Text
begin

text \<open>
  \<^verbatim>\<open>offchain-agent-registry/src/main.rs\<close>: the program that registers an agent or loads it from the
  keystore. It is driven by environment variables and returns the lines it prints.
\<close>

datatype registry_cli_error =
    RmSubxt subxt_error
  | RmKeyStore key_store_error
  | RmFailed register_or_load_error

record ('n, 'vk, 'sg, 'sk, 'kp) registry_cli =
  rc_node :: "'n chain_node"
  rc_connect :: "string \<Rightarrow> ('n, subxt_error, unit) io"
  rc_prims :: "('vk, 'sg) prims"
  rc_keys :: "('sk, 'kp) key_crates"
  rc_crypto :: crypto_crates
  rc_alice :: account_id
  rc_bob :: account_id

definition registry_signer :: "('n, 'vk, 'sg, 'sk, 'kp) registry_cli \<Rightarrow> environ \<Rightarrow> account_id" where
  "registry_signer cfg env =
     (if var_or env ''SIGNER'' ''alice'' = ''bob'' then rc_bob cfg else rc_alice cfg)"

definition env_key_label :: "environ \<Rightarrow> string" where
  "env_key_label env = var_or env ''KEY_LABEL'' (var_or env ''SIGNER'' ''alice'')"

definition env_keystore_dir :: "environ \<Rightarrow> key_store_error + path" where
  "env_keystore_dir env = (case env ''KEYSTORE_DIR'' of
       Some s \<Rightarrow> Inr (path_of s)
     | None \<Rightarrow> default_keystore_dir (env ''HOME''))"

text \<open>The path is printed as its components joined by single separators.\<close>

definition registry_report :: "hex_crate \<Rightarrow> path \<Rightarrow> string \<Rightarrow> bool \<Rightarrow> did \<Rightarrow> string list" where
  "registry_report hx dir key_label existed d =
     [''ArthNeura Off-Chain Agent Registry Client Initialized.'',
      ''DID=0x'' @ hex_encode hx (h256_bytes d),
      ''IDENTITY='' @ (if existed then ''loaded'' else ''registered''),
      ''KEYSTORE='' @ path_display (path_join dir (key_label @ ''.json''))]"

definition registry_main ::
  "('n, 'vk, 'sg, 'sk, 'kp) registry_cli \<Rightarrow> environ
     \<Rightarrow> (('n, os) world, registry_cli_error fault, string list) io" where
  "registry_main cfg env =
     (let ws = var_or env ''CHAIN_WS'' ''ws://127.0.0.1:9944'' in
      io_then (io_map_err (\<lambda>e. Err (RmSubxt e)) (on_node (rc_connect cfg ws))) (\<lambda>_.
      let signer = registry_signer cfg env;
          key_label = env_key_label env;
          lbl = var_or env ''LABEL'' (key_label @ ''-agent'');
          passphrase = var_or env ''KEYSTORE_PASS'' ''dev-passphrase'' in
      io_then (io_lift (map_err (\<lambda>e. Err (RmKeyStore e)) (env_keystore_dir env))) (\<lambda>dir.
      io_then (on_host (identity_exists dir key_label)) (\<lambda>existed.
      io_then (io_map_err (lift_fault RmFailed)
        (register_or_load_agent (rc_prims cfg) (rc_keys cfg) (rc_crypto cfg) (rc_node cfg) signer dir
           key_label passphrase 1 (ascii ''smoke-test-agent'') (ascii lbl))) (\<lambda>agent.
      io_return (registry_report (hex_of (rc_crypto cfg)) dir key_label existed (agent_did agent)))))))"

end
