(* ===== verification/Serde_Json.thy ===== *)
theory Serde_Json
  imports Rust_Text
begin

text \<open>
  JSON values as \<^verbatim>\<open>serde_json\<close> gives them to the binaries. Parsing and printing are parameters; what
  is documented of them and used is that printing an object and parsing it again keeps its fields.
\<close>

datatype json =
    JNull
  | JBool bool
  | JU64 u64
  | JNumber string
  | JStr string
  | JArray "json list"
  | JObject "(string \<times> json) list"

text \<open>\<^verbatim>\<open>v.get(key)\<close> and \<^verbatim>\<open>v[key]\<close>, which is null when there is no such field.\<close>

fun json_get :: "json \<Rightarrow> string \<Rightarrow> json option" where
  "json_get (JObject fv) key = map_of fv key"
| "json_get _ _ = None"

definition json_index :: "json \<Rightarrow> string \<Rightarrow> json" where
  "json_index v key = (case json_get v key of Some x \<Rightarrow> x | None \<Rightarrow> JNull)"

fun as_str :: "json \<Rightarrow> string option" where
  "as_str (JStr s) = Some s"
| "as_str _ = None"

fun as_u64 :: "json \<Rightarrow> u64 option" where
  "as_u64 (JU64 n) = Some n"
| "as_u64 _ = None"

record serde_json =
  json_from_str :: "string \<Rightarrow> json option"
  json_to_string :: "json \<Rightarrow> string"

text \<open>Objects of strings and unsigned numbers, which is all the binaries print themselves.\<close>

fun flat_json :: "json \<Rightarrow> bool" where
  "flat_json (JStr s) \<longleftrightarrow> valid_utf8 (ascii s)"
| "flat_json (JU64 _) \<longleftrightarrow> True"
| "flat_json _ \<longleftrightarrow> False"

definition flat_fields :: "(string \<times> json) list \<Rightarrow> bool" where
  "flat_fields fv \<longleftrightarrow> distinct (map fst fv) \<and> list_all (\<lambda>(key, v). valid_utf8 (ascii key) \<and> flat_json v) fv"

definition serde_json_laws :: "serde_json \<Rightarrow> bool" where
  "serde_json_laws sj \<longleftrightarrow> (\<forall>fv. flat_fields fv \<longrightarrow>
     (\<exists>v. json_from_str sj (json_to_string sj (JObject fv)) = Some v \<and> (\<forall>key. json_get v key = map_of fv key)) \<and>
     valid_utf8 (ascii (json_to_string sj (JObject fv))) \<and>
     char_of (13 :: nat) \<notin> set (json_to_string sj (JObject fv)))"

lemma json_printed:
  assumes "serde_json_laws sj" "flat_fields fv"
  obtains v where "json_from_str sj (json_to_string sj (JObject fv)) = Some v"
    "\<And>key. json_index v key = (case map_of fv key of Some x \<Rightarrow> x | None \<Rightarrow> JNull)"
  using assms unfolding serde_json_laws_def json_index_def by metis

lemma json_printed_text:
  assumes "serde_json_laws sj" "flat_fields fv"
  shows "valid_utf8 (ascii (json_to_string sj (JObject fv)))"
    "char_of (13 :: nat) \<notin> set (json_to_string sj (JObject fv))"
  using assms unfolding serde_json_laws_def by blast+

text \<open>Hexadecimal text is plain and survives \<^verbatim>\<open>trim_start_matches("0x")\<close>.\<close>

lemma hex_text_valid: "hex_laws hx \<Longrightarrow> valid_utf8 (ascii (hex_encode hx b))"
proof (rule valid_utf8_ascii, rule ballI)
  fix c
  assume hx: "hex_laws hx" and "c \<in> set (ascii (hex_encode hx b))"
  then obtain x where x: "x \<in> set ''0123456789abcdef''" "c = of_nat (of_char x)"
    unfolding hex_laws_def ascii_def by auto
  have "\<forall>x \<in> set ''0123456789abcdef''. (of_nat (of_char x) :: u8) < 0x80" by code_simp
  with x show "c < 0x80" by blast
qed

lemma hex_text_chars: "hex_laws hx \<Longrightarrow> set (hex_encode hx b) \<subseteq> set ''0123456789abcdef''"
  unfolding hex_laws_def by blast

lemma drop_leading_absent: "\<forall>w \<in> set ws. w = [] \<or> hd w \<notin> set s \<Longrightarrow> drop_leading ws s = s"
proof -
  assume a: "\<forall>w \<in> set ws. w = [] \<or> hd w \<notin> set s"
  have "\<not> (w \<noteq> [] \<and> take (length w) s = w)" if "w \<in> set ws" for w
    using bspec [OF a that] by (cases w; cases s) auto
  then have "List.find (\<lambda>w. w \<noteq> [] \<and> take (length w) s = w) ws = None"
    unfolding find_None_iff by blast
  then show ?thesis by (subst drop_leading.simps) simp
qed

lemma trim_hex: "hex_laws hx \<Longrightarrow> trim (hex_encode hx b) = hex_encode hx b"
proof -
  assume hx: "hex_laws hx"
  have "\<forall>w \<in> set WHITESPACE. hd w \<notin> set ''0123456789abcdef'' \<and> last w \<notin> set ''0123456789abcdef''"
    by code_simp
  then have "\<forall>w \<in> set WHITESPACE. hd w \<notin> set (hex_encode hx b) \<and> last w \<notin> set (hex_encode hx b)"
    using hex_text_chars [OF hx, of b] by blast
  then show ?thesis
    by (auto simp: trim_def drop_leading_absent hd_rev)
qed

lemma trim_0x_absent: "CHR ''x'' \<notin> set s \<Longrightarrow> trim_0x s = s"
  by (induction s rule: trim_0x.induct) auto

lemma trim_0x_hex: "hex_laws hx \<Longrightarrow> trim_0x (hex_encode hx b) = hex_encode hx b"
  unfolding hex_laws_def by (intro trim_0x_absent) auto

end
