(* ===== verification/Door.thy ===== *)
theory Door
  imports Registry_Client Serde_Json
begin

text \<open>
  \<^verbatim>\<open>offchain-agent-registry/src/bin/register-door.rs\<close>: the local HTTP door through which an agent
  registers while the door's own account (\<^verbatim>\<open>alice\<close>) pays. One definition per route, on a world whose
  machine state is the table of extrinsics waiting for a signature. \<^verbatim>\<open>serde_json\<close>, \<^verbatim>\<open>hex\<close> and the RPC
  of \<^verbatim>\<open>subxt\<close> are functions of \<open>door_config\<close>.
\<close>

section \<open>Requests\<close>

text \<open>Where \<^verbatim>\<open>buf.windows(4).position(..)\<close> finds the end of the head.\<close>

definition HEAD_END :: bytes where "HEAD_END = [13, 10, 13, 10]"

fun find_head_end :: "bytes \<Rightarrow> nat option" where
  "find_head_end bs =
     (if length bs < 4 then None
      else if take 4 bs = HEAD_END then Some 0
      else map_option Suc (find_head_end (tl bs)))"

declare find_head_end.simps [simp del]

definition content_length :: "bytes \<Rightarrow> u64" where
  "content_length head =
     (case List.map_filter (strip_prefix ''content-length:'')
             (lines_of (to_ascii_lowercase (utf8_lossy head))) of
        [] \<Rightarrow> 0
      | n # _ \<Rightarrow> (case parse_uint (2 ^ 64) (trim n) of None \<Rightarrow> 0 | Some v \<Rightarrow> of_nat v))"

text \<open>
  The two conditions on which reading stops. Sizes are 64-bit, and the sum wraps around as it does
  in a release build.
\<close>

definition request_done :: "bytes \<Rightarrow> bool" where
  "request_done buf =
     ((case find_head_end buf of
         Some i \<Rightarrow> of_nat i + 4 + content_length (take i buf) \<le> (of_nat (length buf) :: u64)
       | None \<Rightarrow> False) \<or> 65536 < length buf)"

text \<open>
  The reads of a connection: each returns at most 4096 bytes, none at the end of the stream or on
  an error.
\<close>

fun read_request :: "bytes list \<Rightarrow> bytes \<Rightarrow> bytes" where
  "read_request [] buf = buf"
| "read_request (r # rs) buf =
     (let tmp = take 4096 r in
      if tmp = [] then buf
      else let buf' = buf @ tmp in if request_done buf' then buf' else read_request rs buf')"

section \<open>Configuration and responses\<close>

record ('n, 'p, 'vk, 'sg) door_config =
  door_node :: "'n chain_node"
  create_partial_signed :: "account_id \<Rightarrow> dyn_tx \<Rightarrow> ('n, string, 'p) io"
  signer_payload :: "'p \<Rightarrow> bytes"
  sign_with_address_and_signature :: "'p \<Rightarrow> account_id \<Rightarrow> bytes \<Rightarrow> bytes"
  rpc_connect :: "('n, string, unit) io"
  system_dry_run :: "string \<Rightarrow> ('n, string, string) io"
  dry_debug :: "string + string \<Rightarrow> string"
  submit_encoded :: "bytes \<Rightarrow> ('n, string, h256) io"
  author_submit_extrinsic :: "string \<Rightarrow> ('n, string, string) io"
  door_json :: serde_json
  door_hex :: hex_crate
  door_prims :: "('vk, 'sg) prims"
  alice :: account_id
  fund_amount_var :: "string option"

record door_response =
  rsp_status :: string
  rsp_body :: "(string \<times> json) list"

type_synonym ('n, 'p, 'a) door_io =
  "(('n, (string \<times> 'p) list) world, string fault, 'a) io"

definition ok_200 :: "(string \<times> json) list \<Rightarrow> door_response" where
  "ok_200 body = \<lparr>rsp_status = ''200 OK'', rsp_body = body\<rparr>"

definition bad_400 :: "string \<Rightarrow> door_response" where
  "bad_400 e = \<lparr>rsp_status = ''400 Bad Request'', rsp_body = [(''error'', JStr e)]\<rparr>"

text \<open>\<^verbatim>\<open>match m { Ok(x) => f(x), Err(e) => respond(400, e) }\<close>\<close>

definition or_bad :: "(('n, 's) world, string, 'a) io \<Rightarrow> ('a \<Rightarrow> (('n, 's) world, string fault, door_response) io)
    \<Rightarrow> (('n, 's) world, string fault, door_response) io" where
  "or_bad m f w = (case m w of (Inl e, w') \<Rightarrow> (Inr (bad_400 e), w') | (Inr x, w') \<Rightarrow> f x w')"

definition str_field :: "json \<Rightarrow> string \<Rightarrow> string" where
  "str_field v key = (case as_str (json_index v key) of Some s \<Rightarrow> s | None \<Rightarrow> [])"

definition hex_or_empty :: "hex_crate \<Rightarrow> string \<Rightarrow> bytes" where
  "hex_or_empty hx s = (case hex_decode hx s of Some b \<Rightarrow> b | None \<Rightarrow> [])"

definition hex_field :: "('n, 'p, 'vk, 'sg) door_config \<Rightarrow> json \<Rightarrow> string \<Rightarrow> bytes" where
  "hex_field cfg v key = hex_or_empty (door_hex cfg) (trim_0x (str_field v key))"

definition u64_field :: "json \<Rightarrow> string \<Rightarrow> u64" where
  "u64_field v key = (case as_u64 (json_index v key) of Some n \<Rightarrow> n | None \<Rightarrow> 0)"

text \<open>The body is what follows the first empty line; every route with a body rejects bad JSON.\<close>

definition with_body ::
  "('n, 'p, 'vk, 'sg) door_config \<Rightarrow> string \<Rightarrow> (json \<Rightarrow> ('n, 'p, door_response) door_io)
     \<Rightarrow> ('n, 'p, door_response) door_io" where
  "with_body cfg req f =
     (case json_from_str (door_json cfg) (nth_or_empty 1 (split_str (string_of HEAD_END) req)) of
        None \<Rightarrow> io_return (bad_400 ''bad json'')
      | Some v \<Rightarrow> f v)"

section \<open>The routes\<close>

definition handle_challenge ::
  "('n, 'p, 'vk, 'sg) door_config \<Rightarrow> string \<Rightarrow> ('n, 'p, door_response) door_io" where
  "handle_challenge cfg line =
     io_then (io_map_err (\<lambda>_. Err ''subxt'') (latest_block (door_node cfg))) (\<lambda>(number, hash).
     let q = nth_or_empty 0 (split_on (CHR '' '') (nth_or_empty 1 (split_on (CHR ''?'') line)));
         ctl = nth_or_empty 0 (List.map_filter (strip_prefix ''account='') (split_on (CHR ''&'') q));
         ctl = (if length ctl = 64 then ctl else hex_encode (door_hex cfg) (h256_bytes (alice cfg))) in
     io_then (fetch_genesis_hash (door_node cfg)) (\<lambda>genesis.
     io_return (ok_200 [
       (''genesis'', JStr (hex_encode (door_hex cfg) (h256_bytes genesis))),
       (''controller'', JStr ctl),
       (''block'', JU64 (ucast number)),
       (''hash'', JStr (hex_encode (door_hex cfg) (h256_bytes hash)))])))"

text \<open>The table of partial extrinsics: \<^verbatim>\<open>pending.len()\<close>, \<^verbatim>\<open>insert\<close> and \<^verbatim>\<open>remove\<close>.\<close>

definition pending_insert :: "string \<Rightarrow> 'p \<Rightarrow> (string \<times> 'p) list \<Rightarrow> (string \<times> 'p) list" where
  "pending_insert token partial pending = (token, partial) # filter (\<lambda>(k, _). k \<noteq> token) pending"

definition pending_token :: "(string \<times> 'p) list \<Rightarrow> string" where
  "pending_token pending = CHR ''p'' # show_nat (length pending)"

definition add_pending :: "'p \<Rightarrow> ('n, 'p, string) door_io" where
  "add_pending partial w =
     (let token = pending_token (w_host w) in
      (Inr token, w\<lparr>w_host := pending_insert token partial (w_host w)\<rparr>))"

definition take_pending :: "string \<Rightarrow> ('n, 'p, 'p option) door_io" where
  "take_pending token w =
     (Inr (map_of (w_host w) token), w\<lparr>w_host := filter (\<lambda>(k, _). k \<noteq> token) (w_host w)\<rparr>)"

definition door_registration_tx :: "bytes \<Rightarrow> bytes \<Rightarrow> u128 \<Rightarrow> bytes \<Rightarrow> dyn_tx" where
  "door_registration_tx pubkey signature signed_at_block lbl =
     \<lparr>tx_pallet = ''AgentRegistry'', tx_call = ''register_agent'',
      tx_args = [DynBytes pubkey, DynBytes signature, DynU128 signed_at_block, DynU128 1,
                 DynBytes (ascii ''door''), DynBytes lbl]\<rparr>"

definition handle_prepare ::
  "('n, 'p, 'vk, 'sg) door_config \<Rightarrow> string \<Rightarrow> ('n, 'p, door_response) door_io" where
  "handle_prepare cfg req = with_body cfg req (\<lambda>v.
     let account = hex_field cfg v ''account'';
         pubkey = hex_field cfg v ''pubkey'';
         signature = hex_field cfg v ''signature'';
         signed_at_block = u64_field v ''signed_at_block'';
         lbl = ascii (str_field v ''label'') in
     if length account \<noteq> 32 \<or> pubkey = [] \<or> signature = [] \<or> signed_at_block = 0
     then io_return (bad_400 ''account, pubkey, signature, signed_at_block required'')
     else
       let tx = door_registration_tx pubkey signature (ucast signed_at_block) lbl in
       or_bad (on_node (create_partial_signed cfg (bytes_h256 account) tx)) (\<lambda>partial.
       let payload = hex_encode (door_hex cfg) (signer_payload cfg partial) in
       io_then (add_pending partial) (\<lambda>token.
       io_return (ok_200 [(''token'', JStr token), (''payload'', JStr payload)]))))"

text \<open>
  \<^verbatim>\<open>.expect("rpc")\<close> panics when the second connection fails. The result of the dry run is only
  reported, in its debug format.
\<close>

definition try_node :: "('n, string, 'a) io \<Rightarrow> (('n, 's) world, 'e, string + 'a) io" where
  "try_node m w = (case m (w_node w) of (r, n) \<Rightarrow> (Inr r, w\<lparr>w_node := n\<rparr>))"

definition handle_finish ::
  "('n, 'p, 'vk, 'sg) door_config \<Rightarrow> string \<Rightarrow> ('n, 'p, door_response) door_io" where
  "handle_finish cfg req = with_body cfg req (\<lambda>v.
     let token = str_field v ''token'';
         sigb = hex_field cfg v ''signature'';
         account = hex_field cfg v ''account'' in
     if length sigb \<noteq> 64 \<or> length account \<noteq> 32
     then io_return (bad_400 ''account and 64-byte signature required'')
     else
       io_then (take_pending token) (\<lambda>found.
       case found of
         None \<Rightarrow> io_return (bad_400 ''unknown token'')
       | Some partial \<Rightarrow>
           let encoded = sign_with_address_and_signature cfg partial (bytes_h256 account) sigb in
           io_then (io_map_err (\<lambda>_. Panic) (on_node (rpc_connect cfg))) (\<lambda>_.
           io_then (try_node (system_dry_run cfg (''0x'' @ hex_encode (door_hex cfg) encoded))) (\<lambda>dry.
           or_bad (on_node (submit_encoded cfg encoded)) (\<lambda>h.
           io_return (ok_200 [(''status'', JStr ''submitted''),
             (''hash'', JStr (hex_encode (door_hex cfg) (h256_bytes h))),
             (''dry'', JStr (dry_debug cfg dry))]))))))"

definition fund_amount :: "string option \<Rightarrow> u128" where
  "fund_amount var = (case Option.bind var (parse_uint (2 ^ 128)) of
       Some n \<Rightarrow> of_nat n
     | None \<Rightarrow> 101000000000000)"

fun subxt_message :: "subxt_error \<Rightarrow> string" where
  "subxt_message (SubxtError e) = e"

definition door_transfer :: "('n, 'p, 'vk, 'sg) door_config \<Rightarrow> bytes \<Rightarrow> dyn_tx" where
  "door_transfer cfg account = \<lparr>tx_pallet = ''Balances'', tx_call = ''transfer_keep_alive'',
     tx_args = [DynVariant ''Id'' [DynBytes account], DynU128 (fund_amount (fund_amount_var cfg))]\<rparr>"

definition handle_fund ::
  "('n, 'p, 'vk, 'sg) door_config \<Rightarrow> string \<Rightarrow> ('n, 'p, door_response) door_io" where
  "handle_fund cfg req = with_body cfg req (\<lambda>v.
     let account = hex_field cfg v ''account'' in
     if length account \<noteq> 32 then io_return (bad_400 ''account must be 32-byte hex'')
     else
       or_bad (io_map_err subxt_message (submit (door_node cfg) (alice cfg) (door_transfer cfg account))) (\<lambda>_.
       io_return (ok_200 [(''status'', JStr ''funded'')])))"

definition handle_submit ::
  "('n, 'p, 'vk, 'sg) door_config \<Rightarrow> string \<Rightarrow> ('n, 'p, door_response) door_io" where
  "handle_submit cfg req = with_body cfg req (\<lambda>v.
     let tx_hex = trim_0x (trim (str_field v ''tx'')) in
     if hex_or_empty (door_hex cfg) tx_hex = [] then io_return (bad_400 ''tx hex required'')
     else
       or_bad (on_node (author_submit_extrinsic cfg (''0x'' @ tx_hex))) (\<lambda>h.
       io_return (ok_200 [(''status'', JStr ''submitted''), (''hash'', JStr h)])))"

fun call_message :: "call_error \<Rightarrow> string" where
  "call_message (Subxt e) = ''subxt error: '' @ subxt_message e"
| "call_message EventMissing = ''AgentRegistered event not found in finalized block''"

definition handle_register ::
  "('n, 'p, 'vk, 'sg) door_config \<Rightarrow> string \<Rightarrow> ('n, 'p, door_response) door_io" where
  "handle_register cfg req = with_body cfg req (\<lambda>v.
     let pubkey = hex_field cfg v ''pubkey'';
         signature = hex_field cfg v ''signature'';
         signed_at_block = ucast (u64_field v ''signed_at_block'') :: u32;
         lbl = ascii (str_field v ''label'') in
     if pubkey = [] \<or> signature = [] \<or> signed_at_block = 0
     then io_return (bad_400 ''pubkey, signature, signed_at_block required'')
     else
       or_bad (io_map_err call_message (submit_signed_registration (door_prims cfg) (door_node cfg)
                (alice cfg) pubkey signature signed_at_block 1 (ascii ''door'') lbl)) (\<lambda>d.
       io_return (ok_200 [(''did'', JStr (hex_encode (door_hex cfg) (h256_bytes d))),
         (''status'', JStr ''submitted'')])))"

text \<open>The routes are tried in this order on the first line of the request.\<close>

definition route ::
  "('n, 'p, 'vk, 'sg) door_config \<Rightarrow> string \<Rightarrow> ('n, 'p, door_response) door_io" where
  "route cfg req =
     (let line = nth_or_empty 0 (lines_of req) in
      if starts_with line ''GET /v1/register/challenge'' then handle_challenge cfg line
      else if starts_with line ''POST /v1/prepare'' then handle_prepare cfg req
      else if starts_with line ''POST /v1/finish'' then handle_finish cfg req
      else if starts_with line ''POST /v1/fund'' then handle_fund cfg req
      else if starts_with line ''POST /v1/submit'' then handle_submit cfg req
      else if starts_with line ''POST /v1/register'' then handle_register cfg req
      else io_return \<lparr>rsp_status = ''404 Not Found'', rsp_body = [(''error'', JStr ''not found'')]\<rparr>)"

text \<open>
  The answer on the wire. The bodies are JSON objects printed by \<^verbatim>\<open>serde_json\<close>; a failed write is
  ignored.
\<close>

definition CRLF :: string where "CRLF = string_of [13, 10]"

definition respond :: "string \<Rightarrow> string \<Rightarrow> string" where
  "respond code body =
     ''HTTP/1.1 '' @ code @ CRLF @ ''content-type: application/json'' @ CRLF @
     ''content-length: '' @ show_nat (length body) @ CRLF @ ''connection: close'' @ CRLF @ CRLF @ body"

text \<open>
  One connection: nothing is answered to an empty request. \<open>serve\<close> handles connections one after
  the other until one of them ends the program; \<open>None\<close> is a connection that could not be accepted.
\<close>

definition serve_one ::
  "('n, 'p, 'vk, 'sg) door_config \<Rightarrow> bytes list option \<Rightarrow> ('n, 'p, string option) door_io" where
  "serve_one cfg incoming =
     (case incoming of
        None \<Rightarrow> io_return None
      | Some reads \<Rightarrow>
          let buf = read_request reads [] in
          if buf = [] then io_return None
          else io_then (route cfg (utf8_lossy buf)) (\<lambda>r.
            io_return (Some (respond (rsp_status r) (json_to_string (door_json cfg) (JObject (rsp_body r)))))))"

primrec serve ::
  "('n, 'p, 'vk, 'sg) door_config \<Rightarrow> bytes list option list \<Rightarrow> ('n, 'p, string option list) door_io" where
  "serve cfg [] = io_return []"
| "serve cfg (conn # conns) =
     io_then (serve_one cfg conn) (\<lambda>r. io_then (serve cfg conns) (\<lambda>rs. io_return (r # rs)))"

text \<open>
  \<^verbatim>\<open>main\<close>: two connections to the node and the local listener come first (\<open>bound\<close> is whether the port
  was free), and the table of pending extrinsics starts empty.
\<close>

definition door_main ::
  "('n, 'p, 'vk, 'sg) door_config \<Rightarrow> bool \<Rightarrow> bytes list option list \<Rightarrow> ('n, 'p, string option list) door_io" where
  "door_main cfg bound conns =
     io_then (io_map_err Err (on_node (rpc_connect cfg))) (\<lambda>_.
     io_then (io_map_err Err (on_node (rpc_connect cfg))) (\<lambda>_.
     io_ensure bound (Err ''bind'') (
     io_then (on_host (\<lambda>_. (Inr (), []))) (\<lambda>_.
     serve cfg conns))))"


section \<open>Memory\<close>

text \<open>A connection cannot make the door buffer more than one read past its limit.\<close>

lemma read_request_bound: "length buf \<le> 65536 \<Longrightarrow> length (read_request rs buf) \<le> 65536 + 4096"
proof (induction rs buf rule: read_request.induct)
  case (2 r rs buf)
  show ?case
  proof (cases "take 4096 r = [] \<or> request_done (buf @ take 4096 r)")
    case True
    then show ?thesis using "2.prems" by (auto simp: Let_def)
  next
    case False
    then have "length (buf @ take 4096 r) \<le> 65536" by (simp add: request_done_def del: length_append)
    then show ?thesis using "2.IH" False by (simp add: Let_def)
  qed
qed simp

section \<open>What the door signs\<close>

definition door_signed :: "('n, 'p, 'vk, 'sg) door_config \<Rightarrow> account_id \<times> dyn_tx \<Rightarrow> bool" where
  "door_signed cfg x \<longleftrightarrow> fst x = alice cfg \<and>
     ((\<exists>account. length account = 32 \<and> snd x = door_transfer cfg account) \<or>
      (\<exists>pubkey signature at lbl. pubkey \<noteq> [] \<and> signature \<noteq> [] \<and> at \<noteq> 0 \<and>
         snd x = registry_tx (RegisterAgent pubkey signature at 1 (ascii ''door'') lbl)))"

abbreviation signs_only ::
  "('n, 'p, 'vk, 'sg) door_config \<Rightarrow> ('n, 's) world \<Rightarrow> ('n, 's) world \<Rightarrow> bool" where
  "signs_only cfg \<equiv> sends_only (door_signed cfg)"

lemma signs_only_or_bad:
  assumes "io_keeps (signs_only cfg) m" "\<And>x. io_keeps (signs_only cfg) (f x)"
  shows "io_keeps (signs_only cfg) (or_bad m f)"
  unfolding io_keeps_def
proof
  fix w
  obtain r w1 where m: "m w = (r, w1)" by fastforce
  then have "signs_only cfg w w1" using assms(1) unfolding io_keeps_def by (metis snd_conv)
  show "signs_only cfg w (snd (or_bad m f w))"
  proof (cases r)
    case (Inl e)
    then show ?thesis using m \<open>signs_only cfg w w1\<close> by (simp add: or_bad_def)
  next
    case (Inr x)
    have "signs_only cfg w1 (snd (f x w1))" using assms(2) unfolding io_keeps_def by blast
    with \<open>signs_only cfg w w1\<close> have "signs_only cfg w (snd (f x w1))"
      by (rule transpD [OF sends_only_rel(2)])
    then show ?thesis using m Inr by (simp add: or_bad_def)
  qed
qed

lemma signs_only_ops:
  "io_keeps (signs_only cfg) (on_node m)" "io_keeps (signs_only cfg) (try_node m)"
  "io_keeps (signs_only cfg) (latest_block nd)" "io_keeps (signs_only cfg) (fetch_genesis_hash nd)"
  "io_keeps (signs_only cfg) (add_pending partial)" "io_keeps (signs_only cfg) (take_pending token)"
  by (simp_all add: io_keeps_def sends_only_same on_node_def try_node_def latest_block_def
      fetch_genesis_hash_def add_pending_def take_pending_def Let_def case_prod_beta)

lemma signs_only_transfer:
  "length account = 32 \<Longrightarrow>
   io_keeps (signs_only cfg) (submit nd (alice cfg) (door_transfer cfg account))"
  unfolding io_keeps_def sends_only_def
  by (intro allI exI [of _ "[(alice cfg, door_transfer cfg account)]"])
    (auto simp: submit_sent door_signed_def)

lemma signs_only_registration:
  assumes "pubkey \<noteq> []" "signature \<noteq> []" "at \<noteq> 0"
  shows "io_keeps (signs_only cfg)
    (submit_signed_registration pr nd (alice cfg) pubkey signature at 1 (ascii ''door'') lbl)"
  unfolding io_keeps_def sends_only_def simple_registry_clients_send(1)
  by (intro allI exI [of _ "[(alice cfg, registry_tx (RegisterAgent pubkey signature at (ucast (1 :: u32))
        (ascii ''door'') lbl))]"])
    (use assms in \<open>auto simp: door_signed_def\<close>)

lemmas signs_only_intros = signs_only_ops signs_only_or_bad signs_only_transfer signs_only_registration
  io_keeps_then [OF sends_only_rel(2)] io_keeps_basic [OF sends_only_rel(1)] io_keeps_map_err
  io_keeps_case_prod

lemma signs_only_body:
  "(\<And>v. io_keeps (signs_only cfg) (f v)) \<Longrightarrow> io_keeps (signs_only cfg) (with_body cfg req f)"
  by (simp add: with_body_def io_keeps_basic sends_only_rel split: option.split)

lemma signs_only_option:
  "io_keeps (signs_only cfg) m \<Longrightarrow> (\<And>x. io_keeps (signs_only cfg) (f x)) \<Longrightarrow>
   io_keeps (signs_only cfg) (case y of None \<Rightarrow> m | Some x \<Rightarrow> f x)"
  by (cases y) simp_all

lemma signs_only_if:
  "(b \<Longrightarrow> io_keeps (signs_only cfg) m) \<Longrightarrow> (\<not> b \<Longrightarrow> io_keeps (signs_only cfg) m') \<Longrightarrow>
   io_keeps (signs_only cfg) (if b then m else m')"
  by simp

lemma signs_only_routes:
  "io_keeps (signs_only cfg) (handle_challenge cfg line)"
  "io_keeps (signs_only cfg) (handle_prepare cfg req)"
  "io_keeps (signs_only cfg) (handle_finish cfg req)"
  "io_keeps (signs_only cfg) (handle_fund cfg req)"
  "io_keeps (signs_only cfg) (handle_submit cfg req)"
  "io_keeps (signs_only cfg) (handle_register cfg req)"
  unfolding handle_challenge_def handle_prepare_def handle_finish_def handle_fund_def
    handle_submit_def handle_register_def Let_def
  by (intro signs_only_body signs_only_option signs_only_if signs_only_intros; simp)+

lemma signs_only_serve: "io_keeps (signs_only cfg) (serve cfg conns)"
proof (induction conns)
  case (Cons conn conns)
  have "io_keeps (signs_only cfg) (route cfg req)" for req
    unfolding route_def Let_def
    by (intro signs_only_if signs_only_routes io_keeps_basic [OF sends_only_rel(1)])
  then have "io_keeps (signs_only cfg) (serve_one cfg conn)"
    unfolding serve_one_def Let_def
    by (intro signs_only_option signs_only_if signs_only_intros)
  with Cons show ?case by (simp only: serve.simps) (intro signs_only_intros)
qed (simp only: serve.simps io_keeps_basic sends_only_rel)


lemma signs_only_main: "io_keeps (signs_only cfg) (door_main cfg bound conns)"
proof -
  have "io_keeps (signs_only cfg) (on_host (\<lambda>_. (Inr (), [])) :: ('n, 'p, unit) door_io)"
    for cfg :: "('n, 'p, 'vk, 'sg) door_config"
    by (simp add: io_keeps_def sends_only_same)
  then show ?thesis
    unfolding door_main_def
    by (intro signs_only_intros signs_only_serve io_keeps_ensure [OF sends_only_rel(1)])
qed

section \<open>The table of pending extrinsics\<close>

definition token_of :: "door_response \<Rightarrow> json option" where
  "token_of resp = map_of (rsp_body resp) ''token''"

lemma bad_not_ok: "rsp_status (bad_400 e) \<noteq> ''200 OK''"
  by (simp add: bad_400_def)

lemma on_node_host: "w_host (snd (on_node m w)) = w_host w" "w_host (snd (try_node m w)) = w_host w"
  by (simp_all add: on_node_def try_node_def case_prod_beta)

lemma prepare_ok:
  assumes "handle_prepare cfg req w = (Inr resp, w')" "rsp_status resp = ''200 OK''"
  shows "\<exists>partial. w_host w' = pending_insert (pending_token (w_host w)) partial (w_host w) \<and>
    token_of resp = Some (JStr (pending_token (w_host w)))"
proof -
  obtain v where v: "json_from_str (door_json cfg) (nth_or_empty 1 (split_str (string_of HEAD_END) req)) = Some v"
    using assms by (auto simp: handle_prepare_def with_body_def bad_400_def split: option.splits)
  let ?node = "on_node (create_partial_signed cfg (bytes_h256 (hex_field cfg v ''account''))
    (door_registration_tx (hex_field cfg v ''pubkey'') (hex_field cfg v ''signature'')
      (ucast (u64_field v ''signed_at_block'')) (ascii (str_field v ''label'')))) w"
  obtain r w1 where n: "?node = (r, w1)" by fastforce
  have h: "w_host w1 = w_host w" using on_node_host(1) n by (metis snd_conv)
  show ?thesis
    using assms v n h
    by (cases r) (auto simp: handle_prepare_def with_body_def Let_def or_bad_def bad_400_def ok_200_def
        io_then_def add_pending_def token_of_def split: if_splits)
qed

lemma finish_table:
  assumes "handle_finish cfg req w = (Inr resp, w')" "rsp_status resp = ''200 OK''"
  shows "\<exists>token. map_of (w_host w) token \<noteq> None \<and> w_host w' = filter (\<lambda>(k, _). k \<noteq> token) (w_host w)"
proof -
  obtain v where v: "json_from_str (door_json cfg) (nth_or_empty 1 (split_str (string_of HEAD_END) req)) = Some v"
    using assms by (auto simp: handle_finish_def with_body_def bad_400_def split: option.splits)
  let ?t = "str_field v ''token''"
  obtain partial where p: "map_of (w_host w) ?t = Some partial"
    using assms v
    by (cases "map_of (w_host w) ?t")
      (auto simp: handle_finish_def with_body_def Let_def bad_400_def io_then_def take_pending_def
        split: if_splits)
  show ?thesis
    using assms v p
    by (auto simp: handle_finish_def with_body_def Let_def bad_400_def io_then_def take_pending_def
        or_bad_def io_map_err_def on_node_def try_node_def intro!: exI [of _ ?t]
        split: if_splits prod.splits sum.splits)
qed

text \<open>What the two handlers do when everything they call succeeds.\<close>

lemma prepare_eval:
  assumes "json_from_str (door_json cfg) (nth_or_empty 1 (split_str (string_of HEAD_END) req)) = Some v"
    "length (hex_field cfg v ''account'') = 32" "hex_field cfg v ''pubkey'' \<noteq> []"
    "hex_field cfg v ''signature'' \<noteq> []" "u64_field v ''signed_at_block'' \<noteq> 0"
    "\<And>account tx. create_partial_signed cfg account tx (w_node w) = (Inr partial, n)"
  shows "handle_prepare cfg req w =
    (Inr (ok_200 [(''token'', JStr (pending_token (w_host w))),
                  (''payload'', JStr (hex_encode (door_hex cfg) (signer_payload cfg partial)))]),
     w\<lparr>w_node := n, w_host := pending_insert (pending_token (w_host w)) partial (w_host w)\<rparr>)"
  using assms
  by (simp add: handle_prepare_def with_body_def Let_def or_bad_def on_node_def io_then_def add_pending_def)

lemma finish_eval:
  assumes "json_from_str (door_json cfg) (nth_or_empty 1 (split_str (string_of HEAD_END) req)) = Some v"
    "length (hex_field cfg v ''signature'') = 64" "length (hex_field cfg v ''account'') = 32"
    "map_of (w_host w) (str_field v ''token'') = Some partial"
    "\<And>n. rpc_connect cfg n = (Inr (), n)" "\<And>enc n. system_dry_run cfg enc n = (Inr dry, n)"
    "\<And>enc n. submit_encoded cfg enc n = (Inr h, n)"
  shows "handle_finish cfg req w =
    (Inr (ok_200 [(''status'', JStr ''submitted''),
                  (''hash'', JStr (hex_encode (door_hex cfg) (h256_bytes h))),
                  (''dry'', JStr (dry_debug cfg (Inr dry)))]),
     w\<lparr>w_host := filter (\<lambda>(k, _). k \<noteq> str_field v ''token'') (w_host w)\<rparr>)"
  using assms
  by (simp add: handle_finish_def with_body_def Let_def or_bad_def on_node_def try_node_def io_then_def
      io_map_err_def take_pending_def)

end
