(* ===== verification/Register_Me.thy ===== *)
theory Register_Me
  imports Door
begin

text \<open>
  \<^verbatim>\<open>offchain-agent-registry/src/bin/register-me.rs\<close>: the counterpart of the door on an agent's machine.
  It makes a key, signs the door's challenge and asks the door to register it; with
  \<^verbatim>\<open>OWN_CONTROLLER=1\<close> it first makes an account of its own and has the door fund it. Every error of the
  program is a panic, so the error type is \<open>unit\<close>. \<^verbatim>\<open>curl\<close> is a parameter: it runs on a world \<open>'d\<close> that
  stands for whatever answers it. The two lines that print a path with the debug formatter (\<^verbatim>\<open>KEY=\<close>
  and \<^verbatim>\<open>CONTROLLER_SEED_FILE=\<close>) are left out of the output.
\<close>

record ('d) me_world =
  me_os :: os
  me_door :: 'd

record curl_output =
  out_success :: bool
  out_stdout :: bytes

record ('d, 'vk, 'sg, 'sk, 'kp) me_config =
  me_prims :: "('vk, 'sg) prims"
  me_keys :: "('sk, 'kp) key_crates"
  me_crypto :: crypto_crates
  me_json :: serde_json
  me_account_sign :: "'kp \<Rightarrow> bytes \<Rightarrow> bytes"
  me_curl :: "string list \<Rightarrow> ('d, unit, curl_output) io"

type_synonym ('d, 'a) me_io = "('d me_world, unit, 'a) io"

abbreviation me_hex :: "('d, 'vk, 'sg, 'sk, 'kp) me_config \<Rightarrow> hex_crate" where
  "me_hex cfg \<equiv> hex_of (me_crypto cfg)"

definition on_os :: "(os, 'e, 'a) io \<Rightarrow> ('d, 'a) me_io" where
  "on_os m w = (case m (me_os w) of (r, s) \<Rightarrow> (map_err (\<lambda>_. ()) r, w\<lparr>me_os := s\<rparr>))"

definition on_door :: "('d, unit, 'a) io \<Rightarrow> ('d, 'a) me_io" where
  "on_door m w = (case m (me_door w) of (r, d) \<Rightarrow> (r, w\<lparr>me_door := d\<rparr>))"

text \<open>\<^verbatim>\<open>unwrap\<close> and \<^verbatim>\<open>expect\<close>\<close>

definition unwrap :: "'a option \<Rightarrow> ('d, 'a) me_io" where
  "unwrap x = io_lift (ok_or x ())"

section \<open>Talking to the door\<close>

definition door_base :: "environ \<Rightarrow> string" where
  "door_base env =
     (let door = (case env ''DOOR'' of Some s \<Rightarrow> s | None \<Rightarrow> var_or env ''DOOR_URL'' ''http://127.0.0.1:8790'') in
      if starts_with door ''http://'' \<or> starts_with door ''https://'' then door else ''http://'' @ door)"

definition curl_args :: "string \<Rightarrow> string \<Rightarrow> string \<Rightarrow> string list" where
  "curl_args verb url body = [''-sf'', ''-X'', verb, url] @
     (if body \<noteq> [] then [''-H'', ''content-type: application/json'', ''-d'', body] else [])"

definition http ::
  "('d, 'vk, 'sg, 'sk, 'kp) me_config \<Rightarrow> environ \<Rightarrow> string \<Rightarrow> string \<Rightarrow> string \<Rightarrow> ('d, string) me_io" where
  "http cfg env verb path body =
     io_then (on_door (me_curl cfg (curl_args verb (door_base env @ path) body))) (\<lambda>out.
     io_ensure (out_success out) () (
     io_ensure (valid_utf8 (out_stdout out)) () (
     io_return (string_of (out_stdout out)))))"

text \<open>The fields of a challenge: 32 bytes of hexadecimal each, and a block number cut to 32 bits.\<close>

definition field32 :: "('d, 'vk, 'sg, 'sk, 'kp) me_config \<Rightarrow> json \<Rightarrow> string \<Rightarrow> ('d, h256) me_io" where
  "field32 cfg v key =
     io_then (unwrap (as_str (json_index v key))) (\<lambda>s.
     io_then (unwrap (hex_decode (me_hex cfg) s)) (\<lambda>b.
     io_ensure (length b = 32) () (io_return (bytes_h256 b))))"

definition fetch_challenge ::
  "('d, 'vk, 'sg, 'sk, 'kp) me_config \<Rightarrow> environ \<Rightarrow> string \<Rightarrow> did \<Rightarrow> ('d, bytes \<times> u32) me_io" where
  "fetch_challenge cfg env path d =
     io_then (http cfg env ''GET'' path []) (\<lambda>text.
     io_then (unwrap (json_from_str (me_json cfg) text)) (\<lambda>ch.
     io_then (field32 cfg ch ''genesis'') (\<lambda>g.
     io_then (field32 cfg ch ''controller'') (\<lambda>c.
     io_then (field32 cfg ch ''hash'') (\<lambda>h.
     io_then (unwrap (as_u64 (json_index ch ''block''))) (\<lambda>n.
     let block = ucast n :: u32 in
     io_return (client_challenge (me_prims cfg) g d c block h, block)))))))"

section \<open>The program\<close>

definition me_keystore_dir :: "environ \<Rightarrow> path" where
  "me_keystore_dir env = path_of (var_or env ''KEYSTORE_DIR'' (var_or env ''HOME'' ''/tmp'' @ ''/agents/me''))"

definition save_me ::
  "('d, 'vk, 'sg, 'sk, 'kp) me_config \<Rightarrow> environ \<Rightarrow> string \<Rightarrow> did \<Rightarrow> bytes \<Rightarrow> ('d, unit) me_io" where
  "save_me cfg env key_label d key_bytes =
     on_os (save_identity (me_crypto cfg) (me_keystore_dir env) key_label d key_bytes
       (var_or env ''KEYSTORE_PASS'' ''dev-passphrase''))"

definition me_label :: "environ \<Rightarrow> string" where
  "me_label env = var_or env ''KEY_LABEL'' ''me''"

text \<open>With \<^verbatim>\<open>OWN_CONTROLLER=1\<close>.\<close>

definition own_controller ::
  "('d, 'vk, 'sg, 'sk, 'kp) me_config \<Rightarrow> environ \<Rightarrow> 'sk \<Rightarrow> did \<Rightarrow> ('d, string list) me_io" where
  "own_controller cfg env signing_key d =
     (let hx = me_hex cfg; dir = me_keystore_dir env; key_label = me_label env;
          print = (\<lambda>fv. json_to_string (me_json cfg) (JObject fv)) in
      io_then (on_os (fill_random 32)) (\<lambda>account_seed.
      io_then (io_lift (map_err (\<lambda>_. ()) (keypair_from_secret (me_keys cfg) account_seed))) (\<lambda>account.
      let account_hex = hex_encode hx (h256_bytes (keypair_account (me_keys cfg) account)) in
      io_then (http cfg env ''POST'' ''/v1/fund'' (print [(''account'', JStr account_hex)])) (\<lambda>fund.
      io_then (fetch_challenge cfg env (''/v1/register/challenge?account='' @ account_hex) d)
        (\<lambda>(challenge, block).
      let mldsa = sk_sign (me_keys cfg) signing_key challenge in
      io_then (http cfg env ''POST'' ''/v1/prepare'' (print [
          (''account'', JStr account_hex),
          (''pubkey'', JStr (hex_encode hx (sk_public (me_keys cfg) signing_key))),
          (''signature'', JStr (hex_encode hx mldsa)),
          (''signed_at_block'', JU64 (ucast block)),
          (''label'', JStr (var_or env ''LABEL'' ''me''))])) (\<lambda>text.
      io_then (unwrap (json_from_str (me_json cfg) text)) (\<lambda>prep.
      if json_get prep ''error'' \<noteq> None then
        io_return [''FUND='' @ fund, ''PREPARE='' @ json_to_string (me_json cfg) prep]
      else
        io_then (unwrap (as_str (json_index prep ''payload''))) (\<lambda>payload_hex.
        io_then (unwrap (hex_decode hx payload_hex)) (\<lambda>payload.
        let msg = (if length payload > 256 then h256_bytes (blake2_256 (me_prims cfg) payload) else payload);
            sig = me_account_sign cfg account msg in
        io_then (http cfg env ''POST'' ''/v1/finish'' (print [
            (''token'', json_index prep ''token''), (''account'', JStr account_hex),
            (''signature'', JStr (hex_encode hx sig))])) (\<lambda>finished.
        io_then (save_me cfg env key_label d (sk_bytes (me_keys cfg) signing_key)) (\<lambda>_.
        io_then (save_me cfg env (key_label @ ''-account'') d account_seed) (\<lambda>_.
        io_then (on_os (write_file (path_join dir ''controller.seed'') (ascii (hex_encode hx account_seed)))) (\<lambda>_.
        io_then (on_os (write_file (path_join dir ''owner.did'') (ascii (hex_encode hx (h256_bytes d))))) (\<lambda>_.
        io_return [''FUND='' @ fund, ''DID=0x'' @ hex_encode hx (h256_bytes d),
          ''FINISH='' @ finished]))))))))))))))"

definition register_me ::
  "('d, 'vk, 'sg, 'sk, 'kp) me_config \<Rightarrow> environ \<Rightarrow> ('d, string list) me_io" where
  "register_me cfg env =
     (let hx = me_hex cfg; dir = me_keystore_dir env in
      io_then (on_os (create_dir_all dir)) (\<lambda>_.
      io_then (on_os (fill_random 32)) (\<lambda>seed.
      let signing_key = sk_generate (me_keys cfg) seed;
          pubkey = sk_public (me_keys cfg) signing_key;
          d = blake2_256 (me_prims cfg) (ascii ''ArthNeura-DID-v1'' @ pubkey) in
      io_then (fetch_challenge cfg env ''/v1/register/challenge'' d) (\<lambda>(challenge, block).
      let signature = sk_sign (me_keys cfg) signing_key challenge;
          body = json_to_string (me_json cfg) (JObject [
            (''pubkey'', JStr (hex_encode hx pubkey)), (''signature'', JStr (hex_encode hx signature)),
            (''signed_at_block'', JU64 (ucast block)), (''label'', JStr (var_or env ''LABEL'' ''me''))]) in
      if env ''OWN_CONTROLLER'' = Some ''1'' then own_controller cfg env signing_key d
      else
        io_then (http cfg env ''POST'' ''/v1/register'' body) (\<lambda>res.
        io_then (save_me cfg env (me_label env) d (sk_bytes (me_keys cfg) signing_key)) (\<lambda>_.
        io_return [''DID=0x'' @ hex_encode hx (h256_bytes d), res]))))))"

section \<open>Through the door\<close>

text \<open>
  \<^verbatim>\<open>curl -sf\<close> in front of a door: it sends a request whose first line names the method and the path
  and whose body follows the first empty line, succeeds on a status below 400 only, and prints the
  body of the answer.
\<close>

definition curl_reaches ::
  "('n, 'p, 'vk, 'sg) door_config \<Rightarrow> (('n, (string \<times> 'p) list) world, 'vk2, 'sg2, 'sk, 'kp) me_config
     \<Rightarrow> string \<Rightarrow> bool" where
  "curl_reaches door cfg base \<longleftrightarrow> (\<forall>verb path body w.
     CHR '' '' \<notin> set verb \<and> char_of (10 :: nat) \<notin> set (verb @ path) \<and> char_of (13 :: nat) \<notin> set (verb @ path @ body) \<longrightarrow>
     (\<exists>req. nth_or_empty 0 (lines_of req) = verb @ '' '' @ path @ '' HTTP/1.1'' \<and>
        nth_or_empty 1 (split_str (string_of HEAD_END) req) = body \<and>
        me_curl cfg (curl_args verb (base @ path) body) w = (case route door req w of
            (Inl _, w') \<Rightarrow> (Inr \<lparr>out_success = False, out_stdout = []\<rparr>, w')
          | (Inr resp, w') \<Rightarrow> (Inr (if rsp_status resp = ''200 OK''
              then \<lparr>out_success = True,
                    out_stdout = ascii (json_to_string (door_json door) (JObject (rsp_body resp)))\<rparr>
              else \<lparr>out_success = False, out_stdout = []\<rparr>), w'))))"

lemma curl_reachesD:
  assumes "curl_reaches door cfg base" "CHR '' '' \<notin> set verb" "char_of (10 :: nat) \<notin> set (verb @ path)"
    "char_of (13 :: nat) \<notin> set (verb @ path @ body)"
  obtains req where "nth_or_empty 0 (lines_of req) = verb @ '' '' @ path @ '' HTTP/1.1''"
    "nth_or_empty 1 (split_str (string_of HEAD_END) req) = body"
    "\<And>resp w'. route door req w = (Inr resp, w') \<Longrightarrow> rsp_status resp = ''200 OK'' \<Longrightarrow>
       me_curl cfg (curl_args verb (base @ path) body) w = (Inr \<lparr>out_success = True,
         out_stdout = ascii (json_to_string (door_json door) (JObject (rsp_body resp)))\<rparr>, w')"
    "snd (me_curl cfg (curl_args verb (base @ path) body) w) = snd (route door req w)"
proof -
  obtain req where "nth_or_empty 0 (lines_of req) = verb @ '' '' @ path @ '' HTTP/1.1''"
    "nth_or_empty 1 (split_str (string_of HEAD_END) req) = body"
    "me_curl cfg (curl_args verb (base @ path) body) w = (case route door req w of
        (Inl _, w') \<Rightarrow> (Inr \<lparr>out_success = False, out_stdout = []\<rparr>, w')
      | (Inr resp, w') \<Rightarrow> (Inr (if rsp_status resp = ''200 OK''
          then \<lparr>out_success = True,
                out_stdout = ascii (json_to_string (door_json door) (JObject (rsp_body resp)))\<rparr>
          else \<lparr>out_success = False, out_stdout = []\<rparr>), w'))"
    using assms unfolding curl_reaches_def by meson
  then show thesis using that by (auto split: prod.splits sum.splits)
qed

lemma http_ok:
  assumes "me_curl cfg (curl_args verb (door_base env @ path) body) (me_door w)
      = (Inr \<lparr>out_success = True, out_stdout = ascii text\<rparr>, d)" "valid_utf8 (ascii text)"
  shows "http cfg env verb path body w = (Inr text, w\<lparr>me_door := d\<rparr>)"
  using assms by (simp add: http_def io_then_def on_door_def)

lemma http_door: "me_door (snd (http cfg env verb path body w))
    = snd (me_curl cfg (curl_args verb (door_base env @ path) body) (me_door w))"
  by (auto simp: http_def io_then_def on_door_def io_ensure_def split: prod.splits sum.splits)

text \<open>What touches only the agent's own machine.\<close>

definition same_door :: "'d me_world \<Rightarrow> 'd me_world \<Rightarrow> bool" where
  "same_door w w' \<longleftrightarrow> me_door w' = me_door w"

lemma same_door_rel: "reflp same_door" "transp same_door"
  by (auto simp: same_door_def intro!: reflpI transpI)

lemma same_door_on_os: "io_keeps same_door (on_os m)"
  by (simp add: io_keeps_def same_door_def on_os_def case_prod_beta)

lemma io_then_door: "(\<And>x. io_keeps same_door (f x)) \<Longrightarrow> me_door (snd (io_then m f w)) = me_door (snd (m w))"
  using io_then_keeps [OF same_door_rel(1)] unfolding same_door_def .

section \<open>The door's answers\<close>

definition challenge_fields ::
  "('n, 'p, 'vk, 'sg) door_config \<Rightarrow> 'n \<Rightarrow> block_number \<Rightarrow> h256 \<Rightarrow> (string \<times> json) list" where
  "challenge_fields door n at at_hash = [
     (''genesis'', JStr (hex_encode (door_hex door) (h256_bytes (genesis_hash (door_node door) n)))),
     (''controller'', JStr (hex_encode (door_hex door) (h256_bytes (alice door)))),
     (''block'', JU64 (ucast at)),
     (''hash'', JStr (hex_encode (door_hex door) (h256_bytes at_hash)))]"

lemma route_challenge:
  assumes "nth_or_empty 0 (lines_of req) = ''GET /v1/register/challenge HTTP/1.1''"
    "at_latest (door_node door) (w_node w) = (Inr (at, at_hash), n)"
  shows "route door req w = (Inr (ok_200 (challenge_fields door n at at_hash)), w\<lparr>w_node := n\<rparr>)"
proof -
  let ?line = "''GET /v1/register/challenge HTTP/1.1''"
  have q: "List.map_filter (strip_prefix ''account='') (split_on (CHR ''&'')
      (nth_or_empty 0 (split_on (CHR '' '') (nth_or_empty 1 (split_on (CHR ''?'') ?line))))) = []"
    by code_simp
  have "starts_with ?line ''GET /v1/register/challenge''" by code_simp
  then have "route door req = handle_challenge door ?line"
    using assms(1) by (simp add: route_def)
  moreover have "length (nth_or_empty 0 ([] :: string list)) \<noteq> 64" by code_simp
  ultimately show ?thesis
    using assms(2) unfolding handle_challenge_def q Let_def
    by (simp add: io_then_def io_map_err_def latest_block_def fetch_genesis_hash_def challenge_fields_def)
qed

lemma route_register:
  assumes "nth_or_empty 0 (lines_of req) = ''POST /v1/register HTTP/1.1''"
  shows "route door req = handle_register door req"
proof -
  let ?line = "''POST /v1/register HTTP/1.1''"
  have "\<not> starts_with ?line ''GET /v1/register/challenge''" "\<not> starts_with ?line ''POST /v1/prepare''"
    "\<not> starts_with ?line ''POST /v1/finish''" "\<not> starts_with ?line ''POST /v1/fund''"
    "\<not> starts_with ?line ''POST /v1/submit''" "starts_with ?line ''POST /v1/register''"
    by code_simp+
  with assms show ?thesis by (simp add: route_def)
qed

lemma or_bad_return_snd: "snd (or_bad m (\<lambda>x. io_return (g x)) w) = snd (m w)"
  by (auto simp: or_bad_def split: prod.splits sum.splits)

lemma register_route_sends:
  assumes "nth_or_empty 0 (lines_of req) = ''POST /v1/register HTTP/1.1''"
    "json_from_str (door_json door) (nth_or_empty 1 (split_str (string_of HEAD_END) req)) = Some v"
    "hex_field door v ''pubkey'' = pubkey" "hex_field door v ''signature'' = signature"
    "u64_field v ''signed_at_block'' = ucast at" "str_field v ''label'' = lbl"
    "pubkey \<noteq> []" "signature \<noteq> []" "at \<noteq> 0"
  shows "w_sent (snd (route door req w)) = w_sent w @
    [(alice door, registry_tx (RegisterAgent pubkey signature at 1 (ascii ''door'') (ascii lbl)))]"
proof -
  have "(ucast (ucast at :: u64) :: u32) = at" by (rule bit_word_eqI) (simp add: bit_simps)
  then show ?thesis
    using assms
    by (simp add: route_register handle_register_def with_body_def or_bad_return_snd
        simple_registry_clients_send)
qed

section \<open>Registration through the door\<close>

text \<open>The two programs use the same crates, and \<^verbatim>\<open>curl\<close> connects them.\<close>

definition wired ::
  "('n, 'p, 'vk, 'sg) door_config \<Rightarrow> (('n, (string \<times> 'p) list) world, 'vk, 'sg, 'sk, 'kp) me_config
     \<Rightarrow> environ \<Rightarrow> bool" where
  "wired door cfg env \<longleftrightarrow> door_hex door = me_hex cfg \<and> door_json door = me_json cfg \<and>
     hex_laws (me_hex cfg) \<and> serde_json_laws (me_json cfg) \<and> curl_reaches door cfg (door_base env)"

lemma keys_utf8: "valid_utf8 (ascii ''genesis'')" "valid_utf8 (ascii ''controller'')" "valid_utf8 (ascii ''block'')"
  "valid_utf8 (ascii ''hash'')" "valid_utf8 (ascii ''pubkey'')" "valid_utf8 (ascii ''signature'')"
  "valid_utf8 (ascii ''signed_at_block'')" "valid_utf8 (ascii ''label'')"
  by code_simp+

lemma field32_hex:
  assumes "hex_laws (me_hex cfg)" "json_index v key = JStr (hex_encode (me_hex cfg) (h256_bytes x))"
  shows "field32 cfg v key w = (Inr x, w)"
  using assms by (simp add: field32_def unwrap_def io_then_def hex_laws_def)

lemma fetch_challenge_ok:
  assumes "wired door cfg env"
    "at_latest (door_node door) (w_node (me_door w)) = (Inr (at, at_hash), n)"
  shows "fetch_challenge cfg env ''/v1/register/challenge'' d w =
    (Inr (client_challenge (me_prims cfg) (genesis_hash (door_node door) n) d (alice door) at at_hash, at),
     w\<lparr>me_door := (me_door w)\<lparr>w_node := n\<rparr>\<rparr>)"
proof -
  let ?fv = "challenge_fields door n at at_hash"
  have laws: "hex_laws (me_hex cfg)" "serde_json_laws (me_json cfg)" "door_hex door = me_hex cfg"
    "door_json door = me_json cfg" and curl: "curl_reaches door cfg (door_base env)"
    using assms(1) by (auto simp: wired_def)
  have flat: "flat_fields ?fv"
    using laws(1,3) keys_utf8 by (simp add: flat_fields_def challenge_fields_def hex_text_valid)
  have path: "CHR '' '' \<notin> set ''GET''" "char_of (10 :: nat) \<notin> set (''GET'' @ ''/v1/register/challenge'')"
    "char_of (13 :: nat) \<notin> set (''GET'' @ ''/v1/register/challenge'' @ [])" by code_simp+
  obtain req where req: "nth_or_empty 0 (lines_of req) = ''GET'' @ '' '' @ ''/v1/register/challenge'' @ '' HTTP/1.1''"
    and out: "\<And>resp w'. route door req (me_door w) = (Inr resp, w') \<Longrightarrow> rsp_status resp = ''200 OK'' \<Longrightarrow>
       me_curl cfg (curl_args ''GET'' (door_base env @ ''/v1/register/challenge'') []) (me_door w) =
         (Inr \<lparr>out_success = True,
           out_stdout = ascii (json_to_string (door_json door) (JObject (rsp_body resp)))\<rparr>, w')"
    by (rule curl_reachesD [OF curl path, of "me_door w"]) (rule that)
  have "route door req (me_door w) = (Inr (ok_200 ?fv), (me_door w)\<lparr>w_node := n\<rparr>)"
    by (rule route_challenge) (use req assms(2) in simp_all)
  from out [OF this] have http: "http cfg env ''GET'' ''/v1/register/challenge'' [] w =
      (Inr (json_to_string (me_json cfg) (JObject ?fv)), w\<lparr>me_door := (me_door w)\<lparr>w_node := n\<rparr>\<rparr>)"
    using json_printed_text(1) [OF laws(2) flat] laws(4) by (intro http_ok) (simp_all add: ok_200_def)
  obtain v where v: "json_from_str (me_json cfg) (json_to_string (me_json cfg) (JObject ?fv)) = Some v"
    "\<And>key. json_index v key = (case map_of ?fv key of Some x \<Rightarrow> x | None \<Rightarrow> JNull)"
    using json_printed [OF laws(2) flat] by blast
  have fields: "json_index v ''genesis'' = JStr (hex_encode (me_hex cfg) (h256_bytes (genesis_hash (door_node door) n)))"
    "json_index v ''controller'' = JStr (hex_encode (me_hex cfg) (h256_bytes (alice door)))"
    "json_index v ''hash'' = JStr (hex_encode (me_hex cfg) (h256_bytes at_hash))"
    "json_index v ''block'' = JU64 (ucast at)"
    by (simp_all add: v(2) challenge_fields_def laws(3))
  have "(ucast (ucast at :: u64) :: u32) = at" by (rule bit_word_eqI) (simp add: bit_simps)
  then show ?thesis
    unfolding fetch_challenge_def
    by (simp add: io_then_def http v(1) unwrap_def fields(4)
        field32_hex [OF laws(1) fields(1)] field32_hex [OF laws(1) fields(2)] field32_hex [OF laws(1) fields(3)])
qed

lemma register_post_sends:
  assumes "wired door cfg env" "valid_utf8 (ascii lbl)" "pubkey \<noteq> []" "signature \<noteq> []" "at \<noteq> 0"
  shows "w_sent (snd (me_curl cfg (curl_args ''POST'' (door_base env @ ''/v1/register'')
      (json_to_string (me_json cfg) (JObject [
         (''pubkey'', JStr (hex_encode (me_hex cfg) pubkey)), (''signature'', JStr (hex_encode (me_hex cfg) signature)),
         (''signed_at_block'', JU64 (ucast at)), (''label'', JStr lbl)]))) w)) = w_sent w @
    [(alice door, registry_tx (RegisterAgent pubkey signature at 1 (ascii ''door'') (ascii lbl)))]"
    (is "w_sent (snd (me_curl cfg (curl_args _ _ (json_to_string _ (JObject ?fv))) w)) = _")
proof -
  let ?body = "json_to_string (me_json cfg) (JObject ?fv)"
  have laws: "hex_laws (me_hex cfg)" "serde_json_laws (me_json cfg)" "door_hex door = me_hex cfg"
    "door_json door = me_json cfg" and curl: "curl_reaches door cfg (door_base env)"
    using assms(1) by (auto simp: wired_def)
  have flat: "flat_fields ?fv" using laws(1) keys_utf8 assms(2) by (simp add: flat_fields_def hex_text_valid)
  have path: "CHR '' '' \<notin> set ''POST''" "char_of (10 :: nat) \<notin> set (''POST'' @ ''/v1/register'')"
    "char_of (13 :: nat) \<notin> set (''POST'' @ ''/v1/register'')" by code_simp+
  have body: "char_of (13 :: nat) \<notin> set (''POST'' @ ''/v1/register'' @ ?body)"
    using path(3) json_printed_text(2) [OF laws(2) flat] unfolding set_append by blast
  obtain req where req: "nth_or_empty 0 (lines_of req) = ''POST'' @ '' '' @ ''/v1/register'' @ '' HTTP/1.1''"
    "nth_or_empty 1 (split_str (string_of HEAD_END) req) = ?body"
    and out: "snd (me_curl cfg (curl_args ''POST'' (door_base env @ ''/v1/register'') ?body) w) = snd (route door req w)"
    by (rule curl_reachesD [OF curl path(1,2) body, of w])
  obtain v where v: "json_from_str (me_json cfg) ?body = Some v"
    "\<And>key. json_index v key = (case map_of ?fv key of Some x \<Rightarrow> x | None \<Rightarrow> JNull)"
    using json_printed [OF laws(2) flat] by blast
  have "hex_decode (me_hex cfg) (hex_encode (me_hex cfg) b) = Some b" for b
    using laws(1) by (simp add: hex_laws_def)
  then show ?thesis
    unfolding out
    by (intro register_route_sends [where v = v])
      (use req v assms(3-5) laws in \<open>simp_all add: hex_field_def hex_or_empty_def str_field_def u64_field_def trim_0x_hex\<close>)
qed

lemma register_me_sends:
  assumes "wired door cfg env" "env ''OWN_CONTROLLER'' \<noteq> Some ''1''"
    "valid_utf8 (ascii (var_or env ''LABEL'' ''me''))"
    "\<not> faulty (me_os w)" "\<forall>q \<in> set (prefixes (me_keystore_dir env)). file_at (me_os w) q = None"
    "os_random (me_os w) (Suc (os_clock (me_os w))) = Some f"
    "sk_public (me_keys cfg) (sk_generate (me_keys cfg) (map f [0..<32])) \<noteq> []"
    "\<And>m. sk_sign (me_keys cfg) (sk_generate (me_keys cfg) (map f [0..<32])) m \<noteq> []"
    "at_latest (door_node door) (w_node (me_door w)) = (Inr (at, at_hash), n)" "at \<noteq> 0"
  shows "w_sent (me_door (snd (register_me cfg env w))) = w_sent (me_door w) @
    [(alice door, registry_tx (client_registration (me_prims cfg) (me_keys cfg) (map f [0..<32])
        (genesis_hash (door_node door) n) (alice door) at at_hash 1 (ascii ''door'')
        (ascii (var_or env ''LABEL'' ''me''))))]"
proof -
  let ?sk = "sk_generate (me_keys cfg) (map f [0..<32])"
  let ?d = "derive_did (me_prims cfg) (sk_public (me_keys cfg) ?sk)"
  define w1 where "w1 = w\<lparr>me_os := tick (me_os w)\<lparr>os_dirs := prefixes (me_keystore_dir env) @ os_dirs (me_os w)\<rparr>\<rparr>"
  define w2 where "w2 = w1\<lparr>me_os := tick (me_os w1)\<rparr>"
  have m: "on_os (create_dir_all (me_keystore_dir env)) w = (Inr (), w1)"
    using assms(4,5) by (simp add: on_os_def create_dir_all_def w1_def)
  have r: "on_os (fill_random 32) w1 = (Inr (map f [0..<32]), w2)" "me_door w2 = me_door w"
    using assms(6) by (simp_all add: on_os_def fill_random_def w1_def w2_def)
  have at: "at_latest (door_node door) (w_node (me_door w2)) = (Inr (at, at_hash), n)" using assms(9) r(2) by simp
  note ch = fetch_challenge_ok [OF assms(1) at, of ?d]
  have save: "io_keeps same_door (io_then (save_me cfg env (me_label env) d k) (\<lambda>_. io_return y))" for d k y
    unfolding save_me_def
    by (intro io_keeps_then [OF same_door_rel(2)] same_door_on_os io_keeps_basic [OF same_door_rel(1)])
  have did: "blake2_256 (me_prims cfg) (ascii ''ArthNeura-DID-v1'' @ pk) = derive_did (me_prims cfg) pk" for pk
    by (simp add: derive_did_def did_preimage_def)
  show ?thesis
    using assms(2)
    by (simp add: register_me_def io_then_eval m r ch did
        io_then_door save http_door Let_def register_post_sends [OF assms(1,3,7,8,10)]
        client_registration_def client_challenge_eq)
qed

section \<open>The account's secret\<close>

lemma on_os_Inr [io_simps]:
  "on_os m w = (Inr r, w') \<longleftrightarrow> (\<exists>s. m (me_os w) = (Inr r, s) \<and> w' = w\<lparr>me_os := s\<rparr>)"
  by (auto simp: on_os_def map_err_Inr split: prod.splits)

lemma unwrap_Inr [io_simps]: "unwrap x w = (Inr r, w') \<longleftrightarrow> x = Some r \<and> w' = w"
  by (auto simp: unwrap_def ok_or_def split: option.splits)

lemma own_controller_writes_seed:
  assumes "own_controller cfg env signing_key d w = (Inr lines, w')" "length lines = 3"
  obtains f account where "os_random (me_os w) (os_clock (me_os w)) = Some f"
    "keypair_from_secret (me_keys cfg) (map f [0..<32]) = Inr account"
    "file_at (me_os w') (me_keystore_dir env @ [''controller.seed''])
       = Some (ascii (hex_encode (me_hex cfg) (map f [0..<32])))"
proof -
  have names: "path_join dir ''controller.seed'' = dir @ [''controller.seed'']"
    "path_join dir ''owner.did'' = dir @ [''owner.did'']" for dir
    by (rule path_join_component; simp)+
  from assms obtain f account u v where
    "os_random (me_os w) (os_clock (me_os w)) = Some f"
    "keypair_from_secret (me_keys cfg) (map f [0..<32]) = Inr account"
    "write_file (me_keystore_dir env @ [''controller.seed''])
       (ascii (hex_encode (me_hex cfg) (map f [0..<32]))) u = (Inr (), v)"
    "write_file (me_keystore_dir env @ [''owner.did'']) (ascii (hex_encode (me_hex cfg) (h256_bytes d))) v
       = (Inr (), me_os w')"
    by (auto simp: own_controller_def Let_def io_simps res_simps names fill_random_Inr split: if_splits)
  then show thesis using that by (auto simp: write_file_Inr)
qed

end
