(* ===== verification/Cli_Sample.thy ===== *)
theory Cli_Sample
  imports Client_Sample Vdb_Main Registry_Main Register_Me
begin

text \<open>
  Concrete instances for the witnesses about the binaries: a JSON printer and parser for flat
  objects, a \<^verbatim>\<open>curl\<close> that talks to a door, and the configurations built from them.
\<close>

section \<open>JSON\<close>

text \<open>A field is its name in hexadecimal, a letter for its type, its value, and a slash.\<close>

fun sample_field :: "string \<times> json \<Rightarrow> string" where
  "sample_field (key, JStr s) = sample_hex_encode (ascii key) @ ''s'' @ sample_hex_encode (ascii s) @ ''/''"
| "sample_field (key, JU64 n) = sample_hex_encode (ascii key) @ ''u'' @ show_nat (unat n) @ ''/''"
| "sample_field _ = []"

fun sample_print :: "json \<Rightarrow> string" where
  "sample_print (JObject fv) = concat (map sample_field fv)"
| "sample_print _ = []"

definition hex_string :: "string \<Rightarrow> string" where
  "hex_string s = (case sample_hex_decode s of Some b \<Rightarrow> string_of b | None \<Rightarrow> [])"

definition parse_field :: "string \<Rightarrow> string \<times> json" where
  "parse_field t = (case split_on (CHR ''s'') t of
       [key, s] \<Rightarrow> (hex_string key, JStr (hex_string s))
     | _ \<Rightarrow> (case split_on (CHR ''u'') t of
         [key, n] \<Rightarrow> (hex_string key, JU64 (of_nat (read_nat n)))
       | _ \<Rightarrow> ([], JNull)))"

definition sample_parse :: "string \<Rightarrow> json option" where
  "sample_parse t = Some (JObject (map parse_field (butlast (split_on (CHR ''/'') t))))"

definition sample_serde :: serde_json where
  "sample_serde = \<lparr>json_from_str = sample_parse, json_to_string = sample_print\<rparr>"

lemma digit_hex: "c \<in> set (show_nat n) \<Longrightarrow> c \<in> hex_chars"
proof -
  assume "c \<in> set (show_nat n)"
  then obtain d where "d < 10" "c = digit_char d" using show_nat_digits by blast
  moreover have "\<forall>d \<in> set [0..<10]. digit_char d \<in> hex_chars" by code_simp
  ultimately show ?thesis by simp
qed

lemma not_hex: "CHR ''s'' \<notin> hex_chars" "CHR ''u'' \<notin> hex_chars" "char_of (13 :: nat) \<notin> hex_chars"
  by code_simp+

lemma hex_absent: "c \<notin> hex_chars \<Longrightarrow> c \<notin> set (sample_hex_encode b)" "c \<notin> hex_chars \<Longrightarrow> c \<notin> set (show_nat n)"
  using sample_hex_chars [of b] digit_hex by (blast, blast)

lemmas plain_sep = not_hex(1,2) [THEN hex_absent(1)] slash_not_hex [THEN hex_absent(1)]
  not_hex(1,2) [THEN hex_absent(2)] slash_not_hex [THEN hex_absent(2)]

lemma parse_field_str:
  "parse_field (sample_hex_encode (ascii key) @ ''s'' @ sample_hex_encode (ascii s)) = (key, JStr s)"
  by (simp add: parse_field_def split_on_append split_on_absent plain_sep hex_string_def sample_hex_roundtrip
      del: sample_hex_encode.simps)

lemma parse_field_num:
  "parse_field (sample_hex_encode (ascii key) @ ''u'' @ show_nat (unat n)) = (key, JU64 n)"
proof -
  have "CHR ''s'' \<notin> set (sample_hex_encode (ascii key) @ ''u'' @ show_nat (unat n))" using plain_sep by simp
  then show ?thesis
    by (simp add: parse_field_def split_on_append split_on_absent plain_sep hex_string_def sample_hex_roundtrip
        read_show_nat del: sample_hex_encode.simps)
qed

lemma split_field:
  assumes "flat_json v"
  obtains t where "\<And>ys. split_on (CHR ''/'') (sample_field (key, v) @ ys) = t # split_on (CHR ''/'') ys"
    "parse_field t = (key, v)"
proof (cases v)
  case (JStr s)
  let ?t = "sample_hex_encode (ascii key) @ ''s'' @ sample_hex_encode (ascii s)"
  have "CHR ''/'' \<notin> set ?t" using plain_sep(3) by simp
  then have "split_on (CHR ''/'') (?t @ CHR ''/'' # ys) = ?t # split_on (CHR ''/'') ys" for ys
    by (rule split_on_append)
  then show thesis using that [of ?t] JStr parse_field_str by simp
next
  case (JU64 n)
  let ?t = "sample_hex_encode (ascii key) @ ''u'' @ show_nat (unat n)"
  have "CHR ''/'' \<notin> set ?t" using plain_sep(3,6) by simp
  then have "split_on (CHR ''/'') (?t @ CHR ''/'' # ys) = ?t # split_on (CHR ''/'') ys" for ys
    by (rule split_on_append)
  then show thesis using that [of ?t] JU64 parse_field_num by simp
qed (use assms in simp_all)

lemma split_on_nonempty: "split_on d ys \<noteq> []"
  by (induction ys) (auto split: list.splits)

lemma sample_parse_print:
  "list_all (\<lambda>(key, v). valid_utf8 (ascii key) \<and> flat_json v) fv \<Longrightarrow>
   sample_parse (sample_print (JObject fv)) = Some (JObject fv)"
proof -
  assume "list_all (\<lambda>(key, v). valid_utf8 (ascii key) \<and> flat_json v) fv"
  then have "map parse_field (butlast (split_on (CHR ''/'') (concat (map sample_field fv)))) = fv"
  proof (induction fv)
    case (Cons x fv)
    obtain key v where x: "x = (key, v)" by fastforce
    with Cons.prems have "flat_json v" by simp
    then obtain t where "\<And>ys. split_on (CHR ''/'') (sample_field (key, v) @ ys) = t # split_on (CHR ''/'') ys"
      "parse_field t = (key, v)" using split_field by blast
    then show ?case using Cons x by (simp add: split_on_nonempty del: sample_field.simps)
  qed simp
  then show ?thesis by (simp add: sample_parse_def)
qed

lemma sample_field_chars:
  "c \<in> set (sample_field (key, v)) \<Longrightarrow> c \<in> insert (CHR ''s'') (insert (CHR ''u'') (insert (CHR ''/'') hex_chars))"
  using sample_hex_chars digit_hex
  by (cases "(key, v)" rule: sample_field.cases) (auto simp del: sample_hex_encode.simps dest: subsetD)

lemma serde_sample: "serde_json_laws sample_serde"
  unfolding serde_json_laws_def
proof (intro allI impI conjI)
  fix fv
  assume flat: "flat_fields fv"
  have chars: "set (sample_print (JObject fv)) \<subseteq> insert (CHR ''s'') (insert (CHR ''u'') (insert (CHR ''/'') hex_chars))"
    using sample_field_chars by fastforce
  show "\<exists>v. json_from_str sample_serde (json_to_string sample_serde (JObject fv)) = Some v \<and>
      (\<forall>key. json_get v key = map_of fv key)"
    using flat sample_parse_print [of fv] by (simp add: flat_fields_def sample_serde_def)
  have "\<forall>c \<in> insert (CHR ''s'') (insert (CHR ''u'') (insert (CHR ''/'') hex_chars)). (of_nat (of_char c) :: u8) < 0x80"
    by code_simp
  then show "valid_utf8 (ascii (json_to_string sample_serde (JObject fv)))"
    using chars by (intro valid_utf8_ascii) (auto simp: sample_serde_def ascii_def simp del: sample_print.simps)
  have "char_of (13 :: nat) \<notin> insert (CHR ''s'') (insert (CHR ''u'') (insert (CHR ''/'') hex_chars))" by code_simp
  then show "char_of (13 :: nat) \<notin> set (json_to_string sample_serde (JObject fv))"
    using chars by (auto simp: sample_serde_def simp del: sample_print.simps)
qed

section \<open>curl\<close>

definition sample_request :: "string \<Rightarrow> string \<Rightarrow> string \<Rightarrow> string" where
  "sample_request verb path body = verb @ '' '' @ path @ '' HTTP/1.1'' @ string_of HEAD_END @ body"

lemma head_end_chars: "string_of HEAD_END = [char_of (13 :: nat), char_of (10 :: nat), char_of (13 :: nat), char_of (10 :: nat)]"
  by (simp add: string_of_def HEAD_END_def)

lemma split_str_skip:
  "\<forall>c \<in> set xs. c \<noteq> d \<Longrightarrow> split_str_acc (d # p) acc (xs @ ys) 0 = split_str_acc (d # p) (acc @ xs) ys 0"
  by (induction xs arbitrary: acc) (simp_all add: starts_with_def)

lemma split_str_skipped: "split_str_acc p acc (xs @ ys) (length xs) = split_str_acc p acc ys 0"
  by (induction xs) simp_all

lemma split_str_two:
  assumes "d \<notin> set xs" "d \<notin> set ys"
  shows "split_str (d # p) (xs @ (d # p) @ ys) = [xs, ys]"
proof -
  have "split_str_acc (d # p) xs ((d # p) @ ys) 0 = xs # split_str_acc (d # p) [] ys 0"
    by (simp add: starts_with_def split_str_skipped)
  moreover have "split_str_acc (d # p) [] (ys @ []) 0 = [ys]"
    using assms(2) by (subst split_str_skip) auto
  ultimately show ?thesis
    using split_str_skip [of xs d p "[]" "(d # p) @ ys"] assms(1) by (auto simp: split_str_def)
qed

lemma sample_request_body:
  assumes "char_of (13 :: nat) \<notin> set (verb @ path @ body)"
  shows "nth_or_empty 1 (split_str (string_of HEAD_END) (sample_request verb path body)) = body"
proof -
  have "char_of (13 :: nat) \<notin> set (''  HTTP/1.1'')" by code_simp
  then have "split_str (string_of HEAD_END) ((verb @ '' '' @ path @ '' HTTP/1.1'') @ string_of HEAD_END @ body)
      = [verb @ '' '' @ path @ '' HTTP/1.1'', body]"
    using assms unfolding head_end_chars by (intro split_str_two) auto
  then show ?thesis by (simp add: sample_request_def nth_or_empty_def)
qed

lemma sample_request_line:
  assumes "char_of (10 :: nat) \<notin> set (verb @ path)"
  shows "nth_or_empty 0 (lines_of (sample_request verb path body)) = verb @ '' '' @ path @ '' HTTP/1.1''"
proof -
  let ?l = "verb @ '' '' @ path @ '' HTTP/1.1'' @ [char_of (13 :: nat)]"
  have "char_of (10 :: nat) \<notin> set ('' HTTP/1.1'' @ [char_of (13 :: nat)])" by code_simp
  then have "char_of (10 :: nat) \<notin> set ?l" using assms by auto
  then have "split_on (char_of (10 :: nat)) (?l @ char_of (10 :: nat) # ys) = ?l # split_on (char_of (10 :: nat)) ys" for ys
    by (rule split_on_append)
  then obtain ys where ys: "split_on (char_of (10 :: nat)) (sample_request verb path body) = ?l # ys" "ys \<noteq> []"
    unfolding sample_request_def head_end_chars using split_on_nonempty by fastforce
  then show ?thesis by (simp add: lines_of_def Let_def nth_or_empty_def drop_cr_def butlast_append)
qed

definition sample_curl ::
  "('n, 'p, 'vk, 'sg) door_config \<Rightarrow> string \<Rightarrow> string list
     \<Rightarrow> (('n, (string \<times> 'p) list) world, unit, curl_output) io" where
  "sample_curl door base args w =
     (let verb = args ! 2; path = drop (length base) (args ! 3);
          body = (if length args = 8 then args ! 7 else []) in
      case route door (sample_request verb path body) w of
        (Inl _, w') \<Rightarrow> (Inr \<lparr>out_success = False, out_stdout = []\<rparr>, w')
      | (Inr resp, w') \<Rightarrow> (Inr (if rsp_status resp = ''200 OK''
          then \<lparr>out_success = True,
                out_stdout = ascii (json_to_string (door_json door) (JObject (rsp_body resp)))\<rparr>
          else \<lparr>out_success = False, out_stdout = []\<rparr>), w'))"

lemma sample_curl_reaches: "me_curl cfg = sample_curl door base \<Longrightarrow> curl_reaches door cfg base"
  unfolding curl_reaches_def
  by (intro allI impI, rule_tac x = "sample_request verb path body" in exI)
    (auto simp: sample_request_line sample_request_body [unfolded One_nat_def] sample_curl_def curl_args_def Let_def)

section \<open>Configurations\<close>

definition no_env :: environ where
  "no_env = (\<lambda>_. None)"

definition agent_door :: "(unit, nat, bytes, bytes) door_config" where
  "agent_door = \<lparr>door_node = sample_node,
     create_partial_signed = (\<lambda>_ _ n. (Inr 7, n)), signer_payload = (\<lambda>_. []),
     sign_with_address_and_signature = (\<lambda>_ _ _. []), rpc_connect = (\<lambda>n. (Inr (), n)),
     system_dry_run = (\<lambda>_ n. (Inr [], n)), dry_debug = (\<lambda>_. []), submit_encoded = (\<lambda>_ n. (Inr 0, n)),
     author_submit_extrinsic = (\<lambda>_ n. (Inr [], n)), door_json = sample_serde, door_hex = sample_hex,
     door_prims = sample_prims, alice = 1, fund_amount_var = None\<rparr>"

definition sample_me :: "((unit, (string \<times> nat) list) world, bytes, bytes, bytes, bytes) me_config" where
  "sample_me = \<lparr>me_prims = sample_prims, me_keys = sample_keys, me_crypto = sample_crypto,
     me_json = sample_serde, me_account_sign = (\<lambda>_ m. m),
     me_curl = sample_curl agent_door (door_base no_env)\<rparr>"

definition sample_me_world :: "(unit, (string \<times> nat) list) world me_world" where
  "sample_me_world = \<lparr>me_os = sample_os, me_door = \<lparr>w_node = (), w_host = [], w_sent = []\<rparr>\<rparr>"

lemma wired_sample: "wired agent_door sample_me no_env"
  using sample_curl_reaches [of sample_me agent_door "door_base no_env"] hex_laws_sample serde_sample
  by (simp add: wired_def agent_door_def sample_me_def sample_crypto_def)

section \<open>A run of the vector-db program\<close>

definition sample_cli :: "(unit, bytes, bytes, h256 option \<times> h256 list) cli_config" where
  "sample_cli = \<lparr>cli_node = sample_node, cli_connect = (\<lambda>_ n. (Inr (), n)),
     cli_fetch_account = (\<lambda>_ n. (Inr None, n)), cli_prims = sample_prims, cli_merkle = sample_merkle,
     cli_hex = sample_hex, cli_keypair = (\<lambda>_. Inr 3), dev_alice = 1, dev_bob = 2\<rparr>"

definition sample_vars :: environ where
  "sample_vars = [''PROVIDER_DID'' \<mapsto> sample_hex_encode (h256_bytes 17),
     ''CONSUMER_DID'' \<mapsto> sample_hex_encode (h256_bytes 18), ''PAYLOAD'' \<mapsto> ''abc'',
     ''MERKLE_ROOT'' \<mapsto> sample_hex_encode (h256_bytes 5)]"

lemma hex32_hex:
  assumes "hex_laws (cli_hex cfg)" "vars name = Some (hex_encode (cli_hex cfg) (h256_bytes x))"
  shows "hex32 cfg vars name = Inr x"
proof -
  have "hex_decode (cli_hex cfg) (hex_encode (cli_hex cfg) b) = Some b" for b
    using assms(1) by (simp add: hex_laws_def)
  then show ?thesis using assms by (simp add: hex32_def trim_hex trim_0x_hex)
qed

lemma sample_provided_root: "provided_root sample_cli sample_vars = Some 5"
  using trim_hex [OF hex_laws_sample] trim_0x_hex [OF hex_laws_sample]
  by (simp add: provided_root_def sample_vars_def sample_cli_def sample_hex_def sample_hex_roundtrip
      del: sample_hex_encode.simps)

lemma sample_main_registers:
  "\<exists>lines w'. vdb_main sample_cli sample_vars sample_world = (Inr lines, w') \<and>
    w_sent w' = [(1, vdb_tx (RegisterCommitment 17 18 3 1 (ascii ''csv.v1'') 1000 75))]"
proof -
  let ?payload = "ascii ''abc''"
  have payload: "chunk_payload None ?payload = Inr [?payload]"
    "build_merkle_tree sample_prims sample_merkle [?payload] = Some (3, (Some 3, [3]))"
    by code_simp+
  have nonempty: "?payload \<noteq> []" by (simp add: ascii_def)
  have h: "blake2_256 sample_prims ?payload = 3" by (simp add: sample_prims_def ascii_def)
  let ?p = "fs_persist sample_hex STORE_ROOT 3 [?payload] sample_os"
  have ok: "is_ok (fst ?p)" "is_ok (fst (fs_rekey sample_hex STORE_ROOT 3 119 (snd ?p)))" by code_simp+
  have schema: "length (ascii ''csv.v1'') \<le> CLIENT_MAX_METADATA_LEN" by code_simp
  obtain s where reg: "register_commitment_client sample_prims sample_merkle sample_node None
      (fs_chunk_store sample_hex STORE_ROOT) 1 17 18 ?payload (ascii ''csv.v1'') 1000 75 sample_world =
    (Inr \<lparr>res_commitment_id = 119, res_merkle_root = 3, res_total_chunks = 1\<rparr>,
     sample_world\<lparr>w_host := s, w_sent := [(1, vdb_tx (RegisterCommitment 17 18 3 1 (ascii ''csv.v1'') 1000 75))]\<rparr>)"
    using sample_client_registers [OF schema nonempty payload, unfolded h, OF ok, of 1 17 18 1000 75] by auto
  have dids: "hex32 sample_cli sample_vars ''PROVIDER_DID'' = Inr 17" "hex32 sample_cli sample_vars ''CONSUMER_DID'' = Inr 18"
    by (rule hex32_hex; simp add: sample_cli_def sample_vars_def hex_laws_sample [unfolded sample_hex_def] sample_hex_def)+
  have vars: "var_or sample_vars ''ACTION'' ''register'' = ''register''" "seed_or sample_cli sample_vars 1 = Inr 1"
    "parse_or (2 ^ 32) sample_vars ''EXPIRES_IN_BLOCKS'' 1000 = 1000" "parse_or (2 ^ 128) sample_vars ''PRICE'' 75 = 75"
    "env_payload sample_vars = ?payload" "env_schema sample_vars = ascii ''csv.v1''" "sample_vars ''CHUNK_MODE'' = None"
    by (simp_all add: sample_vars_def var_or_def seed_or_def parse_or_def env_payload_def env_schema_def)
  have cli: "cli_prims sample_cli = sample_prims" "cli_merkle sample_cli = sample_merkle" "cli_node sample_cli = sample_node"
    "cli_hex sample_cli = sample_hex" "dev_alice sample_cli = 1" "cli_connect sample_cli ws n = (Inr (), n)" for ws n
    by (simp_all add: sample_cli_def)
  have node: "on_node (cli_connect sample_cli ws) sample_world = (Inr (), sample_world)" for ws
    by (simp add: on_node_def cli sample_world_def)
  note run = register_main_eval [OF vars(1) node dids, of 1, unfolded cli vars of_nat_numeral, OF refl reg]
  have "w_sent (sample_world\<lparr>w_host := s, w_sent := xs\<rparr>) = xs" for xs by simp
  with run show ?thesis by blast
qed

section \<open>A run of register-me\<close>

text \<open>A door that gives the same answer to every request, and a run against it.\<close>

definition const_answer :: json where
  "const_answer = JObject [(''genesis'', JStr (sample_hex_encode (h256_bytes 0))),
     (''controller'', JStr (sample_hex_encode (h256_bytes 0))), (''hash'', JStr (sample_hex_encode (h256_bytes 0))),
     (''block'', JU64 1), (''payload'', JStr []), (''token'', JStr ''p0'')]"

definition const_me :: "(unit, bytes, bytes, bytes, bytes) me_config" where
  "const_me = \<lparr>me_prims = sample_prims, me_keys = sample_keys, me_crypto = sample_crypto,
     me_json = \<lparr>json_from_str = (\<lambda>_. Some const_answer), json_to_string = (\<lambda>_. ''x'')\<rparr>,
     me_account_sign = (\<lambda>_ m. m), me_curl = (\<lambda>_ d. (Inr \<lparr>out_success = True, out_stdout = ascii ''x''\<rparr>, d))\<rparr>"

lemma const_me_simps:
  "me_hex const_me = sample_hex" "me_keys const_me = sample_keys" "me_crypto const_me = sample_crypto"
  "json_from_str (me_json const_me) t = Some const_answer" "keypair_from_secret sample_keys b = Inr b"
  "hex_of sample_crypto = sample_hex"
  by (simp_all add: const_me_def sample_crypto_def sample_keys_def)

lemma const_http: "http const_me vars verb path body w = (Inr ''x'', w)"
proof -
  have "valid_utf8 (ascii ''x'')" by code_simp
  then show ?thesis using http_ok [of const_me verb vars path body w "''x''" "me_door w"] by (simp add: const_me_def)
qed

lemma const_fetch: "fetch_challenge const_me vars path d w = (Inr (client_challenge (me_prims const_me) 0 d 0 1 0, 1), w)"
proof -
  have hex: "hex_laws (me_hex const_me)" by (simp add: const_me_simps hex_laws_sample)
  have fields: "field32 const_me const_answer key w = (Inr 0, w)" if "key \<in> {''genesis'', ''controller'', ''hash''}" for key
    using that by (intro field32_hex [OF hex]) (auto simp: const_answer_def json_index_def const_me_simps sample_hex_def)
  have "json_index const_answer ''block'' = JU64 1" by (simp add: const_answer_def json_index_def)
  then show ?thesis
    by (simp add: fetch_challenge_def io_then_def const_http const_me_simps unwrap_def fields)
qed

lemma sample_save:
  assumes "validate_label lbl = Inr ()" "healthy s" "file_at s (dir @ [lbl @ ''.json'']) = None"
    "dir @ [lbl @ ''.json''] \<notin> set (os_dirs s)" "\<forall>q \<in> set (prefixes dir). file_at s q = None"
  obtains s' where "save_identity sample_crypto dir lbl d key_bytes passphrase s = (Inr (), s')" "healthy s'"
    "\<And>q. q \<noteq> dir @ [lbl @ ''.json''] \<Longrightarrow> file_at s' q = file_at s q" "os_dirs s' = prefixes dir @ os_dirs s"
proof -
  obtain s' where s': "save_identity sample_crypto dir lbl d key_bytes passphrase s = (Inr (), s')"
    using save_identity_live [OF assms, of sample_crypto passphrase key_bytes d] sample_crates_work by blast
  have "healthy s'" using healthy_keeps [OF keystore_oracles(1) assms(2)] s' by (metis snd_conv)
  moreover have "q \<noteq> dir @ [lbl @ ''.json''] \<Longrightarrow> file_at s' q = file_at s q" for q
    using s' by (elim save_identity_ok) simp
  moreover have "os_dirs s' = prefixes dir @ os_dirs s" using s' by (elim save_identity_ok)
  ultimately show thesis using that s' by blast
qed

lemma const_own_controller:
  "\<exists>lines w'. own_controller const_me no_env sk 48 \<lparr>me_os = sample_os, me_door = ()\<rparr> = (Inr lines, w') \<and> length lines = 3"
proof -
  define dir where "dir = me_keystore_dir no_env"
  let ?save = "\<lambda>lbl kb. save_identity sample_crypto dir lbl 48 kb ''dev-passphrase''"
  have label: "validate_label ''me'' = Inr ()" "validate_label ''me-account'' = Inr ()" by code_simp+
  have fresh: "file_at (tick sample_os) q = None" "os_dirs (tick sample_os) = [[]]" for q by (simp_all add: sample_os_def)
  have nodir: "dir @ [x] \<notin> set (prefixes dir)" for x by (auto dest: prefix_length_le)
  obtain s1 where s1: "?save ''me'' (sk_bytes sample_keys sk) (tick sample_os) = (Inr (), s1)" "healthy s1"
    "\<And>q. q \<noteq> dir @ [''me'' @ ''.json''] \<Longrightarrow> file_at s1 q = None" "os_dirs s1 = prefixes dir @ [[]]"
    by (rule sample_save [OF label(1), of "tick sample_os" dir]) (use fresh nodir healthy_sample in auto)
  have s1': "file_at s1 q = None" if "q \<in> set (prefixes dir)" for q
    by (rule s1(3)) (use that nodir in metis)
  let ?seed = "map (\<lambda>i. of_nat i :: u8) [0..<32]"
  obtain s2 where s2: "?save ''me-account'' ?seed s1 = (Inr (), s2)" "healthy s2"
    "\<And>q. q \<noteq> dir @ [''me-account'' @ ''.json''] \<Longrightarrow> file_at s2 q = file_at s1 q" "os_dirs s2 = prefixes dir @ prefixes dir @ [[]]"
    by (rule sample_save [OF label(2) s1(2), of dir]) (use s1(3,4) s1' nodir in auto)
  have names: "path_join dir ''controller.seed'' = dir @ [''controller.seed'']"
    "path_join dir ''owner.did'' = dir @ [''owner.did'']" by (rule path_join_component; simp)+
  have stores: "\<exists>s'. write_file (dir @ [x]) data s = (Inr (), s') \<and> healthy s' \<and> os_dirs s' = os_dirs s"
    if "healthy s" "os_dirs s = prefixes dir @ prefixes dir @ [[]]" for x data s
    using that nodir by (auto simp: write_file_def healthy_def)
  obtain s3 where s3: "write_file (dir @ [''controller.seed'']) (ascii (sample_hex_encode ?seed)) s2 = (Inr (), s3)"
    "healthy s3" "os_dirs s3 = os_dirs s2" using stores [OF s2(2,4)] by blast
  obtain s4 where s4: "write_file (dir @ [''owner.did'']) (ascii (sample_hex_encode (h256_bytes 48))) s3 = (Inr (), s4)"
    using stores [of s3] s3 s2(4) by metis
  have rnd: "fill_random 32 sample_os = (Inr ?seed, tick sample_os)" by (simp add: fill_random_def sample_os_def)
  have env: "me_label no_env = ''me''" "var_or no_env ''KEYSTORE_PASS'' ''dev-passphrase'' = ''dev-passphrase''"
    by (simp_all add: me_label_def var_or_def no_env_def)
  have ans: "json_get const_answer ''error'' = None" "json_index const_answer ''payload'' = JStr []"
    "hex_decode sample_hex [] = Some []"
    by (simp_all add: const_answer_def json_index_def sample_hex_def)
  show ?thesis
    unfolding own_controller_def Let_def save_me_def env const_me_simps
    by (simp add: io_then_def rnd const_me_simps const_http const_fetch ans unwrap_def on_os_def names
        s1(1) s2(1) s3(1) s4 sample_hex_def flip: dir_def)
qed

end
