(* ===== verification/Cli_Theorems.thy ===== *)
theory Cli_Theorems
  imports Cli_Sample
begin

text \<open>
  The properties of the command-line programs: what an environment makes them submit, what they
  print, and how an agent is registered through the door.
\<close>

section \<open>The vector-db program\<close>


text \<open>
  An \<^verbatim>\<open>ACTION\<close> the program does not know is a registration: it behaves in every respect, its
  output and the transaction it submits included, as with \<^verbatim>\<open>ACTION=register\<close>. A misspelt action, or
  \<^verbatim>\<open>expire\<close>, for which a client exists, registers and pays for a commitment instead of failing.
\<close>

lemma unknown_action_registers:
  assumes "vars ''ACTION'' = Some action"
    "action \<notin> {''balance'', ''raise'', ''counter'', ''finalize'', ''acknowledge'', ''transfer'', ''close''}"
  shows "vdb_main cfg vars = vdb_main cfg (vars(''ACTION'' \<mapsto> ''register''))"
  using assms
  by (simp add: vdb_main_def var_or_def action_register_def hex32_def parse_or_def seed_or_def env_payload_def
      env_schema_def provided_root_def)

lemma unknown_action_registers_witness:
  "vdb_main cfg [''ACTION'' \<mapsto> ''expire''] = vdb_main cfg [''ACTION'' \<mapsto> ''register'']"
proof -
  have "''expire'' \<notin> {''balance'', ''raise'', ''counter'', ''finalize'', ''acknowledge'', ''transfer'', ''close''}"
    by simp
  then show ?thesis using unknown_action_registers [of "[''ACTION'' \<mapsto> ''expire'']" "''expire''" cfg] by simp
qed

text \<open>
  With \<^verbatim>\<open>MERKLE_ROOT\<close> set, a registration prints that root instead of the one it committed to on
  chain. When the two differ, the printed root is useless: \<open>close_commitment\<close> rejects it for every
  commitment with the registered root.
\<close>

lemma printed_root_not_committed:
  assumes "vdb_main cfg vars w = (Inr lines, w')" "vars ''ACTION'' \<in> {None, Some ''register''}"
    "provided_root cfg vars = Some r"
  shows "\<exists>who p c root n meta dt prc. ''MERKLE_ROOT=0x'' @ hex_encode (cli_hex cfg) (h256_bytes r) \<in> set lines \<and>
    w_sent w' = w_sent w @ [(who, vdb_tx (RegisterCommitment p c root n meta dt prc))] \<and>
    (r \<noteq> root \<longrightarrow> (\<forall>vcfg orig cid d k st x cm. vector_commitments st cid = Some cm \<longrightarrow> merkle_root cm = root \<longrightarrow>
       \<not> is_ok (close_commitment (vcfg :: ('x, 'm, 'vk2, 'sg2, 't2) vdb_config) orig cid d r k (st, x))))"
proof -
  obtain who p c res where m: "lines = register_report (cli_hex cfg) (res\<lparr>res_merkle_root := r\<rparr>)"
    "w_sent w' = w_sent w @ [(who, vdb_tx (RegisterCommitment p c (res_merkle_root res) (res_total_chunks res)
       (env_schema vars) (of_nat (parse_or (2 ^ 32) vars ''EXPIRES_IN_BLOCKS'' 1000))
       (of_nat (parse_or (2 ^ 128) vars ''PRICE'' 75))))]"
    by (rule register_main_ok [OF assms(1,2), unfolded assms(3) option.case]) (rule that)
  have "\<not> is_ok (close_commitment vcfg orig cid d r k (st, x))"
    if "vector_commitments st cid = Some cm" "merkle_root cm = res_merkle_root res" "r \<noteq> res_merkle_root res"
    for vcfg :: "('x, 'm, 'vk2, 'sg2, 't2) vdb_config" and orig cid d k st x cm
    using that by (auto simp: close_commitment_def Let_def res_simps elim!: is_okE)
  then show ?thesis using m by (auto simp: register_report_def Let_def)
qed

lemma printed_root_not_committed_witness:
  "\<exists>lines w'. vdb_main sample_cli sample_vars sample_world = (Inr lines, w') \<and>
    ''MERKLE_ROOT=0x'' @ sample_hex_encode (h256_bytes 5) \<in> set lines \<and>
    w_sent w' = [(1, vdb_tx (RegisterCommitment 17 18 3 1 (ascii ''csv.v1'') 1000 75))]"
proof -
  obtain lines w' where run: "vdb_main sample_cli sample_vars sample_world = (Inr lines, w')"
    "w_sent w' = [(1, vdb_tx (RegisterCommitment 17 18 3 1 (ascii ''csv.v1'') 1000 75))]"
    using sample_main_registers by blast
  have "sample_vars ''ACTION'' \<in> {None, Some ''register''}" by (simp add: sample_vars_def)
  from printed_root_not_committed [OF run(1) this sample_provided_root] run show ?thesis
    by (auto simp: sample_cli_def sample_hex_def)
qed

section \<open>Registration through the door\<close>



text \<open>
  With \<^verbatim>\<open>OWN_CONTROLLER=1\<close> a finished run leaves the secret of the new controller account on disk in
  plain hexadecimal: decoding the file \<^verbatim>\<open>controller.seed\<close>, without any passphrase, gives the bytes the
  key pair was made from.
\<close>

lemma controller_seed_in_clear:
  assumes "own_controller me vars signing_key d w = (Inr lines, w')" "length lines = 3" "hex_laws (me_hex me)"
  shows "\<exists>text seed account. file_at (me_os w') (me_keystore_dir vars @ [''controller.seed'']) = Some text \<and>
    hex_decode (me_hex me) (string_of text) = Some seed \<and>
    keypair_from_secret (me_keys me) seed = Inr account \<and>
    (\<exists>f. os_random (me_os w) (os_clock (me_os w)) = Some f \<and> seed = map f [0..<32])"
proof -
  obtain f account where "os_random (me_os w) (os_clock (me_os w)) = Some f"
    "keypair_from_secret (me_keys me) (map f [0..<32]) = Inr account"
    "file_at (me_os w') (me_keystore_dir vars @ [''controller.seed''])
       = Some (ascii (hex_encode (me_hex me) (map f [0..<32])))"
    by (rule own_controller_writes_seed [OF assms(1,2)])
  moreover have "hex_decode (me_hex me) (hex_encode (me_hex me) b) = Some b" for b
    using assms(3) by (simp add: hex_laws_def)
  ultimately show ?thesis by auto
qed

lemma controller_seed_in_clear_witness:
  "\<exists>lines w' text account. own_controller const_me no_env [] 48 \<lparr>me_os = sample_os, me_door = ()\<rparr> = (Inr lines, w') \<and>
    file_at (me_os w') (me_keystore_dir no_env @ [''controller.seed'']) = Some text \<and>
    keypair_from_secret sample_keys (map of_nat [0..<32]) = Inr account \<and>
    hex_decode sample_hex (string_of text) = Some (map of_nat [0..<32])"
proof -
  obtain lines w' where run: "own_controller const_me no_env [] 48 \<lparr>me_os = sample_os, me_door = ()\<rparr> = (Inr lines, w')"
    "length lines = 3"
    using const_own_controller by blast
  from controller_seed_in_clear [OF run, unfolded const_me_simps, OF hex_laws_sample] run(1)
  show ?thesis by (auto simp: sample_os_def const_me_simps(5))
qed

end
