(* ===== verification/Door_Theorems.thy ===== *)
theory Door_Theorems
  imports Client_Sample Door
begin

text \<open>
  The properties of the registration door: what its account signs, and the tokens it hands out.
\<close>

section \<open>A sample door\<close>

text \<open>
  A door whose JSON parser returns the same object for every body and whose node accepts
  everything; hexadecimal decoding turns each character into a byte.
\<close>

definition sample_body :: json where
  "sample_body = JObject [(''token'', JStr ''p0''), (''account'', JStr (replicate 32 (CHR ''a''))),
     (''pubkey'', JStr ''ab''), (''signature'', JStr (replicate 64 (CHR ''a''))), (''signed_at_block'', JU64 1)]"

definition sample_door :: "(unit, nat, bytes, bytes) door_config" where
  "sample_door = \<lparr>door_node = sample_node,
     create_partial_signed = (\<lambda>_ _ n. (Inr 7, n)), signer_payload = (\<lambda>_. []),
     sign_with_address_and_signature = (\<lambda>_ _ _. []), rpc_connect = (\<lambda>n. (Inr (), n)),
     system_dry_run = (\<lambda>_ n. (Inr [], n)), dry_debug = (\<lambda>_. []), submit_encoded = (\<lambda>_ n. (Inr 0, n)),
     author_submit_extrinsic = (\<lambda>_ n. (Inr [], n)), door_json = \<lparr>json_from_str = (\<lambda>_. Some sample_body), json_to_string = (\<lambda>_. [])\<rparr>,
     door_hex = \<lparr>hex_encode = (\<lambda>_. []), hex_decode = (\<lambda>s. Some (map (\<lambda>_. 0) s))\<rparr>,
     door_prims = sample_prims, alice = 9, fund_amount_var = None\<rparr>"

definition sample_door_world :: "(unit, (string \<times> nat) list) world" where
  "sample_door_world = \<lparr>w_node = (), w_host = [], w_sent = []\<rparr>"

lemma pending_token_small: "pending_token [] = ''p0''" "pending_token [x] = ''p1''"
proof -
  have "show_nat 0 = ''0''" "show_nat 1 = ''1''" by code_simp+
  then show "pending_token [] = ''p0''" "pending_token [x] = ''p1''"
    by (simp_all add: pending_token_def)
qed

lemma sample_fields:
  "length (hex_field sample_door sample_body ''account'') = 32"
  "length (hex_field sample_door sample_body ''signature'') = 64"
  "hex_field sample_door sample_body ''pubkey'' \<noteq> []"
  by code_simp+

lemma sample_prepare:
  "handle_prepare sample_door [] w =
     (Inr (ok_200 [(''token'', JStr (pending_token (w_host w))), (''payload'', JStr [])]),
      w\<lparr>w_host := pending_insert (pending_token (w_host w)) 7 (w_host w)\<rparr>)"
  using sample_fields
  by (subst prepare_eval [of _ _ sample_body _ 7 "w_node w"])
    (auto simp: sample_door_def sample_body_def u64_field_def json_index_def)

lemma sample_finish:
  assumes "map_of (w_host w) ''p0'' \<noteq> None"
  shows "handle_finish sample_door [] w =
     (Inr (ok_200 [(''status'', JStr ''submitted''), (''hash'', JStr []), (''dry'', JStr [])]),
      w\<lparr>w_host := filter (\<lambda>(k, _). k \<noteq> ''p0'') (w_host w)\<rparr>)"
proof -
  from assms obtain partial where "map_of (w_host w) ''p0'' = Some partial" by blast
  then show ?thesis
    using sample_fields
    by (subst finish_eval [of _ _ sample_body _ partial "[]" 0])
      (auto simp: sample_door_def sample_body_def str_field_def json_index_def)
qed

section \<open>Properties\<close>

text \<open>
  C19. Whatever is sent to the door, over any sequence of connections, its own account signs only
  two kinds of transaction: a transfer of the configured amount to a 32-byte account, and a
  registration with a non-empty key and signature, capability 1 and the metadata \<^verbatim>\<open>door\<close>.
\<close>

theorem door_signs_only:
  "\<exists>extra. w_sent (snd (door_main cfg bound conns w)) = w_sent w @ extra \<and>
     list_all (door_signed cfg) extra"
  using signs_only_main [of cfg bound conns] unfolding io_keeps_def sends_only_def list_all_iff by blast

text \<open>
  C34. The door reuses tokens: it numbers a prepared extrinsic by the size of the table, so after
  two preparations, when the first one is finished while the second is still waiting, the next
  preparation is given the token of the second and replaces it.
\<close>

theorem door_token_reuse:
  assumes "handle_prepare cfg r1 w0 = (Inr a1, w1)" "handle_prepare cfg r2 w1 = (Inr a2, w2)"
    "handle_finish cfg r3 w2 = (Inr a3, w3)" "handle_prepare cfg r4 w3 = (Inr a4, w4)"
    and "rsp_status a1 = ''200 OK''" "rsp_status a2 = ''200 OK''" "rsp_status a3 = ''200 OK''"
      "rsp_status a4 = ''200 OK''"
    and "w_host w0 = []" "map_of (w_host w3) ''p1'' \<noteq> None"
  shows "token_of a2 = Some (JStr ''p1'') \<and> token_of a4 = token_of a2 \<and> length (w_host w4) = 1"
proof -
  obtain a where w1: "w_host w1 = [(''p0'', a)]"
    using prepare_ok [OF assms(1,5)] assms(9) by (auto simp: pending_insert_def pending_token_small)
  then obtain b where w2: "w_host w2 = [(''p1'', b), (''p0'', a)]" "token_of a2 = Some (JStr ''p1'')"
    using prepare_ok [OF assms(2,6)] by (auto simp: pending_insert_def pending_token_small)
  obtain token where "map_of (w_host w2) token \<noteq> None" "w_host w3 = filter (\<lambda>(k, _). k \<noteq> token) (w_host w2)"
    using finish_table [OF assms(3,7)] by blast
  with w2(1) assms(10) have w3: "w_host w3 = [(''p1'', b)]" by (auto split: if_splits)
  then show ?thesis
    using prepare_ok [OF assms(4,8)] w2(2) by (auto simp: pending_insert_def pending_token_small)
qed

theorem door_token_reuse_witness:
  "\<exists>a2 a4 w3 w4. handle_prepare sample_door [] w3 = (Inr a4, w4) \<and> map_of (w_host w3) ''p1'' = Some 7 \<and>
    token_of a2 = Some (JStr ''p1'') \<and> token_of a4 = token_of a2 \<and> length (w_host w4) = 1"
proof -
  let ?w = "\<lambda>t. sample_door_world\<lparr>w_host := t\<rparr>"
  let ?t1 = "[(''p0'', 7)]" and ?t2 = "[(''p1'', 7), (''p0'', 7)]" and ?t3 = "[(''p1'', 7)]"
  have p: "handle_prepare sample_door [] (?w t) =
      (Inr (ok_200 [(''token'', JStr (pending_token t)), (''payload'', JStr [])]),
       ?w (pending_insert (pending_token t) 7 t))" for t
    using sample_prepare [of "?w t"] by simp
  have f: "handle_finish sample_door [] (?w ?t2) =
      (Inr (ok_200 [(''status'', JStr ''submitted''), (''hash'', JStr []), (''dry'', JStr [])]),
       ?w ?t3)"
    using sample_finish [of "?w ?t2"] by simp
  note q = p [of "[]"] p [of ?t1] p [of ?t3]
  note q = q [unfolded pending_insert_def pending_token_small, simplified]
  show ?thesis
    using door_token_reuse [OF q(1,2) f q(3)] q(3) by (fastforce simp: ok_200_def)
qed

end
