(* ===== verification/Genesis.thy ===== *)
theory Genesis
  imports Runtime
begin

text \<open>
  How a chain starts: the presets of \<^verbatim>\<open>runtime/src/genesis_config_presets.rs\<close>, the chain
  specifications of \<^verbatim>\<open>node/src/chain_spec.rs\<close> that name them, and \<^verbatim>\<open>load_spec\<close> of \<^verbatim>\<open>node/src/command.rs\<close> that
  picks one from the command line. The development keys of \<^verbatim>\<open>sp_keyring\<close>, the names of the presets in
  \<^verbatim>\<open>sp_genesis_builder\<close>, the serialiser and the reader of specification files are parameters.
\<close>

section \<open>Presets\<close>

text \<open>
  The keys the presets use: \<open>kr_all\<close> lists the accounts of \<^verbatim>\<open>Sr25519Keyring::iter()\<close>; the keys are
  pairwise different, so filtering accounts is filtering variants.
\<close>

record keyring =
  kr_all :: "account_id list"
  kr_alice :: account_id
  kr_bob :: account_id
  kr_alice_stash :: account_id
  kr_bob_stash :: account_id
  kr_one :: account_id
  kr_two :: account_id
  kr_ed_alice :: h256
  kr_ed_bob :: h256

record preset_ids =
  DEV_RUNTIME_PRESET :: string
  LOCAL_TESTNET_RUNTIME_PRESET :: string

record genesis_config =
  gc_dispute_window :: "block_number option"
  gc_balances :: "(account_id \<times> balance) list"
  gc_aura :: "h256 list"
  gc_grandpa :: "(h256 \<times> u64) list"
  gc_sudo :: "account_id option"

definition testnet_genesis ::
  "(h256 \<times> h256) list \<Rightarrow> account_id list \<Rightarrow> account_id \<Rightarrow> u32 option \<Rightarrow> genesis_config" where
  "testnet_genesis initial_authorities endowed_accounts root dispute_window =
     \<lparr>gc_dispute_window = dispute_window,
      gc_balances = map (\<lambda>k. (k, push_bit 60 1)) endowed_accounts,
      gc_aura = map fst initial_authorities,
      gc_grandpa = map (\<lambda>x. (snd x, 1)) initial_authorities,
      gc_sudo = Some root\<rparr>"

definition development_config_genesis :: "keyring \<Rightarrow> genesis_config" where
  "development_config_genesis kr =
     testnet_genesis [(kr_alice kr, kr_ed_alice kr)]
       [kr_alice kr, kr_bob kr, kr_alice_stash kr, kr_bob_stash kr] (kr_alice kr) (Some 10)"

definition local_config_genesis :: "keyring \<Rightarrow> genesis_config" where
  "local_config_genesis kr =
     testnet_genesis [(kr_alice kr, kr_ed_alice kr), (kr_bob kr, kr_ed_bob kr)]
       (filter (\<lambda>v. v \<noteq> kr_one kr \<and> v \<noteq> kr_two kr) (kr_all kr)) (kr_alice kr) None"

text \<open>\<open>Inl ()\<close> is the panic of \<^verbatim>\<open>expect\<close> when a preset does not serialise.\<close>

definition preset_config :: "keyring \<Rightarrow> preset_ids \<Rightarrow> string \<Rightarrow> genesis_config option" where
  "preset_config kr ids pid =
     (if pid = DEV_RUNTIME_PRESET ids then Some (development_config_genesis kr)
      else if pid = LOCAL_TESTNET_RUNTIME_PRESET ids then Some (local_config_genesis kr)
      else None)"

definition get_preset ::
  "keyring \<Rightarrow> preset_ids \<Rightarrow> (genesis_config \<Rightarrow> string option) \<Rightarrow> string \<Rightarrow> unit + bytes option" where
  "get_preset kr ids ser pid = (case preset_config kr ids pid of
       None \<Rightarrow> Inr None
     | Some patch \<Rightarrow> (case ser patch of None \<Rightarrow> Inl () | Some js \<Rightarrow> Inr (Some (ascii js))))"

definition preset_names :: "preset_ids \<Rightarrow> string list" where
  "preset_names ids = [DEV_RUNTIME_PRESET ids, LOCAL_TESTNET_RUNTIME_PRESET ids]"

text \<open>
  The state a preset builds: the storage of the four pallets of the repository, and a ledger that
  \<^verbatim>\<open>pallet_balances\<close> makes from the endowments (\<open>endow\<close>).
\<close>

definition preset_state ::
  "((account_id \<times> balance) list \<Rightarrow> 'c) \<Rightarrow> (block_number \<Rightarrow> h256) \<Rightarrow> genesis_config \<Rightarrow> 'c runtime" where
  "preset_state endow hashes g = genesis (gc_dispute_window g) hashes (endow (gc_balances g))"

section \<open>Chain specifications\<close>

datatype chain_type = Development | Local

record chain_spec =
  cs_name :: string
  cs_id :: string
  cs_type :: chain_type
  cs_preset :: string

text \<open>\<open>wasm\<close> is whether the runtime's WebAssembly was built.\<close>

definition development_chain_spec :: "preset_ids \<Rightarrow> bool \<Rightarrow> string + chain_spec" where
  "development_chain_spec ids wasm =
     ensure wasm ''Development wasm not available'' (Inr
       \<lparr>cs_name = ''Development'', cs_id = ''dev'', cs_type = Development,
        cs_preset = DEV_RUNTIME_PRESET ids\<rparr>)"

definition local_chain_spec :: "preset_ids \<Rightarrow> bool \<Rightarrow> string + chain_spec" where
  "local_chain_spec ids wasm =
     ensure wasm ''Development wasm not available'' (Inr
       \<lparr>cs_name = ''Local Testnet'', cs_id = ''local_testnet'', cs_type = Local,
        cs_preset = LOCAL_TESTNET_RUNTIME_PRESET ids\<rparr>)"

datatype 'j loaded_spec = BuiltIn chain_spec | FromFile 'j

definition load_spec ::
  "preset_ids \<Rightarrow> bool \<Rightarrow> (string \<Rightarrow> string + 'j) \<Rightarrow> string \<Rightarrow> string + 'j loaded_spec" where
  "load_spec ids wasm from_json_file spec_id =
     (if spec_id = ''dev'' then
        try_then (development_chain_spec ids wasm) (\<lambda>spec. Inr (BuiltIn spec))
      else if spec_id = '''' \<or> spec_id = ''local'' then
        try_then (local_chain_spec ids wasm) (\<lambda>spec. Inr (BuiltIn spec))
      else try_then (from_json_file spec_id) (\<lambda>j. Inr (FromFile j)))"

section \<open>Lemmas\<close>

lemma preset_window:
  "gc_dispute_window (development_config_genesis kr) = Some 10"
  "gc_dispute_window (local_config_genesis kr) = None"
  by (simp_all add: development_config_genesis_def local_config_genesis_def testnet_genesis_def)

lemma preset_names_exact: "pid \<in> set (preset_names ids) \<longleftrightarrow> preset_config kr ids pid \<noteq> None"
  by (simp add: preset_names_def preset_config_def)

lemma load_built_in:
  assumes "load_spec ids wasm from_json_file spec_id = Inr (BuiltIn spec)"
    "DEV_RUNTIME_PRESET ids \<noteq> LOCAL_TESTNET_RUNTIME_PRESET ids"
  shows "preset_config kr ids (cs_preset spec) =
    Some (if spec_id = ''dev'' then development_config_genesis kr else local_config_genesis kr)"
  using assms
  by (auto simp: load_spec_def development_chain_spec_def local_chain_spec_def preset_config_def res_simps
      split: if_splits)

text \<open>Each authority of a preset has an account with funds, and so has the sudo key.\<close>

lemma preset_authorities_funded:
  assumes "kr_alice kr \<in> set (kr_all kr)" "kr_bob kr \<in> set (kr_all kr)"
    "distinct [kr_alice kr, kr_bob kr, kr_one kr, kr_two kr]" "preset_config kr ids pid = Some g"
  shows "set (gc_aura g) \<union> set_option (gc_sudo g) \<subseteq> fst ` set (gc_balances g)"
  using assms
  by (auto simp: preset_config_def development_config_genesis_def local_config_genesis_def testnet_genesis_def image_image
      split: if_splits)

end
