(* ===== verification/Genesis_Theorems.thy ===== *)
theory Genesis_Theorems
  imports Lifecycle_Theorems Genesis
begin

text \<open>
  From the name on the command line to the chain that runs: which preset a built-in specification
  starts from, and what that preset fixes for every run of the runtime.
\<close>

definition sample_keyring :: keyring where
  "sample_keyring = \<lparr>kr_all = [1, 2, 3, 4, 5, 6], kr_alice = 1, kr_bob = 2, kr_alice_stash = 3,
     kr_bob_stash = 4, kr_one = 5, kr_two = 6, kr_ed_alice = 7, kr_ed_bob = 8\<rparr>"

definition sample_preset_ids :: preset_ids where
  "sample_preset_ids =
     \<lparr>DEV_RUNTIME_PRESET = ''development'', LOCAL_TESTNET_RUNTIME_PRESET = ''local_testnet''\<rparr>"

definition sample_endow :: "(account_id \<times> balance) list \<Rightarrow> sample_ledger" where
  "sample_endow endowed who = (case map_of endowed who of Some b \<Rightarrow> (b, 0) | None \<Rightarrow> (0, 0))"

definition sample_dev_genesis :: "sample_ledger runtime" where
  "sample_dev_genesis = preset_state sample_endow (\<lambda>_. 0) (development_config_genesis sample_keyring)"

lemma built_in_preset_listed:
  assumes "load_spec ids wasm from_json_file spec_id = Inr (BuiltIn spec)"
  shows "cs_preset spec \<in> set (preset_names ids)"
  using assms
  by (auto simp: load_spec_def development_chain_spec_def local_chain_spec_def preset_names_def res_simps
      split: if_splits)

text \<open>
  C24. A chain started from a built-in specification. Its preset is one the runtime lists and knows;
  every state a run from that preset's genesis comes to is a reachable state of the runtime, so the
  invariants hold of it; and the dispute window is 10 blocks for ever on \<^verbatim>\<open>dev\<close> and 14,400 for ever on
  the local test network.
\<close>

theorem preset_chain_window:
  assumes "load_spec ids wasm from_json_file spec_id = Inr (BuiltIn spec)"
    "DEV_RUNTIME_PRESET ids \<noteq> LOCAL_TESTNET_RUNTIME_PRESET ids"
    "\<forall>endowed who. reserved_balance cur (endow endowed) who = 0"
  shows "cs_preset spec \<in> set (preset_names ids) \<and>
    (\<exists>g. preset_config kr ids (cs_preset spec) = Some g \<and>
      (\<forall>s. (runtime_step cur pr rm)\<^sup>*\<^sup>* (preset_state endow hashes g) s \<longrightarrow>
        reachable cur pr rm s \<and>
        effective_dispute_window (rt_vdb_config cur pr rm) (vectordb s)
          = (if spec_id = ''dev'' then 10 else 14400)))"
proof (intro conjI exI allI impI)
  show "cs_preset spec \<in> set (preset_names ids)"
    by (rule built_in_preset_listed [OF assms(1)])
  let ?g = "if spec_id = ''dev'' then development_config_genesis kr else local_config_genesis kr"
  show "preset_config kr ids (cs_preset spec) = Some ?g"
    by (rule load_built_in [OF assms(1,2)])
  fix s
  assume run: "(runtime_step cur pr rm)\<^sup>*\<^sup>* (preset_state endow hashes ?g) s"
  then show "reachable cur pr rm s"
    using assms(3) unfolding reachable_def preset_state_def by blast
  show "effective_dispute_window (rt_vdb_config cur pr rm) (vectordb s)
      = (if spec_id = ''dev'' then 10 else 14400)"
    using dispute_window_fixed [OF run [unfolded preset_state_def]] by (simp add: preset_window split: if_splits)
qed

text \<open>The development chain, one block after its genesis.\<close>

theorem preset_chain_window_witness:
  "(case performs [Block 1] sample_dev_genesis of
      Some t \<Rightarrow> reachable sample_currency sample_prims sample_merkle t \<and>
        effective_dispute_window (rt_vdb_config sample_currency sample_prims sample_merkle) (vectordb t) = 10
    | None \<Rightarrow> False)"
proof -
  let ?from_file = "\<lambda>_. Inl ''not a file'' :: string + unit"
  obtain spec where spec: "load_spec sample_preset_ids True ?from_file ''dev'' = Inr (BuiltIn spec)"
      "preset_config sample_keyring sample_preset_ids (cs_preset spec)
        = Some (development_config_genesis sample_keyring)"
    by (simp add: load_spec_def development_chain_spec_def preset_config_def res_simps)
  have unreserved: "\<forall>endowed who. reserved_balance sample_currency (sample_endow endowed) who = 0"
    by (auto simp: sample_currency_def reserved_part_def sample_endow_def split: option.splits)
  obtain t where t: "performs [Block 1] sample_dev_genesis = Some t"
    by (simp add: sample_dev_genesis_def preset_state_def genesis_def)
  have ids: "DEV_RUNTIME_PRESET sample_preset_ids \<noteq> LOCAL_TESTNET_RUNTIME_PRESET sample_preset_ids"
    by (simp add: sample_preset_ids_def)
  from performs_run [OF t, unfolded sample_dev_genesis_def]
    preset_chain_window [OF spec(1) ids unreserved, where kr = sample_keyring and hashes = "\<lambda>_. 0"] spec(2)
  have "reachable sample_currency sample_prims sample_merkle t \<and>
      effective_dispute_window (rt_vdb_config sample_currency sample_prims sample_merkle) (vectordb t) = 10"
    by auto
  then show ?thesis by (simp only: t option.case)
qed

end
