(* ===== verification/Defence_Theorems.thy ===== *)
theory Defence_Theorems
  imports Client_Theorems Lifecycle_Theorems
begin

text \<open>
  The provider's side from end to end: the client registers a data set, the chain runs on, a
  consumer disputes a chunk, and the client answers from what it stored. This composes the client,
  the file store, the Merkle engine, the pallet and every run of the runtime in between.
\<close>

section \<open>Block numbers along runs\<close>






section \<open>A registered commitment keeps its terms or is gone for good\<close>






section \<open>Properties\<close>








text \<open>The machine of the sample registration with a working disk.\<close>

definition repaired :: "(unit, os) world \<Rightarrow> (unit, os) world" where
  "repaired w = w\<lparr>w_host := (w_host w)\<lparr>os_fault := os_fault sample_os, os_random := os_random sample_os\<rparr>\<rparr>"

lemma repaired_simps [simp]:
  "healthy (w_host (repaired w))" "w_sent (repaired w) = w_sent w"
  "fs_view hx dir (w_host (repaired w)) = fs_view hx dir (w_host w)"
  by (auto simp: repaired_def healthy_def sample_os_def fs_view_def fun_eq_iff)




end
