(* ===== verification/Runtime_Params.thy ===== *)
theory Runtime_Params
  imports Runtime
begin

text \<open>
  Parameters of \<^verbatim>\<open>runtime/src/lib.rs\<close> and \<^verbatim>\<open>runtime/src/configs/mod.rs\<close> that the library pallets and the
  node read: versions, slots, how many block hashes are kept, and the extensions of a transaction.
\<close>

section \<open>Slots and versions\<close>

definition SLOT_DURATION :: u64 where "SLOT_DURATION = MILLI_SECS_PER_BLOCK"

definition MinimumPeriod :: u64 where "MinimumPeriod = SLOT_DURATION div 2"

record runtime_version =
  spec_name :: string
  impl_name :: string
  authoring_version :: u32
  spec_version :: u32
  impl_version :: u32
  transaction_version :: u32
  system_version :: u8

definition VERSION :: runtime_version where
  "VERSION = \<lparr>spec_name = ''solochain-template-runtime'', impl_name = ''solochain-template-runtime'',
     authoring_version = 1, spec_version = 100, impl_version = 1, transaction_version = 1,
     system_version = 1\<rparr>"

section \<open>Block hashes\<close>

definition BlockHashCount :: block_number where "BlockHashCount = 2400"

text \<open>
  What \<^verbatim>\<open>frame_system\<close> keeps of the hashes of a chain: the genesis hash, and those of the last
  \<open>BlockHashCount\<close> blocks before the one being built. The hash of the block being built is not known
  yet and reads as zero, as the comment in \<^verbatim>\<open>register_agent\<close> says.
\<close>

definition frame_hashes :: "(block_number \<Rightarrow> h256) \<Rightarrow> ('c, 'e) host \<Rightarrow> bool" where
  "frame_hashes chain h \<longleftrightarrow>
     block_hash h 0 = chain 0 \<and>
     (\<forall>n. n < block_number h \<longrightarrow> unat (block_number h) \<le> unat n + unat BlockHashCount \<longrightarrow>
        block_hash h n = chain n) \<and>
     (\<forall>n. 0 < n \<longrightarrow> block_number h \<le> n \<longrightarrow> block_hash h n = 0)"

section \<open>Transaction extensions\<close>

text \<open>
  \<^verbatim>\<open>TxExtension\<close>: of its ten members only these carry a value. An era is a value of a type of
  \<^verbatim>\<open>sp_runtime\<close>.
\<close>

record 'era tx_extension =
  check_era :: 'era
  check_nonce :: u32
  charge_transaction_payment :: balance
  check_metadata_hash :: bool

section \<open>Lemmas\<close>

text \<open>
  Aura takes twice the minimum period as the length of a slot, which is a block's time because
  \<^verbatim>\<open>SLOT_DURATION\<close> is even; a challenge inside the replay window is about a hash that is kept; and the
  two constants with the number of kept hashes agree.
\<close>

lemma slots_are_blocks: "2 * MinimumPeriod = MILLI_SECS_PER_BLOCK"
  by (simp add: MinimumPeriod_def SLOT_DURATION_def MILLI_SECS_PER_BLOCK_def)

lemma replay_window_kept: "REPLAY_WINDOW \<le> BlockHashCount" "BlockHashCount = BLOCK_HASH_COUNT"
  by (simp_all add: REPLAY_WINDOW_def BlockHashCount_def BLOCK_HASH_COUNT_def)

text \<open>The longest commitment lasts seven dispute windows, not ten.\<close>

lemma lifetime_in_windows:
  "DisputeWindow = DAYS" "MaxCommitmentLifetime = 7 * DisputeWindow" "MaxCommitmentLifetime < 10 * DisputeWindow"
  by (simp_all add: DisputeWindow_def MaxCommitmentLifetime_def DAYS_def HOURS_def MINUTES_def
      MILLI_SECS_PER_BLOCK_def)

end
