(* ===== verification/Freshness_Theorems.thy ===== *)
theory Freshness_Theorems
  imports Runtime_Params Client_Sample
begin

text \<open>
  When the proof of key possession of a registration was made: what the challenge says about time
  when the block hashes are those \<^verbatim>\<open>frame_system\<close> keeps.
\<close>

lemma presigned_bounded:
  assumes "mldsa_correct pr kc" "length meta \<le> MAX_METADATA_LEN" "length lbl \<le> MAX_LABEL_LEN"
  shows "registry_call_bounded (client_registration pr kc seed g0 who n b caps meta lbl)"
  using assms unfolding mldsa_correct_def
  by (simp add: client_registration_def Let_def MAX_PUBKEY_LEN_def MAX_SIG_LEN_def) meson

section \<open>Properties\<close>



text \<open>
  C40. A registration for the block it is included in is not: the challenge holds no hash but the
  genesis hash, so the owner of a key can sign it at any time before. The signature made for block
  \<open>n\<close> is accepted in block \<open>n\<close> of every chain with the same genesis, whatever the other blocks are.
\<close>

theorem registration_can_be_presigned:
  fixes cfg :: "('c, 'e, 'vk, 'sg) registry_config"
  assumes "mldsa_correct (reg_prims cfg) kc" "0 < n"
    "sk = sk_generate kc seed" "d = derive_did (reg_prims cfg) (sk_public kc sk)"
    "call = RegisterAgent (sk_public kc sk) (sk_sign kc sk (encode_challenge (reg_prims cfg) g0 d who n 0))
       n (ucast (caps :: u32)) meta lbl"
    "length meta \<le> MAX_METADATA_LEN" "length lbl \<le> MAX_LABEL_LEN"
  shows "registry_call_bounded call \<and> (\<forall>chain h st c. frame_hashes chain h \<longrightarrow> chain 0 = g0 \<longrightarrow>
      block_number h = n \<longrightarrow> agent_profiles st d = None \<longrightarrow>
      length (controller_agents st who) < MAX_AGENTS_PER_CONTROLLER \<longrightarrow>
      reserve (reg_currency cfg) who (registration_deposit cfg) (ledger h) = Inr c \<longrightarrow>
    (\<exists>st' h' p. dispatch_registry cfg (Signed who) call (st, h) = Inr (st', h') \<and>
       agent_profiles st' d = Some p \<and> controller p = who \<and> is_verified p))"
proof -
  have call: "call = client_registration (reg_prims cfg) kc seed g0 who n 0 caps meta lbl"
    by (simp add: assms(3-5) client_registration_def Let_def)
  have bounded: "registry_call_bounded call"
    unfolding call by (rule presigned_bounded [OF assms(1,6,7)])
  have "\<exists>st' h' p. dispatch_registry cfg (Signed who) call (st, h) = Inr (st', h') \<and>
      agent_profiles st' d = Some p \<and> controller p = who \<and> is_verified p"
    if "frame_hashes chain h" "chain 0 = g0" "block_number h = n" and room: "agent_profiles st d = None"
      "length (controller_agents st who) < MAX_AGENTS_PER_CONTROLLER"
      "reserve (reg_currency cfg) who (registration_deposit cfg) (ledger h) = Inr c"
    for chain and h :: "('c, 'e) host" and st c
  proof -
    have "block_hash h 0 = g0" "block_hash h n = 0" "n \<le> block_number h" "sat_sub (block_number h) n \<le> REPLAY_WINDOW"
      using that(1-3) assms(2) by (auto simp: frame_hashes_def sat_simps word_le_nat_alt)
    from client_registration_accepted(1) [OF assms(1) assms(4)[unfolded assms(3)] this room assms(6,7), of caps]
    show ?thesis unfolding call by blast
  qed
  with bounded show ?thesis by blast
qed

theorem registration_can_be_presigned_witness:
  "\<exists>call. registry_call_bounded call \<and>
    (\<exists>st' h' p. dispatch_registry sample_registry_config (Signed 1) call (empty_registry, sample_host 5)
       = Inr (st', h') \<and> agent_profiles st' 48 = Some p \<and> controller p = 1)"
proof -
  let ?sk = "sk_generate sample_keys (map of_nat [0..<32])"
  let ?call = "RegisterAgent (sk_public sample_keys ?sk)
    (sk_sign sample_keys ?sk (encode_challenge sample_prims 0 48 1 5 0)) 5 (ucast (0 :: u32)) [] []"
  have "is_ok (reserve sample_currency 1 RegistrationDeposit (ledger (sample_host 5)))" by code_simp
  then obtain c where c: "reserve sample_currency 1 RegistrationDeposit (ledger (sample_host 5)) = Inr c"
    by (rule is_okE)
  have d: "48 = derive_did sample_prims (sk_public sample_keys ?sk)"
    by (simp add: derive_did_def did_preimage_def sample_prims_def sample_keys_def)
  have cfg: "reg_prims sample_registry_config = sample_prims" "reg_currency sample_registry_config = sample_currency"
    "registration_deposit sample_registry_config = RegistrationDeposit"
    by (simp_all add: sample_registry_config_def rt_registry_config_def)
  have host: "frame_hashes (\<lambda>_. 0) (sample_host 5)" "block_number (sample_host 5) = 5"
    and room: "agent_profiles empty_registry 48 = None"
      "length (controller_agents empty_registry 1) < MAX_AGENTS_PER_CONTROLLER"
    by (simp_all add: frame_hashes_def sample_host_def empty_registry_def MAX_AGENTS_PER_CONTROLLER_def)
  have sizes: "length ([] :: bytes) \<le> MAX_METADATA_LEN" "length ([] :: bytes) \<le> MAX_LABEL_LEN" "(0 :: u32) < 5"
    by simp_all
  note presigned = registration_can_be_presigned [of sample_registry_config sample_keys, unfolded cfg,
      OF mldsa_correct_sample sizes(3) refl d refl sizes(1,2)]
  from presigned [THEN conjunct1] presigned [THEN conjunct2, rule_format, OF host(1) refl host(2) room c]
  show ?thesis by blast
qed

end
