(* ===== verification/Node_Service.thy ===== *)
theory Node_Service
  imports Host_Io
begin

text \<open>
  \<^verbatim>\<open>node/src/service.rs\<close> and \<^verbatim>\<open>node/src/rpc.rs\<close>: which services of the Substrate libraries a node builds, in
  which order and with which parameters, and which tasks it starts. Every library call is a
  parameter (\<open>substrate\<close>) that works on a state \<open>'x\<close> of its own and may fail; the objects the libraries
  hand out are values of an unspecified type \<open>'h\<close>. The task manager is the list of the tasks this code
  started; the libraries start tasks of their own through the handles they are given.
\<close>

section \<open>Configuration and tasks\<close>

datatype network_backend_type = Libp2p | Litep2p

record 'h configuration =
  telemetry_endpoints :: "'h list option"
  executor_config :: 'h
  role_is_authority :: bool
  transaction_pool_options :: 'h
  prometheus_registry :: "'h option"
  network_config :: 'h
  node_name :: string
  network_backend :: "network_backend_type option"
  config_chain_spec :: 'h
  database :: 'h
  offchain_worker_enabled :: bool
  config_force_authoring :: bool
  disable_grandpa :: bool

record 'h task =
  task_name :: string
  task_group :: "string option"
  task_essential :: bool
  task_blocking :: bool
  task_work :: 'h

record ('x, 'h) node_world =
  nw_lib :: 'x
  nw_tasks :: "'h task list"

type_synonym ('x, 'h, 'e, 'a) node_io = "(('x, 'h) node_world, 'e fault, 'a) io"

definition on_lib :: "('x, 'e, 'a) io \<Rightarrow> ('x, 'h, 'e, 'a) node_io" where
  "on_lib m w = (case m (nw_lib w) of (r, x) \<Rightarrow> (map_err Err r, w\<lparr>nw_lib := x\<rparr>))"

definition spawn_task :: "'h task \<Rightarrow> ('x, 'h, 'e, unit) node_io" where
  "spawn_task t w = (Inr (), w\<lparr>nw_tasks := nw_tasks w @ [t]\<rparr>)"

section \<open>What the libraries are given\<close>

text \<open>A provider of inherent data returns a slot and a timestamp.\<close>

type_synonym ('x, 'e) inherents = "('x, 'e, u64 \<times> u64) io"

record ('x, 'e, 'h) import_queue_params =
  iq_block_import :: 'h
  iq_justification_import :: "'h option"
  iq_client :: 'h
  iq_create_inherents :: "'h \<Rightarrow> ('x, 'e) inherents"
  iq_registry :: "'h option"
  iq_telemetry :: "'h option"

record 'h build_network_params =
  bn_config :: "'h configuration"
  bn_net_config :: 'h
  bn_client :: 'h
  bn_pool :: 'h
  bn_import_queue :: 'h
  bn_warp_sync :: "'h option"
  bn_metrics :: 'h

record 'h offchain_options =
  ow_client :: 'h
  ow_is_validator :: bool
  ow_keystore :: "'h option"
  ow_offchain_db :: 'h
  ow_pool :: "'h option"
  ow_network :: 'h
  ow_enable_http :: bool

record ('x, 'e, 'h) spawn_tasks_params =
  st_network :: 'h
  st_client :: 'h
  st_keystore :: 'h
  st_pool :: 'h
  st_rpc_builder :: "unit \<Rightarrow> ('x, 'e, 'h) io"
  st_backend :: 'h
  st_system_rpc_tx :: 'h
  st_tx_handler :: 'h
  st_sync_service :: 'h
  st_config :: "'h configuration"
  st_telemetry :: "'h option"

record ('x, 'e, 'h) start_aura_params =
  sa_slot_duration :: u64
  sa_client :: 'h
  sa_select_chain :: 'h
  sa_block_import :: 'h
  sa_proposer_factory :: 'h
  sa_create_inherents :: "'h \<Rightarrow> ('x, 'e) inherents"
  sa_force_authoring :: bool
  sa_keystore :: 'h
  sa_sync_oracle :: 'h
  sa_slot_portion :: "nat \<times> nat"
  sa_telemetry :: "'h option"

record 'h grandpa_params =
  gp_gossip_millis :: nat
  gp_justification_period :: u32
  gp_name :: "string option"
  gp_observer_enabled :: bool
  gp_keystore :: "'h option"
  gp_is_authority :: bool
  gp_protocol_name :: string
  gp_link :: 'h
  gp_network :: 'h
  gp_sync :: 'h
  gp_notification_service :: 'h
  gp_registry :: "'h option"
  gp_telemetry :: "'h option"
  gp_pool :: 'h

record ('x, 'e, 'h) substrate =
  telemetry_worker_new :: "nat \<Rightarrow> ('x, 'e, 'h) io"
  new_telemetry :: "'h \<Rightarrow> 'h list \<Rightarrow> 'h"
  telemetry_handle :: "'h \<Rightarrow> 'h"
  worker_run :: "'h \<Rightarrow> 'h"
  new_wasm_executor :: "'h \<Rightarrow> 'h"
  new_full_parts :: "'h configuration \<Rightarrow> 'h option \<Rightarrow> 'h \<Rightarrow> ('x, 'e, 'h \<times> 'h \<times> 'h) io"
  longest_chain :: "'h \<Rightarrow> 'h"
  build_pool :: "'h \<Rightarrow> bool \<Rightarrow> 'h \<Rightarrow> 'h option \<Rightarrow> 'h"
  grandpa_block_import :: "'h \<Rightarrow> u32 \<Rightarrow> 'h \<Rightarrow> 'h option \<Rightarrow> ('x, 'e, 'h \<times> 'h) io"
  slot_duration_at :: "'h \<Rightarrow> 'h \<Rightarrow> ('x, 'e, u64) io"
  timestamp_now :: "('x, 'e, u64) io"
  slot_of_timestamp :: "u64 \<Rightarrow> u64 \<Rightarrow> u64"
  aura_import_queue :: "('x, 'e, 'h) import_queue_params \<Rightarrow> ('x, 'e, 'h) io"
  client_genesis :: "'h \<Rightarrow> 'x \<Rightarrow> h256 option"
  full_network_configuration :: "'h \<Rightarrow> 'h option \<Rightarrow> 'h"
  notification_metrics :: "network_backend_type \<Rightarrow> 'h option \<Rightarrow> 'h"
  peer_store_handle :: "'h \<Rightarrow> 'h"
  protocol_standard_name :: "h256 \<Rightarrow> 'h \<Rightarrow> string"
  grandpa_peers_set_config :: "string \<Rightarrow> 'h \<Rightarrow> 'h \<Rightarrow> 'h \<times> 'h"
  add_notification_protocol :: "'h \<Rightarrow> 'h \<Rightarrow> 'h"
  warp_network_provider :: "'h \<Rightarrow> 'h \<Rightarrow> 'h"
  build_network :: "'h build_network_params \<Rightarrow> ('x, 'e, 'h \<times> 'h \<times> 'h \<times> 'h) io"
  offchain_storage :: "'h \<Rightarrow> 'h"
  offchain_workers_new :: "'h offchain_options \<Rightarrow> ('x, 'e, 'h) io"
  offchain_workers_run :: "'h \<Rightarrow> 'h \<Rightarrow> 'h"
  rpc_module_new :: 'h
  rpc_merge :: "'h \<Rightarrow> 'h \<Rightarrow> ('x, 'e, 'h) io"
  system_rpc :: "'h \<Rightarrow> 'h \<Rightarrow> 'h"
  transaction_payment_rpc :: "'h \<Rightarrow> 'h"
  spawn_tasks :: "('x, 'e, 'h) spawn_tasks_params \<Rightarrow> ('x, 'e, 'h) io"
  proposer_factory_new :: "'h \<Rightarrow> 'h \<Rightarrow> 'h option \<Rightarrow> 'h option \<Rightarrow> 'h"
  aura_slot_duration :: "'h \<Rightarrow> ('x, 'e, u64) io"
  start_aura :: "('x, 'e, 'h) start_aura_params \<Rightarrow> ('x, 'e, 'h) io"
  run_grandpa_voter :: "'h grandpa_params \<Rightarrow> ('x, 'e, 'h) io"

text \<open>
  Parameters that the source sets to a library's default or to nothing (equivocation checks,
  compatibility modes, voting rules, the empty voter state, block relay, announce validator, back-off,
  the maximal slot portion, custom offchain extensions) and the handles of the task manager are left out.
  A value that the source wraps for one library only (the pool factory, the keystore of its container,
  the authority set of the link) is passed as the value it wraps.
\<close>

section \<open>The RPC extensions\<close>

definition create_full :: "('x, 'e, 'h) substrate \<Rightarrow> 'h \<Rightarrow> 'h \<Rightarrow> ('x, 'e, 'h) io" where
  "create_full sub client pool =
     io_then (rpc_merge sub (rpc_module_new sub) (system_rpc sub client pool)) (\<lambda>module.
     rpc_merge sub module (transaction_payment_rpc sub client))"

section \<open>The parts of a node\<close>

definition GRANDPA_JUSTIFICATION_PERIOD :: u32 where "GRANDPA_JUSTIFICATION_PERIOD = 512"

record 'h partial_components =
  pc_client :: 'h
  pc_backend :: 'h
  pc_import_queue :: 'h
  pc_keystore :: 'h
  pc_select_chain :: 'h
  pc_pool :: 'h
  pc_block_import :: 'h
  pc_grandpa_link :: 'h
  pc_telemetry :: "'h option"

definition import_inherents :: "('x, 'e, 'h) substrate \<Rightarrow> 'h \<Rightarrow> 'h \<Rightarrow> ('x, 'e) inherents" where
  "import_inherents sub client parent_hash =
     io_then (slot_duration_at sub client parent_hash) (\<lambda>slot_duration.
     io_then (timestamp_now sub) (\<lambda>timestamp.
     io_return (slot_of_timestamp sub timestamp slot_duration, timestamp)))"

definition start_telemetry ::
  "('x, 'e, 'h) substrate \<Rightarrow> 'h configuration \<Rightarrow> ('x, 'h, 'e, ('h \<times> 'h) option) node_io" where
  "start_telemetry sub config = (case telemetry_endpoints config of
       None \<Rightarrow> io_return None
     | Some endpoints \<Rightarrow>
         if endpoints = [] then io_return None
         else io_then (on_lib (telemetry_worker_new sub 16)) (\<lambda>worker.
           io_return (Some (worker, new_telemetry sub worker endpoints))))"

definition spawn_telemetry ::
  "('x, 'e, 'h) substrate \<Rightarrow> ('h \<times> 'h) option \<Rightarrow> ('x, 'h, 'e, 'h option) node_io" where
  "spawn_telemetry sub telemetry = (case telemetry of
       None \<Rightarrow> io_return None
     | Some (worker, tel) \<Rightarrow>
         io_then (spawn_task \<lparr>task_name = ''telemetry'', task_group = None, task_essential = False,
           task_blocking = False, task_work = worker_run sub worker\<rparr>) (\<lambda>_. io_return (Some tel)))"

definition new_partial ::
  "('x, 'e, 'h) substrate \<Rightarrow> 'h configuration \<Rightarrow> ('x, 'h, 'e, 'h partial_components) node_io" where
  "new_partial sub config =
     io_then (start_telemetry sub config) (\<lambda>started.
     let executor = new_wasm_executor sub (executor_config config) in
     io_then (on_lib (new_full_parts sub config (map_option (telemetry_handle sub \<circ> snd) started) executor))
       (\<lambda>(client, backend, keystore_container).
     io_then (spawn_telemetry sub started) (\<lambda>telemetry.
     let handle = map_option (telemetry_handle sub) telemetry;
         select_chain = longest_chain sub backend;
         transaction_pool = build_pool sub client (role_is_authority config)
           (transaction_pool_options config) (prometheus_registry config) in
     io_then (on_lib (grandpa_block_import sub client GRANDPA_JUSTIFICATION_PERIOD select_chain handle))
       (\<lambda>(block_import, grandpa_link).
     io_then (on_lib (aura_import_queue sub
       \<lparr>iq_block_import = block_import, iq_justification_import = Some block_import, iq_client = client,
        iq_create_inherents = import_inherents sub client,
        iq_registry = prometheus_registry config, iq_telemetry = handle\<rparr>)) (\<lambda>import_queue.
     io_return \<lparr>pc_client = client, pc_backend = backend, pc_import_queue = import_queue,
       pc_keystore = keystore_container, pc_select_chain = select_chain, pc_pool = transaction_pool,
       pc_block_import = block_import, pc_grandpa_link = grandpa_link, pc_telemetry = telemetry\<rparr>)))))"

section \<open>A full node\<close>

definition start_offchain_workers ::
  "('x, 'e, 'h) substrate \<Rightarrow> 'h configuration \<Rightarrow> 'h partial_components \<Rightarrow> 'h \<Rightarrow> ('x, 'h, 'e, unit) node_io" where
  "start_offchain_workers sub config pc network =
     (if offchain_worker_enabled config then
        io_then (on_lib (offchain_workers_new sub
          \<lparr>ow_client = pc_client pc, ow_is_validator = role_is_authority config,
           ow_keystore = Some (pc_keystore pc), ow_offchain_db = offchain_storage sub (pc_backend pc),
           ow_pool = Some (pc_pool pc), ow_network = network, ow_enable_http = True\<rparr>)) (\<lambda>workers.
        spawn_task \<lparr>task_name = ''offchain-workers-runner'', task_group = Some ''offchain-worker'',
          task_essential = False, task_blocking = False,
          task_work = offchain_workers_run sub workers (pc_client pc)\<rparr>)
      else io_return ())"

definition authoring_inherents :: "('x, 'e, 'h) substrate \<Rightarrow> u64 \<Rightarrow> 'h \<Rightarrow> ('x, 'e) inherents" where
  "authoring_inherents sub slot_duration _ =
     io_then (timestamp_now sub) (\<lambda>timestamp.
     io_return (slot_of_timestamp sub timestamp slot_duration, timestamp))"

definition start_authoring ::
  "('x, 'e, 'h) substrate \<Rightarrow> 'h configuration \<Rightarrow> 'h partial_components \<Rightarrow> 'h \<Rightarrow> ('x, 'h, 'e, unit) node_io" where
  "start_authoring sub config pc sync_service =
     (if role_is_authority config then
        let handle = map_option (telemetry_handle sub) (pc_telemetry pc);
            proposer_factory = proposer_factory_new sub (pc_client pc) (pc_pool pc)
              (prometheus_registry config) handle in
        io_then (on_lib (aura_slot_duration sub (pc_client pc))) (\<lambda>slot_duration.
        io_then (on_lib (start_aura sub
          \<lparr>sa_slot_duration = slot_duration, sa_client = pc_client pc, sa_select_chain = pc_select_chain pc,
           sa_block_import = pc_block_import pc, sa_proposer_factory = proposer_factory,
           sa_create_inherents = authoring_inherents sub slot_duration,
           sa_force_authoring = config_force_authoring config, sa_keystore = pc_keystore pc,
           sa_sync_oracle = sync_service, sa_slot_portion = (2, 3), sa_telemetry = handle\<rparr>)) (\<lambda>aura.
        spawn_task \<lparr>task_name = ''aura'', task_group = Some ''block-authoring'', task_essential = True,
          task_blocking = True, task_work = aura\<rparr>))
      else io_return ())"

definition start_voter ::
  "('x, 'e, 'h) substrate \<Rightarrow> 'h configuration \<Rightarrow> 'h partial_components \<Rightarrow> string \<Rightarrow> 'h \<Rightarrow> 'h \<Rightarrow> 'h
     \<Rightarrow> ('x, 'h, 'e, unit) node_io" where
  "start_voter sub config pc protocol_name network sync_service notification_service =
     (if \<not> disable_grandpa config then
        io_then (on_lib (run_grandpa_voter sub
          \<lparr>gp_gossip_millis = 333, gp_justification_period = GRANDPA_JUSTIFICATION_PERIOD,
           gp_name = Some (node_name config), gp_observer_enabled = False,
           gp_keystore = (if role_is_authority config then Some (pc_keystore pc) else None),
           gp_is_authority = role_is_authority config, gp_protocol_name = protocol_name,
           gp_link = pc_grandpa_link pc, gp_network = network, gp_sync = sync_service,
           gp_notification_service = notification_service, gp_registry = prometheus_registry config,
           gp_telemetry = map_option (telemetry_handle sub) (pc_telemetry pc), gp_pool = pc_pool pc\<rparr>)) (\<lambda>voter.
        spawn_task \<lparr>task_name = ''grandpa-voter'', task_group = None, task_essential = True,
          task_blocking = True, task_work = voter\<rparr>)
      else io_return ())"

definition new_full ::
  "('x, 'e, 'h) substrate \<Rightarrow> network_backend_type \<Rightarrow> 'h configuration \<Rightarrow> ('x, 'h, 'e, unit) node_io" where
  "new_full sub backend_type config =
     io_then (new_partial sub config) (\<lambda>pc.
     let net_config = full_network_configuration sub (network_config config) (prometheus_registry config);
         metrics = notification_metrics sub backend_type (prometheus_registry config);
         peer_store = peer_store_handle sub net_config in
     io_then (\<lambda>w. (ok_or (client_genesis sub (pc_client pc) (nw_lib w)) Panic, w)) (\<lambda>genesis_hash.
     let protocol_name = protocol_standard_name sub genesis_hash (config_chain_spec config);
         (protocol_config, notification_service) = grandpa_peers_set_config sub protocol_name metrics peer_store;
         net_config = add_notification_protocol sub net_config protocol_config;
         warp_sync = warp_network_provider sub (pc_backend pc) (pc_grandpa_link pc) in
     io_then (on_lib (build_network sub
       \<lparr>bn_config = config, bn_net_config = net_config, bn_client = pc_client pc, bn_pool = pc_pool pc,
        bn_import_queue = pc_import_queue pc, bn_warp_sync = Some warp_sync, bn_metrics = metrics\<rparr>))
       (\<lambda>(network, system_rpc_tx, tx_handler_controller, sync_service).
     io_then (start_offchain_workers sub config pc network) (\<lambda>_.
     io_then (on_lib (spawn_tasks sub
       \<lparr>st_network = network, st_client = pc_client pc, st_keystore = pc_keystore pc, st_pool = pc_pool pc,
        st_rpc_builder = (\<lambda>_. create_full sub (pc_client pc) (pc_pool pc)), st_backend = pc_backend pc,
        st_system_rpc_tx = system_rpc_tx, st_tx_handler = tx_handler_controller,
        st_sync_service = sync_service, st_config = config, st_telemetry = pc_telemetry pc\<rparr>)) (\<lambda>_.
     io_then (start_authoring sub config pc sync_service) (\<lambda>_.
     start_voter sub config pc protocol_name network sync_service notification_service))))))"

section \<open>Which tasks are started\<close>

text \<open>
  \<open>io_starts Q m names\<close>: on every outcome \<open>m\<close> starts tasks with \<open>Q\<close> whose names are an initial part of
  \<open>names\<close>, and when it succeeds all of them.
\<close>

definition io_starts :: "('h task \<Rightarrow> bool) \<Rightarrow> ('x, 'h, 'e, 'a) node_io \<Rightarrow> string list \<Rightarrow> bool" where
  "io_starts Q m names \<longleftrightarrow> (\<forall>w. \<exists>ts. nw_tasks (snd (m w)) = nw_tasks w @ ts \<and> list_all Q ts \<and>
     prefix (map task_name ts) names \<and> (is_ok (fst (m w)) \<longrightarrow> map task_name ts = names))"

lemma io_starts_none:
  "io_starts Q (io_return x) []" "io_starts Q (on_lib m) []" "io_starts Q (\<lambda>w. (f w, w)) []"
  by (simp_all add: io_starts_def on_lib_def case_prod_beta)

lemma io_starts_spawn: "Q t \<Longrightarrow> io_starts Q (spawn_task t) [task_name t]"
  by (simp add: io_starts_def spawn_task_def)

lemma io_starts_then:
  assumes "io_starts Q m names" "\<And>x w w'. m w = (Inr x, w') \<Longrightarrow> io_starts Q (f x) names'"
  shows "io_starts Q (io_then m f) (names @ names')"
  unfolding io_starts_def
proof
  fix w
  obtain r w' where m: "m w = (r, w')" by fastforce
  obtain ts where ts: "nw_tasks w' = nw_tasks w @ ts" "list_all Q ts" "prefix (map task_name ts) names"
      "is_ok r \<longrightarrow> map task_name ts = names"
    using assms(1) m unfolding io_starts_def by (metis fst_conv snd_conv)
  show "\<exists>ts. nw_tasks (snd (io_then m f w)) = nw_tasks w @ ts \<and> list_all Q ts \<and>
     prefix (map task_name ts) (names @ names') \<and> (is_ok (fst (io_then m f w)) \<longrightarrow> map task_name ts = names @ names')"
  proof (cases r)
    case (Inl e)
    then show ?thesis using ts m by (intro exI [of _ ts]) (simp add: io_then_def)
  next
    case (Inr x)
    then obtain us where us: "nw_tasks (snd (f x w')) = nw_tasks w' @ us" "list_all Q us"
      "prefix (map task_name us) names'" "is_ok (fst (f x w')) \<longrightarrow> map task_name us = names'"
      using assms(2) m unfolding io_starts_def by metis
    show ?thesis
      using ts us m Inr by (intro exI [of _ "ts @ us"]) (simp add: io_then_def)
  qed
qed

definition has_telemetry :: "'h configuration \<Rightarrow> bool" where
  "has_telemetry config \<longleftrightarrow> (\<exists>e es. telemetry_endpoints config = Some (e # es))"

definition partial_tasks :: "'h configuration \<Rightarrow> string list" where
  "partial_tasks config = (if has_telemetry config then [''telemetry''] else [])"

definition full_tasks :: "'h configuration \<Rightarrow> string list" where
  "full_tasks config = partial_tasks config
     @ (if offchain_worker_enabled config then [''offchain-workers-runner''] else [])
     @ (if role_is_authority config then [''aura''] else [])
     @ (if disable_grandpa config then [] else [''grandpa-voter''])"

text \<open>
  What a task of a node is allowed to be: authoring and voting are essential tasks of their own
  libraries, authoring is for authorities, and the voter has a keystore only there.
\<close>

definition task_allowed :: "('x, 'e, 'h) substrate \<Rightarrow> 'h configuration \<Rightarrow> 'h task \<Rightarrow> bool" where
  "task_allowed sub config t \<longleftrightarrow>
     (task_name t = ''aura'' \<longrightarrow> role_is_authority config \<and> task_essential t \<and>
        (\<exists>params x x'. start_aura sub params x = (Inr (task_work t), x'))) \<and>
     (task_name t = ''grandpa-voter'' \<longrightarrow> \<not> disable_grandpa config \<and> task_essential t \<and>
        (\<exists>params x x'. run_grandpa_voter sub params x = (Inr (task_work t), x') \<and>
           gp_is_authority params = role_is_authority config \<and>
           (gp_keystore params = None) = (\<not> role_is_authority config))) \<and>
     (task_essential t \<longrightarrow> task_name t \<in> {''aura'', ''grandpa-voter''})"

lemma on_lib_Inr [io_simps]:
  "on_lib m w = (Inr r, w') \<longleftrightarrow> (\<exists>x. m (nw_lib w) = (Inr r, x) \<and> w' = w\<lparr>nw_lib := x\<rparr>)"
  by (auto simp: on_lib_def res_simps split: prod.splits)

lemma io_starts_lib:
  assumes "\<And>r x x'. m x = (Inr r, x') \<Longrightarrow> io_starts Q (f r) names"
  shows "io_starts Q (io_then (on_lib m) f) names"
proof -
  have "io_starts Q (f r) names" if "on_lib m w = (Inr r, w')" for r w w'
    using that assms by (auto simp: io_simps)
  from io_starts_then [OF io_starts_none(2) this] show ?thesis by simp
qed

lemma io_starts_read:
  assumes "\<And>r. io_starts Q (f r) names"
  shows "io_starts Q (io_then (\<lambda>w. (g w, w)) f) names"
  using io_starts_then [OF io_starts_none(3) assms] by simp

lemma io_starts_task: "Q t \<Longrightarrow> task_name t = n \<Longrightarrow> io_starts Q (spawn_task t) [n]"
  using io_starts_spawn by blast

lemma start_telemetry_starts: "io_starts Q (start_telemetry sub config) []"
  by (auto simp: start_telemetry_def io_starts_none intro!: io_starts_lib split: option.split)

lemma start_telemetry_result:
  "start_telemetry sub config w = (Inr r, w') \<Longrightarrow> r \<noteq> None \<longleftrightarrow> has_telemetry config"
  by (auto simp: start_telemetry_def has_telemetry_def io_simps neq_Nil_conv split: option.splits if_splits)

lemma spawn_telemetry_starts:
  "io_starts (task_allowed sub config) (spawn_telemetry sub r) (if r = None then [] else [''telemetry''])"
proof (cases r)
  case (Some x)
  then have "io_starts (task_allowed sub config) (spawn_telemetry sub r) ([''telemetry''] @ [])"
    unfolding spawn_telemetry_def
    by (simp only: option.case case_prod_beta)
      (rule io_starts_then [OF io_starts_task io_starts_none(1)]; simp add: task_allowed_def)
  then show ?thesis using Some by simp
qed (simp add: spawn_telemetry_def io_starts_none)

lemma new_partial_starts: "io_starts (task_allowed sub config) (new_partial sub config) (partial_tasks config)"
proof -
  have "io_starts (task_allowed sub config) (new_partial sub config) ([] @ partial_tasks config)"
    unfolding new_partial_def
  proof (rule io_starts_then [OF start_telemetry_starts], goal_cases)
    case (1 r w w')
    from start_telemetry_result [OF 1]
    have names: "partial_tasks config = (if r = None then [] else [''telemetry'']) @ []"
      by (cases "has_telemetry config") (simp_all add: partial_tasks_def del: not_None_eq)
    show ?case
      unfolding Let_def case_prod_beta names
      by (intro io_starts_lib io_starts_then [OF spawn_telemetry_starts] io_starts_none)
  qed
  then show ?thesis by simp
qed

lemma start_offchain_workers_starts:
  "io_starts (task_allowed sub config) (start_offchain_workers sub config pc network)
     (if offchain_worker_enabled config then [''offchain-workers-runner''] else [])"
  by (simp add: start_offchain_workers_def io_starts_none)
    (intro impI io_starts_lib io_starts_task; simp add: task_allowed_def)

lemma start_authoring_starts:
  "io_starts (task_allowed sub config) (start_authoring sub config pc sync)
     (if role_is_authority config then [''aura''] else [])"
  by (simp add: start_authoring_def io_starts_none Let_def)
    (intro impI io_starts_lib io_starts_task; force simp: task_allowed_def)

lemma start_voter_starts:
  "io_starts (task_allowed sub config) (start_voter sub config pc protocol network sync notif)
     (if disable_grandpa config then [] else [''grandpa-voter''])"
proof (cases "disable_grandpa config")
  case False
  then show ?thesis
    unfolding start_voter_def if_not_P [OF False] if_P [OF False]
    by (intro io_starts_lib io_starts_task) (force simp: task_allowed_def split: if_splits)+
qed (simp add: start_voter_def io_starts_none)

lemma new_full_starts: "io_starts (task_allowed sub config) (new_full sub backend_type config) (full_tasks config)"
  unfolding new_full_def full_tasks_def Let_def case_prod_beta
  by (rule io_starts_then [OF new_partial_starts])
    (intro io_starts_lib io_starts_read io_starts_then [OF start_offchain_workers_starts]
      io_starts_then [OF start_authoring_starts] start_voter_starts)

end
