(* ===== verification/Node_Command.thy ===== *)
theory Node_Command
  imports Node_Service Runtime_Params
begin

text \<open>
  \<^verbatim>\<open>node/src/command.rs\<close>, \<^verbatim>\<open>cli.rs\<close>, \<^verbatim>\<open>main.rs\<close> and \<^verbatim>\<open>benchmarking.rs\<close>: what each subcommand of the node
  binary runs, and the extrinsics the benchmarks submit. The commands of \<^verbatim>\<open>sc_cli\<close> and
  \<^verbatim>\<open>frame_benchmarking_cli\<close> and the runner that executes them are parameters (\<open>cli_lib\<close>).
\<close>

section \<open>Benchmark extrinsics\<close>

datatype bench_call = Remark bytes | TransferKeepAlive account_id balance

text \<open>What the signature covers beside the call and the extensions.\<close>

record signed_implicit =
  si_spec_version :: u32
  si_transaction_version :: u32
  si_genesis_hash :: h256
  si_era_hash :: h256
  si_metadata_hash :: "h256 option"

record 'era bench_extrinsic =
  bx_call :: bench_call
  bx_signer :: account_id
  bx_signature :: bytes
  bx_extension :: "'era tx_extension"

record ('x, 'h, 'pair, 'era) bench_lib =
  bench_genesis :: "'h \<Rightarrow> 'x \<Rightarrow> h256 option"
  best_hash :: "'h \<Rightarrow> 'x \<Rightarrow> h256"
  best_number :: "'h \<Rightarrow> 'x \<Rightarrow> u32"
  era_mortal :: "u64 \<Rightarrow> u64 \<Rightarrow> 'era"
  payload_bytes :: "bench_call \<Rightarrow> 'era tx_extension \<Rightarrow> signed_implicit \<Rightarrow> bytes"
  pair_sign :: "'pair \<Rightarrow> bytes \<Rightarrow> bytes"
  pair_public :: "'pair \<Rightarrow> account_id"
  bob_pair :: 'pair
  alice_account :: account_id

text \<open>\<^verbatim>\<open>u32::checked_next_power_of_two\<close>\<close>

definition checked_next_power_of_two :: "u32 \<Rightarrow> u32 option" where
  "checked_next_power_of_two n = map_option (\<lambda>k. 2 ^ k) (find (\<lambda>k. unat n \<le> 2 ^ k) [0..<32])"

definition era_period :: u64 where
  "era_period = ucast (case map_option (\<lambda>c. c div 2) (checked_next_power_of_two BlockHashCount) of
       Some p \<Rightarrow> p
     | None \<Rightarrow> 2)"

definition create_benchmark_extrinsic ::
  "('x, 'h, 'pair, 'era) bench_lib \<Rightarrow> 'h \<Rightarrow> 'pair \<Rightarrow> bench_call \<Rightarrow> u32 \<Rightarrow> ('x, 'e fault, 'era bench_extrinsic) io" where
  "create_benchmark_extrinsic bl client sender call nonce x =
     (case bench_genesis bl client x of
        None \<Rightarrow> (Inl Panic, x)
      | Some genesis_hash \<Rightarrow>
          let tx_ext = \<lparr>check_era = era_mortal bl era_period (ucast (best_number bl client x)),
                        check_nonce = nonce, charge_transaction_payment = 0, check_metadata_hash = False\<rparr>;
              raw_payload = payload_bytes bl call tx_ext
                \<lparr>si_spec_version = spec_version VERSION, si_transaction_version = transaction_version VERSION,
                 si_genesis_hash = genesis_hash, si_era_hash = best_hash bl client x,
                 si_metadata_hash = None\<rparr> in
          (Inr \<lparr>bx_call = call, bx_signer = pair_public bl sender, bx_signature = pair_sign bl sender raw_payload,
                bx_extension = tx_ext\<rparr>, x))"

record ('x, 'e, 'era) extrinsic_builder =
  eb_pallet :: string
  eb_extrinsic :: string
  eb_build :: "u32 \<Rightarrow> ('x, 'e fault, 'era bench_extrinsic) io"

definition RemarkBuilder :: "('x, 'h, 'pair, 'era) bench_lib \<Rightarrow> 'h \<Rightarrow> ('x, 'e, 'era) extrinsic_builder" where
  "RemarkBuilder bl client = \<lparr>eb_pallet = ''system'', eb_extrinsic = ''remark'',
     eb_build = create_benchmark_extrinsic bl client (bob_pair bl) (Remark [])\<rparr>"

definition TransferKeepAliveBuilder ::
  "('x, 'h, 'pair, 'era) bench_lib \<Rightarrow> 'h \<Rightarrow> account_id \<Rightarrow> balance \<Rightarrow> ('x, 'e, 'era) extrinsic_builder" where
  "TransferKeepAliveBuilder bl client dest val = \<lparr>eb_pallet = ''balances'', eb_extrinsic = ''transfer_keep_alive'',
     eb_build = create_benchmark_extrinsic bl client (bob_pair bl) (TransferKeepAlive dest val)\<rparr>"

section \<open>The command line\<close>

datatype 'h benchmark_cmd =
    BenchPallet 'h | BenchBlock 'h | BenchStorage 'h | BenchOverhead 'h | BenchExtrinsic 'h | BenchMachine 'h

datatype 'h subcommand =
    Key 'h | BuildSpec 'h | CheckBlock 'h | ExportBlocks 'h | ExportState 'h | ImportBlocks 'h
  | PurgeChain 'h | Revert 'h | Benchmark "'h benchmark_cmd" | ChainInfo 'h

record 'h cli =
  cli_subcommand :: "'h subcommand option"
  cli_run :: 'h

text \<open>
  A runner holds the configuration of a node and calls the closure it is given with it: at once, or,
  for \<^verbatim>\<open>async_run\<close>, to get a future that it then drives. \<open>runtime_benchmarks\<close> is the build feature. The
  overhead benchmark takes the name of the chain from the specification it is given, and
  \<open>provide_timestamp\<close> has its error already converted to one of the command line.
\<close>

record ('x, 'e, 'h, 'r, 'era) cli_lib =
  key_run :: "'h \<Rightarrow> ('x, 'e, unit) io"
  create_runner :: "'h subcommand \<Rightarrow> ('x, 'e, 'r) io"
  create_run_runner :: "'h \<Rightarrow> ('x, 'e, 'r) io"
  sync_run :: "'r \<Rightarrow> ('h configuration \<Rightarrow> ('x, 'h, 'e, unit) node_io) \<Rightarrow> ('x, 'h, 'e, unit) node_io"
  async_run :: "'r \<Rightarrow> ('h configuration \<Rightarrow> ('x, 'h, 'e, 'h) node_io) \<Rightarrow> ('x, 'h, 'e, unit) node_io"
  run_node_until_exit :: "'r \<Rightarrow> ('h configuration \<Rightarrow> ('x, 'h, 'e, unit) node_io) \<Rightarrow> ('x, 'h, 'e, unit) node_io"
  cmd_run :: "'h \<Rightarrow> 'h list \<Rightarrow> ('x, 'e, unit) io"
  cmd_future :: "'h \<Rightarrow> 'h list \<Rightarrow> 'h"
  chain_info_run :: "'h \<Rightarrow> 'h configuration \<Rightarrow> ('x, 'e, unit) io"
  grandpa_revert :: 'h
  expose_db :: "'h \<Rightarrow> 'h"
  expose_storage :: "'h \<Rightarrow> 'h"
  storage_run :: "'h \<Rightarrow> 'h configuration \<Rightarrow> 'h list \<Rightarrow> ('x, 'e, unit) io"
  provide_timestamp :: "u64 \<Rightarrow> ('x, 'e, 'h) io"
  overhead_run :: "'h \<Rightarrow> 'h \<Rightarrow> 'h \<Rightarrow> 'h \<Rightarrow> ('x, 'e, 'era) extrinsic_builder \<Rightarrow> ('x, 'e, unit) io"
  extrinsic_run :: "'h \<Rightarrow> 'h \<Rightarrow> 'h \<Rightarrow> ('x, 'e, 'era) extrinsic_builder list \<Rightarrow> ('x, 'e, unit) io"
  machine_run :: "'h \<Rightarrow> 'h configuration \<Rightarrow> ('x, 'e, unit) io"
  cli_input_error :: "string \<Rightarrow> 'e"
  service_error :: "'e \<Rightarrow> 'e"
  default_backend :: network_backend_type
  runtime_benchmarks :: bool

definition inherent_benchmark_data :: "('x, 'e, 'h, 'r, 'era) cli_lib \<Rightarrow> ('x, 'e, 'h) io" where
  "inherent_benchmark_data lib = provide_timestamp lib 0"

definition run_benchmark ::
  "('x, 'e, 'h) substrate \<Rightarrow> ('x, 'e, 'h, 'r, 'era) cli_lib \<Rightarrow> ('x, 'h, 'pair, 'era) bench_lib
     \<Rightarrow> 'h benchmark_cmd \<Rightarrow> 'h configuration \<Rightarrow> ('x, 'h, 'e, unit) node_io" where
  "run_benchmark sub lib bl cmd config = (case cmd of
       BenchPallet cmd \<Rightarrow>
         if \<not> runtime_benchmarks lib
         then io_raise (Err (cli_input_error lib
           ''Runtime benchmarking wasn't enabled when building the node. You can enable it with `--features runtime-benchmarks`.''))
         else on_lib (cmd_run lib cmd [config_chain_spec config])
     | BenchBlock cmd \<Rightarrow>
         io_then (new_partial sub config) (\<lambda>pc. on_lib (cmd_run lib cmd [pc_client pc]))
     | BenchStorage cmd \<Rightarrow>
         if \<not> runtime_benchmarks lib
         then io_raise (Err (cli_input_error lib
           ''Storage benchmarking can be enabled with `--features runtime-benchmarks`.''))
         else io_then (new_partial sub config) (\<lambda>pc.
           let db = expose_db lib (pc_backend pc); storage = expose_storage lib (pc_backend pc) in
           on_lib (storage_run lib cmd config [pc_client pc, db, storage]))
     | BenchOverhead cmd \<Rightarrow>
         io_then (new_partial sub config) (\<lambda>pc.
         let ext_builder = RemarkBuilder bl (pc_client pc) in
         io_then (on_lib (inherent_benchmark_data lib)) (\<lambda>inherent.
         on_lib (overhead_run lib cmd (config_chain_spec config) (pc_client pc) inherent ext_builder)))
     | BenchExtrinsic cmd \<Rightarrow>
         io_then (new_partial sub config) (\<lambda>pc.
         let ext_factory = [RemarkBuilder bl (pc_client pc),
               TransferKeepAliveBuilder bl (pc_client pc) (alice_account bl) EXISTENTIAL_DEPOSIT] in
         io_then (on_lib (inherent_benchmark_data lib)) (\<lambda>inherent.
         on_lib (extrinsic_run lib cmd (pc_client pc) inherent ext_factory)))
     | BenchMachine cmd \<Rightarrow> on_lib (machine_run lib cmd config))"

definition run ::
  "('x, 'e, 'h) substrate \<Rightarrow> ('x, 'e, 'h, 'r, 'era) cli_lib \<Rightarrow> ('x, 'h, 'pair, 'era) bench_lib \<Rightarrow> 'h cli
     \<Rightarrow> ('x, 'h, 'e, unit) node_io" where
  "run sub lib bl cli = (case cli_subcommand cli of
       Some (Key cmd) \<Rightarrow> on_lib (key_run lib cmd)
     | Some (BuildSpec cmd) \<Rightarrow>
         io_then (on_lib (create_runner lib (BuildSpec cmd))) (\<lambda>runner.
         sync_run lib runner (\<lambda>config. on_lib (cmd_run lib cmd [config_chain_spec config, network_config config])))
     | Some (CheckBlock cmd) \<Rightarrow>
         io_then (on_lib (create_runner lib (CheckBlock cmd))) (\<lambda>runner.
         async_run lib runner (\<lambda>config. io_then (new_partial sub config) (\<lambda>pc.
           io_return (cmd_future lib cmd [pc_client pc, pc_import_queue pc]))))
     | Some (ExportBlocks cmd) \<Rightarrow>
         io_then (on_lib (create_runner lib (ExportBlocks cmd))) (\<lambda>runner.
         async_run lib runner (\<lambda>config. io_then (new_partial sub config) (\<lambda>pc.
           io_return (cmd_future lib cmd [pc_client pc, database config]))))
     | Some (ExportState cmd) \<Rightarrow>
         io_then (on_lib (create_runner lib (ExportState cmd))) (\<lambda>runner.
         async_run lib runner (\<lambda>config. io_then (new_partial sub config) (\<lambda>pc.
           io_return (cmd_future lib cmd [pc_client pc, config_chain_spec config]))))
     | Some (ImportBlocks cmd) \<Rightarrow>
         io_then (on_lib (create_runner lib (ImportBlocks cmd))) (\<lambda>runner.
         async_run lib runner (\<lambda>config. io_then (new_partial sub config) (\<lambda>pc.
           io_return (cmd_future lib cmd [pc_client pc, pc_import_queue pc]))))
     | Some (PurgeChain cmd) \<Rightarrow>
         io_then (on_lib (create_runner lib (PurgeChain cmd))) (\<lambda>runner.
         sync_run lib runner (\<lambda>config. on_lib (cmd_run lib cmd [database config])))
     | Some (Revert cmd) \<Rightarrow>
         io_then (on_lib (create_runner lib (Revert cmd))) (\<lambda>runner.
         async_run lib runner (\<lambda>config. io_then (new_partial sub config) (\<lambda>pc.
           io_return (cmd_future lib cmd [pc_client pc, pc_backend pc, grandpa_revert lib]))))
     | Some (Benchmark cmd) \<Rightarrow>
         io_then (on_lib (create_runner lib (Benchmark cmd))) (\<lambda>runner.
         sync_run lib runner (run_benchmark sub lib bl cmd))
     | Some (ChainInfo cmd) \<Rightarrow>
         io_then (on_lib (create_runner lib (ChainInfo cmd))) (\<lambda>runner.
         sync_run lib runner (\<lambda>config. on_lib (chain_info_run lib cmd config)))
     | None \<Rightarrow>
         io_then (on_lib (create_run_runner lib (cli_run cli))) (\<lambda>runner.
         run_node_until_exit lib runner (\<lambda>config.
           let backend_type = (case network_backend config of Some b \<Rightarrow> b | None \<Rightarrow> default_backend lib) in
           io_map_err (lift_fault (service_error lib)) (new_full sub backend_type config))))"

section \<open>Lemmas\<close>

text \<open>
  The benchmark extrinsics stay valid as long as the runtime can check their era: the period is the
  largest power of two that is not above the number of kept hashes.
\<close>

lemma era_period_kept: "era_period = 2048" "unat era_period \<le> unat BlockHashCount" "unat BlockHashCount < 2 * unat era_period"
proof -
  show p: "era_period = 2048" by code_simp
  show "unat era_period \<le> unat BlockHashCount" "unat BlockHashCount < 2 * unat era_period"
    unfolding p BlockHashCount_def by simp_all
qed

text \<open>A run only adds tasks, all with \<open>Q\<close>.\<close>

definition adds_tasks :: "('h task \<Rightarrow> bool) \<Rightarrow> ('x, 'h) node_world \<Rightarrow> ('x, 'h) node_world \<Rightarrow> bool" where
  "adds_tasks Q w w' \<longleftrightarrow> (\<exists>ts. nw_tasks w' = nw_tasks w @ ts \<and> list_all Q ts)"

lemma adds_tasks_rel: "reflp (adds_tasks Q)" "transp (adds_tasks Q)"
  by (auto simp: adds_tasks_def intro!: reflpI transpI)

lemma io_keeps_starts:
  assumes "io_starts Q m names" "\<And>t. Q t \<Longrightarrow> task_name t \<in> set names \<Longrightarrow> R t"
  shows "io_keeps (adds_tasks R) m"
  unfolding io_keeps_def adds_tasks_def
proof
  fix w
  obtain ts where ts: "nw_tasks (snd (m w)) = nw_tasks w @ ts" "list_all Q ts" "prefix (map task_name ts) names"
    using assms(1) unfolding io_starts_def by blast
  then have "list_all R ts"
    using assms(2) set_mono_prefix [OF ts(3)] by (fastforce simp: list_all_iff)
  with ts(1) show "\<exists>ts. nw_tasks (snd (m w)) = nw_tasks w @ ts \<and> list_all R ts" by blast
qed

text \<open>The runner calls the closure with some configuration and starts no task itself.\<close>

definition runner_laws :: "('x, 'e, 'h, 'r, 'era) cli_lib \<Rightarrow> bool" where
  "runner_laws lib \<longleftrightarrow> (\<forall>r f g w.
     (\<exists>config w1. nw_tasks w1 = nw_tasks w \<and> nw_tasks (snd (sync_run lib r f w)) = nw_tasks (snd (f config w1))) \<and>
     (\<exists>config w1. nw_tasks w1 = nw_tasks w \<and> nw_tasks (snd (async_run lib r g w)) = nw_tasks (snd (g config w1))) \<and>
     (\<exists>config w1. nw_tasks w1 = nw_tasks w \<and>
        nw_tasks (snd (run_node_until_exit lib r f w)) = nw_tasks (snd (f config w1))))"

lemma runner_keeps:
  assumes "runner_laws lib"
  shows "(\<And>config. io_keeps (adds_tasks Q) (f config)) \<Longrightarrow> io_keeps (adds_tasks Q) (sync_run lib r f)"
    and "(\<And>config. io_keeps (adds_tasks Q) (g config)) \<Longrightarrow> io_keeps (adds_tasks Q) (async_run lib r g)"
  using assms unfolding runner_laws_def io_keeps_def adds_tasks_def by metis+

abbreviation is_telemetry :: "'h task \<Rightarrow> bool" where
  "is_telemetry t \<equiv> task_name t = ''telemetry''"

lemma keeps_on_lib: "io_keeps (adds_tasks Q) (on_lib m)"
  by (simp add: io_keeps_def adds_tasks_def on_lib_def case_prod_beta)

lemma keeps_new_partial: "io_keeps (adds_tasks is_telemetry) (new_partial sub config)"
  by (rule io_keeps_starts [OF new_partial_starts]) (auto simp: partial_tasks_def split: if_splits)

lemmas telemetry_intros = keeps_on_lib keeps_new_partial io_keeps_then [OF adds_tasks_rel(2)]
  io_keeps_basic [OF adds_tasks_rel(1)]

lemma run_benchmark_keeps: "io_keeps (adds_tasks is_telemetry) (run_benchmark sub lib bl cmd config)"
  by (cases cmd) (auto simp: run_benchmark_def Let_def intro!: telemetry_intros)

end
