(* ===== verification/Node_Theorems.thy ===== *)
theory Node_Theorems
  imports Node_Command
begin

text \<open>
  What the node binary starts: the tasks of a full node, and that nothing but a plain run starts
  consensus.
\<close>

section \<open>A concrete node\<close>

text \<open>Libraries that always succeed, for an authority with one telemetry endpoint.\<close>

definition sample_substrate :: "(unit, unit, nat) substrate" where
  "sample_substrate = \<lparr>
     telemetry_worker_new = (\<lambda>_ x. (Inr 1, x)), new_telemetry = (\<lambda>_ _. 2), telemetry_handle = (\<lambda>_. 3),
     worker_run = (\<lambda>_. 4), new_wasm_executor = (\<lambda>_. 5), new_full_parts = (\<lambda>_ _ _ x. (Inr (6, 7, 8), x)),
     longest_chain = (\<lambda>_. 9), build_pool = (\<lambda>_ _ _ _. 10), grandpa_block_import = (\<lambda>_ _ _ _ x. (Inr (11, 12), x)),
     slot_duration_at = (\<lambda>_ _ x. (Inr 6000, x)), timestamp_now = (\<lambda>x. (Inr 0, x)),
     slot_of_timestamp = (\<lambda>t d. t div d), aura_import_queue = (\<lambda>_ x. (Inr 13, x)),
     client_genesis = (\<lambda>_ _. Some 0), full_network_configuration = (\<lambda>_ _. 14),
     notification_metrics = (\<lambda>_ _. 15), peer_store_handle = (\<lambda>_. 16),
     protocol_standard_name = (\<lambda>_ _. ''grandpa''), grandpa_peers_set_config = (\<lambda>_ _ _. (17, 18)),
     add_notification_protocol = (\<lambda>_ _. 19), warp_network_provider = (\<lambda>_ _. 20),
     build_network = (\<lambda>_ x. (Inr (21, 22, 23, 24), x)), offchain_storage = (\<lambda>_. 25),
     offchain_workers_new = (\<lambda>_ x. (Inr 26, x)), offchain_workers_run = (\<lambda>_ _. 27),
     rpc_module_new = 28, rpc_merge = (\<lambda>_ _ x. (Inr 29, x)), system_rpc = (\<lambda>_ _. 30),
     transaction_payment_rpc = (\<lambda>_. 31), spawn_tasks = (\<lambda>_ x. (Inr 32, x)),
     proposer_factory_new = (\<lambda>_ _ _ _. 33), aura_slot_duration = (\<lambda>_ x. (Inr 6000, x)),
     start_aura = (\<lambda>_ x. (Inr 34, x)), run_grandpa_voter = (\<lambda>_ x. (Inr 35, x))\<rparr>"

definition sample_node_config :: "nat configuration" where
  "sample_node_config = \<lparr>telemetry_endpoints = Some [1], executor_config = 0, role_is_authority = True,
     transaction_pool_options = 0, prometheus_registry = None, network_config = 0, node_name = ''alice'',
     network_backend = None, config_chain_spec = 0, database = 0, offchain_worker_enabled = False,
     config_force_authoring = False, disable_grandpa = False\<rparr>"

definition sample_node_world :: "(unit, nat) node_world" where
  "sample_node_world = \<lparr>nw_lib = (), nw_tasks = []\<rparr>"

text \<open>A runner that calls the closure with that configuration.\<close>

definition sample_cli_lib :: "(unit, unit, nat, unit, unit) cli_lib" where
  "sample_cli_lib = \<lparr>key_run = (\<lambda>_ x. (Inr (), x)), create_runner = (\<lambda>_ x. (Inr (), x)),
     create_run_runner = (\<lambda>_ x. (Inr (), x)), sync_run = (\<lambda>_ f. f sample_node_config),
     async_run = (\<lambda>_ f. io_then (f sample_node_config) (\<lambda>_. io_return ())),
     run_node_until_exit = (\<lambda>_ f. f sample_node_config), cmd_run = (\<lambda>_ _ x. (Inr (), x)),
     cmd_future = (\<lambda>_ _. 0), chain_info_run = (\<lambda>_ _ x. (Inr (), x)), grandpa_revert = 0,
     expose_db = (\<lambda>_. 0), expose_storage = (\<lambda>_. 0), storage_run = (\<lambda>_ _ _ x. (Inr (), x)),
     provide_timestamp = (\<lambda>_ x. (Inr 0, x)), overhead_run = (\<lambda>_ _ _ _ _ x. (Inr (), x)),
     extrinsic_run = (\<lambda>_ _ _ _ x. (Inr (), x)), machine_run = (\<lambda>_ _ x. (Inr (), x)),
     cli_input_error = (\<lambda>_. ()), service_error = (\<lambda>e. e), default_backend = Libp2p,
     runtime_benchmarks = False\<rparr>"

definition sample_bench_lib :: "(unit, nat, unit, unit) bench_lib" where
  "sample_bench_lib = \<lparr>bench_genesis = (\<lambda>_ _. Some 0), best_hash = (\<lambda>_ _. 0), best_number = (\<lambda>_ _. 0),
     era_mortal = (\<lambda>_ _. ()), payload_bytes = (\<lambda>_ _ _. []), pair_sign = (\<lambda>_ m. m), pair_public = (\<lambda>_. 2),
     bob_pair = (), alice_account = 1\<rparr>"

lemma runner_laws_sample: "runner_laws sample_cli_lib"
proof -
  have "nw_tasks (snd (io_then m (\<lambda>_. io_return ()) w)) = nw_tasks (snd (m w))"
    for m :: "(unit, nat, unit, nat) node_io" and w
    by (cases "m w"; cases "fst (m w)") (simp_all add: io_then_def)
  then show ?thesis unfolding runner_laws_def by (auto simp: sample_cli_lib_def)
qed

section \<open>Properties\<close>

text \<open>
  C25. A node starts exactly the tasks its configuration asks for, in this order: telemetry when there
  are endpoints, the offchain workers, authoring on an authority, and the GRANDPA voter unless it is
  disabled; when a library call fails, an initial part of them. Authoring and voting are the
  essential tasks, and the voter of a node that is no authority has no keystore to vote with.
\<close>

theorem node_tasks:
  "\<exists>ts. nw_tasks (snd (new_full sub backend_type config w)) = nw_tasks w @ ts \<and>
     list_all (task_allowed sub config) ts \<and> prefix (map task_name ts) (full_tasks config) \<and>
     (is_ok (fst (new_full sub backend_type config w)) \<longrightarrow> map task_name ts = full_tasks config)"
  using new_full_starts [of sub config backend_type] unfolding io_starts_def by blast

theorem node_tasks_witness:
  "\<exists>ts. nw_tasks (snd (new_full sample_substrate Libp2p sample_node_config sample_node_world)) = ts \<and>
     map task_name ts = [''telemetry'', ''aura'', ''grandpa-voter''] \<and>
     list_all (task_allowed sample_substrate sample_node_config) ts"
proof -
  have "is_ok (fst (new_full sample_substrate Libp2p sample_node_config sample_node_world))"
    by code_simp
  moreover have "full_tasks sample_node_config = [''telemetry'', ''aura'', ''grandpa-voter'']"
    by (simp add: full_tasks_def partial_tasks_def has_telemetry_def sample_node_config_def)
  ultimately show ?thesis
    using node_tasks [of sample_substrate Libp2p sample_node_config sample_node_world]
    by (auto simp: sample_node_world_def)
qed

text \<open>
  C26. Only a run without a subcommand takes part in consensus: every subcommand, benchmarks and
  failures included, starts at most the telemetry task.
\<close>

theorem subcommands_start_no_consensus:
  assumes "runner_laws lib" "cli_subcommand cli = Some cmd"
  shows "\<exists>ts. nw_tasks (snd (run sub lib bl cli w)) = nw_tasks w @ ts \<and>
    list_all (\<lambda>t. task_name t = ''telemetry'') ts"
proof -
  have "io_keeps (adds_tasks is_telemetry) (run sub lib bl cli)"
    unfolding run_def assms(2) option.case
    by (cases cmd) (simp_all only: subcommand.case,
        (rule keeps_on_lib
          | intro telemetry_intros runner_keeps(1) [OF assms(1)] run_benchmark_keeps
          | intro telemetry_intros runner_keeps(2) [OF assms(1)])+)
  then show ?thesis unfolding io_keeps_def adds_tasks_def by blast
qed

theorem subcommands_start_no_consensus_witness:
  "\<exists>ts. nw_tasks (snd (run sample_substrate sample_cli_lib sample_bench_lib
       \<lparr>cli_subcommand = Some (CheckBlock 0), cli_run = 0\<rparr> sample_node_world)) = ts \<and>
     length ts = 1 \<and> list_all (\<lambda>t. task_name t = ''telemetry'') ts"
proof -
  let ?cli = "\<lparr>cli_subcommand = Some (CheckBlock 0), cli_run = 0\<rparr>"
  have "length (nw_tasks (snd (run sample_substrate sample_cli_lib sample_bench_lib ?cli sample_node_world))) = 1"
    by code_simp
  then show ?thesis
    using subcommands_start_no_consensus [OF runner_laws_sample, of ?cli "CheckBlock 0" sample_substrate
        sample_bench_lib sample_node_world]
    by (auto simp: sample_node_world_def)
qed

end
