(* ===== verification/Mocks.thy ===== *)
theory Mocks
  imports Registry_Client Runtime
begin

text \<open>
  The test doubles of \<^verbatim>\<open>pallet-vector-db/src/mock.rs\<close> and \<^verbatim>\<open>pallet-agent-registry/src/mock.rs\<close>. The mock
  runtimes use \<^verbatim>\<open>u64\<close> for accounts, balances and block numbers. The thread-local cells of the first file
  are the fields of \<open>mock_state\<close>.
\<close>

section \<open>The doubles of the vector database's traits\<close>

datatype escrow_call =
    CallLock commitment_id u64 u64 u64
  | CallRelease commitment_id
  | CallRefund commitment_id

record mock_state =
  AGENTS :: "did \<rightharpoonup> u64 \<times> bool"
  REPUTATION_CALLS :: "(did \<times> string) list"
  ESCROW_CALLS :: "escrow_call list"
  ESCROW_LOCK_SHOULD_FAIL :: bool

definition mock_controller_of :: "did \<Rightarrow> mock_state \<Rightarrow> u64 option" where
  "mock_controller_of d m = map_option fst (AGENTS m d)"

definition mock_is_active_verified :: "did \<Rightarrow> mock_state \<Rightarrow> bool" where
  "mock_is_active_verified d m = (case AGENTS m d of Some (_, v) \<Rightarrow> v | None \<Rightarrow> False)"

definition register_test_agent :: "did \<Rightarrow> u64 \<Rightarrow> bool \<Rightarrow> mock_state \<Rightarrow> mock_state" where
  "register_test_agent d ctl active_verified m = m\<lparr>AGENTS := (AGENTS m)(d \<mapsto> (ctl, active_verified))\<rparr>"

definition clear_agents :: "mock_state \<Rightarrow> mock_state" where
  "clear_agents m = m\<lparr>AGENTS := Map.empty\<rparr>"

definition mock_penalize_provider :: "did \<Rightarrow> mock_state \<Rightarrow> mock_state" where
  "mock_penalize_provider d m = m\<lparr>REPUTATION_CALLS := REPUTATION_CALLS m @ [(d, ''provider'')]\<rparr>"

definition mock_penalize_false_disputer :: "did \<Rightarrow> mock_state \<Rightarrow> mock_state" where
  "mock_penalize_false_disputer d m = m\<lparr>REPUTATION_CALLS := REPUTATION_CALLS m @ [(d, ''false_disputer'')]\<rparr>"

definition clear_reputation_calls :: "mock_state \<Rightarrow> mock_state" where
  "clear_reputation_calls m = m\<lparr>REPUTATION_CALLS := []\<rparr>"

definition mock_lock :: "commitment_id \<Rightarrow> u64 \<Rightarrow> u64 \<Rightarrow> u64 \<Rightarrow> mock_state \<Rightarrow> unit dispatch_error + mock_state" where
  "mock_lock eid pyr pye amt m =
     (if ESCROW_LOCK_SHOULD_FAIL m then Inl (Foreign ''mock escrow lock failure'')
      else Inr (m\<lparr>ESCROW_CALLS := ESCROW_CALLS m @ [CallLock eid pyr pye amt]\<rparr>))"

definition mock_release :: "commitment_id \<Rightarrow> mock_state \<Rightarrow> unit dispatch_error + mock_state" where
  "mock_release eid m = Inr (m\<lparr>ESCROW_CALLS := ESCROW_CALLS m @ [CallRelease eid]\<rparr>)"

definition mock_refund :: "commitment_id \<Rightarrow> mock_state \<Rightarrow> unit dispatch_error + mock_state" where
  "mock_refund eid m = Inr (m\<lparr>ESCROW_CALLS := ESCROW_CALLS m @ [CallRefund eid]\<rparr>)"

definition set_escrow_lock_should_fail :: "bool \<Rightarrow> mock_state \<Rightarrow> mock_state" where
  "set_escrow_lock_should_fail should_fail m = m\<lparr>ESCROW_LOCK_SHOULD_FAIL := should_fail\<rparr>"

definition clear_escrow_calls :: "mock_state \<Rightarrow> mock_state" where
  "clear_escrow_calls m = m\<lparr>ESCROW_CALLS := [], ESCROW_LOCK_SHOULD_FAIL := False\<rparr>"

text \<open>What \<^verbatim>\<open>new_test_ext\<close> does to the cells, before it builds the storage of the libraries.\<close>

definition reset_cells :: "mock_state \<Rightarrow> mock_state" where
  "reset_cells m = clear_escrow_calls (clear_reputation_calls (clear_agents m))"

text \<open>The deterministic inputs of the tests; \<open>enc\<close> is the SCALE encoding of a \<^verbatim>\<open>u64\<close>.\<close>

definition test_did :: "u8 \<Rightarrow> did" where
  "test_did n = push_bit 248 (ucast n)"

definition test_vector_hash :: "('vk, 'sg) prims \<Rightarrow> u8 \<Rightarrow> h256" where
  "test_vector_hash pr n = blake2_256 pr (replicate 64 n)"

definition test_derive_commitment_id ::
  "('vk, 'sg) prims \<Rightarrow> (u64 \<Rightarrow> bytes) \<Rightarrow> did \<Rightarrow> did \<Rightarrow> h256 \<Rightarrow> u64 \<Rightarrow> commitment_id" where
  "test_derive_commitment_id pr enc provider_did consumer_did vector_hash created_at_block =
     blake2_256 pr (ascii ''ArthNeura-Vector-v1'' @ h256_bytes provider_did @ h256_bytes consumer_did
       @ h256_bytes vector_hash @ enc created_at_block)"

section \<open>The key material of the registry's tests\<close>

text \<open>
  The tests make keys with \<^verbatim>\<open>from_seed\<close> and sign with \<^verbatim>\<open>sign_deterministic\<close>, on a message and a context; \<^term>\<open>None\<close> is its error.
  A verifying key is carried in its encoded form. The \<^verbatim>\<open>expect\<close>s of the helpers are the \<^term>\<open>None\<close> of
  their results.
\<close>

record ('sk, 'kp) test_crates = "('sk, 'kp) key_crates" +
  sk_from_seed :: "bytes \<Rightarrow> 'sk"
  sign_deterministic :: "'sk \<Rightarrow> bytes \<Rightarrow> bytes \<Rightarrow> bytes option"
  encode_u64 :: "u64 \<Rightarrow> bytes"

record 'sk test_keypair =
  signing_key :: 'sk
  verifying_key :: bytes

definition u64_le_bytes :: "u64 \<Rightarrow> bytes" where
  "u64_le_bytes n = map (\<lambda>i. ucast (drop_bit (8 * i) n)) [0..<8]"

definition mixed :: "u64 \<Rightarrow> nat \<Rightarrow> u64" where
  "mixed seed i = (seed + of_nat i) * 0x9E3779B97F4A7C15"

definition keypair_seed :: "u64 \<Rightarrow> bytes" where
  "keypair_seed seed = concat (map (\<lambda>i. u64_le_bytes (mixed seed i)) [0..<4])"

definition generate_keypair :: "('sk, 'kp) test_crates \<Rightarrow> u64 \<Rightarrow> 'sk test_keypair" where
  "generate_keypair kc seed = (let sk = sk_from_seed kc (keypair_seed seed) in
     \<lparr>signing_key = sk, verifying_key = sk_public kc sk\<rparr>)"

definition pubkey_bytes :: "bytes \<Rightarrow> bytes option" where
  "pubkey_bytes vk = (if length vk \<le> 1952 then Some vk else None)"

definition build_challenge ::
  "('sk, 'kp) test_crates \<Rightarrow> h256 \<Rightarrow> did \<Rightarrow> u64 \<Rightarrow> u64 \<Rightarrow> h256 \<Rightarrow> bytes" where
  "build_challenge kc g0 d ctl signed_at_block signed_at_hash =
     h256_bytes g0 @ h256_bytes d @ encode_u64 kc ctl @ encode_u64 kc signed_at_block
       @ h256_bytes signed_at_hash"

definition sign_challenge :: "('sk, 'kp) test_crates \<Rightarrow> 'sk \<Rightarrow> bytes \<Rightarrow> bytes option" where
  "sign_challenge kc sk challenge = (case sign_deterministic kc sk challenge [] of
       None \<Rightarrow> None
     | Some sg \<Rightarrow> if length sg \<le> 3309 then Some sg else None)"

definition test_derive_did :: "('vk, 'sg) prims \<Rightarrow> bytes \<Rightarrow> did" where
  "test_derive_did pr pubkey = blake2_256 pr (ascii ''ArthNeura-DID-v1'' @ pubkey)"

text \<open>\<open>hash_of\<close> is \<^verbatim>\<open>System::block_hash\<close> of the mock runtime.\<close>

definition valid_register_params ::
  "('vk, 'sg) prims \<Rightarrow> ('sk, 'kp) test_crates \<Rightarrow> (u64 \<Rightarrow> h256) \<Rightarrow> u64 \<Rightarrow> u64 \<Rightarrow> u64
     \<Rightarrow> (bytes \<times> bytes) option" where
  "valid_register_params pr kc hash_of seed ctl signed_at_block =
     (let keypair = generate_keypair kc seed in
      case pubkey_bytes (verifying_key keypair) of
        None \<Rightarrow> None
      | Some pubkey \<Rightarrow>
         let d = test_derive_did pr pubkey;
             g0 = hash_of 0;
             signed_at_hash = hash_of signed_at_block;
             challenge = build_challenge kc g0 d ctl signed_at_block signed_at_hash in
         map_option (Pair pubkey) (sign_challenge kc (signing_key keypair) challenge))"

text \<open>What the crate documents of deterministic signing with an empty context.\<close>

definition deterministic_correct :: "('vk, 'sg) prims \<Rightarrow> ('sk, 'kp) test_crates \<Rightarrow> bool" where
  "deterministic_correct pr kc \<longleftrightarrow> (\<forall>sk msg. \<exists>vk raw sg.
     verifying_key_from_slice pr (sk_public kc sk) = Some vk \<and> length (sk_public kc sk) \<le> 1952 \<and>
     sign_deterministic kc sk msg [] = Some raw \<and> length raw \<le> 3309 \<and>
     signature_try_from pr raw = Some sg \<and> mldsa_verify pr vk msg sg)"

section \<open>Lemmas\<close>

text \<open>The lookup double keeps the contract the pallet is verified against.\<close>

interpretation mock_lookup: agent_lookup mock_controller_of mock_is_active_verified
  by unfold_locales (auto simp: mock_is_active_verified_def mock_controller_of_def split: option.splits)

text \<open>
  The escrow double does not: it pays out and returns every escrow, as often as it is asked to,
  where the contract allows one settlement of a held deal.
\<close>

lemma mock_escrow_settles_anything:
  "\<exists>m1 m2. mock_release eid m = Inr m1 \<and> mock_refund eid m1 = Inr m2 \<and> is_ok (mock_release eid m2)"
  by (simp add: mock_release_def mock_refund_def)

text \<open>A forced failure stays forced until it is reset.\<close>

lemma forced_failure_sticks:
  "\<not> is_ok (mock_lock eid p q a (set_escrow_lock_should_fail True m))"
  "ESCROW_LOCK_SHOULD_FAIL (reset_cells m) = False" "AGENTS (reset_cells m) d = None"
  by (simp_all add: mock_lock_def set_escrow_lock_should_fail_def reset_cells_def clear_escrow_calls_def
      clear_reputation_calls_def clear_agents_def)

lemma test_derive_did_agrees: "test_derive_did = derive_did"
  by (simp add: fun_eq_iff test_derive_did_def derive_did_def did_preimage_def)

lemma mixed_inject: "mixed seed i = mixed seed' j \<longleftrightarrow> seed + of_nat i = seed' + of_nat j"
proof
  assume "mixed seed i = mixed seed' j"
  then have "mixed seed i * 0xF1DE83E19937733D = mixed seed' j * 0xF1DE83E19937733D" by simp
  moreover have "(0x9E3779B97F4A7C15 :: u64) * 0xF1DE83E19937733D = 1" by simp
  then have "mixed s k * 0xF1DE83E19937733D = s + of_nat k" for s k
    by (simp only: mixed_def mult.assoc mult_1_right)
  ultimately show "seed + of_nat i = seed' + of_nat j" by simp
qed (simp add: mixed_def)

lemma u64_le_bytes_inject: "u64_le_bytes v = u64_le_bytes w \<longleftrightarrow> v = w"
proof
  assume eq: "u64_le_bytes v = u64_le_bytes w"
  show "v = w"
  proof (rule bit_word_eqI)
    fix n
    assume "n < LENGTH(64)"
    then have k: "n div 8 < 8" by simp
    have "bit x n = bit (u64_le_bytes x ! (n div 8)) (n mod 8)" for x
      using k by (simp add: u64_le_bytes_def bit_ucast_iff bit_drop_bit_eq)
    then show "bit v n = bit w n" using eq by simp
  qed
qed simp

text \<open>The expansion is what its comment asks for: distinct per seed, and four different chunks.\<close>

lemma keypair_seed_inj: "inj keypair_seed"
proof (rule injI)
  fix s s'
  assume "keypair_seed s = keypair_seed s'"
  then have "take 8 (keypair_seed s) = take 8 (keypair_seed s')" by simp
  then have "u64_le_bytes (mixed s 0) = u64_le_bytes (mixed s' 0)"
    by (simp add: keypair_seed_def upt_rec u64_le_bytes_def)
  then show "s = s'" by (simp add: u64_le_bytes_inject mixed_inject)
qed

lemma keypair_chunks_distinct: "distinct (map (\<lambda>i. u64_le_bytes (mixed seed i)) [0..<4])"
  by (simp add: upt_rec u64_le_bytes_inject mixed_inject)

text \<open>The helper's arguments pass the checks of \<^verbatim>\<open>register_agent\<close> on key and signature.\<close>

lemma valid_register_params_verify:
  assumes "deterministic_correct pr kc"
  obtains pk raw vk sg where
    "valid_register_params pr kc hash_of seed ctl at = Some (pk, raw)"
    "verifying_key_from_slice pr pk = Some vk" "signature_try_from pr raw = Some sg"
    "mldsa_verify pr vk
       (build_challenge kc (hash_of 0) (derive_did pr pk) ctl at (hash_of at)) sg"
proof -
  define sk where "sk = sk_from_seed kc (keypair_seed seed)"
  define ch where "ch = build_challenge kc (hash_of 0) (derive_did pr (sk_public kc sk)) ctl at (hash_of at)"
  obtain vk raw sg where f: "verifying_key_from_slice pr (sk_public kc sk) = Some vk"
    "length (sk_public kc sk) \<le> 1952" "sign_deterministic kc sk ch [] = Some raw" "length raw \<le> 3309"
    "signature_try_from pr raw = Some sg" "mldsa_verify pr vk ch sg"
    using assms unfolding deterministic_correct_def by blast
  have "valid_register_params pr kc hash_of seed ctl at = Some (sk_public kc sk, raw)"
    using f by (simp add: valid_register_params_def generate_keypair_def pubkey_bytes_def Let_def
        sign_challenge_def test_derive_did_agrees sk_def [symmetric] ch_def [symmetric])
  then show ?thesis using that f by (simp add: ch_def)
qed

end
