(* ===== verification/Spec2Isabelle.thy ===== *)
theory Spec2Isabelle
  imports Registry_Theorems Money_Theorems Lifecycle_Theorems Weights Client_Theorems Cli_Theorems Door_Theorems Genesis_Theorems
    Defence_Theorems Freshness_Theorems Node_Theorems Mocks
begin

text \<open>
  ArthNeura Core: a Substrate chain on which data providers commit to a data set by its Merkle root,
  consumers pay through an escrow, and disputes are settled by inclusion proofs; the off-chain
  clients that talk to it; and the programs that run those clients.

  \<^bold>\<open>The program and its parts.\<close>
  \<^item> On chain, under \<^verbatim>\<open>src/pallets\<close>: the agent registry (DIDs with ML-DSA keys, deposits, stars,
    reputation), the vector database (commitments, receipts, disputes), the escrow (locked
    payments) and the template pallet. The vector database knows the other two only through the
    traits \<^verbatim>\<open>AgentRegistry\<close>, \<^verbatim>\<open>EscrowHandler\<close> and \<^verbatim>\<open>ReputationHandler\<close>; \<^verbatim>\<open>src/runtime/src/adapters\<close>
    implements these with the other pallets and \<^verbatim>\<open>src/runtime/src/configs/mod.rs\<close> sets the constants.
    \<^verbatim>\<open>src/runtime/src/genesis_config_presets.rs\<close> and \<^verbatim>\<open>src/node/src/chain_spec.rs\<close> say how a chain
    starts.
  \<^item> Off chain, under \<^verbatim>\<open>src/offchain-vector-db\<close> and \<^verbatim>\<open>src/offchain-agent-registry\<close>: a Merkle engine, a
    chunk store on the file system, an encrypted keystore, one client function per extrinsic, and
    four programs: the two commands (\<^verbatim>\<open>main.rs\<close>), the HTTP service \<^verbatim>\<open>register-door\<close> and its counterpart
    \<^verbatim>\<open>register-me\<close>.
  \<^item> The node binary, under \<^verbatim>\<open>src/node\<close>: \<^verbatim>\<open>service.rs\<close> and \<^verbatim>\<open>rpc.rs\<close> put the Substrate libraries together
    and start the tasks of a node; \<^verbatim>\<open>command.rs\<close>, \<^verbatim>\<open>cli.rs\<close> and \<^verbatim>\<open>benchmarking.rs\<close> are its command line.

  \<^bold>\<open>Conventions.\<close> A struct is a record, an enum a datatype, \<^verbatim>\<open>u8\<close> to \<^verbatim>\<open>u128\<close> and \<^verbatim>\<open>H256\<close> are words of
  their width, with \<^verbatim>\<open>saturating_*\<close> written as \<open>sat_add\<close> and \<open>sat_sub\<close>. A \<^verbatim>\<open>StorageMap\<close> is a map, or a total
  function where it has a default. A dispatchable takes its configuration, the origin, its
  arguments and the state, and returns the error or the new state (\<open>error + state\<close>), so a failed
  call changes nothing, as FRAME's transactional dispatch does. Off-chain code is of type
  \<open>('w, 'e, 'a) io\<close>: a function of the world that returns an error or a value and the world after it;
  an effect done before an error stays done. A panic is the error \<open>Panic\<close> where a program
  distinguishes it.

  \<^bold>\<open>Theories.\<close>
  \<^item> \<^verbatim>\<open>Prelude\<close>: results, saturating arithmetic, sums over finite maps, and the collections of rules
    (\<open>res_simps\<close>, \<open>sat_simps\<close>, \<open>err_simps\<close>). \<^verbatim>\<open>Frame\<close>: what the pallets use of FRAME (origins, events,
    block numbers and hashes) and the parameters \<open>currency\<close> and \<open>prims\<close>. \<^verbatim>\<open>Transition\<close>: the locale of
    invariants of a step relation. \<^verbatim>\<open>Host_Io\<close>: the effect type, its laws, and the operating system
    (files, directories, permissions, random bytes, any operation may fail).
  \<^item> \<^verbatim>\<open>Agent_Registry\<close>, \<^verbatim>\<open>Vector_Db\<close>, \<^verbatim>\<open>Escrow\<close>, \<^verbatim>\<open>Template\<close>: one definition per dispatchable and internal
    entry point of the pallet's \<^verbatim>\<open>lib.rs\<close>, with the source's name, and the functional lemmas of each.
    \<^verbatim>\<open>Weights\<close>: the weight tables. \<^verbatim>\<open>Merkle\<close>: the two hashers (on chain and off chain, shown to agree
    through one locale), tree building, proofs and file slicing.
  \<^item> \<^verbatim>\<open>Registry_Inv\<close>, \<^verbatim>\<open>Vector_Db_Inv\<close>, \<^verbatim>\<open>Vector_Db_Life\<close>: the invariants of the pallets and the abstract
    life cycle of a commitment. The traits are locales: \<open>escrow_handler\<close>, \<open>agent_lookup\<close> and their
    combination \<open>vdb_env\<close>, in which the vector database is verified once.
  \<^item> \<^verbatim>\<open>Runtime\<close>: adapters, constants, the composed state \<open>runtime\<close>, \<open>dispatch\<close>, and the step relation
    \<open>runtime_step\<close> (a successful call of any origin with arguments within their bounds, a new block,
    or a change of the ledger that keeps reserved balances, which stands for fees and transfers).
    The locales are interpreted here on the adapters. \<^verbatim>\<open>Runtime_Inv\<close>, \<^verbatim>\<open>Solvency\<close>, \<^verbatim>\<open>Counters\<close>: the
    invariants of every run. \<^verbatim>\<open>Runtime_Params\<close>: versions, slots, kept block hashes and the values
    of the transaction extensions. \<^verbatim>\<open>Genesis\<close>: presets, chain specifications and \<^verbatim>\<open>load_spec\<close>.
  \<^item> \<^verbatim>\<open>Dyn_Client\<close>: dynamic transactions, events and the node; a world logs what is signed and
    submitted (\<open>w_sent\<close>). \<^verbatim>\<open>Chunk_Store\<close>: the trait as the locale \<open>chunk_store_laws\<close>, interpreted on
    \<^verbatim>\<open>FsChunkStore\<close>. \<^verbatim>\<open>Vdb_Client\<close>, \<^verbatim>\<open>Registry_Client\<close>, \<^verbatim>\<open>Keystore\<close>: the two client libraries.
  \<^item> \<^verbatim>\<open>Rust_Text\<close>, \<^verbatim>\<open>Serde_Json\<close>: strings, numbers, UTF-8 and JSON as the programs use them. \<^verbatim>\<open>Vdb_Main\<close>,
    \<^verbatim>\<open>Registry_Main\<close>, \<^verbatim>\<open>Door\<close>, \<^verbatim>\<open>Register_Me\<close>: the four programs.
  \<^item> \<^verbatim>\<open>Node_Service\<close>: \<^verbatim>\<open>new_partial\<close>, \<^verbatim>\<open>new_full\<close> and \<^verbatim>\<open>create_full\<close> over the record \<open>substrate\<close> of library calls; the world
    logs the tasks the node starts (\<open>nw_tasks\<close>), and \<open>io_starts\<close> is the calculus for them. \<^verbatim>\<open>Node_Command\<close>: the
    subcommands and the benchmark extrinsics. \<^verbatim>\<open>Mocks\<close>: the test doubles of two \<^verbatim>\<open>mock.rs\<close> files;
    \<open>agent_lookup\<close> is interpreted on the double of the registry too.
  \<^item> \<^verbatim>\<open>Sample_Ledger\<close>, \<^verbatim>\<open>Sample\<close>, \<^verbatim>\<open>Client_Sample\<close>, \<^verbatim>\<open>Cli_Sample\<close>: concrete parameters and runs at which the
    hypotheses hold. Only witnesses use them.
  \<^item> \<^verbatim>\<open>Registry_Theorems\<close>, \<^verbatim>\<open>Money_Theorems\<close>, \<^verbatim>\<open>Lifecycle_Theorems\<close>, \<^verbatim>\<open>Client_Theorems\<close>, \<^verbatim>\<open>Cli_Theorems\<close>,
    \<^verbatim>\<open>Door_Theorems\<close>, \<^verbatim>\<open>Genesis_Theorems\<close>, \<^verbatim>\<open>Defence_Theorems\<close>, \<^verbatim>\<open>Freshness_Theorems\<close>, \<^verbatim>\<open>Node_Theorems\<close>: the properties.

  \<^bold>\<open>What is shown.\<close>
  \<^item> Money: reserves cover deposits and locked escrows up to recorded slashes; a close pays the
    price to the provider and a finalized dispute returns it, exactly; an escrow is paid only by
    the consumer's consent or a verifying proof, returned only after a missed deadline, and settles
    once; a strike's exact effect. Two defects: an expired commitment leaves its escrow locked for
    ever, and a strike followed by deregistration underfunds escrows.
  \<^item> Life cycle: stages agree across the pallets' storages, every step follows the abstract life
    cycle, outcomes are final, each call is authorised, the provider has the whole window, a
    dispute can always be finalized after it, both counters are exact, and a chain started from a
    preset keeps that preset's window.
  \<^item> Registry: indices agree, registration needs a fresh and bound ML-DSA signature, profiles change
    only by their controller, revocation is final, strikes stay below the threshold. A registration
    for an earlier block signs that block's real hash; one for the current block holds no hash and
    can be signed in advance.
  \<^item> Clients: what they submit is the pallet's call within its bounds; what the registry client
    builds the pallet accepts; registered chunks are stored, and from stored chunks every open
    dispute can be refuted on chain; end to end, data registered through the client can be defended in
    every later state of the chain; the keystore round trip and its confinement.
  \<^item> Programs: the vector-db command submits at most the one call its environment asks for; the door
    signs two kinds of transaction only, whatever it is sent; an agent registered through
    \<^verbatim>\<open>register-me\<close>, the door, the client and the pallet is accepted. Defects: reused tokens, stranded
    funds after an interrupted bootstrap, an unauthenticated DID in key files, unknown actions that
    register, a printed root that was not committed, a controller seed in plain text.
  \<^item> Node: the tasks a full node starts, in order, also when a library fails on the way; authoring and
    a voter with keys are for authorities only; no subcommand starts authoring or voting; benchmark
    extrinsics have an era the runtime can check.
  \<^item> Test doubles: distinct seeds give distinct key seeds, the signing helper's arguments verify, the
    registry double keeps the contract of the trait, and the escrow double does not (it settles
    any escrow any number of times), so tests over it cannot see a second settlement.

  \<^bold>\<open>Parameters.\<close> Code outside the repository is an argument, and what is relied on is a named
  hypothesis with a witness: \<open>currency_laws\<close> (the documentation of \<^verbatim>\<open>ReservableCurrency\<close>), \<open>rs_merkle_complete\<close>
  (a proof generated for a leaf verifies), \<open>hex_laws\<close>, \<open>crypto_laws\<close> (decryption inverts encryption, Base64
  and the key file's JSON round trip), \<open>mldsa_correct\<close> (a signature made with a key verifies),
  \<open>serde_json_laws\<close> (a printed flat object parses to the same fields), \<open>curl_reaches\<close> (a request reaches
  the door and a failing status is a failure), \<open>encode_u32_laws\<close>, \<open>frame_hashes\<close> (which block hashes
  \<^verbatim>\<open>frame_system\<close> keeps), \<open>runner_laws\<close> (a runner does what its closure does and starts no task itself),
  \<open>deterministic_correct\<close> (deterministic signing). Hash functions are arbitrary functions: where
  uniqueness matters the conclusion is "or a collision". The node (\<open>chain_node\<close>) is arbitrary: it may
  fail, and it may answer anything.

  \<^bold>\<open>Bounds and fuel.\<close> No definition uses fuel. The loops over sockets and files recurse on the list of
  what each read returns; reading a file is shown to return for every behaviour of \<^verbatim>\<open>read\<close>. The door's
  accept loop runs over any finite sequence of connections. The counters are exact in runs of fewer
  than \<open>2 ^ 32\<close> steps, where they cannot saturate. Indices cast to \<^verbatim>\<open>usize\<close> are cut to 32 bits, as in the
  WebAssembly runtime.

  \<^bold>\<open>Not modelled.\<close>
  \<^item> \<^verbatim>\<open>src/runtime/src/apis.rs\<close> and \<^verbatim>\<open>benchmarks.rs\<close>: macro-generated interfaces that forward every call to a
    type of a library and hold no logic of the repository. What the Substrate libraries do with the
    parts the node gives them (networking, consensus, RPC, transaction pool) is theirs.
  \<^item> The configuration of library pallets in \<^verbatim>\<open>configs/mod.rs\<close> (system, Aura, GRANDPA, timestamp, balances,
    fees, sudo) beyond \<^verbatim>\<open>Runtime_Params\<close>. Their effect on the model is the ledger step. Sudo's key could call
    \<^verbatim>\<open>force_unreserve\<close> of the balances pallet, which lowers a reserve; runs with such a call are not
    runs of \<open>runtime_step\<close>.
  \<^item> The runtimes that the \<^verbatim>\<open>mock.rs\<close> files build, tests and benchmark set-up: accounts, balances and block
    numbers have 64 bits there, so they are other instances of the pallets than the one modelled.
  \<^item> Weights are tables only: fees and the limits of a block are the libraries' part. Event indexing,
    \<^verbatim>\<open>MaxEncodedLen\<close> and SCALE beyond the injectivity of the fixed-width numbers are not modelled.
  \<^item> The debug format of paths that \<^verbatim>\<open>register-me\<close> prints.
\<close>

end
